(* ===== verification/Prelude.thy ===== *)
theory Prelude
  imports Complex_Main "HOL-Library.Word" "HOL-Library.AList" "HOL-Library.Char_ord"
    "HOL-Library.List_Lexorder" "HOL-Library.Product_Lexorder"
begin

text \<open>
  The shared vocabulary of the development.

  \<^item> \<open>error\<close>, \<open>result\<close> and \<open>op\<close>: the exceptions of \<^verbatim>\<open>errors.py\<close> (and the few Python and database
    exceptions the code relies on) as values; a computation that may raise; a computation that may
    raise and that changes a state, whose changes survive the exception, as Python's do.
  \<^item> \<open>dict\<close>: a Python dictionary as an association list in insertion order.  \<open>AList.update\<close> keeps
    the position of a key that is present and appends a new one, exactly as \<^verbatim>\<open>d[k] = v\<close> does.
  \<^item> \<open>rng\<close>: the values that \<^verbatim>\<open>uuid4()\<close> returns, as an arbitrary sequence read by a counter.
  \<^item> \<open>datetime\<close>: a wall-clock reading in microseconds with its time zone; \<open>timedelta\<close> is a number
    of microseconds.

  Python strings are modelled as \<^typ>\<open>string\<close>, one \<^typ>\<open>char\<close> per code point, so that \<^const>\<open>length\<close>
  counts code points as \<^verbatim>\<open>len\<close> does; \<^typ>\<open>char\<close> has the code points below 256.  Byte strings are
  \<^typ>\<open>string\<close> too, one \<^typ>\<open>char\<close> per byte.
\<close>

named_theorems op_simps \<open>unfolding the combinators of state-changing operations\<close>
named_theorems frame_simps \<open>what an operation leaves unchanged\<close>


section \<open>Exceptions\<close>

text \<open>The exception classes of \<^verbatim>\<open>errors.py\<close>, then those of Python and of the database driver.\<close>

datatype error =
    ValidationError string
  | AuthorizationError string
  | ServiceUnavailableError string
  | ReplayError string
  | NotFoundError string
  | OverflowError
  | AssertionError string
  | UniqueViolation
  | DatabaseError string

type_synonym 'a result = "error + 'a"
type_synonym ('s, 'a) op = "'s \<Rightarrow> 'a result \<times> 's"

definition rbind :: "'a result \<Rightarrow> ('a \<Rightarrow> 'b result) \<Rightarrow> 'b result" where
  "rbind m f = (case m of Inl e \<Rightarrow> Inl e | Inr x \<Rightarrow> f x)"

definition raise_if :: "bool \<Rightarrow> error \<Rightarrow> unit result" where
  "raise_if b e = (if b then Inl e else Inr ())"

definition sreturn :: "'a \<Rightarrow> ('s, 'a) op" where
  "sreturn x s = (Inr x, s)"

definition sraise :: "error \<Rightarrow> ('s, 'a) op" where
  "sraise e s = (Inl e, s)"

definition lift :: "'a result \<Rightarrow> ('s, 'a) op" where
  "lift r s = (r, s)"

definition sbind :: "('s, 'a) op \<Rightarrow> ('a \<Rightarrow> ('s, 'b) op) \<Rightarrow> ('s, 'b) op" where
  "sbind m f s = (case m s of (Inl e, s') \<Rightarrow> (Inl e, s') | (Inr x, s') \<Rightarrow> f x s')"

definition smodify :: "('s \<Rightarrow> 's) \<Rightarrow> ('s, unit) op" where
  "smodify f s = (Inr (), f s)"

definition sread :: "('s \<Rightarrow> 'a) \<Rightarrow> ('s, 'a) op" where
  "sread f s = (Inr (f s), s)"

fun is_ok :: "'a result \<Rightarrow> bool" where
  "is_ok (Inl _) = False"
| "is_ok (Inr _) = True"

text \<open>\<^verbatim>\<open>tuple(f(x) for x in xs)\<close>: the first exception ends it.\<close>

fun rmap :: "('a \<Rightarrow> 'b result) \<Rightarrow> 'a list \<Rightarrow> 'b list result" where
  "rmap f [] = Inr []"
| "rmap f (x # xs) = rbind (f x) (\<lambda>y. rbind (rmap f xs) (\<lambda>ys. Inr (y # ys)))"

lemma rbind_simps [simp]:
  "rbind (Inl e) f = Inl e"
  "rbind (Inr x) f = f x"
  by (simp_all add: rbind_def)

lemma rbind_Inr_iff: "rbind m f = Inr y \<longleftrightarrow> (\<exists>x. m = Inr x \<and> f x = Inr y)"
  by (cases m) simp_all

lemma rmap_Inr: "(\<And>x. x \<in> set xs \<Longrightarrow> f x = Inr (g x)) \<Longrightarrow> rmap f xs = Inr (map g xs)"
  by (induction xs) simp_all

lemma raise_if_simps [simp]:
  "raise_if True e = Inl e"
  "raise_if False e = Inr ()"
  by (simp_all add: raise_if_def)

lemma raise_if_Inr_iff [simp]: "raise_if b e = Inr u \<longleftrightarrow> \<not> b"
  by (simp add: raise_if_def)

lemma raise_if_Inl_iff [simp]: "raise_if b e = Inl e' \<longleftrightarrow> b \<and> e' = e"
  by (auto simp: raise_if_def)

lemma is_ok_iff: "is_ok r \<longleftrightarrow> (\<exists>x. r = Inr x)"
  by (cases r) auto

lemmas [op_simps] = sreturn_def sraise_def lift_def smodify_def sread_def

lemma sbind_Inr: "sbind m f s = (Inr y, s'') \<longleftrightarrow> (\<exists>x s'. m s = (Inr x, s') \<and> f x s' = (Inr y, s''))"
  by (auto simp: sbind_def split: prod.splits sum.splits)

lemma sbind_Inl:
  "sbind m f s = (Inl e, s'') \<longleftrightarrow>
     m s = (Inl e, s'') \<or> (\<exists>x s'. m s = (Inr x, s') \<and> f x s' = (Inl e, s''))"
  by (auto simp: sbind_def split: prod.splits sum.splits)

lemma sbind_simps [op_simps]:
  "m s = (Inr x, s') \<Longrightarrow> sbind m f s = f x s'"
  "m s = (Inl e, s') \<Longrightarrow> sbind m f s = (Inl e, s')"
  by (simp_all add: sbind_def)

lemma sbind_prims [op_simps]:
  "sbind (sreturn x) f s = f x s"
  "sbind (sraise e) f s = (Inl e, s)"
  "sbind (lift (Inr x)) f s = f x s"
  "sbind (lift (Inl e)) f s = (Inl e, s)"
  "sbind (smodify g) h s = h () (g s)"
  "sbind (sread p) f s = f (p s) s"
  by (simp_all add: sbind_def op_simps)

text \<open>
  A property of the state that every step of a computation keeps is kept by the computation,
  whether it returns or raises.
\<close>

definition preserves :: "('s \<Rightarrow> bool) \<Rightarrow> ('s, 'a) op \<Rightarrow> bool" where
  "preserves P m \<longleftrightarrow> (\<forall>s. P s \<longrightarrow> P (snd (m s)))"

lemma preserves_sbind:
  "preserves P m \<Longrightarrow> (\<And>x. preserves P (f x)) \<Longrightarrow> preserves P (sbind m f)"
  by (fastforce simp: preserves_def sbind_def split: prod.splits sum.splits)

lemma preserves_prims:
  "preserves P (sreturn x)" "preserves P (sraise e)" "preserves P (lift r)" "preserves P (sread g)"
  by (simp_all add: preserves_def op_simps)


text \<open>
  \<open>wp m Q s\<close>: if \<open>m\<close> started in \<open>s\<close> returns \<open>x\<close> in a state \<open>s'\<close>, then \<open>Q x s'\<close>.  The equations push it
  through a computation.
\<close>

definition wp :: "('s, 'a) op \<Rightarrow> ('a \<Rightarrow> 's \<Rightarrow> bool) \<Rightarrow> 's \<Rightarrow> bool" where
  "wp m Q s \<longleftrightarrow> (case m s of (Inr x, s') \<Rightarrow> Q x s' | (Inl e, s') \<Rightarrow> True)"

lemma wp_simps [simp]:
  "wp (sreturn x) Q = Q x"
  "wp (sraise e) Q s \<longleftrightarrow> True"
  "wp (lift r) Q s \<longleftrightarrow> (\<forall>x. r = Inr x \<longrightarrow> Q x s)"
  "wp (smodify g) R s \<longleftrightarrow> R () (g s)"
  "wp (sread p) P s \<longleftrightarrow> P (p s) s"
  by (auto simp: fun_eq_iff wp_def op_simps split: sum.splits)

lemma wp_sbind [simp]: "wp (sbind m f) Q = wp m (\<lambda>x. wp (f x) Q)"
  by (rule ext) (simp add: wp_def sbind_def split: prod.splits sum.splits)

lemma wp_mono: "wp m Q s \<Longrightarrow> (\<And>x s'. Q x s' \<Longrightarrow> R x s') \<Longrightarrow> wp m R s"
  by (auto simp: wp_def split: prod.splits sum.splits)

lemma wp_conj: "wp m Q s \<Longrightarrow> wp m R s \<Longrightarrow> wp m (\<lambda>x s'. Q x s' \<and> R x s') s"
  by (auto simp: wp_def split: prod.splits sum.splits)

lemma wp_Inr: "wp m Q s \<Longrightarrow> m s = (Inr x, s') \<Longrightarrow> Q x s'"
  by (simp add: wp_def)


section \<open>Dictionaries\<close>

type_synonym ('k, 'v) dict = "('k \<times> 'v) list"

abbreviation dict_get :: "('k, 'v) dict \<Rightarrow> 'k \<Rightarrow> 'v option" where
  "dict_get d k \<equiv> map_of d k"

abbreviation dict_set :: "'k \<Rightarrow> 'v \<Rightarrow> ('k, 'v) dict \<Rightarrow> ('k, 'v) dict" where
  "dict_set k v d \<equiv> AList.update k v d"

abbreviation dict_del :: "'k \<Rightarrow> ('k, 'v) dict \<Rightarrow> ('k, 'v) dict" where
  "dict_del k d \<equiv> AList.delete k d"

abbreviation dict_values :: "('k, 'v) dict \<Rightarrow> 'v list" where
  "dict_values d \<equiv> map snd d"

abbreviation dict_ok :: "('k, 'v) dict \<Rightarrow> bool" where
  "dict_ok d \<equiv> distinct (map fst d)"

lemma dict_get_set [simp]: "dict_get (dict_set k v d) k' = (if k' = k then Some v else dict_get d k')"
  by (simp add: update_conv)

lemma dict_get_del [simp]: "dict_get (dict_del k d) k' = (if k' = k then None else dict_get d k')"
  by (simp add: delete_conv)

lemma dict_ok_set [simp]: "dict_ok d \<Longrightarrow> dict_ok (dict_set k v d)"
  by (rule distinct_update)

lemma dict_ok_del [simp]: "dict_ok d \<Longrightarrow> dict_ok (dict_del k d)"
  by (simp add: distinct_delete)

lemma dict_get_values: "dict_ok d \<Longrightarrow> v \<in> set (dict_values d) \<longleftrightarrow> (\<exists>k. dict_get d k = Some v)"
  by force

lemma dict_set_new: "dict_get d k = None \<Longrightarrow> dict_set k v d = d @ [(k, v)]"
  by (induction d) (auto split: if_splits)

lemma keys_dict_set:
  "map fst (dict_set k v d) = (if k \<in> set (map fst d) then map fst d else map fst d @ [k])"
  by (rule update_keys)


section \<open>Random identifiers\<close>

type_synonym uuid = "128 word"

text \<open>
  \<^verbatim>\<open>uuid4()\<close> draws the next value of an arbitrary sequence.  Nothing is assumed of the sequence; a
  lemma that needs a new identifier not to be in use says so in its hypotheses.
\<close>

record rng =
  rng_seq :: "nat \<Rightarrow> uuid"
  rng_pos :: nat

definition uuid4 :: "('a rng_scheme, uuid) op" where
  "uuid4 s = (Inr (rng_seq s (rng_pos s)), s\<lparr>rng_pos := Suc (rng_pos s)\<rparr>)"

lemma sbind_uuid4 [op_simps]:
  "sbind uuid4 f s = f (rng_seq s (rng_pos s)) (s\<lparr>rng_pos := Suc (rng_pos s)\<rparr>)"
  by (simp add: sbind_def uuid4_def)


lemma wp_uuid4 [simp]: "wp uuid4 Q s \<longleftrightarrow> Q (rng_seq s (rng_pos s)) (s\<lparr>rng_pos := Suc (rng_pos s)\<rparr>)"
  by (simp add: wp_def uuid4_def)


section \<open>Dates and times\<close>

type_synonym timedelta = int

definition seconds :: "int \<Rightarrow> timedelta" where
  "seconds n = n * 1000000"

definition minutes :: "int \<Rightarrow> timedelta" where
  "minutes n = n * 60000000"

definition hours :: "int \<Rightarrow> timedelta" where
  "hours n = n * 3600000000"

text \<open>
  The \<^verbatim>\<open>tzinfo\<close> of a value: absent, a fixed offset from UTC, one whose \<^verbatim>\<open>utcoffset()\<close> returns
  \<^verbatim>\<open>None\<close>, or one whose \<^verbatim>\<open>utcoffset()\<close> raises.
\<close>

datatype tzinfo = NoTz | FixedTz timedelta | UndefinedTz | FailingTz

text \<open>The wall clock counts microseconds from the start of year 1, \<^verbatim>\<open>datetime.min\<close>.\<close>

record datetime =
  wall :: int
  tz :: tzinfo

definition max_wall :: int where
  "max_wall = 3652059 * 86400000000 - 1"

fun utcoffset :: "tzinfo \<Rightarrow> timedelta" where
  "utcoffset (FixedTz d) = d"
| "utcoffset _ = 0"

text \<open>Aware values compare by their instant in UTC.\<close>

definition instant :: "datetime \<Rightarrow> int" where
  "instant d = wall d - utcoffset (tz d)"

definition is_aware :: "datetime \<Rightarrow> bool" where
  "is_aware d \<longleftrightarrow> (case tz d of FixedTz _ \<Rightarrow> True | _ \<Rightarrow> False)"

definition utc :: "int \<Rightarrow> datetime" where
  "utc t = \<lparr>wall = t, tz = FixedTz 0\<rparr>"

definition in_range :: "int \<Rightarrow> bool" where
  "in_range w \<longleftrightarrow> 0 \<le> w \<and> w \<le> max_wall"

text \<open>\<^verbatim>\<open>d.astimezone(UTC)\<close> and \<^verbatim>\<open>d + delta\<close> raise \<^verbatim>\<open>OverflowError\<close> outside years 1 to 9999.\<close>

definition astimezone_utc :: "datetime \<Rightarrow> datetime result" where
  "astimezone_utc d = (if in_range (instant d) then Inr (utc (instant d)) else Inl OverflowError)"

definition dt_add :: "datetime \<Rightarrow> timedelta \<Rightarrow> datetime result" where
  "dt_add d delta =
     (if in_range (wall d + delta) then Inr (d\<lparr>wall := wall d + delta\<rparr>) else Inl OverflowError)"

text \<open>\<^verbatim>\<open>max(a, b)\<close> returns its first argument unless the second is strictly later.\<close>

definition dt_max :: "datetime \<Rightarrow> datetime \<Rightarrow> datetime" where
  "dt_max a b = (if instant b > instant a then b else a)"

lemmas td_defs = seconds_def minutes_def hours_def

lemma instant_utc [simp]: "instant (utc t) = t"
  by (simp add: instant_def utc_def)

lemma is_aware_utc [simp]: "is_aware (utc t)"
  by (simp add: is_aware_def utc_def)

lemma astimezone_utc_Inr: "astimezone_utc d = Inr d' \<Longrightarrow> instant d' = instant d \<and> is_aware d'"
  by (auto simp: astimezone_utc_def split: if_splits)

lemma dt_add_Inr: "dt_add d delta = Inr d' \<Longrightarrow> instant d' = instant d + delta"
  by (auto simp: dt_add_def instant_def split: if_splits)

lemma instant_dt_max [simp]: "instant (dt_max a b) = max (instant a) (instant b)"
  by (simp add: dt_max_def)

lemma is_aware_dt_max: "is_aware a \<Longrightarrow> is_aware b \<Longrightarrow> is_aware (dt_max a b)"
  by (simp add: dt_max_def)


section \<open>Evolution\<close>

text \<open>Every entry of one dictionary is in the other, related by \<open>R\<close>.\<close>

definition dict_le :: "('v \<Rightarrow> 'v \<Rightarrow> bool) \<Rightarrow> ('k, 'v) dict \<Rightarrow> ('k, 'v) dict \<Rightarrow> bool" where
  "dict_le R d d' \<longleftrightarrow> (\<forall>k v. dict_get d k = Some v \<longrightarrow> (\<exists>v'. dict_get d' k = Some v' \<and> R v v'))"

lemma dict_le_refl: "reflp R \<Longrightarrow> dict_le R d d"
  by (simp add: dict_le_def reflpD)

lemma dict_le_trans: "transp R \<Longrightarrow> dict_le R a b \<Longrightarrow> dict_le R b c \<Longrightarrow> dict_le R a c"
  unfolding dict_le_def by (metis transpD)

lemma dict_le_set:
  "reflp R \<Longrightarrow> (\<And>v. dict_get d k = Some v \<Longrightarrow> R v v') \<Longrightarrow> dict_le R d (dict_set k v' d)"
  by (auto simp: dict_le_def reflpD)

text \<open>
  A component whose steps keep an invariant and move up in an order: so does every run.
\<close>

locale evolution =
  fixes step :: "'s \<Rightarrow> 's \<Rightarrow> bool" and inv :: "'s \<Rightarrow> bool" and le :: "'s \<Rightarrow> 's \<Rightarrow> bool"
  assumes step_inv: "step s s' \<Longrightarrow> inv s \<Longrightarrow> inv s'"
    and step_le: "step s s' \<Longrightarrow> inv s \<Longrightarrow> le s s'"
    and le_refl: "le s s"
    and le_trans: "le a b \<Longrightarrow> le b c \<Longrightarrow> le a c"
begin

lemma run_inv: "step\<^sup>*\<^sup>* s s' \<Longrightarrow> inv s \<Longrightarrow> inv s'"
  by (induction rule: rtranclp_induct) (auto intro: step_inv)

lemma run_le: "step\<^sup>*\<^sup>* s s' \<Longrightarrow> inv s \<Longrightarrow> le s s'"
  by (induction rule: rtranclp_induct) (auto intro: le_refl le_trans step_le run_inv)

end

end
