(* ===== verification/Py_Text.thy ===== *)
theory Py_Text
  imports Prelude
begin

text \<open>
  The string operations of Python's standard library that the program uses: character classes,
  \<^verbatim>\<open>str.replace\<close>, \<^verbatim>\<open>str.strip\<close>, hexadecimal text, and the text form of \<^verbatim>\<open>uuid.UUID\<close>.

  The main facts are the round trip \<open>parse_uuid_str_uuid\<close> (the constructor \<^verbatim>\<open>UUID(s)\<close> reads back
  what \<^verbatim>\<open>str(u)\<close> writes) and \<open>str_uuid_less_iff\<close> (text order and numeric order of identifiers
  agree), which the listing and paging code relies on.
\<close>


section \<open>Character classes\<close>

abbreviation code :: "char \<Rightarrow> nat" where
  "code c \<equiv> of_char c"

definition is_ascii :: "char \<Rightarrow> bool" where
  "is_ascii c \<longleftrightarrow> code c < 128"

definition is_printable :: "char \<Rightarrow> bool" where
  "is_printable c \<longleftrightarrow> 32 \<le> code c \<and> code c \<le> 126 \<or> 161 \<le> code c \<and> code c \<noteq> 173"

definition isprintable :: "string \<Rightarrow> bool" where
  "isprintable s \<longleftrightarrow> list_all is_printable s"

definition is_c_space :: "char \<Rightarrow> bool" where
  "is_c_space c \<longleftrightarrow> 9 \<le> code c \<and> code c \<le> 13 \<or> code c = 32"

definition is_space :: "char \<Rightarrow> bool" where
  "is_space c \<longleftrightarrow> is_c_space c \<or> 28 \<le> code c \<and> code c \<le> 31 \<or> code c = 133 \<or> code c = 160"

definition is_digit :: "char \<Rightarrow> bool" where
  "is_digit c \<longleftrightarrow> 48 \<le> code c \<and> code c \<le> 57"

text \<open>The character class \<^verbatim>\<open>[0-9a-f]\<close>.\<close>

definition is_lower_hex :: "char \<Rightarrow> bool" where
  "is_lower_hex c \<longleftrightarrow> is_digit c \<or> 97 \<le> code c \<and> code c \<le> 102"

definition lower_char :: "char \<Rightarrow> char" where
  "lower_char c =
     (if 65 \<le> code c \<and> code c \<le> 90 \<or> 192 \<le> code c \<and> code c \<le> 222 \<and> code c \<noteq> 215
      then char_of (code c + 32) else c)"

definition lower :: "string \<Rightarrow> string" where
  "lower s = map lower_char s"


section \<open>Prefixes, replacing and stripping\<close>

definition startswith :: "string \<Rightarrow> string \<Rightarrow> bool" where
  "startswith s p \<longleftrightarrow> take (length p) s = p"

definition removeprefix :: "string \<Rightarrow> string \<Rightarrow> string" where
  "removeprefix s p = (if startswith s p then drop (length p) s else s)"

text \<open>\<^verbatim>\<open>s.replace(old, new)\<close> for a non-empty \<^verbatim>\<open>old\<close>: the occurrences from the left, without overlap.\<close>

function replace :: "string \<Rightarrow> string \<Rightarrow> string \<Rightarrow> string" where
  "replace old new [] = []"
| "replace old new (c # cs) =
     (if old \<noteq> [] \<and> startswith (c # cs) old
      then new @ replace old new (drop (length old) (c # cs))
      else c # replace old new cs)"
  by pat_completeness auto
termination
  by (relation "measure (\<lambda>(old, new, s). length s)") (auto simp: neq_Nil_conv)

definition lstrip :: "(char \<Rightarrow> bool) \<Rightarrow> string \<Rightarrow> string" where
  "lstrip p s = dropWhile p s"

definition strip :: "(char \<Rightarrow> bool) \<Rightarrow> string \<Rightarrow> string" where
  "strip p s = rev (dropWhile p (rev (dropWhile p s)))"

lemma startswith_append [simp]: "startswith (p @ s) p"
  by (simp add: startswith_def)

lemma startswith_iff: "startswith s p \<longleftrightarrow> (\<exists>r. s = p @ r)"
  unfolding startswith_def by (metis append_take_drop_id append_eq_conv_conj)

lemma removeprefix_append [simp]: "removeprefix (p @ s) p = s"
  by (simp add: removeprefix_def)

lemma removeprefix_eq: "startswith s p \<Longrightarrow> s = p @ removeprefix s p"
  by (auto simp: startswith_iff)

lemma replace_id:
  assumes "hd old \<notin> set s" and "old \<noteq> []"
  shows "replace old new s = s"
  using assms
proof (induction s)
  case (Cons c cs)
  then have "\<not> startswith (c # cs) old"
    by (cases old) (auto simp: startswith_def)
  with Cons show ?case by simp
qed simp

lemma replace_char_del: "replace [x] [] s = filter (\<lambda>c. c \<noteq> x) s"
  by (induction s) (auto simp: startswith_def)

lemma dropWhile_none: "\<forall>c \<in> set s. \<not> p c \<Longrightarrow> dropWhile p s = s"
  by (cases s) auto

lemma strip_id: "\<forall>c \<in> set s. \<not> p c \<Longrightarrow> strip p s = s"
  by (simp add: strip_def dropWhile_none)


section \<open>Hexadecimal text\<close>

definition hex_char :: "nat \<Rightarrow> char" where
  "hex_char n = (if n < 10 then char_of (48 + n) else char_of (87 + n))"

primrec hex_fixed :: "nat \<Rightarrow> nat \<Rightarrow> string" where
  "hex_fixed 0 n = []"
| "hex_fixed (Suc w) n = hex_fixed w (n div 16) @ [hex_char (n mod 16)]"

definition hex_value :: "char \<Rightarrow> nat option" where
  "hex_value c =
     (if is_digit c then Some (code c - 48)
      else if 97 \<le> code c \<and> code c \<le> 102 then Some (code c - 87)
      else if 65 \<le> code c \<and> code c \<le> 70 then Some (code c - 55)
      else None)"

text \<open>
  \<^verbatim>\<open>int(s, 16)\<close>: white space around the number, a sign, the prefix \<^verbatim>\<open>0x\<close>, and single underscores
  between digits are allowed.
\<close>

fun hex_digits :: "bool \<Rightarrow> nat \<Rightarrow> string \<Rightarrow> nat option" where
  "hex_digits after_digit acc [] = (if after_digit then Some acc else None)"
| "hex_digits after_digit acc (c # cs) =
     (if c = CHR ''_'' then (if after_digit then hex_digits False acc cs else None)
      else case hex_value c of
        None \<Rightarrow> None
      | Some d \<Rightarrow> hex_digits True (16 * acc + d) cs)"

definition hex_body :: "string \<Rightarrow> string" where
  "hex_body s =
     (if startswith s ''0x'' \<or> startswith s ''0X''
      then (let t = drop 2 s in if startswith t ''_'' then drop 1 t else t)
      else s)"

definition int16 :: "string \<Rightarrow> int option" where
  "int16 s =
     (let t = strip (if list_all is_ascii s then is_c_space else is_space) s in
      if startswith t ''-'' then map_option (\<lambda>n. - int n) (hex_digits False 0 (hex_body (drop 1 t)))
      else if startswith t ''+'' then map_option int (hex_digits False 0 (hex_body (drop 1 t)))
      else map_option int (hex_digits False 0 (hex_body t)))"

lemma code_char_of: "n < 256 \<Longrightarrow> code (char_of n) = n"
  by simp

lemma code_hex_char: "n < 16 \<Longrightarrow> code (hex_char n) = (if n < 10 then 48 + n else 87 + n)"
  by (simp add: hex_char_def)

lemma hex_value_hex_char [simp]: "n < 16 \<Longrightarrow> hex_value (hex_char n) = Some n"
  by (auto simp: hex_value_def is_digit_def code_hex_char)

lemma is_lower_hex_hex_char: "n < 16 \<Longrightarrow> is_lower_hex (hex_char n)"
  by (auto simp: is_lower_hex_def is_digit_def code_hex_char)

lemma length_hex_fixed [simp]: "length (hex_fixed w n) = w"
  by (induction w arbitrary: n) auto

lemma hex_fixed_lower_hex: "list_all is_lower_hex (hex_fixed w n)"
  by (induction w arbitrary: n) (auto simp: is_lower_hex_hex_char)

lemma is_lower_hex_class:
  assumes "is_lower_hex c"
  shows "\<not> is_c_space c" "is_ascii c" "is_printable c"
  using assms by (auto simp: is_lower_hex_def is_digit_def is_c_space_def is_ascii_def is_printable_def)

lemma not_lower_hex [simp]:
  "\<not> is_lower_hex (CHR ''-'')" "\<not> is_lower_hex (CHR ''{'')" "\<not> is_lower_hex (CHR ''}'')"
  "\<not> is_lower_hex (CHR ''u'')" "\<not> is_lower_hex (CHR ''_'')" "\<not> is_lower_hex (CHR ''x'')"
  "\<not> is_lower_hex (CHR ''X'')" "\<not> is_lower_hex (CHR ''+'')"
  by (auto simp: is_lower_hex_def is_digit_def)

lemma is_lower_hex_value: "is_lower_hex c \<Longrightarrow> \<exists>d. hex_value c = Some d \<and> d < 16"
  by (auto simp: is_lower_hex_def hex_value_def is_digit_def)

lemma hex_digits_append:
  "list_all is_lower_hex xs \<Longrightarrow> hex_digits b acc (xs @ ys) =
     hex_digits (b \<or> xs \<noteq> []) (foldl (\<lambda>a c. 16 * a + the (hex_value c)) acc xs) ys"
proof (induction xs arbitrary: b acc)
  case (Cons x xs)
  then have "x \<noteq> CHR ''_''" "\<exists>d. hex_value x = Some d"
    using is_lower_hex_value [of x] by auto
  with Cons show ?case by auto
qed simp

lemma foldl_hex_fixed:
  "foldl (\<lambda>a c. 16 * a + the (hex_value c)) 0 (hex_fixed w n) = n mod 16 ^ w"
proof (induction w arbitrary: n)
  case (Suc w)
  have "n mod 16 ^ Suc w = 16 * (n div 16 mod 16 ^ w) + n mod 16"
    by (simp add: mod_mult2_eq)
  with Suc show ?case by simp
qed simp

lemma hex_digits_hex_fixed:
  assumes "0 < w"
  shows "hex_digits False 0 (hex_fixed w n) = Some (n mod 16 ^ w)"
proof -
  have "hex_fixed w n \<noteq> []"
    using assms length_hex_fixed [of w n] by (metis length_0_conv less_irrefl)
  then show ?thesis
    using hex_digits_append [OF hex_fixed_lower_hex, of False 0 w n "[]"]
    by (simp add: foldl_hex_fixed)
qed

lemma hex_fixed_inject:
  "hex_fixed w m = hex_fixed w n \<Longrightarrow> m mod 16 ^ w = n mod 16 ^ w"
  by (metis foldl_hex_fixed)

lemma hex_body_lower_hex:
  assumes "list_all is_lower_hex s"
  shows "hex_body s = s"
proof -
  have "CHR ''x'' \<notin> set s" "CHR ''X'' \<notin> set s"
    using assms by (auto simp: list_all_iff)
  then show ?thesis
    by (auto simp: hex_body_def startswith_iff)
qed

lemma int16_lower_hex:
  assumes "list_all is_lower_hex s"
  shows "int16 s = map_option int (hex_digits False 0 s)"
proof -
  have ascii: "list_all is_ascii s" and space: "\<forall>c \<in> set s. \<not> is_c_space c"
    using assms is_lower_hex_class by (auto simp: list_all_iff)
  have "\<not> startswith s ''-''" "\<not> startswith s ''+''"
    using assms by (auto simp: startswith_iff)
  with ascii space show ?thesis
    by (simp add: int16_def strip_id hex_body_lower_hex [OF assms])
qed


section \<open>The text form of identifiers\<close>

text \<open>\<^verbatim>\<open>str(u)\<close>: 32 lower-case hexadecimal digits in groups of 8, 4, 4, 4 and 12.\<close>

definition group_uuid :: "string \<Rightarrow> string" where
  "group_uuid h =
     take 8 h @ ''-'' @ take 4 (drop 8 h) @ ''-'' @ take 4 (drop 12 h) @ ''-'' @
     take 4 (drop 16 h) @ ''-'' @ drop 20 h"

definition str_uuid :: "uuid \<Rightarrow> string" where
  "str_uuid u = group_uuid (hex_fixed 32 (unat u))"

text \<open>The constructor \<^verbatim>\<open>UUID(s)\<close>; \<^const>\<open>None\<close> is \<^verbatim>\<open>ValueError\<close>.\<close>

definition parse_uuid :: "string \<Rightarrow> uuid option" where
  "parse_uuid s =
     (let h = replace ''uuid:'' '''' (replace ''urn:'' '''' s);
          h = replace ''-'' '''' (strip (\<lambda>c. c = CHR ''{'' \<or> c = CHR ''}'') h)
      in if length h \<noteq> 32 then None
         else case int16 h of
           None \<Rightarrow> None
         | Some i \<Rightarrow> if 0 \<le> i \<and> i < 2 ^ 128 then Some (word_of_int i) else None)"

lemma set_group_uuid: "set (group_uuid h) \<subseteq> insert (CHR ''-'') (set h)"
  by (auto simp: group_uuid_def dest: in_set_takeD in_set_dropD)

lemma filter_group_uuid:
  assumes "list_all is_lower_hex h"
  shows "filter (\<lambda>c. c \<noteq> CHR ''-'') (group_uuid h) = h"
proof -
  have "CHR ''-'' \<notin> set h"
    using assms by (auto simp: list_all_iff)
  then have no: "filter (\<lambda>c. c \<noteq> CHR ''-'') xs = xs" if "set xs \<subseteq> set h" for xs
    using that by (intro filter_True) auto
  have sub: "set (take 8 h) \<subseteq> set h" "set (take 4 (drop 8 h)) \<subseteq> set h" "set (take 4 (drop 12 h)) \<subseteq> set h"
    "set (take 4 (drop 16 h)) \<subseteq> set h" "set (drop 20 h) \<subseteq> set h"
    by (auto dest: in_set_takeD in_set_dropD)
  have d: "drop 20 h = drop 4 (drop 16 h)" "drop 16 h = drop 4 (drop 12 h)" "drop 12 h = drop 4 (drop 8 h)"
    by simp_all
  have "filter (\<lambda>c. c \<noteq> CHR ''-'') (group_uuid h) =
      take 8 h @ take 4 (drop 8 h) @ take 4 (drop 12 h) @ take 4 (drop 16 h) @ drop 20 h"
    by (simp add: group_uuid_def no [OF sub(1)] no [OF sub(2)] no [OF sub(3)] no [OF sub(4)] no [OF sub(5)]
        del: drop_drop take_drop)
  also have "\<dots> = h"
    by (simp only: d append_take_drop_id)
  finally show ?thesis .
qed

lemma strip_group_uuid:
  assumes "list_all is_lower_hex h"
  shows "replace ''-'' '''' (strip (\<lambda>c. c = CHR ''{'' \<or> c = CHR ''}'')
    (replace ''uuid:'' '''' (replace ''urn:'' '''' (group_uuid h)))) = h"
proof -
  let ?g = "group_uuid h"
  have hex: "is_lower_hex c \<or> c = CHR ''-''" if "c \<in> set ?g" for c
    using assms that set_group_uuid [of h] unfolding list_all_iff by blast
  have u: "CHR ''u'' \<notin> set ?g"
    using hex [of "CHR ''u''"] by auto
  have brace: "\<forall>c \<in> set ?g. \<not> (c = CHR ''{'' \<or> c = CHR ''}'')"
    using hex by fastforce
  from u have "replace ''urn:'' '''' ?g = ?g" "replace ''uuid:'' '''' ?g = ?g"
    by (simp_all add: replace_id)
  then show ?thesis
    by (simp only: strip_id [OF brace] replace_char_del filter_group_uuid [OF assms])
qed

lemma unat_uuid_bound: "unat (u :: uuid) < 16 ^ 32"
  using unsigned_less [of u, where 'a = nat] by simp

theorem parse_uuid_str_uuid [simp]: "parse_uuid (str_uuid u) = Some u"
proof -
  let ?h = "hex_fixed 32 (unat u)"
  have "int16 ?h = Some (int (unat u))"
    using unat_uuid_bound [of u]
    by (simp add: int16_lower_hex [OF hex_fixed_lower_hex] hex_digits_hex_fixed)
  moreover have "int (unat u) < 2 ^ 128"
    using unsigned_less [of u, where 'a = int] by simp
  ultimately show ?thesis
    by (simp add: parse_uuid_def str_uuid_def strip_group_uuid [OF hex_fixed_lower_hex])
qed

corollary str_uuid_inject [simp]: "str_uuid u = str_uuid v \<longleftrightarrow> u = v"
  by (metis option.inject parse_uuid_str_uuid)

lemma length_str_uuid [simp]: "length (str_uuid u) = 36"
  by (simp add: str_uuid_def group_uuid_def)

lemma str_uuid_chars: "c \<in> set (str_uuid u) \<Longrightarrow> is_lower_hex c \<or> c = CHR ''-''"
  using set_group_uuid hex_fixed_lower_hex unfolding str_uuid_def list_all_iff by blast


section \<open>Text order and numeric order of identifiers\<close>

lemma hex_char_less_iff: "m < 16 \<Longrightarrow> n < 16 \<Longrightarrow> hex_char m < hex_char n \<longleftrightarrow> m < n"
  by (auto simp: less_char_def code_hex_char)

lemma append_less_same_length:
  fixes xs ys :: "'a :: linorder list"
  assumes "length xs = length ys"
  shows "xs @ us < ys @ vs \<longleftrightarrow> xs < ys \<or> xs = ys \<and> us < vs"
  using assms
proof (induction xs ys rule: list_induct2)
  case (Cons x xs y ys)
  then show ?case by (auto simp: Cons_less_Cons)
qed simp

lemma radix16_less_iff:
  fixes a b r s :: nat
  shows "r < 16 \<Longrightarrow> s < 16 \<Longrightarrow> a < b \<or> a = b \<and> r < s \<longleftrightarrow> 16 * a + r < 16 * b + s"
  by (auto; linarith)

lemma div16_less_iff:
  "m div 16 < n div 16 \<or> m div 16 = n div 16 \<and> m mod 16 < n mod 16 \<longleftrightarrow> m < (n :: nat)"
  using radix16_less_iff [of "m mod 16" "n mod 16" "m div 16" "n div 16"] by simp

lemma hex_fixed_less_iff:
  "m < 16 ^ w \<Longrightarrow> n < 16 ^ w \<Longrightarrow> hex_fixed w m < hex_fixed w n \<longleftrightarrow> m < n"
proof (induction w arbitrary: m n)
  case (Suc w)
  have lt: "m div 16 < 16 ^ w" "n div 16 < 16 ^ w"
    using Suc.prems by (auto simp: less_mult_imp_div_less mult.commute)
  have eq: "hex_fixed w (m div 16) = hex_fixed w (n div 16) \<longleftrightarrow> m div 16 = n div 16"
    using hex_fixed_inject [of w "m div 16" "n div 16"] lt by auto
  show ?case
    by (simp add: append_less_same_length Suc.IH [OF lt] eq hex_char_less_iff div16_less_iff)
qed simp

lemma group_uuid_parts:
  assumes "length h = 32"
  obtains a b c d e where "h = a @ b @ c @ d @ e" "length a = 8" "length b = 4" "length c = 4" "length d = 4"
    "group_uuid h = a @ ''-'' @ b @ ''-'' @ c @ ''-'' @ d @ ''-'' @ e"
proof
  have d: "drop 20 h = drop 4 (drop 16 h)" "drop 16 h = drop 4 (drop 12 h)" "drop 12 h = drop 4 (drop 8 h)"
    by simp_all
  show "h = take 8 h @ take 4 (drop 8 h) @ take 4 (drop 12 h) @ take 4 (drop 16 h) @ drop 20 h"
    by (simp only: d append_take_drop_id)
qed (use assms in \<open>simp_all add: group_uuid_def\<close>)

lemma separators_less_iff:
  fixes a b c d e a' b' c' d' e' :: "'a :: linorder list"
  assumes "length a = length a'" "length b = length b'" "length c = length c'" "length d = length d'"
  shows "a @ x # b @ x # c @ x # d @ x # e < a' @ x # b' @ x # c' @ x # d' @ x # e' \<longleftrightarrow>
    a @ b @ c @ d @ e < a' @ b' @ c' @ d' @ e'"
  by (simp only: append_less_same_length [OF assms(1)] append_less_same_length [OF assms(2)]
      append_less_same_length [OF assms(3)] append_less_same_length [OF assms(4)]
      Cons_less_Cons less_irrefl simp_thms)

lemma group_uuid_less_iff:
  assumes "length g = 32" and "length h = 32"
  shows "group_uuid g < group_uuid h \<longleftrightarrow> g < h"
proof -
  obtain a b c d e where g: "g = a @ b @ c @ d @ e" "length a = 8" "length b = 4" "length c = 4" "length d = 4"
    and gg: "group_uuid g = a @ ''-'' @ b @ ''-'' @ c @ ''-'' @ d @ ''-'' @ e"
    using assms(1) by (rule group_uuid_parts)
  obtain a' b' c' d' e' where h: "h = a' @ b' @ c' @ d' @ e'" "length a' = 8" "length b' = 4" "length c' = 4"
      "length d' = 4"
    and hh: "group_uuid h = a' @ ''-'' @ b' @ ''-'' @ c' @ ''-'' @ d' @ ''-'' @ e'"
    using assms(2) by (rule group_uuid_parts)
  have "group_uuid g < group_uuid h \<longleftrightarrow> a @ b @ c @ d @ e < a' @ b' @ c' @ d' @ e'"
    unfolding gg hh append_Cons append_Nil
    by (rule separators_less_iff) (simp_all only: g(2-5) h(2-5))
  then show ?thesis by (simp only: g(1) h(1))
qed

theorem str_uuid_less_iff: "str_uuid u < str_uuid v \<longleftrightarrow> u < v"
  unfolding str_uuid_def word_less_nat_alt
  by (simp only: group_uuid_less_iff length_hex_fixed hex_fixed_less_iff [OF unat_uuid_bound unat_uuid_bound])

corollary str_uuid_le_iff: "str_uuid u \<le> str_uuid v \<longleftrightarrow> u \<le> v"
  unfolding linorder_not_less [symmetric] str_uuid_less_iff ..

end
