(* ===== verification/Sha256.thy ===== *)
theory Sha256
  imports Py_Text
begin

unbundle bit_operations_syntax

text \<open>
  SHA-256 (FIPS 180-4), the digest of \<^verbatim>\<open>hashlib.sha256\<close>, on byte strings.  The program uses it for
  payload digests, for the digest of the encoded message, for enrollment token digests and for public
  key fingerprints.  The development relies on one fact only, that \<^verbatim>\<open>hexdigest()\<close> is 64 lower-case
  hexadecimal digits; it assumes nothing about collisions.
\<close>


section \<open>Words and constants\<close>

type_synonym w32 = "32 word"

text \<open>
  The constants are the first 32 fractional bits of the cube roots of the first 64 primes and of the
  square roots of the first eight.  \<open>root_bits k b x r\<close> adds the low \<open>b\<close> bits of the integer \<open>k\<close>-th root
  of \<open>x\<close> to \<open>r\<close>; scaling \<open>p\<close> by the \<open>k\<close>-th power of \<open>2 ^ 32\<close> keeps 32 fractional bits, and the
  conversion to a word drops the integer part.
\<close>

primrec root_bits :: "nat \<Rightarrow> nat \<Rightarrow> nat \<Rightarrow> nat \<Rightarrow> nat" where
  "root_bits k 0 x r = r"
| "root_bits k (Suc b) x r = root_bits k b x (if (r + 2 ^ b) ^ k \<le> x then r + 2 ^ b else r)"

definition root_fraction :: "nat \<Rightarrow> nat \<Rightarrow> w32" where
  "root_fraction k p = word_of_nat (root_bits k 36 (p * (2 ^ 32) ^ k) 0)"

definition sha_primes :: "nat list" where
  "sha_primes = filter (\<lambda>n. list_all (\<lambda>d. n mod d \<noteq> 0) [2..<n]) [2..<312]"

definition sha_k :: "w32 list" where
  "sha_k = map (root_fraction 3) sha_primes"

text \<open>The eight words of the chaining value.\<close>

datatype sha_state = ShaState w32 w32 w32 w32 w32 w32 w32 w32

definition sha_init :: sha_state where
  "sha_init = ShaState (root_fraction 2 2) (root_fraction 2 3) (root_fraction 2 5) (root_fraction 2 7)
     (root_fraction 2 11) (root_fraction 2 13) (root_fraction 2 17) (root_fraction 2 19)"

definition big_sigma0 :: "w32 \<Rightarrow> w32" where
  "big_sigma0 x = word_rotr 2 x XOR word_rotr 13 x XOR word_rotr 22 x"

definition big_sigma1 :: "w32 \<Rightarrow> w32" where
  "big_sigma1 x = word_rotr 6 x XOR word_rotr 11 x XOR word_rotr 25 x"

definition small_sigma0 :: "w32 \<Rightarrow> w32" where
  "small_sigma0 x = word_rotr 7 x XOR word_rotr 18 x XOR drop_bit 3 x"

definition small_sigma1 :: "w32 \<Rightarrow> w32" where
  "small_sigma1 x = word_rotr 17 x XOR word_rotr 19 x XOR drop_bit 10 x"

definition sha_ch :: "w32 \<Rightarrow> w32 \<Rightarrow> w32 \<Rightarrow> w32" where
  "sha_ch x y z = (x AND y) XOR (NOT x AND z)"

definition sha_maj :: "w32 \<Rightarrow> w32 \<Rightarrow> w32 \<Rightarrow> w32" where
  "sha_maj x y z = (x AND y) XOR (x AND z) XOR (y AND z)"


section \<open>Padding and the message schedule\<close>

primrec be_bytes :: "nat \<Rightarrow> nat \<Rightarrow> string" where
  "be_bytes 0 n = []"
| "be_bytes (Suc k) n = be_bytes k (n div 256) @ [char_of (n mod 256)]"

definition sha_pad :: "string \<Rightarrow> string" where
  "sha_pad m =
     m @ [char_of (128 :: nat)] @ replicate (nat ((55 - int (length m)) mod 64)) (char_of (0 :: nat)) @
     be_bytes 8 (8 * length m)"

fun be_words :: "string \<Rightarrow> w32 list" where
  "be_words (a # b # c # d # cs) =
     word_of_nat (((code a * 256 + code b) * 256 + code c) * 256 + code d) # be_words cs"
| "be_words _ = []"

primrec sha_schedule :: "nat \<Rightarrow> w32 list \<Rightarrow> w32 list" where
  "sha_schedule 0 ws = ws"
| "sha_schedule (Suc k) ws =
     (let n = length ws in
      sha_schedule k (ws @ [small_sigma1 (ws ! (n - 2)) + ws ! (n - 7) +
                            small_sigma0 (ws ! (n - 15)) + ws ! (n - 16)]))"


section \<open>Compression and the digest\<close>

fun sha_round :: "sha_state \<Rightarrow> w32 \<times> w32 \<Rightarrow> sha_state" where
  "sha_round (ShaState a b c d e f g h) (k, w) =
     (let t1 = h + big_sigma1 e + sha_ch e f g + k + w;
          t2 = big_sigma0 a + sha_maj a b c
      in ShaState (t1 + t2) a b c (d + t1) e f g)"

fun sha_add :: "sha_state \<Rightarrow> sha_state \<Rightarrow> sha_state" where
  "sha_add (ShaState a b c d e f g h) (ShaState a' b' c' d' e' f' g' h') =
     ShaState (a + a') (b + b') (c + c') (d + d') (e + e') (f + f') (g + g') (h + h')"

definition sha_block :: "sha_state \<Rightarrow> w32 list \<Rightarrow> sha_state" where
  "sha_block s ws = sha_add s (foldl sha_round s (zip sha_k (sha_schedule 48 ws)))"

function sha_blocks :: "sha_state \<Rightarrow> w32 list \<Rightarrow> sha_state" where
  "sha_blocks s ws = (if ws = [] then s else sha_blocks (sha_block s (take 16 ws)) (drop 16 ws))"
  by pat_completeness auto
termination
  by (relation "measure (\<lambda>(s, ws). length ws)") auto

declare sha_blocks.simps [simp del]

fun sha_hex :: "sha_state \<Rightarrow> string" where
  "sha_hex (ShaState a b c d e f g h) =
     hex_fixed 8 (unat a) @ hex_fixed 8 (unat b) @ hex_fixed 8 (unat c) @ hex_fixed 8 (unat d) @
     hex_fixed 8 (unat e) @ hex_fixed 8 (unat f) @ hex_fixed 8 (unat g) @ hex_fixed 8 (unat h)"

text \<open>\<^verbatim>\<open>hashlib.sha256(m).hexdigest()\<close>.\<close>

definition sha256_hex :: "string \<Rightarrow> string" where
  "sha256_hex m = sha_hex (sha_blocks sha_init (be_words (sha_pad m)))"

text \<open>The patterns \<^verbatim>\<open>[0-9a-f]{64}\<close> and \<^verbatim>\<open>sha256:[0-9a-f]{64}\<close>, matched in full.\<close>

definition is_sha256 :: "string \<Rightarrow> bool" where
  "is_sha256 s \<longleftrightarrow> length s = 64 \<and> list_all is_lower_hex s"

definition is_fingerprint :: "string \<Rightarrow> bool" where
  "is_fingerprint s \<longleftrightarrow> startswith s ''sha256:'' \<and> is_sha256 (removeprefix s ''sha256:'')"

lemma is_sha256_sha_hex: "is_sha256 (sha_hex s)"
  by (cases s) (simp add: is_sha256_def hex_fixed_lower_hex)

lemma is_sha256_sha256_hex [simp]: "is_sha256 (sha256_hex m)"
  by (simp add: sha256_hex_def is_sha256_sha_hex)

lemma is_fingerprint_append [simp]: "is_fingerprint (''sha256:'' @ d) \<longleftrightarrow> is_sha256 d"
  by (simp only: is_fingerprint_def startswith_append removeprefix_append simp_thms)

end
