(* ===== verification/Domain.thy ===== *)
theory Domain
  imports Sha256 Json
begin

text \<open>
  The typed domain values of \<^verbatim>\<open>domain.py\<close>.  Each dataclass is a record whose fields carry the source's
  names behind a prefix per class; its \<^verbatim>\<open>__post_init__\<close> is a check \<open>\<dots>_post_init\<close> that returns the
  value or raises, in the order the source makes the tests.  The lemmas characterise the accepted
  values and show that derived values (digests, \<^verbatim>\<open>replace\<close>d identities) are accepted.
\<close>

named_theorems limits \<open>the size and time limits of the protocol\<close>


section \<open>Limits\<close>

definition PROTOCOL_VERSION :: int where [limits]: "PROTOCOL_VERSION = 1"
definition MAX_MESSAGE_TTL :: timedelta where [limits]: "MAX_MESSAGE_TTL = minutes 5"
definition MAX_CLOCK_SKEW :: timedelta where [limits]: "MAX_CLOCK_SKEW = minutes 5"
definition MAX_ENROLLMENT_GRANT_TTL :: timedelta where [limits]: "MAX_ENROLLMENT_GRANT_TTL = minutes 15"
definition MAX_SEQUENCE :: int where [limits]: "MAX_SEQUENCE = 2 ^ 63 - 1"
definition MAX_DISPLAY_NAME_LENGTH :: nat where [limits]: "MAX_DISPLAY_NAME_LENGTH = 128"
definition MAX_AGENT_VERSION_LENGTH :: nat where [limits]: "MAX_AGENT_VERSION_LENGTH = 64"
definition MAX_CAPABILITIES :: nat where [limits]: "MAX_CAPABILITIES = 32"
definition MAX_INVENTORY_FIELDS :: nat where [limits]: "MAX_INVENTORY_FIELDS = 128"
definition MAX_INVENTORY_KEY_LENGTH :: nat where [limits]: "MAX_INVENTORY_KEY_LENGTH = 64"
definition MAX_INVENTORY_VALUE_LENGTH :: nat where [limits]: "MAX_INVENTORY_VALUE_LENGTH = 512"

text \<open>\<^verbatim>\<open>not value or len(value) > limit\<close>, the test made of every bounded text.\<close>

definition empty_or_longer :: "string \<Rightarrow> nat \<Rightarrow> bool" where
  "empty_or_longer s limit \<longleftrightarrow> s = [] \<or> limit < length s"


section \<open>Time zones and digests\<close>

definition require_aware :: "datetime \<Rightarrow> string \<Rightarrow> unit result" where
  "require_aware v field =
     (case tz v of
        FailingTz \<Rightarrow> Inl (ValidationError (field @ '' must include a valid timezone''))
      | NoTz \<Rightarrow> Inl (ValidationError (field @ '' must include a timezone''))
      | UndefinedTz \<Rightarrow> Inl (ValidationError (field @ '' must include a timezone''))
      | FixedTz _ \<Rightarrow> Inr ())"

definition require_aware_opt :: "datetime option \<Rightarrow> string \<Rightarrow> unit result" where
  "require_aware_opt v field = (case v of None \<Rightarrow> Inr () | Some d \<Rightarrow> require_aware d field)"

definition canonical_digest :: "json \<Rightarrow> string" where
  "canonical_digest payload = sha256_hex (dumps True payload)"


section \<open>Enumerations\<close>

datatype Platform = LINUX | WINDOWS

fun platform_value :: "Platform \<Rightarrow> string" where
  "platform_value LINUX = ''linux''"
| "platform_value WINDOWS = ''windows''"

datatype EndpointLifecycle = PENDING | ISSUED | ACTIVE | RETIRED | REVOKED

fun lifecycle_value :: "EndpointLifecycle \<Rightarrow> string" where
  "lifecycle_value PENDING = ''pending''"
| "lifecycle_value ISSUED = ''issued''"
| "lifecycle_value ACTIVE = ''active''"
| "lifecycle_value RETIRED = ''retired''"
| "lifecycle_value REVOKED = ''revoked''"

datatype EndpointHealth = ONLINE | STALE | OFFLINE

fun health_value :: "EndpointHealth \<Rightarrow> string" where
  "health_value ONLINE = ''online''"
| "health_value STALE = ''stale''"
| "health_value OFFLINE = ''offline''"


section \<open>Freshness policy\<close>

record FreshnessPolicy =
  fp_online_for :: timedelta
  fp_stale_for :: timedelta

definition default_policy :: FreshnessPolicy where
  "default_policy = \<lparr>fp_online_for = seconds 90, fp_stale_for = minutes 5\<rparr>"

definition FreshnessPolicy_post_init :: "FreshnessPolicy \<Rightarrow> FreshnessPolicy result" where
  "FreshnessPolicy_post_init p =
     (if fp_online_for p \<le> 0 then Inl (ValidationError ''online_for must be positive'')
      else if fp_stale_for p \<le> fp_online_for p
        then Inl (ValidationError ''stale_for must exceed online_for'')
      else Inr p)"


section \<open>Identities\<close>

record EndpointIdentity =
  ei_identity_id :: uuid
  ei_endpoint_id :: uuid
  ei_public_key_fingerprint :: string
  ei_created_at :: datetime
  ei_status :: EndpointLifecycle
  ei_revoked_at :: "datetime option"
  ei_revocation_reason :: "string option"

definition EndpointIdentity_post_init :: "EndpointIdentity \<Rightarrow> EndpointIdentity result" where
  "EndpointIdentity_post_init i =
     rbind (require_aware (ei_created_at i) ''created_at'') (\<lambda>_.
     rbind (raise_if (\<not> is_fingerprint (ei_public_key_fingerprint i))
       (ValidationError ''fingerprint must be a lowercase SHA-256 value'')) (\<lambda>_.
     rbind
       (if ei_status i = REVOKED
        then raise_if (ei_revoked_at i = None \<or> ei_revocation_reason i \<in> {None, Some []})
          (ValidationError ''revoked identity requires time and reason'')
        else raise_if (ei_revoked_at i \<noteq> None \<or> ei_revocation_reason i \<noteq> None)
          (ValidationError ''only a revoked identity may have revocation facts'')) (\<lambda>_.
     case ei_revoked_at i of
       None \<Rightarrow> Inr i
     | Some revoked_at \<Rightarrow>
         rbind (require_aware revoked_at ''revoked_at'') (\<lambda>_.
         rbind (raise_if (instant revoked_at < instant (ei_created_at i))
           (ValidationError ''revocation cannot predate identity creation'')) (\<lambda>_. Inr i)))))"

definition ei_lifecycle :: "EndpointIdentity \<Rightarrow> EndpointLifecycle" where
  "ei_lifecycle i = ei_status i"


section \<open>Enrollment grants\<close>

record EnrollmentGrant =
  eg_grant_id :: uuid
  eg_token_sha256 :: string
  eg_display_name :: string
  eg_platform :: Platform
  eg_architecture :: string
  eg_created_at :: datetime
  eg_expires_at :: datetime
  eg_created_by :: string
  eg_consumed_at :: "datetime option"
  eg_consumed_identity_id :: "uuid option"

definition EnrollmentGrant_post_init :: "EnrollmentGrant \<Rightarrow> EnrollmentGrant result" where
  "EnrollmentGrant_post_init g =
     rbind (require_aware (eg_created_at g) ''created_at'') (\<lambda>_.
     rbind (require_aware (eg_expires_at g) ''expires_at'') (\<lambda>_.
     rbind (raise_if (\<not> is_sha256 (eg_token_sha256 g))
       (ValidationError ''token_sha256 must be a lowercase SHA-256 value'')) (\<lambda>_.
     rbind (raise_if (empty_or_longer (eg_display_name g) MAX_DISPLAY_NAME_LENGTH)
       (ValidationError ''display_name is empty or too long'')) (\<lambda>_.
     rbind (raise_if (eg_platform g \<noteq> LINUX)
       (ValidationError ''v1 enrollment grants support Linux only'')) (\<lambda>_.
     rbind (raise_if (eg_architecture g \<noteq> ''amd64'')
       (ValidationError ''v1 enrollment grants support amd64 only'')) (\<lambda>_.
     rbind (raise_if (empty_or_longer (eg_created_by g) 256)
       (ValidationError ''created_by is empty or too long'')) (\<lambda>_.
     rbind (astimezone_utc (eg_created_at g)) (\<lambda>created_utc.
     rbind (astimezone_utc (eg_expires_at g)) (\<lambda>expires_utc.
     let lifetime = instant expires_utc - instant created_utc in
     rbind (raise_if (lifetime \<le> 0 \<or> lifetime > MAX_ENROLLMENT_GRANT_TTL)
       (ValidationError ''enrollment grant lifetime is invalid'')) (\<lambda>_.
     rbind (raise_if ((eg_consumed_at g = None) \<noteq> (eg_consumed_identity_id g = None))
       (ValidationError ''enrollment grant consumption state is incomplete'')) (\<lambda>_.
     case eg_consumed_at g of
       None \<Rightarrow> Inr g
     | Some consumed_at \<Rightarrow>
         rbind (require_aware consumed_at ''consumed_at'') (\<lambda>_.
         rbind (astimezone_utc consumed_at) (\<lambda>consumed_utc.
         rbind (raise_if (\<not> (instant created_utc \<le> instant consumed_utc \<and>
                            instant consumed_utc < instant expires_utc))
           (ValidationError ''enrollment grant consumption time is invalid'')) (\<lambda>_. Inr g))))))))))))))"


section \<open>Endpoints\<close>

record Endpoint =
  ep_endpoint_id :: uuid
  ep_display_name :: string
  ep_platform :: Platform
  ep_architecture :: string
  ep_identity_id :: uuid
  ep_enrolled_at :: datetime
  ep_last_receipt_at :: "datetime option"
  ep_last_heartbeat_at :: "datetime option"

definition Endpoint_post_init :: "Endpoint \<Rightarrow> Endpoint result" where
  "Endpoint_post_init e =
     rbind (require_aware (ep_enrolled_at e) ''enrolled_at'') (\<lambda>_.
     rbind (raise_if (empty_or_longer (ep_display_name e) MAX_DISPLAY_NAME_LENGTH)
       (ValidationError ''display_name is empty or too long'')) (\<lambda>_.
     rbind (raise_if (empty_or_longer (ep_architecture e) 32)
       (ValidationError ''architecture is empty or too long'')) (\<lambda>_.
     rbind (require_aware_opt (ep_last_receipt_at e) ''last_receipt_at'') (\<lambda>_.
     rbind (require_aware_opt (ep_last_heartbeat_at e) ''last_heartbeat_at'') (\<lambda>_. Inr e)))))"


section \<open>Messages\<close>

record MessageEnvelope =
  me_message_id :: uuid
  me_endpoint_id :: uuid
  me_boot_id :: uuid
  me_sequence :: int
  me_created_at :: datetime
  me_expires_at :: datetime
  me_correlation_id :: uuid
  me_protocol_version :: int

definition MessageEnvelope_post_init :: "MessageEnvelope \<Rightarrow> MessageEnvelope result" where
  "MessageEnvelope_post_init m =
     rbind (require_aware (me_created_at m) ''created_at'') (\<lambda>_.
     rbind (require_aware (me_expires_at m) ''expires_at'') (\<lambda>_.
     rbind (raise_if (me_protocol_version m \<noteq> PROTOCOL_VERSION)
       (ValidationError ''unsupported protocol version'')) (\<lambda>_.
     rbind (raise_if (\<not> (1 \<le> me_sequence m \<and> me_sequence m \<le> MAX_SEQUENCE))
       (ValidationError ''sequence is outside the supported range'')) (\<lambda>_.
     let ttl = instant (me_expires_at m) - instant (me_created_at m) in
     rbind (raise_if (ttl \<le> 0 \<or> ttl > MAX_MESSAGE_TTL)
       (ValidationError ''message lifetime is invalid'')) (\<lambda>_. Inr m)))))"

record HeartbeatPayload =
  hp_agent_version :: string
  hp_capabilities :: "string list"

definition HeartbeatPayload_post_init :: "HeartbeatPayload \<Rightarrow> HeartbeatPayload result" where
  "HeartbeatPayload_post_init p =
     (if empty_or_longer (hp_agent_version p) MAX_AGENT_VERSION_LENGTH
        then Inl (ValidationError ''agent_version is empty or too long'')
      else if length (hp_capabilities p) > MAX_CAPABILITIES
        then Inl (ValidationError ''too many capabilities'')
      else if list_ex (\<lambda>item. empty_or_longer item 64) (hp_capabilities p)
        then Inl (ValidationError ''capability is empty or too long'')
      else Inr p)"

definition heartbeat_json :: "HeartbeatPayload \<Rightarrow> json" where
  "heartbeat_json p =
     JObject [(''agent_version'', JString (hp_agent_version p)),
              (''capabilities'', JArray (map JString (hp_capabilities p)))]"

definition heartbeat_digest :: "HeartbeatPayload \<Rightarrow> string" where
  "heartbeat_digest p = canonical_digest (heartbeat_json p)"

record InventoryPayload =
  ip_platform :: Platform
  ip_architecture :: string
  ip_fields :: "(string \<times> string) list"
  ip_collector_complete :: bool
  ip_schema_version :: int

definition InventoryPayload_post_init :: "InventoryPayload \<Rightarrow> InventoryPayload result" where
  "InventoryPayload_post_init p =
     (if ip_schema_version p \<noteq> 1 then Inl (ValidationError ''unsupported inventory schema version'')
      else if empty_or_longer (ip_architecture p) 32
        then Inl (ValidationError ''architecture is empty or too long'')
      else if length (ip_fields p) > MAX_INVENTORY_FIELDS
        then Inl (ValidationError ''too many inventory fields'')
      else if card (set (map fst (ip_fields p))) \<noteq> length (ip_fields p)
        then Inl (ValidationError ''inventory field names must be unique'')
      else if list_ex (\<lambda>(key, value). empty_or_longer key MAX_INVENTORY_KEY_LENGTH \<or>
                 length value > MAX_INVENTORY_VALUE_LENGTH) (ip_fields p)
        then Inl (ValidationError ''inventory field is empty or too long'')
      else Inr p)"

text \<open>\<^verbatim>\<open>dict(pairs)\<close>: a later pair replaces the value of an earlier one.\<close>

definition dict_of :: "('k \<times> 'v) list \<Rightarrow> ('k, 'v) dict" where
  "dict_of ps = foldl (\<lambda>d (k, v). dict_set k v d) [] ps"

definition inventory_json :: "InventoryPayload \<Rightarrow> json" where
  "inventory_json p =
     JObject [(''architecture'', JString (ip_architecture p)),
              (''collector_complete'', JBool (ip_collector_complete p)),
              (''fields'', JObject (map (\<lambda>(k, v). (k, JString v)) (dict_of (ip_fields p)))),
              (''platform'', JString (platform_value (ip_platform p))),
              (''schema_version'', JInt (ip_schema_version p))]"

definition inventory_digest :: "InventoryPayload \<Rightarrow> string" where
  "inventory_digest p = canonical_digest (inventory_json p)"

record HeartbeatMessage =
  hm_envelope :: MessageEnvelope
  hm_payload :: HeartbeatPayload

record InventoryMessage =
  im_envelope :: MessageEnvelope
  im_payload :: InventoryPayload


section \<open>Observations, status and audit events\<close>

record Observation =
  ob_observation_id :: uuid
  ob_endpoint_id :: uuid
  ob_message_id :: uuid
  ob_observation_type :: string
  ob_schema_version :: int
  ob_source_time :: datetime
  ob_received_at :: datetime
  ob_boot_id :: uuid
  ob_sequence :: int
  ob_payload_digest :: string
  ob_encoded_message_digest :: "string option"

definition Observation_post_init :: "Observation \<Rightarrow> Observation result" where
  "Observation_post_init ob =
     rbind (require_aware (ob_source_time ob) ''source_time'') (\<lambda>_.
     rbind (require_aware (ob_received_at ob) ''received_at'') (\<lambda>_.
     rbind (raise_if (\<not> is_sha256 (ob_payload_digest ob))
       (ValidationError ''payload_digest must be a lowercase SHA-256 value'')) (\<lambda>_.
     rbind (raise_if (case ob_encoded_message_digest ob of None \<Rightarrow> False | Some d \<Rightarrow> \<not> is_sha256 d)
       (ValidationError ''encoded_message_digest must be a lowercase SHA-256 value'')) (\<lambda>_. Inr ob))))"

record EndpointStatus =
  es_endpoint_id :: uuid
  es_lifecycle :: EndpointLifecycle
  es_health :: EndpointHealth
  es_last_heartbeat_at :: "datetime option"

record AuditEvent =
  au_event_id :: uuid
  au_server_time :: datetime
  au_actor_type :: string
  au_actor_id :: string
  au_subject :: string
  au_action :: string
  au_decision :: string
  au_reason :: string
  au_correlation_id :: uuid
  au_metadata :: "(string \<times> string) list"


section \<open>Accepted values\<close>

lemma require_aware_Inr [simp]: "require_aware v f = Inr u \<longleftrightarrow> is_aware v"
  by (auto simp: require_aware_def is_aware_def split: tzinfo.splits)

lemma require_aware_aware: "is_aware v \<Longrightarrow> require_aware v f = Inr ()"
  by simp

lemma require_aware_opt_Inr [simp]:
  "require_aware_opt v f = Inr u \<longleftrightarrow> (\<forall>d. v = Some d \<longrightarrow> is_aware d)"
  by (auto simp: require_aware_opt_def split: option.splits)

lemma is_sha256_canonical_digest [simp]: "is_sha256 (canonical_digest j)"
  by (simp add: canonical_digest_def)

lemma is_sha256_digests [simp]: "is_sha256 (heartbeat_digest p)" "is_sha256 (inventory_digest q)"
  by (simp_all add: heartbeat_digest_def inventory_digest_def)

text \<open>The predicates that a constructed object satisfies.\<close>

abbreviation envelope_ok :: "MessageEnvelope \<Rightarrow> bool" where
  "envelope_ok env \<equiv> MessageEnvelope_post_init env = Inr env"

abbreviation endpoint_ok :: "Endpoint \<Rightarrow> bool" where
  "endpoint_ok e \<equiv> Endpoint_post_init e = Inr e"

abbreviation identity_ok :: "EndpointIdentity \<Rightarrow> bool" where
  "identity_ok i \<equiv> EndpointIdentity_post_init i = Inr i"

abbreviation observation_ok :: "Observation \<Rightarrow> bool" where
  "observation_ok ob \<equiv> Observation_post_init ob = Inr ob"

abbreviation grant_ok :: "EnrollmentGrant \<Rightarrow> bool" where
  "grant_ok g \<equiv> EnrollmentGrant_post_init g = Inr g"

lemma MessageEnvelope_post_init_Inr:
  "MessageEnvelope_post_init m = Inr m' \<longleftrightarrow>
     m' = m \<and> is_aware (me_created_at m) \<and> is_aware (me_expires_at m) \<and>
     me_protocol_version m = PROTOCOL_VERSION \<and> 1 \<le> me_sequence m \<and> me_sequence m \<le> MAX_SEQUENCE \<and>
     instant (me_created_at m) < instant (me_expires_at m) \<and>
     instant (me_expires_at m) \<le> instant (me_created_at m) + MAX_MESSAGE_TTL"
  by (auto simp: MessageEnvelope_post_init_def rbind_Inr_iff Let_def)

lemma EndpointIdentity_post_init_Inr:
  "EndpointIdentity_post_init i = Inr i' \<longleftrightarrow>
     i' = i \<and> is_aware (ei_created_at i) \<and> is_fingerprint (ei_public_key_fingerprint i) \<and>
     (case ei_revoked_at i of
        None \<Rightarrow> ei_status i \<noteq> REVOKED \<and> ei_revocation_reason i = None
      | Some t \<Rightarrow> ei_status i = REVOKED \<and> ei_revocation_reason i \<notin> {None, Some []} \<and> is_aware t \<and>
          instant (ei_created_at i) \<le> instant t)"
  by (auto simp: EndpointIdentity_post_init_def rbind_Inr_iff split: option.splits if_splits)

lemma Endpoint_post_init_Inr:
  "Endpoint_post_init e = Inr e' \<longleftrightarrow>
     e' = e \<and> is_aware (ep_enrolled_at e) \<and> \<not> empty_or_longer (ep_display_name e) MAX_DISPLAY_NAME_LENGTH \<and>
     \<not> empty_or_longer (ep_architecture e) 32 \<and> pred_option is_aware (ep_last_receipt_at e) \<and>
     pred_option is_aware (ep_last_heartbeat_at e)"
  by (cases "ep_last_receipt_at e"; cases "ep_last_heartbeat_at e")
     (auto simp: Endpoint_post_init_def rbind_Inr_iff require_aware_opt_def)

lemma Observation_post_init_Inr:
  "Observation_post_init ob = Inr ob' \<longleftrightarrow>
     ob' = ob \<and> is_aware (ob_source_time ob) \<and> is_aware (ob_received_at ob) \<and>
     is_sha256 (ob_payload_digest ob) \<and> pred_option is_sha256 (ob_encoded_message_digest ob)"
  by (cases "ob_encoded_message_digest ob") (auto simp: Observation_post_init_def rbind_Inr_iff)

lemma EnrollmentGrant_post_init_Inr:
  "EnrollmentGrant_post_init g = Inr g' \<longleftrightarrow>
     g' = g \<and> is_aware (eg_created_at g) \<and> is_aware (eg_expires_at g) \<and> is_sha256 (eg_token_sha256 g) \<and>
     \<not> empty_or_longer (eg_display_name g) MAX_DISPLAY_NAME_LENGTH \<and> eg_platform g = LINUX \<and>
     eg_architecture g = ''amd64'' \<and> \<not> empty_or_longer (eg_created_by g) 256 \<and>
     in_range (instant (eg_created_at g)) \<and> in_range (instant (eg_expires_at g)) \<and>
     instant (eg_created_at g) < instant (eg_expires_at g) \<and>
     instant (eg_expires_at g) \<le> instant (eg_created_at g) + MAX_ENROLLMENT_GRANT_TTL \<and>
     (case (eg_consumed_at g, eg_consumed_identity_id g) of
        (None, None) \<Rightarrow> True
      | (Some t, Some _) \<Rightarrow> is_aware t \<and> in_range (instant t) \<and>
          instant (eg_created_at g) \<le> instant t \<and> instant t < instant (eg_expires_at g)
      | _ \<Rightarrow> False)"
  by (auto simp: EnrollmentGrant_post_init_def rbind_Inr_iff Let_def astimezone_utc_def
      split: option.splits if_splits)

lemmas post_init_iffs = MessageEnvelope_post_init_Inr EndpointIdentity_post_init_Inr
  Endpoint_post_init_Inr Observation_post_init_Inr EnrollmentGrant_post_init_Inr

end
