(* ===== verification/Database.thy ===== *)
theory Database
  imports Domain
begin

text \<open>
  The PostgreSQL database as the program uses it: the tables of \<^verbatim>\<open>migrations/*.sql\<close> as a record of
  dictionaries and lists, one operation per SQL statement of \<^verbatim>\<open>persistence.py\<close>, and transactions.

  \<^item> A primary key is the key of a dictionary.  \<open>UNIQUE\<close> constraints raise \<^const>\<open>UniqueViolation\<close>; a value
    that does not fit its \<^verbatim>\<open>varchar\<close> column, or a violated \<open>CHECK\<close> that the Python code does not rule out
    beforehand, raises \<^const>\<open>DatabaseError\<close>.
  \<^item> \<^verbatim>\<open>timestamptz\<close> stores an instant: a value read back is the same instant in UTC.
  \<^item> \<open>audit_events\<close> is kept in the order of \<^verbatim>\<open>audit_sequence\<close>.
  \<^item> A transaction that raises restores the tables; identifiers already drawn stay drawn.
  \<^item> \<^verbatim>\<open>previous_identity_id\<close> is not a column of the model: no statement of the program writes it, so it
    is null in every row and the lineage trigger of migration 0006 never rejects.
\<close>


section \<open>Tables\<close>

record IdentityRow = EndpointIdentity +
  ir_certificate_serial :: "string option"
  ir_certificate_issuer :: "string option"
  ir_certificate_not_before :: "datetime option"
  ir_certificate_not_after :: "datetime option"
  ir_activated_at :: "datetime option"

record ObservationRow = Observation +
  or_identity_id :: uuid

record Database =
  db_endpoints :: "(uuid, Endpoint) dict"
  db_identities :: "(uuid, IdentityRow) dict"
  db_sequences :: "(uuid \<times> uuid, int) dict"
  db_observations :: "ObservationRow list"
  db_audit_events :: "AuditEvent list"
  db_grants :: "(uuid, EnrollmentGrant) dict"

definition empty_database :: Database where
  "empty_database = \<lparr>db_endpoints = [], db_identities = [], db_sequences = [], db_observations = [],
     db_audit_events = [], db_grants = []\<rparr>"

text \<open>
  The attributes of \<^verbatim>\<open>PostgresControlPlane\<close> that its operations depend on, with the database they
  connect to and the values that \<^verbatim>\<open>secrets.token_urlsafe(32)\<close> returns.
\<close>

record PostgresControlPlane = rng +
  pg_db :: Database
  pg_shutting_down :: bool
  pg_token_seq :: "nat \<Rightarrow> string"
  pg_token_pos :: nat

type_synonym 'a pg_op = "(PostgresControlPlane, 'a) op"

definition token_urlsafe :: "string pg_op" where
  "token_urlsafe s = (Inr (pg_token_seq s (pg_token_pos s)), s\<lparr>pg_token_pos := Suc (pg_token_pos s)\<rparr>)"

lemma sbind_token_urlsafe [op_simps]:
  "sbind token_urlsafe f s =
     f (pg_token_seq s (pg_token_pos s)) (s\<lparr>pg_token_pos := Suc (pg_token_pos s)\<rparr>)"
  by (simp add: sbind_def token_urlsafe_def)


section \<open>Column types\<close>

text \<open>
  A value for a \<^verbatim>\<open>varchar(n)\<close> column: a NUL character is refused, and so is a longer value unless
  the excess is blank, in which case it is cut.
\<close>

definition pg_varchar :: "nat \<Rightarrow> string \<Rightarrow> string result" where
  "pg_varchar n s =
     (if CHR 0x00 \<in> set s then Inl (DatabaseError ''text contains NUL'')
      else if length s \<le> n then Inr s
      else if list_all (\<lambda>c. c = CHR '' '') (drop n s) then Inr (take n s)
      else Inl (DatabaseError ''value too long''))"

text \<open>
  A \<^verbatim>\<open>timestamptz\<close> column keeps the instant, also one before year 1 or after year 9999 (which a
  \<^verbatim>\<open>datetime\<close> with an offset can denote).  Fetching a row turns its columns into \<^verbatim>\<open>datetime\<close> values in
  the time zone of the session, here UTC, and raises \<^verbatim>\<open>DataError\<close> if one of them is outside those years.
\<close>

definition pg_timestamptz :: "datetime \<Rightarrow> datetime" where
  "pg_timestamptz t = utc (instant t)"

definition times_load :: "datetime option list \<Rightarrow> bool" where
  "times_load columns \<longleftrightarrow> list_all (\<lambda>c. case c of None \<Rightarrow> True | Some t \<Rightarrow> in_range (instant t)) columns"

definition load_times :: "datetime option list \<Rightarrow> unit result" where
  "load_times columns = raise_if (\<not> times_load columns) (DatabaseError ''timestamp out of range'')"

lemma times_load_simps [simp]:
  "times_load []" "times_load (Some t # columns) \<longleftrightarrow> in_range (instant t) \<and> times_load columns"
  "times_load (None # columns) \<longleftrightarrow> times_load columns"
  "times_load (columns @ columns') \<longleftrightarrow> times_load columns \<and> times_load columns'"
  by (simp_all add: times_load_def)

lemma load_times_Inr [simp]: "load_times columns = Inr u \<longleftrightarrow> times_load columns"
  by (simp add: load_times_def)

lemma load_times_loads: "times_load columns \<Longrightarrow> load_times columns = Inr ()"
  by (simp add: load_times_def)

text \<open>\<^verbatim>\<open>GREATEST(COALESCE(column, t), t)\<close>.\<close>

definition pg_greatest :: "datetime option \<Rightarrow> datetime \<Rightarrow> datetime" where
  "pg_greatest column t =
     pg_timestamptz (dt_max (case column of None \<Rightarrow> t | Some c \<Rightarrow> c) t)"


section \<open>Statements\<close>

definition db_modify :: "(Database \<Rightarrow> Database) \<Rightarrow> unit pg_op" where
  "db_modify f = smodify (\<lambda>s. s\<lparr>pg_db := f (pg_db s)\<rparr>)"

definition db_read :: "(Database \<Rightarrow> 'a) \<Rightarrow> 'a pg_op" where
  "db_read f = sread (\<lambda>s. f (pg_db s))"

definition insert_endpoint_row :: "Endpoint \<Rightarrow> unit pg_op" where
  "insert_endpoint_row e =
     sbind (lift (pg_varchar 128 (ep_display_name e))) (\<lambda>display_name.
     sbind (lift (pg_varchar 32 (ep_architecture e))) (\<lambda>architecture.
     sbind (db_read db_endpoints) (\<lambda>rows.
     sbind (lift (raise_if (dict_get rows (ep_endpoint_id e) \<noteq> None \<or>
         list_ex (\<lambda>r. ep_identity_id r = ep_identity_id e) (dict_values rows)) UniqueViolation)) (\<lambda>_.
     db_modify (\<lambda>db. db\<lparr>db_endpoints := dict_set (ep_endpoint_id e)
       (e\<lparr>ep_display_name := display_name, ep_architecture := architecture,
          ep_enrolled_at := pg_timestamptz (ep_enrolled_at e), ep_last_receipt_at := None,
          ep_last_heartbeat_at := None\<rparr>) (db_endpoints db)\<rparr>)))))"

definition identity_row :: "EndpointIdentity \<Rightarrow> IdentityRow" where
  "identity_row i =
     EndpointIdentity.extend (i\<lparr>ei_created_at := pg_timestamptz (ei_created_at i),
         ei_revoked_at := None, ei_revocation_reason := None\<rparr>)
       (IdentityRow.fields None None None None None)"

definition insert_identity_row :: "EndpointIdentity \<Rightarrow> unit pg_op" where
  "insert_identity_row i =
     sbind (db_read db_identities) (\<lambda>rows.
     sbind (lift (raise_if (dict_get rows (ei_identity_id i) \<noteq> None \<or>
         list_ex (\<lambda>r. ei_public_key_fingerprint r = ei_public_key_fingerprint i) (dict_values rows))
       UniqueViolation)) (\<lambda>_.
     db_modify (\<lambda>db. db\<lparr>db_identities :=
       dict_set (ei_identity_id i) (identity_row i) (db_identities db)\<rparr>)))"

definition insert_grant_row :: "EnrollmentGrant \<Rightarrow> unit pg_op" where
  "insert_grant_row g =
     sbind (lift (pg_varchar 128 (eg_display_name g))) (\<lambda>display_name.
     sbind (lift (pg_varchar 256 (eg_created_by g))) (\<lambda>created_by.
     sbind (db_read db_grants) (\<lambda>rows.
     sbind (lift (raise_if (dict_get rows (eg_grant_id g) \<noteq> None \<or>
         list_ex (\<lambda>r. eg_token_sha256 r = eg_token_sha256 g) (dict_values rows)) UniqueViolation)) (\<lambda>_.
     db_modify (\<lambda>db. db\<lparr>db_grants := dict_set (eg_grant_id g)
       (g\<lparr>eg_display_name := display_name, eg_created_by := created_by,
          eg_created_at := pg_timestamptz (eg_created_at g),
          eg_expires_at := pg_timestamptz (eg_expires_at g),
          eg_consumed_at := None, eg_consumed_identity_id := None\<rparr>) (db_grants db)\<rparr>)))))"

text \<open>The update that consumes a grant returns the number of rows it changed.\<close>

definition consume_grant_row :: "uuid \<Rightarrow> datetime \<Rightarrow> uuid \<Rightarrow> nat pg_op" where
  "consume_grant_row grant_id consumed_at identity_id =
     sbind (db_read db_grants) (\<lambda>rows.
     case dict_get rows grant_id of
       Some g \<Rightarrow>
         if eg_consumed_at g = None
         then sbind (lift (raise_if
             (list_ex (\<lambda>r. eg_consumed_identity_id r = Some identity_id) (dict_values rows))
             UniqueViolation)) (\<lambda>_.
           sbind (db_modify (\<lambda>db. db\<lparr>db_grants := dict_set grant_id
             (g\<lparr>eg_consumed_at := Some (pg_timestamptz consumed_at),
                eg_consumed_identity_id := Some identity_id\<rparr>) (db_grants db)\<rparr>)) (\<lambda>_.
           sreturn 1))
         else sreturn 0
     | None \<Rightarrow> sreturn 0)"

text \<open>
  \<^verbatim>\<open>INSERT INTO message_sequences \<dots> ON CONFLICT DO UPDATE \<dots> WHERE last_sequence < EXCLUDED\<close>: true when
  a row is returned.
\<close>

definition upsert_sequence_row :: "uuid \<Rightarrow> uuid \<Rightarrow> int \<Rightarrow> bool pg_op" where
  "upsert_sequence_row identity_id boot_id sequence =
     sbind (db_read (\<lambda>db. dict_get (db_sequences db) (identity_id, boot_id))) (\<lambda>current.
     if case current of None \<Rightarrow> True | Some n \<Rightarrow> n < sequence
     then sbind (db_modify (\<lambda>db. db\<lparr>db_sequences :=
         dict_set (identity_id, boot_id) sequence (db_sequences db)\<rparr>)) (\<lambda>_. sreturn True)
     else sreturn False)"

definition observation_row :: "uuid \<Rightarrow> Observation \<Rightarrow> ObservationRow" where
  "observation_row identity_id ob =
     Observation.extend (ob\<lparr>ob_source_time := pg_timestamptz (ob_source_time ob),
         ob_received_at := pg_timestamptz (ob_received_at ob)\<rparr>)
       (ObservationRow.fields identity_id)"

definition insert_observation_row :: "uuid \<Rightarrow> Observation \<Rightarrow> unit pg_op" where
  "insert_observation_row identity_id ob =
     sbind (db_read db_observations) (\<lambda>rows.
     sbind (lift (raise_if (list_ex (\<lambda>r. ob_observation_id r = ob_observation_id ob \<or>
           ob_message_id r = ob_message_id ob \<or>
           or_identity_id r = identity_id \<and> ob_boot_id r = ob_boot_id ob \<and>
           ob_sequence r = ob_sequence ob) rows) UniqueViolation)) (\<lambda>_.
     db_modify (\<lambda>db. db\<lparr>db_observations := db_observations db @ [observation_row identity_id ob]\<rparr>)))"

text \<open>The two updates of the receipt times of an endpoint.\<close>

definition touch_row :: "bool \<Rightarrow> datetime \<Rightarrow> Endpoint \<Rightarrow> Endpoint" where
  "touch_row heartbeat received_at e =
     e\<lparr>ep_last_receipt_at := Some (pg_greatest (ep_last_receipt_at e) received_at),
       ep_last_heartbeat_at := (if heartbeat
         then Some (pg_greatest (ep_last_heartbeat_at e) received_at) else ep_last_heartbeat_at e)\<rparr>"

definition update_receipt :: "bool \<Rightarrow> uuid \<Rightarrow> datetime \<Rightarrow> unit pg_op" where
  "update_receipt heartbeat endpoint_id received_at =
     db_modify (\<lambda>db. case dict_get (db_endpoints db) endpoint_id of
       None \<Rightarrow> db
     | Some e \<Rightarrow> db\<lparr>db_endpoints :=
         dict_set endpoint_id (touch_row heartbeat received_at e) (db_endpoints db)\<rparr>)"

text \<open>
  The activation of an issued identity: true when a row was changed.  Migration 0004 has
  \<^verbatim>\<open>CHECK (activated_at >= created_at)\<close>.
\<close>

definition activate_identity_row :: "uuid \<Rightarrow> datetime \<Rightarrow> bool pg_op" where
  "activate_identity_row identity_id activated_at =
     sbind (db_read (\<lambda>db. dict_get (db_identities db) identity_id)) (\<lambda>found.
     case found of
       None \<Rightarrow> sreturn False
     | Some r \<Rightarrow>
         if ei_status r \<noteq> ISSUED then sreturn False
         else sbind (lift (raise_if (instant activated_at < instant (ei_created_at r))
             (DatabaseError ''endpoint_identities_activation_time_check''))) (\<lambda>_.
           sbind (db_modify (\<lambda>db. db\<lparr>db_identities := dict_set identity_id
             (r\<lparr>ei_status := ACTIVE, ir_activated_at := Some (pg_timestamptz activated_at)\<rparr>)
             (db_identities db)\<rparr>)) (\<lambda>_.
           sreturn True)))"

definition issue_identity_row ::
  "uuid \<Rightarrow> string \<Rightarrow> string \<Rightarrow> datetime \<Rightarrow> datetime \<Rightarrow> unit pg_op" where
  "issue_identity_row identity_id serial issuer not_before not_after =
     sbind (lift (pg_varchar 256 issuer)) (\<lambda>issuer'.
     sbind (db_read db_identities) (\<lambda>rows.
     sbind (lift (raise_if (list_ex (\<lambda>(k, r). k \<noteq> identity_id \<and>
           ir_certificate_issuer r = Some issuer' \<and> ir_certificate_serial r = Some serial) rows)
       UniqueViolation)) (\<lambda>_.
     db_modify (\<lambda>db. case dict_get (db_identities db) identity_id of
       None \<Rightarrow> db
     | Some r \<Rightarrow> db\<lparr>db_identities := dict_set identity_id
         (r\<lparr>ei_status := ISSUED, ir_certificate_serial := Some serial,
            ir_certificate_issuer := Some issuer',
            ir_certificate_not_before := Some (pg_timestamptz not_before),
            ir_certificate_not_after := Some (pg_timestamptz not_after)\<rparr>) (db_identities db)\<rparr>))))"

definition revoke_identity_row :: "uuid \<Rightarrow> datetime \<Rightarrow> string \<Rightarrow> unit pg_op" where
  "revoke_identity_row identity_id revoked_at reason =
     sbind (lift (pg_varchar 256 reason)) (\<lambda>reason'.
     db_modify (\<lambda>db. case dict_get (db_identities db) identity_id of
       None \<Rightarrow> db
     | Some r \<Rightarrow> db\<lparr>db_identities := dict_set identity_id
         (r\<lparr>ei_status := REVOKED, ei_revoked_at := Some (pg_timestamptz revoked_at),
            ei_revocation_reason := Some reason'\<rparr>) (db_identities db)\<rparr>))"

text \<open>
  \<^verbatim>\<open>jsonb\<close> keeps the last of several equal keys and refuses the escape of NUL; the row's metadata is
  the dictionary the object is read back as.
\<close>

definition pg_metadata :: "(string \<times> string) list \<Rightarrow> (string \<times> string) list result" where
  "pg_metadata metadata =
     (if list_ex (\<lambda>(k, v). CHR 0x00 \<in> set k \<or> CHR 0x00 \<in> set v) metadata
      then Inl (DatabaseError ''unsupported Unicode escape sequence'')
      else Inr (dict_of (sort metadata)))"

definition insert_audit_row :: "AuditEvent \<Rightarrow> unit pg_op" where
  "insert_audit_row ev =
     sbind (lift (pg_varchar 64 (au_actor_type ev))) (\<lambda>actor_type.
     sbind (lift (pg_varchar 256 (au_actor_id ev))) (\<lambda>actor_id.
     sbind (lift (pg_varchar 256 (au_subject ev))) (\<lambda>subject.
     sbind (lift (pg_varchar 128 (au_action ev))) (\<lambda>action.
     sbind (lift (pg_varchar 512 (au_reason ev))) (\<lambda>reason.
     sbind (lift (raise_if (au_decision ev \<notin> {''accepted'', ''rejected'', ''no_change''})
       (DatabaseError ''audit_events_decision_check''))) (\<lambda>_.
     sbind (lift (pg_metadata (au_metadata ev))) (\<lambda>metadata.
     sbind (db_read db_audit_events) (\<lambda>rows.
     sbind (lift (raise_if (list_ex (\<lambda>r. au_event_id r = au_event_id ev) rows) UniqueViolation)) (\<lambda>_.
     db_modify (\<lambda>db. db\<lparr>db_audit_events := db_audit_events db @
       [ev\<lparr>au_server_time := pg_timestamptz (au_server_time ev), au_actor_type := actor_type,
           au_actor_id := actor_id, au_subject := subject, au_action := action, au_reason := reason,
           au_metadata := metadata\<rparr>]\<rparr>))))))))))"


section \<open>Transactions\<close>

text \<open>
  \<^verbatim>\<open>with self._connect() as connection\<close>: refused during shutdown; otherwise the block runs and its
  changes are committed when it returns and rolled back when it raises.
\<close>

definition transaction :: "'a pg_op \<Rightarrow> 'a pg_op" where
  "transaction m s =
     (if pg_shutting_down s then (Inl (ValidationError ''database control plane is shutting down''), s)
      else case m s of
        (Inr x, s') \<Rightarrow> (Inr x, s')
      | (Inl e, s') \<Rightarrow> (Inl e, s'\<lparr>pg_db := pg_db s\<rparr>))"

text \<open>\<^verbatim>\<open>try: \<dots> except UniqueViolation: \<dots>\<close>.\<close>

definition on_unique_violation :: "'a pg_op \<Rightarrow> 'a pg_op \<Rightarrow> 'a pg_op" where
  "on_unique_violation m handler s =
     (case m s of (Inl UniqueViolation, s') \<Rightarrow> handler s' | r \<Rightarrow> r)"


section \<open>Reasoning about transactions\<close>

lemma wp_db [simp]:
  "wp (db_modify f) Q s \<longleftrightarrow> Q () (s\<lparr>pg_db := f (pg_db s)\<rparr>)"
  "wp (db_read g) R s \<longleftrightarrow> R (g (pg_db s)) s"
  "wp token_urlsafe P s \<longleftrightarrow> P (pg_token_seq s (pg_token_pos s)) (s\<lparr>pg_token_pos := Suc (pg_token_pos s)\<rparr>)"
  by (simp_all add: db_modify_def db_read_def wp_def token_urlsafe_def op_simps)

text \<open>Properties of the tables that an operation keeps whether it returns or raises.\<close>

abbreviation keeps :: "(Database \<Rightarrow> bool) \<Rightarrow> 'a pg_op \<Rightarrow> bool" where
  "keeps P m \<equiv> preserves (\<lambda>s. P (pg_db s)) m"

lemma transaction_keeps:
  assumes "\<And>s. P (pg_db s) \<Longrightarrow> wp m (\<lambda>_ s'. P (pg_db s')) s"
  shows "keeps P (transaction m)"
  using wp_Inr [OF assms] by (fastforce simp: preserves_def transaction_def split: prod.splits sum.splits)

lemma on_unique_violation_keeps:
  "keeps P m \<Longrightarrow> keeps P handler \<Longrightarrow> keeps P (on_unique_violation m handler)"
  by (auto simp: preserves_def on_unique_violation_def split: prod.splits sum.splits error.splits)

lemma keeps_prims:
  "keeps P (sreturn x)" "keeps P (sraise e)" "keeps P (lift r)" "keeps P (sread g)" "keeps P (db_read h)"
  "keeps P uuid4" "keeps P token_urlsafe"
  by (simp_all add: preserves_def op_simps db_read_def uuid4_def token_urlsafe_def)

lemmas keeps_intros = preserves_sbind keeps_prims on_unique_violation_keeps transaction_keeps

end
