(* ===== verification/Control_Plane.thy ===== *)
theory Control_Plane
  imports Domain
begin

text \<open>
  The in-memory control plane of \<^verbatim>\<open>control_plane.py\<close>.  The class is the record \<open>ControlPlane\<close>, which
  extends the source of random identifiers by the seven attributes of \<^verbatim>\<open>__init__\<close>; each method is an
  operation on it.  Keyword arguments are positional, in the order of the source.  Arguments that are
  instances of a dataclass have passed its \<^verbatim>\<open>__post_init__\<close>, which the theorems state as a hypothesis
  where they use it.
\<close>


section \<open>State\<close>

record ControlPlane = rng +
  cp_endpoints :: "(uuid, Endpoint) dict"
  cp_identities :: "(uuid, EndpointIdentity) dict"
  cp_fingerprints :: "(string, uuid) dict"
  cp_observations :: "Observation list"
  cp_audit_events :: "AuditEvent list"
  cp_seen_message_ids :: "uuid set"
  cp_last_sequences :: "(uuid \<times> uuid, int) dict"

definition ControlPlane_init :: "(nat \<Rightarrow> uuid) \<Rightarrow> ControlPlane" where
  "ControlPlane_init ids =
     \<lparr>rng_seq = ids, rng_pos = 0, cp_endpoints = [], cp_identities = [], cp_fingerprints = [],
      cp_observations = [], cp_audit_events = [], cp_seen_message_ids = {}, cp_last_sequences = []\<rparr>"


section \<open>Reads\<close>

definition observations :: "ControlPlane \<Rightarrow> Observation list" where
  "observations s = cp_observations s"

definition audit_events :: "ControlPlane \<Rightarrow> AuditEvent list" where
  "audit_events s = cp_audit_events s"

definition list_endpoints :: "ControlPlane \<Rightarrow> Endpoint list" where
  "list_endpoints s = sort_key (\<lambda>item. str_uuid (ep_endpoint_id item)) (dict_values (cp_endpoints s))"

text \<open>\<^verbatim>\<open>heapq.nsmallest(n, items, key)\<close> is documented as \<^verbatim>\<open>sorted(items, key=key)[:n]\<close>.\<close>

definition nsmallest :: "int \<Rightarrow> ('a \<Rightarrow> 'k::linorder) \<Rightarrow> 'a list \<Rightarrow> 'a list" where
  "nsmallest n key items = take (nat n) (sort_key key items)"

definition list_endpoint_page :: "uuid option \<Rightarrow> int \<Rightarrow> ControlPlane \<Rightarrow> Endpoint list result" where
  "list_endpoint_page after limit s =
     rbind (raise_if (\<not> (1 \<le> limit \<and> limit \<le> 1000))
       (ValidationError ''endpoint page limit is invalid'')) (\<lambda>_.
     let candidates = filter (\<lambda>endpoint. case after of
             None \<Rightarrow> True | Some cursor \<Rightarrow> ep_endpoint_id endpoint > cursor)
           (dict_values (cp_endpoints s))
     in Inr (nsmallest limit ep_endpoint_id candidates))"

definition get_endpoint :: "uuid \<Rightarrow> ControlPlane \<Rightarrow> Endpoint result" where
  "get_endpoint endpoint_id s =
     (case dict_get (cp_endpoints s) endpoint_id of
        Some e \<Rightarrow> Inr e
      | None \<Rightarrow> Inl (NotFoundError ''endpoint does not exist''))"

definition get_identity :: "uuid \<Rightarrow> ControlPlane \<Rightarrow> EndpointIdentity result" where
  "get_identity identity_id s =
     (case dict_get (cp_identities s) identity_id of
        Some i \<Rightarrow> Inr i
      | None \<Rightarrow> Inl (NotFoundError ''identity does not exist''))"

definition sget_endpoint :: "uuid \<Rightarrow> (ControlPlane, Endpoint) op" where
  "sget_endpoint endpoint_id s = (get_endpoint endpoint_id s, s)"

definition sget_identity :: "uuid \<Rightarrow> (ControlPlane, EndpointIdentity) op" where
  "sget_identity identity_id s = (get_identity identity_id s, s)"


section \<open>Audit trail\<close>

definition audit ::
  "datetime \<Rightarrow> string \<Rightarrow> string \<Rightarrow> string \<Rightarrow> string \<Rightarrow> string \<Rightarrow> string \<Rightarrow> uuid \<Rightarrow>
   (string \<times> string) list \<Rightarrow> (ControlPlane, unit) op" where
  "audit server_time actor_type actor_id subject action decision reason correlation_id metadata =
     sbind uuid4 (\<lambda>event_id.
     smodify (\<lambda>s. s\<lparr>cp_audit_events := cp_audit_events s @
       [\<lparr>au_event_id = event_id, au_server_time = server_time, au_actor_type = actor_type,
         au_actor_id = actor_id, au_subject = subject, au_action = action, au_decision = decision,
         au_reason = reason, au_correlation_id = correlation_id,
         au_metadata = sort metadata\<rparr>]\<rparr>))"

text \<open>\<open>error_type\<close> is the class of the exception; \<open>'a\<close> is free because the method never returns.\<close>

definition reject ::
  "uuid \<Rightarrow> uuid \<Rightarrow> string \<Rightarrow> string \<Rightarrow> uuid \<Rightarrow> datetime \<Rightarrow> (string \<Rightarrow> error) \<Rightarrow> (ControlPlane, 'a) op" where
  "reject identity_id endpoint_id action reason correlation_id received_at error_type =
     sbind (audit received_at ''endpoint_identity'' (str_uuid identity_id)
       (''endpoint:'' @ str_uuid endpoint_id) action ''rejected'' reason correlation_id []) (\<lambda>_.
     sraise (error_type reason))"

definition acceptance_metadata :: "Observation \<Rightarrow> (string \<times> string) list" where
  "acceptance_metadata ob =
     [(''message_id'', str_uuid (ob_message_id ob)),
      (''payload_digest'', ob_payload_digest ob),
      (''sequence'', str_int (ob_sequence ob))]"

definition audit_acceptance :: "EndpointIdentity \<Rightarrow> Observation \<Rightarrow> uuid \<Rightarrow> (ControlPlane, unit) op" where
  "audit_acceptance identity ob correlation_id =
     audit (ob_received_at ob) ''endpoint_identity'' (str_uuid (ei_identity_id identity))
       (''endpoint:'' @ str_uuid (ei_endpoint_id identity)) (ob_observation_type ob @ ''.ingest'')
       ''accepted'' ''message contract and authorization checks passed'' correlation_id
       (acceptance_metadata ob)"

definition check_operator_access ::
  "string \<Rightarrow> string \<Rightarrow> string \<Rightarrow> string \<Rightarrow> string \<Rightarrow> datetime \<Rightarrow> (string \<times> string) list \<Rightarrow> unit result" where
  "check_operator_access actor_id subject action decision reason now metadata =
     rbind (require_aware now ''now'') (\<lambda>_.
     rbind (raise_if (empty_or_longer actor_id 512)
       (ValidationError ''operator audit actor is invalid'')) (\<lambda>_.
     rbind (raise_if (empty_or_longer subject 512)
       (ValidationError ''operator audit subject is invalid'')) (\<lambda>_.
     rbind (raise_if (empty_or_longer action 128)
       (ValidationError ''operator audit action is invalid'')) (\<lambda>_.
     rbind (raise_if (decision \<notin> {''accepted'', ''rejected''})
       (ValidationError ''operator audit decision is invalid'')) (\<lambda>_.
     rbind (raise_if (empty_or_longer reason 512)
       (ValidationError ''operator audit reason is invalid'')) (\<lambda>_.
     raise_if (length metadata > 8 \<or>
         list_ex (\<lambda>(key, value). empty_or_longer key 64 \<or> length value > 512) metadata)
       (ValidationError ''operator audit metadata is invalid'')))))))"

definition record_operator_access ::
  "string \<Rightarrow> string \<Rightarrow> string \<Rightarrow> string \<Rightarrow> string \<Rightarrow> uuid \<Rightarrow> datetime \<Rightarrow> (string \<times> string) list \<Rightarrow>
   (ControlPlane, unit) op" where
  "record_operator_access actor_id subject action decision reason correlation_id now metadata =
     sbind (lift (check_operator_access actor_id subject action decision reason now metadata)) (\<lambda>_.
     audit now ''human_operator'' actor_id subject action decision reason correlation_id metadata)"


section \<open>Enrollment\<close>

definition enroll_synthetic_endpoint ::
  "string \<Rightarrow> Platform \<Rightarrow> string \<Rightarrow> string \<Rightarrow> datetime \<Rightarrow> string \<Rightarrow>
   (ControlPlane, Endpoint \<times> EndpointIdentity) op" where
  "enroll_synthetic_endpoint display_name platform architecture fingerprint now actor_id =
     sbind (lift (require_aware now ''now'')) (\<lambda>_.
     sbind (sread cp_fingerprints) (\<lambda>fingerprints.
     sbind (lift (raise_if (dict_get fingerprints fingerprint \<noteq> None)
       (ValidationError ''fingerprint is already enrolled''))) (\<lambda>_.
     sbind uuid4 (\<lambda>endpoint_id.
     sbind uuid4 (\<lambda>identity_id.
     sbind (lift (EndpointIdentity_post_init
       \<lparr>ei_identity_id = identity_id, ei_endpoint_id = endpoint_id,
        ei_public_key_fingerprint = fingerprint, ei_created_at = now, ei_status = ACTIVE,
        ei_revoked_at = None, ei_revocation_reason = None\<rparr>)) (\<lambda>identity.
     sbind (lift (Endpoint_post_init
       \<lparr>ep_endpoint_id = endpoint_id, ep_display_name = display_name, ep_platform = platform,
        ep_architecture = architecture, ep_identity_id = identity_id, ep_enrolled_at = now,
        ep_last_receipt_at = None, ep_last_heartbeat_at = None\<rparr>)) (\<lambda>endpoint.
     sbind (smodify (\<lambda>s. s\<lparr>cp_identities := dict_set identity_id identity (cp_identities s)\<rparr>)) (\<lambda>_.
     sbind (smodify (\<lambda>s. s\<lparr>cp_endpoints := dict_set endpoint_id endpoint (cp_endpoints s)\<rparr>)) (\<lambda>_.
     sbind (smodify (\<lambda>s. s\<lparr>cp_fingerprints := dict_set fingerprint identity_id (cp_fingerprints s)\<rparr>)) (\<lambda>_.
     sbind uuid4 (\<lambda>correlation_id.
     sbind (audit now ''operator'' actor_id (''endpoint:'' @ str_uuid endpoint_id) ''endpoint.enroll''
       ''accepted'' ''synthetic Phase 1 enrollment'' correlation_id
       [(''identity_id'', str_uuid identity_id)]) (\<lambda>_.
     sreturn (endpoint, identity)))))))))))))"


section \<open>Message ingestion\<close>

definition authorize_message ::
  "uuid \<Rightarrow> uuid \<Rightarrow> uuid \<Rightarrow> uuid \<Rightarrow> int \<Rightarrow> datetime \<Rightarrow> datetime \<Rightarrow> uuid \<Rightarrow> datetime \<Rightarrow> string \<Rightarrow>
   (ControlPlane, EndpointIdentity) op" where
  "authorize_message authenticated_identity_id endpoint_id message_id boot_id sequence created_at
       expires_at correlation_id received_at action =
     sbind (lift (require_aware received_at ''received_at'')) (\<lambda>_.
     sbind (sread (\<lambda>s. dict_get (cp_identities s) authenticated_identity_id)) (\<lambda>found.
     case found of
       None \<Rightarrow> reject authenticated_identity_id endpoint_id action
         ''unknown authenticated identity'' correlation_id received_at AuthorizationError
     | Some identity \<Rightarrow>
     if ei_revoked_at identity \<noteq> None
     then reject authenticated_identity_id (ei_endpoint_id identity) action
       ''authenticated identity is revoked'' correlation_id received_at AuthorizationError
     else if endpoint_id \<noteq> ei_endpoint_id identity
     then reject authenticated_identity_id endpoint_id action
       ''message endpoint does not match transport identity'' correlation_id received_at
       AuthorizationError
     else sbind (lift (dt_add received_at MAX_CLOCK_SKEW)) (\<lambda>latest.
     if instant created_at > instant latest
     then reject authenticated_identity_id (ei_endpoint_id identity) action
       ''message creation time exceeds allowed clock skew'' correlation_id received_at ValidationError
     else if instant received_at \<ge> instant expires_at
     then reject authenticated_identity_id (ei_endpoint_id identity) action
       ''message expired before receipt'' correlation_id received_at ValidationError
     else sbind (sread cp_seen_message_ids) (\<lambda>seen.
     if message_id \<in> seen
     then reject authenticated_identity_id (ei_endpoint_id identity) action
       ''message ID replayed'' correlation_id received_at ReplayError
     else sbind (sread (\<lambda>s. case dict_get (cp_last_sequences s) (authenticated_identity_id, boot_id) of
         Some n \<Rightarrow> n | None \<Rightarrow> 0)) (\<lambda>previous.
     if sequence \<le> previous
     then reject authenticated_identity_id (ei_endpoint_id identity) action
       ''boot sequence replayed or out of order'' correlation_id received_at ReplayError
     else sreturn identity)))))"

definition accept_message :: "uuid \<Rightarrow> uuid \<Rightarrow> Observation \<Rightarrow> (ControlPlane, unit) op" where
  "accept_message identity_id boot_id ob =
     smodify (\<lambda>s. s\<lparr>cp_seen_message_ids := insert (ob_message_id ob) (cp_seen_message_ids s),
       cp_last_sequences := dict_set (identity_id, boot_id) (ob_sequence ob) (cp_last_sequences s),
       cp_observations := cp_observations s @ [ob]\<rparr>)"

text \<open>\<^verbatim>\<open>max(received_at, previous or received_at)\<close>.\<close>

definition latest :: "datetime \<Rightarrow> datetime option \<Rightarrow> datetime" where
  "latest received_at previous =
     dt_max received_at (case previous of Some t \<Rightarrow> t | None \<Rightarrow> received_at)"

definition ingest_heartbeat ::
  "uuid \<Rightarrow> HeartbeatMessage \<Rightarrow> datetime \<Rightarrow> (ControlPlane, Observation) op" where
  "ingest_heartbeat authenticated_identity_id message received_at =
     (let env = hm_envelope message in
     sbind (authorize_message authenticated_identity_id (me_endpoint_id env) (me_message_id env)
       (me_boot_id env) (me_sequence env) (me_created_at env) (me_expires_at env)
       (me_correlation_id env) received_at ''heartbeat.ingest'') (\<lambda>identity.
     sbind uuid4 (\<lambda>observation_id.
     sbind (lift (Observation_post_init
       \<lparr>ob_observation_id = observation_id, ob_endpoint_id = ei_endpoint_id identity,
        ob_message_id = me_message_id env, ob_observation_type = ''heartbeat'',
        ob_schema_version = 1, ob_source_time = me_created_at env, ob_received_at = received_at,
        ob_boot_id = me_boot_id env, ob_sequence = me_sequence env,
        ob_payload_digest = heartbeat_digest (hm_payload message),
        ob_encoded_message_digest = None\<rparr>)) (\<lambda>observation.
     sbind (accept_message authenticated_identity_id (me_boot_id env) observation) (\<lambda>_.
     sbind (sget_endpoint (ei_endpoint_id identity)) (\<lambda>endpoint.
     sbind (lift (Endpoint_post_init
       (endpoint\<lparr>ep_last_receipt_at := Some (latest received_at (ep_last_receipt_at endpoint)),
         ep_last_heartbeat_at := Some (latest received_at (ep_last_heartbeat_at endpoint))\<rparr>))) (\<lambda>updated.
     sbind (smodify (\<lambda>s. s\<lparr>cp_endpoints :=
       dict_set (ep_endpoint_id endpoint) updated (cp_endpoints s)\<rparr>)) (\<lambda>_.
     sbind (audit_acceptance identity observation (me_correlation_id env)) (\<lambda>_.
     sreturn observation)))))))))"

definition ingest_inventory ::
  "uuid \<Rightarrow> InventoryMessage \<Rightarrow> datetime \<Rightarrow> (ControlPlane, Observation) op" where
  "ingest_inventory authenticated_identity_id message received_at =
     (let env = im_envelope message; payload = im_payload message in
     sbind (authorize_message authenticated_identity_id (me_endpoint_id env) (me_message_id env)
       (me_boot_id env) (me_sequence env) (me_created_at env) (me_expires_at env)
       (me_correlation_id env) received_at ''inventory.ingest'') (\<lambda>identity.
     sbind (sget_endpoint (ei_endpoint_id identity)) (\<lambda>endpoint.
     sbind (if ip_platform payload \<noteq> ep_platform endpoint \<or>
              ip_architecture payload \<noteq> ep_architecture endpoint
       then reject authenticated_identity_id (ei_endpoint_id identity) ''inventory.ingest''
         ''inventory binding does not match enrolled endpoint'' (me_correlation_id env) received_at
         ValidationError
       else sreturn ()) (\<lambda>_.
     sbind uuid4 (\<lambda>observation_id.
     sbind (lift (Observation_post_init
       \<lparr>ob_observation_id = observation_id, ob_endpoint_id = ei_endpoint_id identity,
        ob_message_id = me_message_id env, ob_observation_type = ''inventory'',
        ob_schema_version = ip_schema_version payload, ob_source_time = me_created_at env,
        ob_received_at = received_at, ob_boot_id = me_boot_id env, ob_sequence = me_sequence env,
        ob_payload_digest = inventory_digest payload, ob_encoded_message_digest = None\<rparr>)) (\<lambda>observation.
     sbind (accept_message authenticated_identity_id (me_boot_id env) observation) (\<lambda>_.
     sbind (lift (Endpoint_post_init
       (endpoint\<lparr>ep_last_receipt_at := Some (latest received_at (ep_last_receipt_at endpoint))\<rparr>))) (\<lambda>updated.
     sbind (smodify (\<lambda>s. s\<lparr>cp_endpoints :=
       dict_set (ep_endpoint_id endpoint) updated (cp_endpoints s)\<rparr>)) (\<lambda>_.
     sbind (audit_acceptance identity observation (me_correlation_id env)) (\<lambda>_.
     sreturn observation))))))))))"


section \<open>Status\<close>

definition derive_health :: "datetime option \<Rightarrow> datetime \<Rightarrow> FreshnessPolicy \<Rightarrow> EndpointHealth" where
  "derive_health last_heartbeat now freshness =
     (case last_heartbeat of
        None \<Rightarrow> OFFLINE
      | Some t \<Rightarrow>
          let age = max (instant now - instant t) 0 in
          if age \<le> fp_online_for freshness then ONLINE
          else if age \<le> fp_stale_for freshness then STALE
          else OFFLINE)"

definition endpoint_status ::
  "uuid \<Rightarrow> datetime \<Rightarrow> FreshnessPolicy option \<Rightarrow> ControlPlane \<Rightarrow> EndpointStatus result" where
  "endpoint_status endpoint_id now policy s =
     rbind (require_aware now ''now'') (\<lambda>_.
     rbind (get_endpoint endpoint_id s) (\<lambda>endpoint.
     rbind (get_identity (ep_identity_id endpoint) s) (\<lambda>identity.
     let freshness = (case policy of Some p \<Rightarrow> p | None \<Rightarrow> default_policy) in
     Inr \<lparr>es_endpoint_id = endpoint_id, es_lifecycle = ei_lifecycle identity,
          es_health = derive_health (ep_last_heartbeat_at endpoint) now freshness,
          es_last_heartbeat_at = ep_last_heartbeat_at endpoint\<rparr>)))"


section \<open>Revocation\<close>

definition revoke_identity ::
  "uuid \<Rightarrow> string \<Rightarrow> string \<Rightarrow> datetime \<Rightarrow> uuid option \<Rightarrow> (ControlPlane, EndpointIdentity) op" where
  "revoke_identity identity_id reason actor_id now correlation_id =
     sbind (lift (require_aware now ''now'')) (\<lambda>_.
     sbind (lift (raise_if (empty_or_longer reason 256)
       (ValidationError ''revocation reason is empty or too long''))) (\<lambda>_.
     sbind (sget_identity identity_id) (\<lambda>identity.
     sbind (case correlation_id of Some c \<Rightarrow> sreturn c | None \<Rightarrow> uuid4) (\<lambda>event_correlation_id.
     if ei_revoked_at identity \<noteq> None
     then sbind (audit now ''operator'' actor_id (''identity:'' @ str_uuid identity_id)
         ''identity.revoke'' ''no_change'' ''identity already revoked'' event_correlation_id []) (\<lambda>_.
       sreturn identity)
     else sbind (lift (EndpointIdentity_post_init
         (identity\<lparr>ei_status := REVOKED, ei_revoked_at := Some now,
           ei_revocation_reason := Some reason\<rparr>))) (\<lambda>revoked.
       sbind (smodify (\<lambda>s. s\<lparr>cp_identities := dict_set identity_id revoked (cp_identities s)\<rparr>)) (\<lambda>_.
       sbind (audit now ''operator'' actor_id (''identity:'' @ str_uuid identity_id)
         ''identity.revoke'' ''accepted'' reason event_correlation_id []) (\<lambda>_.
       sreturn revoked)))))))"


section \<open>What each operation does\<close>

text \<open>The state after one audit event.\<close>

definition with_event :: "AuditEvent \<Rightarrow> ControlPlane \<Rightarrow> ControlPlane" where
  "with_event ev s = s\<lparr>rng_pos := Suc (rng_pos s), cp_audit_events := cp_audit_events s @ [ev]\<rparr>"

lemma with_event_sel [simp]:
  "cp_endpoints (with_event ev s) = cp_endpoints s"
  "cp_identities (with_event ev s) = cp_identities s"
  "cp_fingerprints (with_event ev s) = cp_fingerprints s"
  "cp_observations (with_event ev s) = cp_observations s"
  "cp_audit_events (with_event ev s) = cp_audit_events s @ [ev]"
  "cp_seen_message_ids (with_event ev s) = cp_seen_message_ids s"
  "cp_last_sequences (with_event ev s) = cp_last_sequences s"
  "rng_seq (with_event ev s) = rng_seq s"
  "rng_pos (with_event ev s) = Suc (rng_pos s)"
  by (simp_all add: with_event_def)

lemma audit_eq [op_simps]:
  "audit t ty ai su ac de re co me s =
     (Inr (), with_event \<lparr>au_event_id = rng_seq s (rng_pos s), au_server_time = t, au_actor_type = ty,
        au_actor_id = ai, au_subject = su, au_action = ac, au_decision = de, au_reason = re,
        au_correlation_id = co, au_metadata = sort me\<rparr> s)"
  by (simp add: audit_def op_simps with_event_def)

definition rejection :: "uuid \<Rightarrow> uuid \<Rightarrow> uuid \<Rightarrow> string \<Rightarrow> string \<Rightarrow> uuid \<Rightarrow> datetime \<Rightarrow> AuditEvent" where
  "rejection event_id identity_id endpoint_id action reason correlation_id t =
     \<lparr>au_event_id = event_id, au_server_time = t, au_actor_type = ''endpoint_identity'',
      au_actor_id = str_uuid identity_id, au_subject = ''endpoint:'' @ str_uuid endpoint_id,
      au_action = action, au_decision = ''rejected'', au_reason = reason,
      au_correlation_id = correlation_id, au_metadata = []\<rparr>"

lemma rejection_sel [simp]:
  "au_actor_type (rejection v k e a r c t) = ''endpoint_identity''"
  "au_decision (rejection v k e a r c t) = ''rejected''"
  "au_action (rejection v k e a r c t) = a"
  "au_reason (rejection v k e a r c t) = r"
  "au_server_time (rejection v k e a r c t) = t"
  "au_metadata (rejection v k e a r c t) = []"
  by (simp_all add: rejection_def)

lemma reject_eq [op_simps]:
  "reject k e a r c t ty s = (Inl (ty r), with_event (rejection (rng_seq s (rng_pos s)) k e a r c t) s)"
  by (simp add: reject_def op_simps rejection_def)

definition previous_sequence :: "uuid \<Rightarrow> uuid \<Rightarrow> ControlPlane \<Rightarrow> int" where
  "previous_sequence identity_id boot_id s =
     (case dict_get (cp_last_sequences s) (identity_id, boot_id) of Some n \<Rightarrow> n | None \<Rightarrow> 0)"

text \<open>
  The conditions under which a message is authorised, as one predicate: the reference against which
  the cascade of tests in \<^const>\<open>authorize_message\<close> is checked.
\<close>

definition message_authorized ::
  "uuid \<Rightarrow> MessageEnvelope \<Rightarrow> datetime \<Rightarrow> ControlPlane \<Rightarrow> bool" where
  "message_authorized k env t s \<longleftrightarrow>
     is_aware t \<and> in_range (wall t + MAX_CLOCK_SKEW) \<and>
     instant (me_created_at env) \<le> instant t + MAX_CLOCK_SKEW \<and>
     instant t < instant (me_expires_at env) \<and>
     me_message_id env \<notin> cp_seen_message_ids s \<and>
     previous_sequence k (me_boot_id env) s < me_sequence env \<and>
     (case dict_get (cp_identities s) k of
        None \<Rightarrow> False
      | Some i \<Rightarrow> ei_revoked_at i = None \<and> me_endpoint_id env = ei_endpoint_id i)"

abbreviation authorize_envelope ::
  "uuid \<Rightarrow> MessageEnvelope \<Rightarrow> datetime \<Rightarrow> string \<Rightarrow> (ControlPlane, EndpointIdentity) op" where
  "authorize_envelope k env t a \<equiv>
     authorize_message k (me_endpoint_id env) (me_message_id env) (me_boot_id env) (me_sequence env)
       (me_created_at env) (me_expires_at env) (me_correlation_id env) t a"

text \<open>A refused message changes nothing, or leaves exactly one event with the reason of the refusal.\<close>

definition refused :: "string \<Rightarrow> datetime \<Rightarrow> error \<Rightarrow> ControlPlane \<Rightarrow> ControlPlane \<Rightarrow> bool" where
  "refused action t e s s' \<longleftrightarrow>
     s' = s \<and> (\<not> is_aware t \<or> \<not> in_range (wall t + MAX_CLOCK_SKEW)) \<or>
     (\<exists>k endpoint_id reason c.
        s' = with_event (rejection (rng_seq s (rng_pos s)) k endpoint_id action reason c t) s \<and>
        e \<in> {ValidationError reason, AuthorizationError reason, ReplayError reason})"

lemma dt_add_skew: "in_range (wall t + d) \<Longrightarrow> dt_add t d = Inr (t\<lparr>wall := wall t + d\<rparr>)"
  by (simp add: dt_add_def)

lemma instant_wall [simp]: "instant (t\<lparr>wall := wall t + d\<rparr>) = instant t + d"
  by (simp add: instant_def)

lemma authorize_accepts:
  assumes "message_authorized k env t s"
  shows "\<exists>i. dict_get (cp_identities s) k = Some i \<and> authorize_envelope k env t a s = (Inr i, s)"
  using assms
  by (auto simp: message_authorized_def authorize_message_def op_simps require_aware_aware dt_add_skew
      previous_sequence_def split: option.splits)

lemma require_aware_cases: "is_aware t \<and> require_aware t f = Inr () \<or> \<not> is_aware t \<and> (\<exists>m. require_aware t f = Inl (ValidationError m))"
  by (auto simp: require_aware_def is_aware_def split: tzinfo.splits)

lemma refused_reject:
  "refused a t (ValidationError r) s (with_event (rejection (rng_seq s (rng_pos s)) k e a r c t) s)"
  "refused a t (AuthorizationError r) s (with_event (rejection (rng_seq s (rng_pos s)) k e a r c t) s)"
  "refused a t (ReplayError r) s (with_event (rejection (rng_seq s (rng_pos s)) k e a r c t) s)"
  by (auto simp: refused_def)

lemma refused_early: "\<not> is_aware t \<or> \<not> in_range (wall t + MAX_CLOCK_SKEW) \<Longrightarrow> refused a t e s s"
  by (auto simp: refused_def)

lemma authorize_refuses:
  assumes "\<not> message_authorized k env t s"
  shows "\<exists>e s'. authorize_envelope k env t a s = (Inl e, s') \<and> refused a t e s s'"
proof (cases "is_aware t \<and> in_range (wall t + MAX_CLOCK_SKEW)")
  case True
  then show ?thesis
    using assms
    by (simp add: message_authorized_def authorize_message_def op_simps dt_add_skew refused_reject
        previous_sequence_def require_aware_aware split: option.split) (auto split: option.splits)
next
  case False
  then show ?thesis
    using require_aware_cases [of t "''received_at''"]
    by (auto simp: authorize_message_def op_simps refused_reject refused_early dt_add_def split: option.split)
qed

text \<open>The state after an accepted message, its endpoint's record and its audit event.\<close>

definition ingested :: "uuid \<Rightarrow> Observation \<Rightarrow> Endpoint \<Rightarrow> AuditEvent \<Rightarrow> ControlPlane \<Rightarrow> ControlPlane" where
  "ingested k ob e ev s =
     s\<lparr>rng_pos := Suc (Suc (rng_pos s)),
       cp_endpoints := dict_set (ep_endpoint_id e) e (cp_endpoints s),
       cp_observations := cp_observations s @ [ob],
       cp_audit_events := cp_audit_events s @ [ev],
       cp_seen_message_ids := insert (ob_message_id ob) (cp_seen_message_ids s),
       cp_last_sequences := dict_set (k, ob_boot_id ob) (ob_sequence ob) (cp_last_sequences s)\<rparr>"

lemma ingested_sel [simp]:
  "cp_endpoints (ingested k ob e ev s) = dict_set (ep_endpoint_id e) e (cp_endpoints s)"
  "cp_identities (ingested k ob e ev s) = cp_identities s"
  "cp_fingerprints (ingested k ob e ev s) = cp_fingerprints s"
  "cp_observations (ingested k ob e ev s) = cp_observations s @ [ob]"
  "cp_audit_events (ingested k ob e ev s) = cp_audit_events s @ [ev]"
  "cp_seen_message_ids (ingested k ob e ev s) = insert (ob_message_id ob) (cp_seen_message_ids s)"
  "cp_last_sequences (ingested k ob e ev s) =
     dict_set (k, ob_boot_id ob) (ob_sequence ob) (cp_last_sequences s)"
  "rng_seq (ingested k ob e ev s) = rng_seq s"
  by (simp_all add: ingested_def)

definition acceptance :: "uuid \<Rightarrow> EndpointIdentity \<Rightarrow> Observation \<Rightarrow> uuid \<Rightarrow> AuditEvent" where
  "acceptance event_id i ob c =
     \<lparr>au_event_id = event_id, au_server_time = ob_received_at ob, au_actor_type = ''endpoint_identity'',
      au_actor_id = str_uuid (ei_identity_id i), au_subject = ''endpoint:'' @ str_uuid (ei_endpoint_id i),
      au_action = ob_observation_type ob @ ''.ingest'', au_decision = ''accepted'',
      au_reason = ''message contract and authorization checks passed'', au_correlation_id = c,
      au_metadata = sort (acceptance_metadata ob)\<rparr>"

lemma acceptance_sel [simp]:
  "au_server_time (acceptance v i ob c) = ob_received_at ob"
  "au_actor_type (acceptance v i ob c) = ''endpoint_identity''"
  "au_actor_id (acceptance v i ob c) = str_uuid (ei_identity_id i)"
  "au_subject (acceptance v i ob c) = ''endpoint:'' @ str_uuid (ei_endpoint_id i)"
  "au_action (acceptance v i ob c) = ob_observation_type ob @ ''.ingest''"
  "au_decision (acceptance v i ob c) = ''accepted''"
  "au_correlation_id (acceptance v i ob c) = c"
  "au_metadata (acceptance v i ob c) = sort (acceptance_metadata ob)"
  by (simp_all add: acceptance_def)

definition heartbeat_observation ::
  "uuid \<Rightarrow> EndpointIdentity \<Rightarrow> HeartbeatMessage \<Rightarrow> datetime \<Rightarrow> Observation" where
  "heartbeat_observation v i m t =
     \<lparr>ob_observation_id = v, ob_endpoint_id = ei_endpoint_id i,
      ob_message_id = me_message_id (hm_envelope m), ob_observation_type = ''heartbeat'',
      ob_schema_version = 1, ob_source_time = me_created_at (hm_envelope m), ob_received_at = t,
      ob_boot_id = me_boot_id (hm_envelope m), ob_sequence = me_sequence (hm_envelope m),
      ob_payload_digest = heartbeat_digest (hm_payload m), ob_encoded_message_digest = None\<rparr>"

definition inventory_observation ::
  "uuid \<Rightarrow> EndpointIdentity \<Rightarrow> InventoryMessage \<Rightarrow> datetime \<Rightarrow> Observation" where
  "inventory_observation v i m t =
     \<lparr>ob_observation_id = v, ob_endpoint_id = ei_endpoint_id i,
      ob_message_id = me_message_id (im_envelope m), ob_observation_type = ''inventory'',
      ob_schema_version = ip_schema_version (im_payload m),
      ob_source_time = me_created_at (im_envelope m), ob_received_at = t,
      ob_boot_id = me_boot_id (im_envelope m), ob_sequence = me_sequence (im_envelope m),
      ob_payload_digest = inventory_digest (im_payload m), ob_encoded_message_digest = None\<rparr>"

lemmas observation_defs = heartbeat_observation_def inventory_observation_def

lemma ob_sel [simp]:
  "ob_endpoint_id (heartbeat_observation v i m t) = ei_endpoint_id i"
  "ob_message_id (heartbeat_observation v i m t) = me_message_id (hm_envelope m)"
  "ob_observation_type (heartbeat_observation v i m t) = ''heartbeat''"
  "ob_received_at (heartbeat_observation v i m t) = t"
  "ob_boot_id (heartbeat_observation v i m t) = me_boot_id (hm_envelope m)"
  "ob_sequence (heartbeat_observation v i m t) = me_sequence (hm_envelope m)"
  "ob_endpoint_id (inventory_observation v i n t) = ei_endpoint_id i"
  "ob_message_id (inventory_observation v i n t) = me_message_id (im_envelope n)"
  "ob_observation_type (inventory_observation v i n t) = ''inventory''"
  "ob_received_at (inventory_observation v i n t) = t"
  "ob_boot_id (inventory_observation v i n t) = me_boot_id (im_envelope n)"
  "ob_sequence (inventory_observation v i n t) = me_sequence (im_envelope n)"
  by (simp_all add: observation_defs)

section \<open>Invariant\<close>

text \<open>
  \<^item> \<open>dicts_ok\<close>: every dictionary has one entry per key.
  \<^item> \<open>links_ok\<close>: endpoints and identities point at each other one to one, under their own identifiers,
    every stored value is a constructed one, and \<^verbatim>\<open>_fingerprints\<close> is the index of the identities by
    fingerprint.
  \<^item> \<open>history_ok\<close>: the observations have distinct message identifiers, \<^verbatim>\<open>_seen_message_ids\<close> is their
    set, they belong to enrolled endpoints, and within one endpoint and boot their sequence numbers
    increase strictly.
  \<^item> \<open>sequences_ok\<close>: \<^verbatim>\<open>_last_sequences\<close> bounds the sequence numbers of the history.
  \<^item> \<open>receipts_ok\<close>: the receipt times kept with an endpoint are the latest ones of its history.
  \<^item> \<open>trail_ok\<close>: the acceptance events of the audit trail are the observations, in their order.
\<close>

definition dicts_ok :: "ControlPlane \<Rightarrow> bool" where
  "dicts_ok s \<longleftrightarrow> dict_ok (cp_endpoints s) \<and> dict_ok (cp_identities s) \<and> dict_ok (cp_fingerprints s) \<and>
     dict_ok (cp_last_sequences s)"

definition links_ok :: "ControlPlane \<Rightarrow> bool" where
  "links_ok s \<longleftrightarrow>
     (\<forall>k e. dict_get (cp_endpoints s) k = Some e \<longrightarrow>
        ep_endpoint_id e = k \<and> endpoint_ok e \<and>
        (\<exists>i. dict_get (cp_identities s) (ep_identity_id e) = Some i \<and> ei_endpoint_id i = k)) \<and>
     (\<forall>k i. dict_get (cp_identities s) k = Some i \<longrightarrow>
        ei_identity_id i = k \<and> identity_ok i \<and>
        dict_get (cp_fingerprints s) (ei_public_key_fingerprint i) = Some k \<and>
        (\<exists>e. dict_get (cp_endpoints s) (ei_endpoint_id i) = Some e \<and> ep_identity_id e = k)) \<and>
     (\<forall>f k. dict_get (cp_fingerprints s) f = Some k \<longrightarrow>
        (\<exists>i. dict_get (cp_identities s) k = Some i \<and> ei_public_key_fingerprint i = f))"

definition same_stream :: "Observation \<Rightarrow> Observation \<Rightarrow> bool" where
  "same_stream a b \<longleftrightarrow> ob_endpoint_id a = ob_endpoint_id b \<and> ob_boot_id a = ob_boot_id b"

definition history_ok :: "ControlPlane \<Rightarrow> bool" where
  "history_ok s \<longleftrightarrow>
     distinct (map ob_message_id (cp_observations s)) \<and>
     cp_seen_message_ids s = ob_message_id ` set (cp_observations s) \<and>
     (\<forall>ob\<in>set (cp_observations s).
        observation_ok ob \<and> dict_get (cp_endpoints s) (ob_endpoint_id ob) \<noteq> None) \<and>
     sorted_wrt (\<lambda>a b. same_stream a b \<longrightarrow> ob_sequence a < ob_sequence b) (cp_observations s)"

definition sequences_ok :: "ControlPlane \<Rightarrow> bool" where
  "sequences_ok s \<longleftrightarrow>
     (\<forall>k b n. dict_get (cp_last_sequences s) (k, b) = Some n \<longrightarrow>
        (\<exists>i. dict_get (cp_identities s) k = Some i \<and>
           (\<exists>ob\<in>set (cp_observations s). ob_endpoint_id ob = ei_endpoint_id i \<and> ob_boot_id ob = b \<and>
              ob_sequence ob = n))) \<and>
     (\<forall>ob\<in>set (cp_observations s). \<forall>k i. dict_get (cp_identities s) k = Some i \<longrightarrow>
        ei_endpoint_id i = ob_endpoint_id ob \<longrightarrow>
        (\<exists>n. dict_get (cp_last_sequences s) (k, ob_boot_id ob) = Some n \<and> ob_sequence ob \<le> n))"

definition latest_of :: "datetime list \<Rightarrow> datetime option \<Rightarrow> bool" where
  "latest_of ts v \<longleftrightarrow>
     (case v of
        None \<Rightarrow> ts = []
      | Some t \<Rightarrow> t \<in> set ts \<and> (\<forall>t'\<in>set ts. instant t' \<le> instant t))"

definition receipts :: "uuid \<Rightarrow> Observation list \<Rightarrow> datetime list" where
  "receipts k obs = map ob_received_at (filter (\<lambda>ob. ob_endpoint_id ob = k) obs)"

definition heartbeats :: "Observation list \<Rightarrow> Observation list" where
  "heartbeats obs = filter (\<lambda>ob. ob_observation_type ob = ''heartbeat'') obs"

definition receipts_ok :: "ControlPlane \<Rightarrow> bool" where
  "receipts_ok s \<longleftrightarrow>
     (\<forall>k e. dict_get (cp_endpoints s) k = Some e \<longrightarrow>
        latest_of (receipts k (cp_observations s)) (ep_last_receipt_at e) \<and>
        latest_of (receipts k (heartbeats (cp_observations s))) (ep_last_heartbeat_at e))"

definition is_acceptance :: "AuditEvent \<Rightarrow> bool" where
  "is_acceptance ev \<longleftrightarrow> au_actor_type ev = ''endpoint_identity'' \<and> au_decision ev = ''accepted''"

definition event_facts :: "AuditEvent \<Rightarrow> datetime \<times> string \<times> string \<times> (string \<times> string) list" where
  "event_facts ev = (au_server_time ev, au_subject ev, au_action ev, au_metadata ev)"

definition observation_facts :: "Observation \<Rightarrow> datetime \<times> string \<times> string \<times> (string \<times> string) list" where
  "observation_facts ob =
     (ob_received_at ob, ''endpoint:'' @ str_uuid (ob_endpoint_id ob), ob_observation_type ob @ ''.ingest'',
      acceptance_metadata ob)"

definition trail_ok :: "ControlPlane \<Rightarrow> bool" where
  "trail_ok s \<longleftrightarrow>
     map event_facts (filter is_acceptance (cp_audit_events s)) = map observation_facts (cp_observations s)"

definition cp_inv :: "ControlPlane \<Rightarrow> bool" where
  "cp_inv s \<longleftrightarrow> dicts_ok s \<and> links_ok s \<and> history_ok s \<and> sequences_ok s \<and> receipts_ok s \<and> trail_ok s"

lemmas inv_defs = dicts_ok_def links_ok_def history_ok_def sequences_ok_def receipts_ok_def trail_ok_def

lemma cp_invD:
  assumes "cp_inv s"
  shows "dicts_ok s" "links_ok s" "history_ok s" "sequences_ok s" "receipts_ok s" "trail_ok s"
  using assms by (simp_all add: cp_inv_def)

lemma links_okD:
  assumes "links_ok s"
  shows "dict_get (cp_endpoints s) k = Some e \<Longrightarrow>
      ep_endpoint_id e = k \<and> endpoint_ok e \<and>
      (\<exists>i. dict_get (cp_identities s) (ep_identity_id e) = Some i \<and> ei_endpoint_id i = k)"
    and "dict_get (cp_identities s) k = Some i \<Longrightarrow>
      ei_identity_id i = k \<and> identity_ok i \<and>
      dict_get (cp_fingerprints s) (ei_public_key_fingerprint i) = Some k \<and>
      (\<exists>e. dict_get (cp_endpoints s) (ei_endpoint_id i) = Some e \<and> ep_identity_id e = k)"
    and "dict_get (cp_fingerprints s) f = Some k \<Longrightarrow>
      \<exists>i. dict_get (cp_identities s) k = Some i \<and> ei_public_key_fingerprint i = f"
  using assms by (auto simp: links_ok_def)

lemma cp_inv_init: "cp_inv (ControlPlane_init ids)"
  by (simp add: cp_inv_def inv_defs ControlPlane_init_def)

text \<open>An event that accepts nothing keeps the invariant.\<close>

lemma inv_parts_with_event [simp]:
  "dicts_ok (with_event ev s) = dicts_ok s" "links_ok (with_event ev s) = links_ok s"
  "history_ok (with_event ev s) = history_ok s" "sequences_ok (with_event ev s) = sequences_ok s"
  "receipts_ok (with_event ev s) = receipts_ok s"
  by (simp_all add: inv_defs)

lemma trail_ok_with_event [simp]: "\<not> is_acceptance ev \<Longrightarrow> trail_ok (with_event ev s) = trail_ok s"
  by (simp add: trail_ok_def)

lemma cp_inv_with_event: "\<not> is_acceptance ev \<Longrightarrow> cp_inv (with_event ev s) = cp_inv s"
  by (simp add: cp_inv_def)

lemma cp_inv_rng_pos: "cp_inv (s\<lparr>rng_pos := n\<rparr>) = cp_inv s"
  by (simp add: cp_inv_def inv_defs)

lemma sort_acceptance_metadata [simp]: "sort (acceptance_metadata ob) = acceptance_metadata ob"
  by (simp add: acceptance_metadata_def less_eq_prod_def)

section \<open>Accepted messages keep the invariant\<close>

text \<open>The endpoint's record after the receipt of \<open>ob\<close>.\<close>

definition touch :: "Observation \<Rightarrow> Endpoint \<Rightarrow> Endpoint" where
  "touch ob e = e\<lparr>ep_last_receipt_at := Some (latest (ob_received_at ob) (ep_last_receipt_at e)),
     ep_last_heartbeat_at :=
       (if ob_observation_type ob = ''heartbeat''
        then Some (latest (ob_received_at ob) (ep_last_heartbeat_at e)) else ep_last_heartbeat_at e)\<rparr>"

lemma touch_sel [simp]:
  "ep_endpoint_id (touch ob e) = ep_endpoint_id e" "ep_identity_id (touch ob e) = ep_identity_id e"
  "ep_platform (touch ob e) = ep_platform e" "ep_architecture (touch ob e) = ep_architecture e"
  by (simp_all add: touch_def)

lemma is_aware_latest: "is_aware t \<Longrightarrow> pred_option is_aware v \<Longrightarrow> is_aware (latest t v)"
  by (cases v) (simp_all add: latest_def is_aware_dt_max)

lemma endpoint_ok_touch: "endpoint_ok e \<Longrightarrow> is_aware (ob_received_at ob) \<Longrightarrow> endpoint_ok (touch ob e)"
  by (simp add: touch_def Endpoint_post_init_Inr is_aware_latest)

lemma latest_of_snoc: "latest_of ts v \<Longrightarrow> latest_of (ts @ [t]) (Some (latest t v))"
  by (fastforce simp: latest_of_def latest_def dt_max_def split: option.splits)

text \<open>
  The facts about an observation that \<^const>\<open>message_authorized\<close> gives, from which each part of the
  invariant follows for the new state.
\<close>

definition new_observation :: "uuid \<Rightarrow> EndpointIdentity \<Rightarrow> Endpoint \<Rightarrow> Observation \<Rightarrow> ControlPlane \<Rightarrow> bool" where
  "new_observation k i e ob s \<longleftrightarrow>
     dict_get (cp_identities s) k = Some i \<and> ob_endpoint_id ob = ei_endpoint_id i \<and>
     dict_get (cp_endpoints s) (ei_endpoint_id i) = Some e \<and> observation_ok ob \<and>
     ob_message_id ob \<notin> cp_seen_message_ids s \<and> previous_sequence k (ob_boot_id ob) s < ob_sequence ob"

lemma links_unique:
  assumes "links_ok s" "dict_get (cp_identities s) k = Some i" "dict_get (cp_identities s) k' = Some i'"
    and "ei_endpoint_id i' = ei_endpoint_id i"
  shows "k' = k"
  using links_okD(2)[OF assms(1) assms(2)] links_okD(2)[OF assms(1) assms(3)] assms(4) by auto

lemma ingested_endpoint:
  assumes inv: "cp_inv s" and new: "new_observation k i e ob s"
  shows "ep_endpoint_id e = ei_endpoint_id i" "endpoint_ok e"
  using new links_okD(1)[OF cp_invD(2)[OF inv]] by (auto simp: new_observation_def)

lemma ingested_dicts:
  assumes inv: "cp_inv s" and new: "new_observation k i e ob s"
  shows "dicts_ok (ingested k ob (touch ob e) ev s)"
  using cp_invD(1)[OF inv] by (simp add: dicts_ok_def)

lemma ingested_links:
  assumes inv: "cp_inv s" and new: "new_observation k i e ob s"
  shows "links_ok (ingested k ob (touch ob e) ev s)"
proof -
  have "is_aware (ob_received_at ob)"
    using new by (simp add: new_observation_def Observation_post_init_Inr)
  then have "endpoint_ok (touch ob e)"
    using ingested_endpoint [OF inv new] by (simp add: endpoint_ok_touch)
  then show ?thesis
    using cp_invD(2)[OF inv] new ingested_endpoint [OF inv new]
    unfolding links_ok_def new_observation_def by (auto, metis option.inject)
qed

lemma ingested_bound:
  assumes inv: "cp_inv s" and new: "new_observation k i e ob s"
    and "a \<in> set (cp_observations s)" "same_stream a ob"
  shows "ob_sequence a < ob_sequence ob"
proof -
  have "\<exists>n. dict_get (cp_last_sequences s) (k, ob_boot_id ob) = Some n \<and> ob_sequence a \<le> n"
    using cp_invD(4)[OF inv] assms(2-) unfolding sequences_ok_def new_observation_def same_stream_def by metis
  then show ?thesis
    using new by (auto simp: new_observation_def previous_sequence_def)
qed

lemma ingested_history:
  assumes inv: "cp_inv s" and new: "new_observation k i e ob s"
  shows "history_ok (ingested k ob (touch ob e) ev s)"
proof -
  show ?thesis
    using ingested_bound [OF inv new] cp_invD(3)[OF inv] new ingested_endpoint [OF inv new]
    by (auto simp: history_ok_def new_observation_def sorted_wrt_append)
qed

lemma ingested_sequences:
  assumes inv: "cp_inv s" and new: "new_observation k i e ob s"
  shows "sequences_ok (ingested k ob (touch ob e) ev s)"
proof -
  have seq: "sequences_ok s"
    using inv by (rule cp_invD)
  have unique: "k' = k"
    if "dict_get (cp_identities s) k' = Some i'" "ei_endpoint_id i' = ob_endpoint_id ob" for k' i'
    using that new links_unique [OF cp_invD(2)[OF inv]] by (auto simp: new_observation_def)
  have "\<exists>n'. dict_get (cp_last_sequences (ingested k ob (touch ob e) ev s)) (k', ob_boot_id a) = Some n' \<and>
      ob_sequence a \<le> n'"
    if a: "a \<in> insert ob (set (cp_observations s))" and k': "dict_get (cp_identities s) k' = Some i'"
      and eq: "ei_endpoint_id i' = ob_endpoint_id a" for a k' i'
  proof (cases "same_stream a ob")
    case True
    then show ?thesis
      using a unique [OF k'] eq ingested_bound [OF inv new _ True] by (auto simp: same_stream_def)
  next
    case False
    then have "a \<in> set (cp_observations s)" "(k', ob_boot_id a) \<noteq> (k, ob_boot_id ob)"
      using a k' eq new by (auto simp: same_stream_def new_observation_def)
    then show ?thesis
      using seq k' eq by (auto simp: sequences_ok_def)
  qed
  then show ?thesis
    using seq new unfolding sequences_ok_def new_observation_def by (auto, metis)
qed

lemma ingested_receipts:
  assumes inv: "cp_inv s" and new: "new_observation k i e ob s"
  shows "receipts_ok (ingested k ob (touch ob e) ev s)"
  using cp_invD(5)[OF inv] new ingested_endpoint [OF inv new]
  by (auto simp: receipts_ok_def new_observation_def receipts_def heartbeats_def touch_def latest_of_snoc)

lemma ingested_trail:
  assumes inv: "cp_inv s" and new: "new_observation k i e ob s"
  shows "trail_ok (ingested k ob (touch ob e) (acceptance v i ob c) s)"
  using cp_invD(6)[OF inv] new
  by (simp add: trail_ok_def is_acceptance_def event_facts_def observation_facts_def new_observation_def)

lemma ingested_inv:
  assumes inv: "cp_inv s" and new: "new_observation k i e ob s"
  shows "cp_inv (ingested k ob (touch ob e) (acceptance v i ob c) s)"
  using ingested_dicts [OF assms] ingested_links [OF assms] ingested_history [OF assms]
    ingested_sequences [OF assms] ingested_receipts [OF assms] ingested_trail [OF assms]
  by (simp add: cp_inv_def)

section \<open>The operations on a state that satisfies the invariant\<close>

lemma authorized_new_observation:
  assumes "cp_inv s" "message_authorized k env t s" "dict_get (cp_identities s) k = Some i"
    and "observation_ok ob" "ob_endpoint_id ob = ei_endpoint_id i" "ob_message_id ob = me_message_id env"
      "ob_boot_id ob = me_boot_id env" "ob_sequence ob = me_sequence env"
  shows "\<exists>e. new_observation k i e ob s"
  using assms links_okD(2)[OF cp_invD(2)[OF assms(1)] assms(3)]
  by (auto simp: new_observation_def message_authorized_def)

lemma observation_ok_heartbeat:
  "envelope_ok (hm_envelope m) \<Longrightarrow> is_aware t \<Longrightarrow> observation_ok (heartbeat_observation v i m t)"
  by (simp add: heartbeat_observation_def Observation_post_init_Inr MessageEnvelope_post_init_Inr)

lemma observation_ok_inventory:
  "envelope_ok (im_envelope m) \<Longrightarrow> is_aware t \<Longrightarrow> observation_ok (inventory_observation v i m t)"
  by (simp add: inventory_observation_def Observation_post_init_Inr MessageEnvelope_post_init_Inr)

lemma authorized_aware: "message_authorized k env t s \<Longrightarrow> is_aware t"
  by (simp add: message_authorized_def)

lemma ingest_heartbeat_accepts:
  assumes "cp_inv s" "envelope_ok (hm_envelope m)" "message_authorized k (hm_envelope m) t s"
  obtains i e ob where
    "ob = heartbeat_observation (rng_seq s (rng_pos s)) i m t" "new_observation k i e ob s"
    "ingest_heartbeat k m t s =
       (Inr ob, ingested k ob (touch ob e)
          (acceptance (rng_seq s (Suc (rng_pos s))) i ob (me_correlation_id (hm_envelope m))) s)"
proof -
  obtain i where i: "dict_get (cp_identities s) k = Some i"
    "authorize_envelope k (hm_envelope m) t ''heartbeat.ingest'' s = (Inr i, s)"
    using authorize_accepts [OF assms(3)] by blast
  define ob where "ob = heartbeat_observation (rng_seq s (rng_pos s)) i m t"
  have ok: "observation_ok ob"
    using assms by (simp add: ob_def observation_ok_heartbeat authorized_aware)
  obtain e where new: "new_observation k i e ob s"
    using authorized_new_observation [OF assms(1,3) i(1) ok] by (auto simp: ob_def)
  have e: "dict_get (cp_endpoints s) (ei_endpoint_id i) = Some e" "ep_endpoint_id e = ei_endpoint_id i"
    "endpoint_ok (touch ob e)"
    using new ingested_endpoint [OF assms(1) new] authorized_aware [OF assms(3)]
    by (auto simp: new_observation_def endpoint_ok_touch ob_def)
  have "ingest_heartbeat k m t s =
       (Inr ob, ingested k ob (touch ob e)
          (acceptance (rng_seq s (Suc (rng_pos s))) i ob (me_correlation_id (hm_envelope m))) s)"
    using e ok i(2)
    by (simp add: ingest_heartbeat_def Let_def op_simps ob_def heartbeat_observation_def accept_message_def
        sget_endpoint_def get_endpoint_def touch_def audit_acceptance_def acceptance_def ingested_def
        with_event_def)
  with new show ?thesis
    using that ob_def by blast
qed

lemma ingest_heartbeat_refuses:
  assumes "\<not> message_authorized k (hm_envelope m) t s"
  obtains e s' where "ingest_heartbeat k m t s = (Inl e, s')" "refused ''heartbeat.ingest'' t e s s'"
  using authorize_refuses [OF assms, of "''heartbeat.ingest''"]
  by (auto simp: ingest_heartbeat_def Let_def op_simps)

text \<open>An inventory must also describe the enrolled platform and architecture.\<close>

definition inventory_bound :: "uuid \<Rightarrow> InventoryPayload \<Rightarrow> ControlPlane \<Rightarrow> bool" where
  "inventory_bound endpoint_id p s \<longleftrightarrow>
     (case dict_get (cp_endpoints s) endpoint_id of
        None \<Rightarrow> False
      | Some e \<Rightarrow> ip_platform p = ep_platform e \<and> ip_architecture p = ep_architecture e)"

lemma ingest_inventory_accepts:
  assumes "cp_inv s" "envelope_ok (im_envelope m)" "message_authorized k (im_envelope m) t s"
    and "inventory_bound (me_endpoint_id (im_envelope m)) (im_payload m) s"
  obtains i e ob where
    "ob = inventory_observation (rng_seq s (rng_pos s)) i m t" "new_observation k i e ob s"
    "ingest_inventory k m t s =
       (Inr ob, ingested k ob (touch ob e)
          (acceptance (rng_seq s (Suc (rng_pos s))) i ob (me_correlation_id (im_envelope m))) s)"
proof -
  obtain i where i: "dict_get (cp_identities s) k = Some i"
    "authorize_envelope k (im_envelope m) t ''inventory.ingest'' s = (Inr i, s)"
    using authorize_accepts [OF assms(3)] by blast
  define ob where "ob = inventory_observation (rng_seq s (rng_pos s)) i m t"
  have ok: "observation_ok ob"
    using assms by (simp add: ob_def observation_ok_inventory authorized_aware)
  obtain e where new: "new_observation k i e ob s"
    using authorized_new_observation [OF assms(1,3) i(1) ok] by (auto simp: ob_def)
  have e: "dict_get (cp_endpoints s) (ei_endpoint_id i) = Some e" "ep_endpoint_id e = ei_endpoint_id i"
    "endpoint_ok (touch ob e)"
    using new ingested_endpoint [OF assms(1) new] authorized_aware [OF assms(3)]
    by (auto simp: new_observation_def endpoint_ok_touch ob_def)
  have bound: "ip_platform (im_payload m) = ep_platform e" "ip_architecture (im_payload m) = ep_architecture e"
    using assms(3,4) i(1) e(1) by (auto simp: inventory_bound_def message_authorized_def)
  have "ingest_inventory k m t s =
       (Inr ob, ingested k ob (touch ob e)
          (acceptance (rng_seq s (Suc (rng_pos s))) i ob (me_correlation_id (im_envelope m))) s)"
    using e ok i(2) bound
    by (simp add: ingest_inventory_def Let_def op_simps ob_def inventory_observation_def accept_message_def
        sget_endpoint_def get_endpoint_def touch_def audit_acceptance_def acceptance_def ingested_def
        with_event_def)
  with new show ?thesis
    using that ob_def by blast
qed

lemma ingest_inventory_refuses:
  assumes "cp_inv s"
    and "\<not> (message_authorized k (im_envelope m) t s \<and>
        inventory_bound (me_endpoint_id (im_envelope m)) (im_payload m) s)"
  obtains e s' where "ingest_inventory k m t s = (Inl e, s')" "refused ''inventory.ingest'' t e s s'"
proof (cases "message_authorized k (im_envelope m) t s")
  case True
  then obtain i where i: "dict_get (cp_identities s) k = Some i"
    "authorize_envelope k (im_envelope m) t ''inventory.ingest'' s = (Inr i, s)"
    using authorize_accepts by blast
  moreover obtain e where "dict_get (cp_endpoints s) (ei_endpoint_id i) = Some e"
    using links_okD(2)[OF cp_invD(2)[OF assms(1)] i(1)] by blast
  moreover have "me_endpoint_id (im_envelope m) = ei_endpoint_id i"
    using True i(1) by (simp add: message_authorized_def)
  ultimately show ?thesis
    using that assms(2) True
    by (auto simp: ingest_inventory_def Let_def op_simps sget_endpoint_def get_endpoint_def
        inventory_bound_def refused_reject)
next
  case False
  then show ?thesis
    using authorize_refuses [OF False, of "''inventory.ingest''"] that
    by (auto simp: ingest_inventory_def Let_def op_simps)
qed

text \<open>
  Enrollment draws the identifiers of the new endpoint and identity; the invariant needs that they
  are not in use, which is what \<^verbatim>\<open>uuid4()\<close> is for.
\<close>

definition fresh_identifiers :: "ControlPlane \<Rightarrow> bool" where
  "fresh_identifiers s \<longleftrightarrow>
     dict_get (cp_endpoints s) (rng_seq s (rng_pos s)) = None \<and>
     dict_get (cp_identities s) (rng_seq s (Suc (rng_pos s))) = None"

definition new_identity :: "string \<Rightarrow> datetime \<Rightarrow> ControlPlane \<Rightarrow> EndpointIdentity" where
  "new_identity fp now s =
     \<lparr>ei_identity_id = rng_seq s (Suc (rng_pos s)), ei_endpoint_id = rng_seq s (rng_pos s),
      ei_public_key_fingerprint = fp, ei_created_at = now, ei_status = ACTIVE,
      ei_revoked_at = None, ei_revocation_reason = None\<rparr>"

definition new_endpoint :: "string \<Rightarrow> Platform \<Rightarrow> string \<Rightarrow> datetime \<Rightarrow> ControlPlane \<Rightarrow> Endpoint" where
  "new_endpoint name pl ar now s =
     \<lparr>ep_endpoint_id = rng_seq s (rng_pos s), ep_display_name = name, ep_platform = pl,
      ep_architecture = ar, ep_identity_id = rng_seq s (Suc (rng_pos s)), ep_enrolled_at = now,
      ep_last_receipt_at = None, ep_last_heartbeat_at = None\<rparr>"

definition enrolled :: "Endpoint \<Rightarrow> EndpointIdentity \<Rightarrow> AuditEvent \<Rightarrow> ControlPlane \<Rightarrow> ControlPlane" where
  "enrolled e i ev s =
     s\<lparr>rng_pos := Suc (Suc (Suc (Suc (rng_pos s)))),
       cp_endpoints := dict_set (ep_endpoint_id e) e (cp_endpoints s),
       cp_identities := dict_set (ei_identity_id i) i (cp_identities s),
       cp_fingerprints := dict_set (ei_public_key_fingerprint i) (ei_identity_id i) (cp_fingerprints s),
       cp_audit_events := cp_audit_events s @ [ev]\<rparr>"

definition enrollment_event :: "string \<Rightarrow> datetime \<Rightarrow> ControlPlane \<Rightarrow> AuditEvent" where
  "enrollment_event actor now s =
     \<lparr>au_event_id = rng_seq s (Suc (Suc (Suc (rng_pos s)))), au_server_time = now,
      au_actor_type = ''operator'', au_actor_id = actor,
      au_subject = ''endpoint:'' @ str_uuid (rng_seq s (rng_pos s)), au_action = ''endpoint.enroll'',
      au_decision = ''accepted'', au_reason = ''synthetic Phase 1 enrollment'',
      au_correlation_id = rng_seq s (Suc (Suc (rng_pos s))),
      au_metadata = [(''identity_id'', str_uuid (rng_seq s (Suc (rng_pos s))))]\<rparr>"

definition enrollment_accepted :: "string \<Rightarrow> string \<Rightarrow> string \<Rightarrow> datetime \<Rightarrow> ControlPlane \<Rightarrow> bool" where
  "enrollment_accepted name ar fp now s \<longleftrightarrow>
     is_aware now \<and> dict_get (cp_fingerprints s) fp = None \<and> is_fingerprint fp \<and>
     \<not> empty_or_longer name MAX_DISPLAY_NAME_LENGTH \<and> \<not> empty_or_longer ar 32"

lemma enroll_accepts:
  assumes "enrollment_accepted name ar fp now s"
  shows "enroll_synthetic_endpoint name pl ar fp now actor s =
      (Inr (new_endpoint name pl ar now s, new_identity fp now s),
       enrolled (new_endpoint name pl ar now s) (new_identity fp now s) (enrollment_event actor now s) s)"
proof -
  have ok: "identity_ok (new_identity fp now s)" "endpoint_ok (new_endpoint name pl ar now s)"
    using assms
    by (simp_all add: enrollment_accepted_def post_init_iffs new_identity_def new_endpoint_def)
  show ?thesis
    using assms ok
    by (simp add: enroll_synthetic_endpoint_def op_simps enrollment_accepted_def require_aware_aware
        new_identity_def new_endpoint_def enrolled_def with_event_def enrollment_event_def)
qed

lemma enroll_refuses:
  assumes "\<not> enrollment_accepted name ar fp now s"
  shows "\<exists>e n. enroll_synthetic_endpoint name pl ar fp now actor s = (Inl e, s\<lparr>rng_pos := n\<rparr>)"
proof -
  have same: "s\<lparr>rng_pos := rng_pos s\<rparr> = s"
    by simp
  show ?thesis
  proof (cases "is_aware now \<and> dict_get (cp_fingerprints s) fp = None")
    case True
    show ?thesis
    proof (cases "identity_ok (new_identity fp now s)")
      case idok: True
      have "\<not> endpoint_ok (new_endpoint name pl ar now s)"
        using assms idok True
        by (simp add: enrollment_accepted_def post_init_iffs new_identity_def new_endpoint_def)
      then obtain e where "Endpoint_post_init (new_endpoint name pl ar now s) = Inl e"
        by (cases "Endpoint_post_init (new_endpoint name pl ar now s)") (auto simp: Endpoint_post_init_Inr)
      then show ?thesis
        using True idok
        by (auto simp: enroll_synthetic_endpoint_def op_simps new_endpoint_def new_identity_def)
    next
      case False
      then obtain e where "EndpointIdentity_post_init (new_identity fp now s) = Inl e"
        by (cases "EndpointIdentity_post_init (new_identity fp now s)")
           (auto simp: EndpointIdentity_post_init_Inr)
      then show ?thesis
        using True by (auto simp: enroll_synthetic_endpoint_def op_simps new_identity_def)
    qed
  next
    case False
    then have "\<exists>e. enroll_synthetic_endpoint name pl ar fp now actor s = (Inl e, s)"
      using require_aware_cases [of now "''now''"]
      by (auto simp: enroll_synthetic_endpoint_def op_simps)
    then show ?thesis
      using same by metis
  qed
qed

lemma enrolled_sel [simp]:
  "cp_endpoints (enrolled e i ev s) = dict_set (ep_endpoint_id e) e (cp_endpoints s)"
  "cp_identities (enrolled e i ev s) = dict_set (ei_identity_id i) i (cp_identities s)"
  "cp_fingerprints (enrolled e i ev s) =
     dict_set (ei_public_key_fingerprint i) (ei_identity_id i) (cp_fingerprints s)"
  "cp_observations (enrolled e i ev s) = cp_observations s"
  "cp_audit_events (enrolled e i ev s) = cp_audit_events s @ [ev]"
  "cp_seen_message_ids (enrolled e i ev s) = cp_seen_message_ids s"
  "cp_last_sequences (enrolled e i ev s) = cp_last_sequences s"
  by (simp_all add: enrolled_def)

lemma enrolled_links:
  assumes "links_ok s" "dict_get (cp_endpoints s) (ep_endpoint_id e) = None"
    "dict_get (cp_identities s) (ei_identity_id i) = None"
    "dict_get (cp_fingerprints s) (ei_public_key_fingerprint i) = None"
    "ei_endpoint_id i = ep_endpoint_id e" "ep_identity_id e = ei_identity_id i" "identity_ok i" "endpoint_ok e"
  shows "links_ok (enrolled e i ev s)"
  unfolding links_ok_def
proof (intro conjI allI impI)
  fix k a
  assume "dict_get (cp_endpoints (enrolled e i ev s)) k = Some a"
  then show "ep_endpoint_id a = k" "endpoint_ok a"
    "\<exists>b. dict_get (cp_identities (enrolled e i ev s)) (ep_identity_id a) = Some b \<and> ei_endpoint_id b = k"
    using assms links_okD(1)[OF assms(1), of k a] by (auto split: if_splits)
next
  fix k b
  assume "dict_get (cp_identities (enrolled e i ev s)) k = Some b"
  then show "ei_identity_id b = k" "identity_ok b"
    "dict_get (cp_fingerprints (enrolled e i ev s)) (ei_public_key_fingerprint b) = Some k"
    "\<exists>a. dict_get (cp_endpoints (enrolled e i ev s)) (ei_endpoint_id b) = Some a \<and> ep_identity_id a = k"
    using assms links_okD(2)[OF assms(1), of k b] by (auto split: if_splits)
next
  fix f k
  assume "dict_get (cp_fingerprints (enrolled e i ev s)) f = Some k"
  then show "\<exists>b. dict_get (cp_identities (enrolled e i ev s)) k = Some b \<and> ei_public_key_fingerprint b = f"
    using assms links_okD(3)[OF assms(1), of f k] by (auto split: if_splits)
qed

lemma enrolled_sequences:
  assumes "sequences_ok s" "dict_get (cp_identities s) (ei_identity_id i) = None"
    and old: "\<And>ob. ob \<in> set (cp_observations s) \<Longrightarrow> ob_endpoint_id ob \<noteq> ei_endpoint_id i"
  shows "sequences_ok (enrolled e i ev s)"
  unfolding sequences_ok_def
proof (intro conjI allI impI ballI)
  fix k b n
  assume "dict_get (cp_last_sequences (enrolled e i ev s)) (k, b) = Some n"
  then show "\<exists>j. dict_get (cp_identities (enrolled e i ev s)) k = Some j \<and>
      (\<exists>ob\<in>set (cp_observations (enrolled e i ev s)). ob_endpoint_id ob = ei_endpoint_id j \<and>
        ob_boot_id ob = b \<and> ob_sequence ob = n)"
    using assms(1,2) by (fastforce simp: sequences_ok_def)
next
  fix ob k j
  assume "ob \<in> set (cp_observations (enrolled e i ev s))"
    "dict_get (cp_identities (enrolled e i ev s)) k = Some j" "ei_endpoint_id j = ob_endpoint_id ob"
  then show "\<exists>n. dict_get (cp_last_sequences (enrolled e i ev s)) (k, ob_boot_id ob) = Some n \<and> ob_sequence ob \<le> n"
    using assms(1) old by (auto simp: sequences_ok_def split: if_splits)
qed

lemma enrolled_inv:
  assumes inv: "cp_inv s" and fresh: "fresh_identifiers s" and ok: "enrollment_accepted name ar fp now s"
  shows "cp_inv (enrolled (new_endpoint name pl ar now s) (new_identity fp now s) (enrollment_event actor now s) s)"
    (is "cp_inv (enrolled ?e ?i ?ev s)")
proof -
  let ?s = "enrolled ?e ?i ?ev s"
  have new: "dict_get (cp_endpoints s) (ep_endpoint_id ?e) = None"
    "dict_get (cp_identities s) (ei_identity_id ?i) = None"
    using fresh by (simp_all add: fresh_identifiers_def new_endpoint_def new_identity_def)
  have ids: "ei_endpoint_id ?i = ep_endpoint_id ?e" "ep_identity_id ?e = ei_identity_id ?i"
    "ei_public_key_fingerprint ?i = fp" "ep_last_receipt_at ?e = None" "ep_last_heartbeat_at ?e = None"
    by (simp_all add: new_endpoint_def new_identity_def)
  have valid: "identity_ok ?i" "endpoint_ok ?e" "dict_get (cp_fingerprints s) fp = None"
    using ok by (simp_all add: enrollment_accepted_def post_init_iffs new_identity_def new_endpoint_def)
  have old: "ob_endpoint_id ob \<noteq> ep_endpoint_id ?e" if "ob \<in> set (cp_observations s)" for ob
    using that new cp_invD(3)[OF inv] by (auto simp: history_ok_def)
  have "dicts_ok ?s"
    using cp_invD(1)[OF inv] by (simp add: dicts_ok_def)
  moreover have "links_ok ?s"
    using cp_invD(2)[OF inv] new ids valid by (simp add: enrolled_links)
  moreover have "history_ok ?s"
    using cp_invD(3)[OF inv] by (auto simp: history_ok_def)
  moreover have "sequences_ok ?s"
    using cp_invD(4)[OF inv] new ids old by (simp add: enrolled_sequences)
  moreover have "receipts_ok ?s"
    using cp_invD(5)[OF inv] ids old
    by (auto simp: receipts_ok_def receipts_def heartbeats_def latest_of_def)
  moreover have "trail_ok ?s"
    using cp_invD(6)[OF inv] by (simp add: trail_ok_def is_acceptance_def enrollment_event_def)
  ultimately show ?thesis
    by (simp add: cp_inv_def)
qed

text \<open>Revocation.\<close>

definition revocation_event ::
  "uuid \<Rightarrow> string \<Rightarrow> string \<Rightarrow> string \<Rightarrow> datetime \<Rightarrow> uuid \<Rightarrow> uuid \<Rightarrow> AuditEvent" where
  "revocation_event k decision reason actor now c event_id =
     \<lparr>au_event_id = event_id, au_server_time = now, au_actor_type = ''operator'', au_actor_id = actor,
      au_subject = ''identity:'' @ str_uuid k, au_action = ''identity.revoke'', au_decision = decision,
      au_reason = reason, au_correlation_id = c, au_metadata = []\<rparr>"

lemma revocation_event_sel [simp]:
  "au_actor_type (revocation_event k d r a t c v) = ''operator''"
  "au_decision (revocation_event k d r a t c v) = d"
  "au_action (revocation_event k d r a t c v) = ''identity.revoke''"
  "au_reason (revocation_event k d r a t c v) = r"
  "au_server_time (revocation_event k d r a t c v) = t"
  by (simp_all add: revocation_event_def)

definition revoked_identity :: "string \<Rightarrow> datetime \<Rightarrow> EndpointIdentity \<Rightarrow> EndpointIdentity" where
  "revoked_identity reason now i =
     i\<lparr>ei_status := REVOKED, ei_revoked_at := Some now, ei_revocation_reason := Some reason\<rparr>"

lemma revoked_identity_sel [simp]:
  "ei_identity_id (revoked_identity r t i) = ei_identity_id i"
  "ei_endpoint_id (revoked_identity r t i) = ei_endpoint_id i"
  "ei_public_key_fingerprint (revoked_identity r t i) = ei_public_key_fingerprint i"
  "ei_created_at (revoked_identity r t i) = ei_created_at i"
  "ei_status (revoked_identity r t i) = REVOKED"
  "ei_revoked_at (revoked_identity r t i) = Some t"
  "ei_revocation_reason (revoked_identity r t i) = Some r"
  by (simp_all add: revoked_identity_def)

text \<open>The draws made for the correlation identifier when the caller passes none.\<close>

definition drawn :: "uuid option \<Rightarrow> ControlPlane \<Rightarrow> ControlPlane" where
  "drawn c s = (case c of None \<Rightarrow> s\<lparr>rng_pos := Suc (rng_pos s)\<rparr> | Some _ \<Rightarrow> s)"

definition correlation :: "uuid option \<Rightarrow> ControlPlane \<Rightarrow> uuid" where
  "correlation c s = (case c of None \<Rightarrow> rng_seq s (rng_pos s) | Some v \<Rightarrow> v)"

lemma drawn_sel [simp]:
  "cp_endpoints (drawn c s) = cp_endpoints s" "cp_identities (drawn c s) = cp_identities s"
  "cp_fingerprints (drawn c s) = cp_fingerprints s" "cp_observations (drawn c s) = cp_observations s"
  "cp_audit_events (drawn c s) = cp_audit_events s"
  "cp_seen_message_ids (drawn c s) = cp_seen_message_ids s"
  "cp_last_sequences (drawn c s) = cp_last_sequences s"
  by (simp_all add: drawn_def split: option.split)

lemma drawn_inv [simp]: "cp_inv (drawn c s) = cp_inv s"
  by (simp add: drawn_def cp_inv_rng_pos split: option.split)

lemma sbind_correlation [op_simps]:
  "sbind (case c of Some v \<Rightarrow> sreturn v | None \<Rightarrow> uuid4) f s = f (correlation c s) (drawn c s)"
  by (simp add: correlation_def drawn_def op_simps split: option.split)

definition revoked :: "uuid \<Rightarrow> EndpointIdentity \<Rightarrow> AuditEvent \<Rightarrow> ControlPlane \<Rightarrow> ControlPlane" where
  "revoked k i ev s = with_event ev (s\<lparr>cp_identities := dict_set k i (cp_identities s)\<rparr>)"

lemma revoke_again:
  assumes "is_aware now" "\<not> empty_or_longer reason 256"
    "dict_get (cp_identities s) k = Some i" "ei_revoked_at i \<noteq> None"
  shows "revoke_identity k reason actor now c s =
      (Inr i, with_event (revocation_event k ''no_change'' ''identity already revoked'' actor now
         (correlation c s) (rng_seq (drawn c s) (rng_pos (drawn c s)))) (drawn c s))"
  using assms
  by (simp add: revoke_identity_def op_simps require_aware_aware sget_identity_def get_identity_def
      revocation_event_def with_event_def)

lemma revoke_accepts:
  assumes "is_aware now" "\<not> empty_or_longer reason 256"
    "dict_get (cp_identities s) k = Some i" "ei_revoked_at i = None" "identity_ok i"
    "instant (ei_created_at i) \<le> instant now"
  shows "revoke_identity k reason actor now c s =
      (Inr (revoked_identity reason now i),
       revoked k (revoked_identity reason now i)
         (revocation_event k ''accepted'' reason actor now (correlation c s) (rng_seq (drawn c s) (rng_pos (drawn c s)))) (drawn c s))"
proof -
  have "identity_ok (revoked_identity reason now i)"
    using assms by (auto simp: EndpointIdentity_post_init_Inr empty_or_longer_def)
  then show ?thesis
    using assms
    by (simp add: revoke_identity_def op_simps require_aware_aware sget_identity_def get_identity_def
        revocation_event_def revoked_def revoked_identity_def with_event_def)
qed

lemma revoke_refuses:
  assumes "\<not> (is_aware now \<and> \<not> empty_or_longer reason 256 \<and>
      (\<exists>i. dict_get (cp_identities s) k = Some i \<and>
        (ei_revoked_at i = None \<longrightarrow> instant (ei_created_at i) \<le> instant now)))"
  shows "\<exists>e n. revoke_identity k reason actor now c s = (Inl e, s\<lparr>rng_pos := n\<rparr>)"
proof (cases "is_aware now \<and> \<not> empty_or_longer reason 256")
  case True
  show ?thesis
  proof (cases "dict_get (cp_identities s) k")
    case None
    have "revoke_identity k reason actor now c s =
        (Inl (NotFoundError ''identity does not exist''), s\<lparr>rng_pos := rng_pos s\<rparr>)"
      using None True
      by (simp add: revoke_identity_def op_simps require_aware_aware sget_identity_def get_identity_def)
    then show ?thesis
      by blast
  next
    case (Some i)
    then have late: "ei_revoked_at i = None" "\<not> instant (ei_created_at i) \<le> instant now"
      using assms True by auto
    have "\<not> identity_ok (revoked_identity reason now i)"
      using late by (auto simp: EndpointIdentity_post_init_Inr)
    then obtain e where e: "EndpointIdentity_post_init (revoked_identity reason now i) = Inl e"
      by (cases "EndpointIdentity_post_init (revoked_identity reason now i)")
         (auto simp: EndpointIdentity_post_init_Inr)
    have "revoke_identity k reason actor now c s = (Inl e, drawn c s)"
      using Some True late e
      by (simp add: revoke_identity_def op_simps require_aware_aware sget_identity_def get_identity_def
          revoked_identity_def)
    moreover have "\<exists>n. drawn c s = s\<lparr>rng_pos := n\<rparr>"
      by (cases c) (auto simp: drawn_def intro: exI [of _ "rng_pos s"])
    ultimately show ?thesis
      by auto
  qed
next
  case False
  then have "\<exists>e. revoke_identity k reason actor now c s = (Inl e, s\<lparr>rng_pos := rng_pos s\<rparr>)"
    using require_aware_cases [of now "''now''"] by (auto simp: revoke_identity_def op_simps)
  then show ?thesis
    by blast
qed

lemma revoked_inv:
  assumes inv: "cp_inv s" and i: "dict_get (cp_identities s) k = Some i"
    and j: "ei_identity_id j = ei_identity_id i" "ei_endpoint_id j = ei_endpoint_id i"
      "ei_public_key_fingerprint j = ei_public_key_fingerprint i" "identity_ok j"
    and ev: "\<not> is_acceptance ev"
  shows "cp_inv (revoked k j ev s)"
proof -
  let ?s = "s\<lparr>cp_identities := dict_set k j (cp_identities s)\<rparr>"
  have "links_ok ?s"
    unfolding links_ok_def
  proof (intro conjI allI impI)
    fix x a
    assume "dict_get (cp_endpoints ?s) x = Some a"
    then show "ep_endpoint_id a = x" "endpoint_ok a"
      "\<exists>b. dict_get (cp_identities ?s) (ep_identity_id a) = Some b \<and> ei_endpoint_id b = x"
      using i j links_okD(1)[OF cp_invD(2)[OF inv], of x a] by auto
  next
    fix x b
    assume "dict_get (cp_identities ?s) x = Some b"
    then show "ei_identity_id b = x" "identity_ok b"
      "dict_get (cp_fingerprints ?s) (ei_public_key_fingerprint b) = Some x"
      "\<exists>a. dict_get (cp_endpoints ?s) (ei_endpoint_id b) = Some a \<and> ep_identity_id a = x"
      using i j links_okD(2)[OF cp_invD(2)[OF inv], of x] by (auto split: if_splits)
  next
    fix f x
    assume "dict_get (cp_fingerprints ?s) f = Some x"
    then show "\<exists>b. dict_get (cp_identities ?s) x = Some b \<and> ei_public_key_fingerprint b = f"
      using i j links_okD(3)[OF cp_invD(2)[OF inv], of f x] by auto
  qed
  moreover have "sequences_ok ?s"
    using cp_invD(4)[OF inv] i j by (simp add: sequences_ok_def) fastforce
  moreover have "dicts_ok ?s" "history_ok ?s" "receipts_ok ?s" "trail_ok ?s"
    using cp_invD[OF inv] by (simp_all add: dicts_ok_def history_ok_def receipts_ok_def trail_ok_def)
  ultimately show ?thesis
    using ev by (simp add: cp_inv_def revoked_def)
qed

text \<open>Operator access.\<close>

definition operator_event ::
  "string \<Rightarrow> string \<Rightarrow> string \<Rightarrow> string \<Rightarrow> string \<Rightarrow> uuid \<Rightarrow> datetime \<Rightarrow> (string \<times> string) list \<Rightarrow>
   uuid \<Rightarrow> AuditEvent" where
  "operator_event actor subject action decision reason c now metadata event_id =
     \<lparr>au_event_id = event_id, au_server_time = now, au_actor_type = ''human_operator'',
      au_actor_id = actor, au_subject = subject, au_action = action, au_decision = decision,
      au_reason = reason, au_correlation_id = c, au_metadata = sort metadata\<rparr>"

lemma record_operator_access_eq:
  "record_operator_access actor subject action decision reason c now metadata s =
     (case check_operator_access actor subject action decision reason now metadata of
        Inl e \<Rightarrow> (Inl e, s)
      | Inr _ \<Rightarrow> (Inr (), with_event (operator_event actor subject action decision reason c now metadata
          (rng_seq s (rng_pos s))) s))"
  by (simp add: record_operator_access_def op_simps operator_event_def split: sum.split)


section \<open>Reachable states\<close>

text \<open>
  The interleavings of the operations.  A message is any object whose envelope was constructed; an
  enrollment draws identifiers that are not in use.
\<close>

inductive cp_step :: "ControlPlane \<Rightarrow> ControlPlane \<Rightarrow> bool" where
  enroll: "fresh_identifiers s \<Longrightarrow>
     cp_step s (snd (enroll_synthetic_endpoint name pl ar fp now actor s))"
| heartbeat: "envelope_ok (hm_envelope m) \<Longrightarrow> cp_step s (snd (ingest_heartbeat k m t s))"
| inventory: "envelope_ok (im_envelope n) \<Longrightarrow> cp_step s (snd (ingest_inventory k n t s))"
| revoke: "cp_step s (snd (revoke_identity k reason actor now c s))"
| access: "cp_step s (snd (record_operator_access actor subject action decision reason cid now metadata s))"

inductive cp_reachable :: "ControlPlane \<Rightarrow> bool" where
  init: "cp_reachable (ControlPlane_init ids)"
| step: "cp_reachable s \<Longrightarrow> cp_step s s' \<Longrightarrow> cp_reachable s'"

inductive_cases cp_stepE: "cp_step s s'"

text \<open>The kinds of change a step can make.\<close>

inductive cp_change :: "ControlPlane \<Rightarrow> ControlPlane \<Rightarrow> bool" for s where
  nothing: "cp_change s (s\<lparr>rng_pos := n\<rparr>)"
| logged: "\<not> is_acceptance ev \<Longrightarrow> cp_change s (with_event ev (s\<lparr>rng_pos := n\<rparr>))"
| received: "new_observation k i e ob s \<Longrightarrow> ei_revoked_at i = None \<Longrightarrow>
    cp_change s (ingested k ob (touch ob e) (acceptance v i ob c) s)"
| joined: "enrollment_accepted name ar fp now s \<Longrightarrow> fresh_identifiers s \<Longrightarrow>
    cp_change s (enrolled (new_endpoint name pl ar now s) (new_identity fp now s)
      (enrollment_event actor now s) s)"
| left: "dict_get (cp_identities s) k = Some i \<Longrightarrow> ei_revoked_at i = None \<Longrightarrow>
    identity_ok (revoked_identity reason now i) \<Longrightarrow> \<not> is_acceptance ev \<Longrightarrow>
    cp_change s (revoked k (revoked_identity reason now i) ev (s\<lparr>rng_pos := n\<rparr>))"

lemma cp_change_same: "cp_change s s"
  using cp_change.nothing [of s "rng_pos s"] by simp

lemma cp_change_event: "\<not> is_acceptance ev \<Longrightarrow> cp_change s (with_event ev s)"
  using cp_change.logged [of ev s "rng_pos s"] by simp

lemma drawn_pos: obtains n where "drawn c s = s\<lparr>rng_pos := n\<rparr>"
  by (cases c) (auto simp: drawn_def intro: that [of "rng_pos s"])

lemma refused_change: "refused a t e s s' \<Longrightarrow> cp_change s s'"
  by (auto simp: refused_def is_acceptance_def intro: cp_change_same cp_change_event)

lemma authorized_not_revoked:
  "message_authorized k env t s \<Longrightarrow> new_observation k i e ob s \<Longrightarrow> ei_revoked_at i = None"
  by (simp add: message_authorized_def new_observation_def)

lemma ingest_heartbeat_change:
  assumes "cp_inv s" "envelope_ok (hm_envelope m)"
  shows "cp_change s (snd (ingest_heartbeat k m t s))"
proof (cases "message_authorized k (hm_envelope m) t s")
  case True
  then show ?thesis
    by (rule ingest_heartbeat_accepts [OF assms])
       (simp add: cp_change.received authorized_not_revoked [OF True])
next
  case False
  show ?thesis
    by (rule ingest_heartbeat_refuses [OF False]) (simp add: refused_change)
qed

lemma ingest_inventory_change:
  assumes "cp_inv s" "envelope_ok (im_envelope m)"
  shows "cp_change s (snd (ingest_inventory k m t s))"
proof (cases "message_authorized k (im_envelope m) t s \<and>
    inventory_bound (me_endpoint_id (im_envelope m)) (im_payload m) s")
  case True
  then show ?thesis
    by (auto intro: ingest_inventory_accepts [OF assms] simp: cp_change.received authorized_not_revoked)
next
  case False
  show ?thesis
    by (rule ingest_inventory_refuses [OF assms(1) False]) (simp add: refused_change)
qed

lemma enroll_change:
  assumes "fresh_identifiers s"
  shows "cp_change s (snd (enroll_synthetic_endpoint name pl ar fp now actor s))"
proof (cases "enrollment_accepted name ar fp now s")
  case True
  then show ?thesis
    by (simp add: enroll_accepts cp_change.joined assms)
next
  case False
  then obtain e n where "enroll_synthetic_endpoint name pl ar fp now actor s = (Inl e, s\<lparr>rng_pos := n\<rparr>)"
    using enroll_refuses by blast
  then show ?thesis
    by (simp add: cp_change.nothing)
qed

lemma revoke_change:
  assumes "cp_inv s"
  shows "cp_change s (snd (revoke_identity k reason actor now c s))"
proof (cases "is_aware now \<and> \<not> empty_or_longer reason 256 \<and>
    (\<exists>i. dict_get (cp_identities s) k = Some i \<and>
      (ei_revoked_at i = None \<longrightarrow> instant (ei_created_at i) \<le> instant now))")
  case True
  then obtain i where i: "dict_get (cp_identities s) k = Some i" and
    time: "ei_revoked_at i = None \<longrightarrow> instant (ei_created_at i) \<le> instant now"
    by (elim conjE exE) (rule that)
  have ok: "identity_ok i"
    using links_okD(2)[OF cp_invD(2)[OF assms] i] by simp
  obtain n where n: "drawn c s = s\<lparr>rng_pos := n\<rparr>"
    by (rule drawn_pos)
  show ?thesis
  proof (cases "ei_revoked_at i")
    case None
    have "identity_ok (revoked_identity reason now i)"
      using True None time ok unfolding EndpointIdentity_post_init_Inr by (simp add: empty_or_longer_def)
    then show ?thesis
      using revoke_accepts [OF _ _ i None ok] True None time
      by (simp add: n cp_change.left [OF i] is_acceptance_def)
  next
    case (Some t)
    then show ?thesis
      using revoke_again [OF _ _ i] True by (simp add: n cp_change.logged is_acceptance_def)
  qed
next
  case False
  obtain e n where "revoke_identity k reason actor now c s = (Inl e, s\<lparr>rng_pos := n\<rparr>)"
    using revoke_refuses [OF False] by blast
  then show ?thesis
    by (simp add: cp_change.nothing)
qed

lemma record_operator_access_change:
  "cp_change s (snd (record_operator_access actor subject action decision reason c now metadata s))"
  by (simp add: record_operator_access_eq is_acceptance_def operator_event_def cp_change_same cp_change_event
      split: sum.split)

lemma cp_step_change: "cp_step s s' \<Longrightarrow> cp_inv s \<Longrightarrow> cp_change s s'"
  by (elim cp_stepE)
     (simp_all add: enroll_change ingest_heartbeat_change ingest_inventory_change revoke_change
       record_operator_access_change)

lemma cp_change_inv: "cp_change s s' \<Longrightarrow> cp_inv s \<Longrightarrow> cp_inv s'"
proof (induction rule: cp_change.induct)
  case (left k i reason now ev n)
  then show ?case
    by (intro revoked_inv [of _ _ i]) (simp_all add: cp_inv_rng_pos)
qed (simp_all add: cp_inv_rng_pos cp_inv_with_event ingested_inv enrolled_inv)

lemma cp_step_inv: "cp_step s s' \<Longrightarrow> cp_inv s \<Longrightarrow> cp_inv s'"
  by (blast intro: cp_change_inv cp_step_change)

lemma cp_reachable_inv: "cp_reachable s \<Longrightarrow> cp_inv s"
  by (induction rule: cp_reachable.induct) (auto intro: cp_inv_init cp_step_inv)

lemma cp_reachable_change: "cp_reachable s \<Longrightarrow> cp_step s s' \<Longrightarrow> cp_change s s'"
  by (blast intro: cp_step_change cp_reachable_inv)

end
