(* ===== verification/Py_Time.thy ===== *)
theory Py_Time
  imports Json
begin

text \<open>
  The text form of \<^verbatim>\<open>datetime\<close>: \<^verbatim>\<open>isoformat()\<close>.  The calendar is the proleptic Gregorian one, counted in
  days from 1 January of year 1.
\<close>


section \<open>Calendar\<close>

definition is_leap :: "nat \<Rightarrow> bool" where
  "is_leap y \<longleftrightarrow> y mod 4 = 0 \<and> (y mod 100 \<noteq> 0 \<or> y mod 400 = 0)"

definition days_in_month :: "nat \<Rightarrow> nat \<Rightarrow> nat" where
  "days_in_month y m =
     (if m = 2 then (if is_leap y then 29 else 28) else if m \<in> {4, 6, 9, 11} then 30 else 31)"

definition days_in_year :: "nat \<Rightarrow> nat" where
  "days_in_year y = (if is_leap y then 366 else 365)"

text \<open>The days before 1 January of year \<open>y\<close>.\<close>

definition days_before_year :: "nat \<Rightarrow> nat" where
  "days_before_year y = (let p = y - 1 in p * 365 + p div 4 - p div 100 + p div 400)"

text \<open>
  The year of a day number: an estimate from the mean length of a year, which is at most one too
  large, and its correction.
\<close>

definition year_of_days :: "nat \<Rightarrow> nat" where
  "year_of_days n = (let y = (n + 366) * 400 div 146097 + 1 in
     if days_before_year y \<le> n then y
     else if days_before_year (y - 1) \<le> n then y - 1 else y - 2)"

text \<open>The month and day of a day number within its year, month by month.\<close>

fun month_of_days :: "nat \<Rightarrow> nat \<Rightarrow> nat \<Rightarrow> nat \<Rightarrow> nat \<times> nat" where
  "month_of_days y 0 m n = (m, n + 1)"
| "month_of_days y (Suc k) m n =
     (if n < days_in_month y m then (m, n + 1) else month_of_days y k (m + 1) (n - days_in_month y m))"

definition civil :: "nat \<Rightarrow> nat \<times> nat \<times> nat" where
  "civil n = (let y = year_of_days n in (y, month_of_days y 11 1 (n - days_before_year y)))"


section \<open>ISO 8601 text\<close>

definition pad :: "nat \<Rightarrow> nat \<Rightarrow> string" where
  "pad w n = replicate (w - length (dec_nat n)) (CHR ''0'') @ dec_nat n"

definition iso_fraction :: "nat \<Rightarrow> string" where
  "iso_fraction us = (if us = 0 then '''' else ''.'' @ pad 6 us)"

text \<open>The offset from UTC: hours and minutes, and seconds and microseconds if there are any.\<close>

definition iso_offset :: "tzinfo \<Rightarrow> string" where
  "iso_offset z =
     (case z of
        FixedTz d \<Rightarrow>
          let us = nat \<bar>d\<bar>; s = us div 1000000 in
          (if d < 0 then ''-'' else ''+'') @ pad 2 (s div 3600) @ '':'' @ pad 2 (s div 60 mod 60) @
          (if us mod 60000000 = 0 then ''''
           else '':'' @ pad 2 (s mod 60) @ iso_fraction (us mod 1000000))
      | _ \<Rightarrow> '''')"

definition isoformat :: "datetime \<Rightarrow> string" where
  "isoformat t =
     (let us = nat (wall t); s = us div 1000000; (y, m, d) = civil (us div 86400000000) in
      pad 4 y @ ''-'' @ pad 2 m @ ''-'' @ pad 2 d @ ''T'' @
      pad 2 (s div 3600 mod 24) @ '':'' @ pad 2 (s div 60 mod 60) @ '':'' @ pad 2 (s mod 60) @
      iso_fraction (us mod 1000000) @ iso_offset (tz t))"

end
