(* ===== verification/Persistence.thy ===== *)
theory Persistence
  imports Database Control_Plane Py_Time
begin

text \<open>
  \<^verbatim>\<open>PostgresControlPlane\<close> of \<^verbatim>\<open>persistence.py\<close>: every operation on the database, with the prefix \<open>pg_\<close> where
  the in-memory class has a method of the same name.  The operations are serialised: each one is one
  transaction (two where the handler of a unique violation writes its audit event), and the row locks
  of \<^verbatim>\<open>FOR UPDATE\<close> leave no interleaving within it that another operation on the same rows could see.
\<close>


section \<open>Rows and values\<close>

text \<open>The times that a query of a row fetches.\<close>

definition endpoint_times :: "Endpoint \<Rightarrow> datetime option list" where
  "endpoint_times row = [Some (ep_enrolled_at row), ep_last_receipt_at row, ep_last_heartbeat_at row]"

definition identity_times :: "'a EndpointIdentity_scheme \<Rightarrow> datetime option list" where
  "identity_times row = [Some (ei_created_at row), ei_revoked_at row]"

definition certificate_times :: "IdentityRow \<Rightarrow> datetime option list" where
  "certificate_times row = [ir_certificate_not_before row, ir_certificate_not_after row, ir_activated_at row]"

definition grant_times :: "EnrollmentGrant \<Rightarrow> datetime option list" where
  "grant_times row = [Some (eg_created_at row), Some (eg_expires_at row), eg_consumed_at row]"

definition observation_times :: "'a Observation_scheme \<Rightarrow> datetime option list" where
  "observation_times row = [Some (ob_source_time row), Some (ob_received_at row)]"

text \<open>A fetched row as a value of its class.\<close>

definition endpoint_from_row :: "Endpoint \<Rightarrow> Endpoint result" where
  "endpoint_from_row row = rbind (load_times (endpoint_times row)) (\<lambda>_. Endpoint_post_init row)"

definition identity_from_row :: "IdentityRow \<Rightarrow> EndpointIdentity result" where
  "identity_from_row row =
     rbind (load_times (identity_times row)) (\<lambda>_. EndpointIdentity_post_init (EndpointIdentity.truncate row))"

definition enrollment_grant_from_row :: "EnrollmentGrant \<Rightarrow> EnrollmentGrant result" where
  "enrollment_grant_from_row row = rbind (load_times (grant_times row)) (\<lambda>_. EnrollmentGrant_post_init row)"

definition observation_from_row :: "ObservationRow \<Rightarrow> Observation result" where
  "observation_from_row row =
     rbind (load_times (observation_times row)) (\<lambda>_. Observation_post_init (Observation.truncate row))"

definition audit_from_row :: "AuditEvent \<Rightarrow> AuditEvent result" where
  "audit_from_row row =
     rbind (load_times [Some (au_server_time row)]) (\<lambda>_. Inr (row\<lparr>au_metadata := sort (au_metadata row)\<rparr>))"

lemma from_row_Inr:
  "endpoint_from_row e = Inr x \<longleftrightarrow> times_load (endpoint_times e) \<and> Endpoint_post_init e = Inr x"
  "identity_from_row r = Inr i \<longleftrightarrow>
     times_load (identity_times r) \<and> EndpointIdentity_post_init (EndpointIdentity.truncate r) = Inr i"
  "enrollment_grant_from_row g = Inr h \<longleftrightarrow> times_load (grant_times g) \<and> EnrollmentGrant_post_init g = Inr h"
  "observation_from_row y = Inr ob \<longleftrightarrow>
     times_load (observation_times y) \<and> Observation_post_init (Observation.truncate y) = Inr ob"
  "audit_from_row ev = Inr v \<longleftrightarrow>
     in_range (instant (au_server_time ev)) \<and> v = ev\<lparr>au_metadata := sort (au_metadata ev)\<rparr>"
  by (auto simp: endpoint_from_row_def identity_from_row_def enrollment_grant_from_row_def observation_from_row_def
      audit_from_row_def rbind_Inr_iff)


section \<open>Audit\<close>

definition insert_audit ::
  "datetime \<Rightarrow> string \<Rightarrow> string \<Rightarrow> string \<Rightarrow> string \<Rightarrow> string \<Rightarrow> string \<Rightarrow> uuid \<Rightarrow>
   (string \<times> string) list \<Rightarrow> unit pg_op" where
  "insert_audit server_time actor_type actor_id subject action decision reason correlation_id metadata =
     sbind uuid4 (\<lambda>event_id.
     insert_audit_row \<lparr>au_event_id = event_id, au_server_time = server_time, au_actor_type = actor_type,
       au_actor_id = actor_id, au_subject = subject, au_action = action, au_decision = decision,
       au_reason = reason, au_correlation_id = correlation_id, au_metadata = metadata\<rparr>)"

definition record_audit ::
  "datetime \<Rightarrow> string \<Rightarrow> string \<Rightarrow> string \<Rightarrow> string \<Rightarrow> string \<Rightarrow> string \<Rightarrow> uuid \<Rightarrow>
   (string \<times> string) list \<Rightarrow> unit pg_op" where
  "record_audit server_time actor_type actor_id subject action decision reason correlation_id metadata =
     transaction (insert_audit server_time actor_type actor_id subject action decision reason
       correlation_id metadata)"

definition insert_rejection ::
  "uuid \<Rightarrow> uuid \<Rightarrow> string \<Rightarrow> string \<Rightarrow> uuid \<Rightarrow> datetime \<Rightarrow> unit pg_op" where
  "insert_rejection identity_id endpoint_id action reason correlation_id received_at =
     insert_audit received_at ''endpoint_identity'' (str_uuid identity_id)
       (''endpoint:'' @ str_uuid endpoint_id) action ''rejected'' reason correlation_id []"

definition record_rejection ::
  "uuid \<Rightarrow> uuid \<Rightarrow> string \<Rightarrow> string \<Rightarrow> uuid \<Rightarrow> datetime \<Rightarrow> unit pg_op" where
  "record_rejection identity_id endpoint_id action reason correlation_id received_at =
     record_audit received_at ''endpoint_identity'' (str_uuid identity_id)
       (''endpoint:'' @ str_uuid endpoint_id) action ''rejected'' reason correlation_id []"


section \<open>Lifecycle of the adapter\<close>

definition PostgresControlPlane_init ::
  "string \<Rightarrow> real \<Rightarrow> Database \<Rightarrow> (nat \<Rightarrow> uuid) \<Rightarrow> (nat \<Rightarrow> string) \<Rightarrow> PostgresControlPlane result" where
  "PostgresControlPlane_init dsn operation_timeout_seconds db ids tokens =
     (if dsn = [] then Inl (ValidationError ''PostgreSQL DSN is required'')
      else if \<not> (1 \<le> operation_timeout_seconds \<and> operation_timeout_seconds \<le> 30)
        then Inl (ValidationError ''database operation timeout is outside the supported range'')
      else Inr \<lparr>rng_seq = ids, rng_pos = 0, pg_db = db, pg_shutting_down = False,
                pg_token_seq = tokens, pg_token_pos = 0\<rparr>)"

definition begin_shutdown :: "unit pg_op" where
  "begin_shutdown = smodify (\<lambda>s. s\<lparr>pg_shutting_down := True\<rparr>)"


section \<open>Reads\<close>

definition pg_observations :: "Observation list pg_op" where
  "pg_observations =
     transaction (sbind (db_read db_observations) (\<lambda>rows.
       lift (rmap observation_from_row
         (sort_key (\<lambda>r. (instant (ob_received_at r), ob_observation_id r)) rows))))"

definition pg_audit_events :: "AuditEvent list pg_op" where
  "pg_audit_events = transaction (sbind (db_read db_audit_events) (\<lambda>rows. lift (rmap audit_from_row rows)))"

definition pg_list_endpoints :: "Endpoint list pg_op" where
  "pg_list_endpoints =
     transaction (sbind (db_read db_endpoints) (\<lambda>rows.
       lift (rmap endpoint_from_row (sort_key ep_endpoint_id (dict_values rows)))))"

definition pg_list_endpoint_page :: "uuid option \<Rightarrow> int \<Rightarrow> Endpoint list pg_op" where
  "pg_list_endpoint_page after limit =
     sbind (lift (raise_if (\<not> (1 \<le> limit \<and> limit \<le> 1000))
       (ValidationError ''endpoint page limit is invalid''))) (\<lambda>_.
     transaction (sbind (db_read db_endpoints) (\<lambda>rows.
       lift (rmap endpoint_from_row (take (nat limit) (sort_key ep_endpoint_id
         (case after of
            None \<Rightarrow> dict_values rows
          | Some cursor \<Rightarrow> filter (\<lambda>e. ep_endpoint_id e > cursor) (dict_values rows))))))))"

definition pg_get_endpoint :: "uuid \<Rightarrow> Endpoint pg_op" where
  "pg_get_endpoint endpoint_id =
     sbind (transaction (db_read (\<lambda>db. dict_get (db_endpoints db) endpoint_id))) (\<lambda>row.
     lift (case row of
       None \<Rightarrow> Inl (NotFoundError ''endpoint does not exist'')
     | Some r \<Rightarrow> endpoint_from_row r))"

definition pg_get_identity :: "uuid \<Rightarrow> EndpointIdentity pg_op" where
  "pg_get_identity identity_id =
     sbind (transaction (db_read (\<lambda>db. dict_get (db_identities db) identity_id))) (\<lambda>row.
     lift (case row of
       None \<Rightarrow> Inl (NotFoundError ''identity does not exist'')
     | Some r \<Rightarrow> identity_from_row r))"

definition get_enrollment_grant :: "uuid \<Rightarrow> EnrollmentGrant pg_op" where
  "get_enrollment_grant grant_id =
     sbind (transaction (db_read (\<lambda>db. dict_get (db_grants db) grant_id))) (\<lambda>row.
     lift (case row of
       None \<Rightarrow> Inl (NotFoundError ''enrollment grant does not exist'')
     | Some r \<Rightarrow> enrollment_grant_from_row r))"

definition pg_endpoint_status ::
  "uuid \<Rightarrow> datetime \<Rightarrow> FreshnessPolicy option \<Rightarrow> EndpointStatus pg_op" where
  "pg_endpoint_status endpoint_id now policy =
     sbind (lift (require_aware now ''now'')) (\<lambda>_.
     sbind (pg_get_endpoint endpoint_id) (\<lambda>endpoint.
     sbind (pg_get_identity (ep_identity_id endpoint)) (\<lambda>identity.
     let freshness = (case policy of Some p \<Rightarrow> p | None \<Rightarrow> default_policy) in
     sreturn \<lparr>es_endpoint_id = endpoint_id, es_lifecycle = ei_lifecycle identity,
       es_health = derive_health (ep_last_heartbeat_at endpoint) now freshness,
       es_last_heartbeat_at = ep_last_heartbeat_at endpoint\<rparr>)))"


section \<open>Operator access\<close>

definition pg_check_operator_access ::
  "string \<Rightarrow> string \<Rightarrow> string \<Rightarrow> string \<Rightarrow> string \<Rightarrow> datetime \<Rightarrow> (string \<times> string) list \<Rightarrow> unit result" where
  "pg_check_operator_access actor_id subject action decision reason now metadata =
     rbind (require_aware now ''now'') (\<lambda>_.
     rbind (raise_if (empty_or_longer actor_id 256)
       (ValidationError ''operator audit actor is invalid'')) (\<lambda>_.
     rbind (raise_if (empty_or_longer subject 256)
       (ValidationError ''operator audit subject is invalid'')) (\<lambda>_.
     rbind (raise_if (empty_or_longer action 128)
       (ValidationError ''operator audit action is invalid'')) (\<lambda>_.
     rbind (raise_if (decision \<notin> {''accepted'', ''rejected''})
       (ValidationError ''operator audit decision is invalid'')) (\<lambda>_.
     rbind (raise_if (empty_or_longer reason 512)
       (ValidationError ''operator audit reason is invalid'')) (\<lambda>_.
     raise_if (length metadata > 8 \<or>
         list_ex (\<lambda>(key, value). empty_or_longer key 64 \<or> length value > 512) metadata)
       (ValidationError ''operator audit metadata is invalid'')))))))"

definition pg_record_operator_access ::
  "string \<Rightarrow> string \<Rightarrow> string \<Rightarrow> string \<Rightarrow> string \<Rightarrow> uuid \<Rightarrow> datetime \<Rightarrow> (string \<times> string) list \<Rightarrow> unit pg_op" where
  "pg_record_operator_access actor_id subject action decision reason correlation_id now metadata =
     sbind (lift (pg_check_operator_access actor_id subject action decision reason now metadata)) (\<lambda>_.
     sbind (lift (astimezone_utc now)) (\<lambda>server_time.
     record_audit server_time ''human_operator'' actor_id subject action decision reason
       correlation_id metadata))"


section \<open>Enrollment grants\<close>

definition GRANT_NAMESPACE :: string where
  "GRANT_NAMESPACE = ''ngr1_''"

definition ENROLLMENT_REJECTION :: string where
  "ENROLLMENT_REJECTION = ''enrollment grant is invalid or unavailable''"

definition MAX_ENDPOINT_CERTIFICATE_TTL :: timedelta where
  "MAX_ENDPOINT_CERTIFICATE_TTL = hours 24"

text \<open>The pattern \<^verbatim>\<open>ngr1_[A-Za-z0-9_-]{43}\<close>, matched in full.\<close>

definition is_urlsafe :: "char \<Rightarrow> bool" where
  "is_urlsafe c \<longleftrightarrow> is_digit c \<or> 65 \<le> code c \<and> code c \<le> 90 \<or> 97 \<le> code c \<and> code c \<le> 122 \<or>
     c = CHR ''_'' \<or> c = CHR ''-''"

definition is_enrollment_token :: "string \<Rightarrow> bool" where
  "is_enrollment_token t \<longleftrightarrow>
     startswith t GRANT_NAMESPACE \<and> length t = 48 \<and> list_all is_urlsafe (drop 5 t)"

definition create_enrollment_grant ::
  "string \<Rightarrow> Platform \<Rightarrow> string \<Rightarrow> datetime \<Rightarrow> string \<Rightarrow> timedelta \<Rightarrow> (EnrollmentGrant \<times> string) pg_op" where
  "create_enrollment_grant display_name platform architecture now actor_id ttl =
     sbind (lift (require_aware now ''now'')) (\<lambda>_.
     sbind (lift (astimezone_utc now)) (\<lambda>server_time.
     sbind token_urlsafe (\<lambda>secret.
     let raw_token = GRANT_NAMESPACE @ secret; token_sha256 = sha256_hex raw_token in
     sbind uuid4 (\<lambda>grant_id.
     sbind (lift (dt_add server_time ttl)) (\<lambda>expires_at.
     sbind (lift (EnrollmentGrant_post_init
       \<lparr>eg_grant_id = grant_id, eg_token_sha256 = token_sha256, eg_display_name = display_name,
        eg_platform = platform, eg_architecture = architecture, eg_created_at = server_time,
        eg_expires_at = expires_at, eg_created_by = actor_id, eg_consumed_at = None,
        eg_consumed_identity_id = None\<rparr>)) (\<lambda>grant.
     sbind uuid4 (\<lambda>correlation_id.
     sbind (transaction (
       sbind (insert_grant_row grant) (\<lambda>_.
       insert_audit server_time ''operator'' actor_id
         (''enrollment_grant:'' @ str_uuid (eg_grant_id grant)) ''enrollment_grant.create''
         ''accepted'' ''short-lived single-use grant created'' correlation_id
         [(''architecture'', eg_architecture grant),
          (''display_name'', eg_display_name grant),
          (''expires_at'', isoformat (eg_expires_at grant)),
          (''platform'', platform_value (eg_platform grant))]))) (\<lambda>_.
     sreturn (grant, raw_token)))))))))"

text \<open>
  The outcome of looking a token up: a reason to refuse it, the grant if one was found, and the
  endpoint and identity of an exact retry.
\<close>

type_synonym grant_lookup = "string option \<times> EnrollmentGrant option \<times> (Endpoint \<times> EndpointIdentity) option"

definition find_grant_row :: "string \<Rightarrow> Database \<Rightarrow> EnrollmentGrant option" where
  "find_grant_row token_sha256 db = find (\<lambda>g. eg_token_sha256 g = token_sha256) (dict_values (db_grants db))"

text \<open>The current endpoint and identity row of an identifier, from the join of both tables.\<close>

definition select_identity :: "uuid \<Rightarrow> Database \<Rightarrow> (IdentityRow \<times> Endpoint) option" where
  "select_identity identity_id db =
     (case dict_get (db_identities db) identity_id of
        None \<Rightarrow> None
      | Some i \<Rightarrow> (case dict_get (db_endpoints db) (ei_endpoint_id i) of
          None \<Rightarrow> None
        | Some e \<Rightarrow> Some (i, e)))"

definition is_current :: "IdentityRow \<Rightarrow> Endpoint \<Rightarrow> bool" where
  "is_current i e \<longleftrightarrow> ep_identity_id e = ei_identity_id i"

definition resume_enrollment ::
  "EnrollmentGrant \<Rightarrow> uuid \<Rightarrow> string \<Rightarrow> grant_lookup pg_op" where
  "resume_enrollment grant identity_id fingerprint =
     sbind (db_read (select_identity identity_id)) (\<lambda>found.
     case found of
       Some (i, e) \<Rightarrow>
         if is_current i e \<and> ei_status i \<in> {PENDING, ISSUED}
         then sbind (lift (load_times (endpoint_times e @ identity_times i))) (\<lambda>_.
           if ei_public_key_fingerprint i = fingerprint
           then sbind (lift (endpoint_from_row e)) (\<lambda>endpoint.
             sbind (lift (identity_from_row i)) (\<lambda>identity.
             sreturn (None, Some grant, Some (endpoint, identity))))
           else sreturn (Some ''grant is already consumed'', Some grant, None))
         else sreturn (Some ''grant is already consumed'', Some grant, None)
     | None \<Rightarrow> sreturn (Some ''grant is already consumed'', Some grant, None))"

definition inspect_grant ::
  "string option \<Rightarrow> string \<Rightarrow> datetime \<Rightarrow> bool \<Rightarrow> grant_lookup pg_op" where
  "inspect_grant token_sha256 fingerprint server_time allow_exact_retry =
     (case token_sha256 of
        None \<Rightarrow> sreturn (Some ''token format is invalid'', None, None)
      | Some digest \<Rightarrow>
          sbind (db_read (find_grant_row digest)) (\<lambda>found.
          case found of
            None \<Rightarrow> sreturn (Some ''token digest is unknown'', None, None)
          | Some row \<Rightarrow>
              sbind (lift (enrollment_grant_from_row row)) (\<lambda>grant.
              if instant server_time < instant (eg_created_at grant)
              then sreturn (Some ''server time predates grant creation'', Some grant, None)
              else if instant server_time \<ge> instant (eg_expires_at grant)
              then sreturn (Some ''grant is expired'', Some grant, None)
              else if \<not> is_fingerprint fingerprint
              then sreturn (Some ''public key fingerprint format is invalid'', Some grant, None)
              else case (eg_consumed_at grant, eg_consumed_identity_id grant) of
                (Some _, Some identity_id) \<Rightarrow>
                  if allow_exact_retry then resume_enrollment grant identity_id fingerprint
                  else sreturn (Some ''grant is already consumed'', Some grant, None)
              | (Some _, None) \<Rightarrow> sreturn (Some ''grant is already consumed'', Some grant, None)
              | (None, _) \<Rightarrow> sreturn (None, Some grant, None))))"

definition grant_subject :: "EnrollmentGrant option \<Rightarrow> string" where
  "grant_subject grant =
     (case grant of
        Some g \<Rightarrow> ''enrollment_grant:'' @ str_uuid (eg_grant_id g)
      | None \<Rightarrow> ''enrollment_grant:unknown'')"

definition exchange_grant ::
  "EnrollmentGrant \<Rightarrow> string \<Rightarrow> datetime \<Rightarrow> string \<Rightarrow> EndpointLifecycle \<Rightarrow> uuid \<Rightarrow>
   (Endpoint \<times> EndpointIdentity) pg_op" where
  "exchange_grant grant fingerprint server_time actor_id identity_status correlation_id =
     sbind uuid4 (\<lambda>endpoint_id.
     sbind uuid4 (\<lambda>identity_id.
     sbind (lift (EndpointIdentity_post_init
       \<lparr>ei_identity_id = identity_id, ei_endpoint_id = endpoint_id,
        ei_public_key_fingerprint = fingerprint, ei_created_at = server_time,
        ei_status = identity_status, ei_revoked_at = None, ei_revocation_reason = None\<rparr>)) (\<lambda>identity.
     sbind (lift (Endpoint_post_init
       \<lparr>ep_endpoint_id = endpoint_id, ep_display_name = eg_display_name grant,
        ep_platform = eg_platform grant, ep_architecture = eg_architecture grant,
        ep_identity_id = identity_id, ep_enrolled_at = server_time,
        ep_last_receipt_at = None, ep_last_heartbeat_at = None\<rparr>)) (\<lambda>endpoint.
     sbind (insert_endpoint_row endpoint) (\<lambda>_.
     sbind (insert_identity_row identity) (\<lambda>_.
     sbind (consume_grant_row (eg_grant_id grant) server_time (ei_identity_id identity)) (\<lambda>rowcount.
     sbind (lift (raise_if (rowcount \<noteq> 1) (AssertionError ''locked grant must be consumable once''))) (\<lambda>_.
     sbind (insert_audit server_time ''service'' actor_id (grant_subject (Some grant))
       ''enrollment_grant.consume'' ''accepted'' ''grant exchanged for one endpoint identity''
       correlation_id
       [(''endpoint_id'', str_uuid (ep_endpoint_id endpoint)),
        (''identity_status'', lifecycle_value identity_status),
        (''identity_id'', str_uuid (ei_identity_id identity))]) (\<lambda>_.
     sbind (insert_audit server_time ''service'' actor_id
       (''endpoint:'' @ str_uuid (ep_endpoint_id endpoint)) ''endpoint.enroll'' ''accepted''
       ''single-use enrollment grant consumed'' correlation_id
       [(''grant_id'', str_uuid (eg_grant_id grant)),
        (''identity_id'', str_uuid (ei_identity_id identity))]) (\<lambda>_.
     sreturn (endpoint, identity)))))))))))"

definition consume_transaction ::
  "string option \<Rightarrow> string \<Rightarrow> datetime \<Rightarrow> string \<Rightarrow> EndpointLifecycle \<Rightarrow> bool \<Rightarrow> uuid \<Rightarrow>
   (string option \<times> (Endpoint \<times> EndpointIdentity) option) pg_op" where
  "consume_transaction token_sha256 fingerprint server_time actor_id identity_status
       allow_exact_retry correlation_id =
     sbind (inspect_grant token_sha256 fingerprint server_time allow_exact_retry) (\<lambda>(failure_reason, grant, retry).
     case (failure_reason, retry, grant) of
       (Some reason, _, _) \<Rightarrow>
         sbind (insert_audit server_time ''service'' actor_id (grant_subject grant)
           ''enrollment_grant.consume'' ''rejected'' reason correlation_id []) (\<lambda>_.
         sreturn (Some reason, retry))
     | (None, Some (endpoint, identity), _) \<Rightarrow>
         sbind (insert_audit server_time ''service'' actor_id (grant_subject grant)
           ''enrollment_grant.consume'' ''no_change'' ''exact enrollment retry resumed'' correlation_id
           [(''endpoint_id'', str_uuid (ep_endpoint_id endpoint)),
            (''identity_id'', str_uuid (ei_identity_id identity))]) (\<lambda>_.
         sreturn (None, Some (endpoint, identity)))
     | (None, None, Some g) \<Rightarrow>
         sbind (exchange_grant g fingerprint server_time actor_id identity_status correlation_id) (\<lambda>created.
         sreturn (None, Some created))
     | (None, None, None) \<Rightarrow> sreturn (None, None))"

text \<open>
  The grant that the handler of a unique violation names: the tables are those of before the
  transaction, in which the grant was read.
\<close>

definition grant_of_token :: "string option \<Rightarrow> Database \<Rightarrow> EnrollmentGrant option" where
  "grant_of_token token_sha256 db =
     (case token_sha256 of None \<Rightarrow> None | Some digest \<Rightarrow> find_grant_row digest db)"

definition consume_grant ::
  "string \<Rightarrow> string \<Rightarrow> datetime \<Rightarrow> string \<Rightarrow> EndpointLifecycle \<Rightarrow> bool \<Rightarrow> (Endpoint \<times> EndpointIdentity) pg_op" where
  "consume_grant token fingerprint now actor_id identity_status allow_exact_retry =
     sbind (lift (require_aware now ''now'')) (\<lambda>_.
     sbind (lift (astimezone_utc now)) (\<lambda>server_time.
     sbind (lift (raise_if (empty_or_longer actor_id 256)
       (ValidationError ''actor_id is empty or too long''))) (\<lambda>_.
     sbind uuid4 (\<lambda>correlation_id.
     let token_sha256 = (if is_enrollment_token token then Some (sha256_hex token) else None) in
     sbind (on_unique_violation
       (transaction (consume_transaction token_sha256 fingerprint server_time actor_id identity_status
         allow_exact_retry correlation_id))
       (sbind (db_read (grant_of_token token_sha256)) (\<lambda>grant.
        sbind (record_audit server_time ''service'' actor_id (grant_subject grant)
          ''enrollment_grant.consume'' ''rejected'' ''public key fingerprint is already enrolled''
          correlation_id []) (\<lambda>_.
        sraise (AuthorizationError ENROLLMENT_REJECTION))))) (\<lambda>(failure_reason, created).
     if failure_reason \<noteq> None then sraise (AuthorizationError ENROLLMENT_REJECTION)
     else case created of
       None \<Rightarrow> sraise (AssertionError ''accepted grant consumption must create an identity'')
     | Some pair \<Rightarrow> sreturn pair)))))"

definition consume_enrollment_grant ::
  "string \<Rightarrow> string \<Rightarrow> datetime \<Rightarrow> string \<Rightarrow> (Endpoint \<times> EndpointIdentity) pg_op" where
  "consume_enrollment_grant token fingerprint now actor_id =
     consume_grant token fingerprint now actor_id ACTIVE False"

definition begin_endpoint_enrollment ::
  "string \<Rightarrow> string \<Rightarrow> datetime \<Rightarrow> string \<Rightarrow> (Endpoint \<times> EndpointIdentity) pg_op" where
  "begin_endpoint_enrollment token fingerprint now actor_id =
     consume_grant token fingerprint now actor_id PENDING True"


section \<open>Issuance\<close>

text \<open>The pattern \<^verbatim>\<open>[1-9a-f][0-9a-f]{0,63}\<close>, matched in full.\<close>

definition is_certificate_serial :: "string \<Rightarrow> bool" where
  "is_certificate_serial s \<longleftrightarrow>
     s \<noteq> [] \<and> length s \<le> 64 \<and> list_all is_lower_hex s \<and> hd s \<noteq> CHR ''0''"

definition check_issuance ::
  "string \<Rightarrow> string \<Rightarrow> datetime \<Rightarrow> datetime \<Rightarrow> datetime \<Rightarrow> string \<Rightarrow> (datetime \<times> datetime \<times> datetime) result" where
  "check_issuance serial issuer certificate_not_before certificate_not_after now actor_id =
     rbind (require_aware certificate_not_before ''certificate_not_before'') (\<lambda>_.
     rbind (require_aware certificate_not_after ''certificate_not_after'') (\<lambda>_.
     rbind (require_aware now ''now'') (\<lambda>_.
     rbind (astimezone_utc now) (\<lambda>server_time.
     rbind (astimezone_utc certificate_not_before) (\<lambda>not_before.
     rbind (astimezone_utc certificate_not_after) (\<lambda>not_after.
     rbind (raise_if (\<not> is_certificate_serial serial)
       (ValidationError ''certificate serial is invalid'')) (\<lambda>_.
     rbind (raise_if (empty_or_longer issuer 256)
       (ValidationError ''certificate issuer is invalid'')) (\<lambda>_.
     rbind (raise_if (\<not> (instant not_before \<le> instant server_time \<and>
         instant server_time < instant not_after))
       (ValidationError ''certificate is not valid at activation time'')) (\<lambda>_.
     rbind (raise_if (instant not_after - instant not_before > MAX_ENDPOINT_CERTIFICATE_TTL)
       (ValidationError ''certificate lifetime exceeds the v1 limit'')) (\<lambda>_.
     rbind (raise_if (empty_or_longer actor_id 256)
       (ValidationError ''actor_id is empty or too long'')) (\<lambda>_.
     Inr (server_time, not_before, not_after))))))))))))"

definition exact_issuance_retry :: "string \<Rightarrow> string \<Rightarrow> datetime \<Rightarrow> datetime \<Rightarrow> IdentityRow \<Rightarrow> bool" where
  "exact_issuance_retry serial issuer not_before not_after row \<longleftrightarrow>
     ei_status row \<in> {ISSUED, ACTIVE} \<and> ir_certificate_serial row = Some serial \<and>
     ir_certificate_issuer row = Some issuer \<and> ir_certificate_not_before row = Some not_before \<and>
     ir_certificate_not_after row = Some not_after"

definition issue_transaction ::
  "uuid \<Rightarrow> string \<Rightarrow> string \<Rightarrow> datetime \<Rightarrow> datetime \<Rightarrow> datetime \<Rightarrow> string \<Rightarrow> uuid \<Rightarrow> EndpointIdentity pg_op" where
  "issue_transaction identity_id serial issuer not_before not_after server_time actor_id correlation_id =
     sbind (db_read (select_identity identity_id)) (\<lambda>found.
     case found of
       None \<Rightarrow> sraise (NotFoundError ''identity does not exist'')
     | Some (row, e) \<Rightarrow>
         sbind (lift (load_times (certificate_times row))) (\<lambda>_.
         sbind (lift (identity_from_row row)) (\<lambda>identity.
         if exact_issuance_retry serial issuer not_before not_after row
         then sbind (insert_audit server_time ''service'' actor_id (''identity:'' @ str_uuid identity_id)
             ''identity.issue'' ''no_change'' ''exact certificate issuance retry'' correlation_id []) (\<lambda>_.
           sreturn identity)
         else if ei_status row \<noteq> PENDING \<or> \<not> is_current row e
         then sraise (AuthorizationError ''identity is not pending and current'')
         else sbind (issue_identity_row identity_id serial issuer not_before not_after) (\<lambda>_.
           sbind (lift (EndpointIdentity_post_init (identity\<lparr>ei_status := ISSUED\<rparr>))) (\<lambda>issued.
           sbind (insert_audit server_time ''service'' actor_id (''identity:'' @ str_uuid identity_id)
             ''identity.issue'' ''accepted'' ''external endpoint certificate recorded'' correlation_id
             [(''certificate_issuer'', issuer), (''certificate_serial'', serial),
              (''endpoint_id'', str_uuid (ei_endpoint_id issued))]) (\<lambda>_.
           sreturn issued))))))"

definition record_issued_endpoint_identity ::
  "uuid \<Rightarrow> string \<Rightarrow> string \<Rightarrow> datetime \<Rightarrow> datetime \<Rightarrow> datetime \<Rightarrow> string \<Rightarrow> EndpointIdentity pg_op" where
  "record_issued_endpoint_identity identity_id serial issuer certificate_not_before
       certificate_not_after now actor_id =
     sbind (lift (check_issuance serial issuer certificate_not_before certificate_not_after now actor_id))
       (\<lambda>(server_time, not_before, not_after).
     sbind uuid4 (\<lambda>correlation_id.
     on_unique_violation
       (transaction (issue_transaction identity_id serial issuer not_before not_after server_time
         actor_id correlation_id))
       (sbind (record_audit server_time ''service'' actor_id (''identity:'' @ str_uuid identity_id)
          ''identity.issue'' ''rejected'' ''certificate issuer and serial are already registered''
          correlation_id []) (\<lambda>_.
        sraise (ValidationError ''certificate identity metadata conflicts'')))))"


section \<open>Synthetic enrollment\<close>

definition pg_enroll_synthetic_endpoint ::
  "string \<Rightarrow> Platform \<Rightarrow> string \<Rightarrow> string \<Rightarrow> datetime \<Rightarrow> string \<Rightarrow> (Endpoint \<times> EndpointIdentity) pg_op" where
  "pg_enroll_synthetic_endpoint display_name platform architecture fingerprint now actor_id =
     sbind (lift (require_aware now ''now'')) (\<lambda>_.
     sbind uuid4 (\<lambda>endpoint_id.
     sbind uuid4 (\<lambda>identity_id.
     sbind uuid4 (\<lambda>correlation_id.
     sbind (lift (EndpointIdentity_post_init
       \<lparr>ei_identity_id = identity_id, ei_endpoint_id = endpoint_id,
        ei_public_key_fingerprint = fingerprint, ei_created_at = now, ei_status = ACTIVE,
        ei_revoked_at = None, ei_revocation_reason = None\<rparr>)) (\<lambda>identity.
     sbind (lift (Endpoint_post_init
       \<lparr>ep_endpoint_id = endpoint_id, ep_display_name = display_name, ep_platform = platform,
        ep_architecture = architecture, ep_identity_id = identity_id, ep_enrolled_at = now,
        ep_last_receipt_at = None, ep_last_heartbeat_at = None\<rparr>)) (\<lambda>endpoint.
     sbind (on_unique_violation
       (transaction (
         sbind (insert_endpoint_row endpoint) (\<lambda>_.
         sbind (insert_identity_row identity) (\<lambda>_.
         insert_audit now ''operator'' actor_id (''endpoint:'' @ str_uuid endpoint_id)
           ''endpoint.enroll'' ''accepted'' ''synthetic Phase 1 enrollment'' correlation_id
           [(''identity_id'', str_uuid identity_id)]))))
       (sbind (record_audit now ''operator'' actor_id ''endpoint:new'' ''endpoint.enroll'' ''rejected''
          ''fingerprint is already enrolled'' correlation_id []) (\<lambda>_.
        sraise (ValidationError ''fingerprint is already enrolled'')))) (\<lambda>_.
     sreturn (endpoint, identity))))))))"

section \<open>Certificate authentication\<close>

text \<open>The row of an endpoint and a fingerprint; fingerprints are unique, so there is at most one.\<close>

definition select_certificate :: "uuid \<Rightarrow> string \<Rightarrow> Database \<Rightarrow> (IdentityRow \<times> Endpoint) option" where
  "select_certificate endpoint_id fingerprint db =
     (case find (\<lambda>i. ei_endpoint_id i = endpoint_id \<and> ei_public_key_fingerprint i = fingerprint)
         (dict_values (db_identities db)) of
        None \<Rightarrow> None
      | Some i \<Rightarrow> (case dict_get (db_endpoints db) (ei_endpoint_id i) of
          None \<Rightarrow> None
        | Some e \<Rightarrow> Some (i, e)))"

definition certificate_failure :: "IdentityRow \<Rightarrow> Endpoint \<Rightarrow> EndpointIdentity \<Rightarrow> string option" where
  "certificate_failure row e identity =
     (if ei_revoked_at identity \<noteq> None then Some ''certificate identity is revoked''
      else if ei_status row \<notin> {ISSUED, ACTIVE} \<or> \<not> is_current row e
        then Some ''certificate identity is not current''
      else None)"

definition authenticate_transaction ::
  "uuid \<Rightarrow> string \<Rightarrow> datetime \<Rightarrow> uuid \<Rightarrow> (string option \<times> EndpointIdentity option) pg_op" where
  "authenticate_transaction endpoint_id fingerprint server_time correlation_id =
     sbind (db_read (select_certificate endpoint_id fingerprint)) (\<lambda>found.
     sbind (case found of
         None \<Rightarrow> sreturn (Some ''certificate endpoint or public key is unknown'', None)
       | Some (row, e) \<Rightarrow>
           sbind (lift (identity_from_row row)) (\<lambda>identity.
           sreturn (certificate_failure row e identity, Some identity)))
       (\<lambda>(failure_reason, identity).
     sbind (insert_audit server_time ''endpoint_certificate'' (str_uuid endpoint_id)
       (''endpoint:'' @ str_uuid endpoint_id) ''certificate.authenticate''
       (if failure_reason \<noteq> None then ''rejected'' else ''accepted'')
       (case failure_reason of Some r \<Rightarrow> r | None \<Rightarrow> ''verified certificate key is current'')
       correlation_id []) (\<lambda>_.
     sreturn (failure_reason, identity))))"

definition authenticate_endpoint_certificate ::
  "uuid \<Rightarrow> string \<Rightarrow> datetime \<Rightarrow> uuid \<Rightarrow> EndpointIdentity pg_op" where
  "authenticate_endpoint_certificate endpoint_id fingerprint authenticated_at correlation_id =
     sbind (lift (require_aware authenticated_at ''authenticated_at'')) (\<lambda>_.
     sbind (lift (astimezone_utc authenticated_at)) (\<lambda>server_time.
     sbind (transaction (authenticate_transaction endpoint_id fingerprint server_time correlation_id))
       (\<lambda>(failure_reason, identity).
     case (failure_reason, identity) of
       (None, Some i) \<Rightarrow> sreturn i
     | _ \<Rightarrow> sraise (AuthorizationError ''endpoint certificate is unauthorized''))))"


section \<open>Revocation\<close>

definition revoke_transaction ::
  "uuid \<Rightarrow> string \<Rightarrow> string \<Rightarrow> datetime \<Rightarrow> uuid \<Rightarrow> EndpointIdentity pg_op" where
  "revoke_transaction identity_id reason actor_id now correlation_id =
     sbind (db_read (\<lambda>db. dict_get (db_identities db) identity_id)) (\<lambda>found.
     case found of
       None \<Rightarrow> sraise (NotFoundError ''identity does not exist'')
     | Some row \<Rightarrow>
         sbind (lift (identity_from_row row)) (\<lambda>identity.
         if ei_revoked_at identity \<noteq> None
         then sbind (insert_audit now ''operator'' actor_id (''identity:'' @ str_uuid identity_id)
             ''identity.revoke'' ''no_change'' ''identity already revoked'' correlation_id []) (\<lambda>_.
           sreturn identity)
         else sbind (lift (EndpointIdentity_post_init
             (identity\<lparr>ei_status := REVOKED, ei_revoked_at := Some now,
               ei_revocation_reason := Some reason\<rparr>))) (\<lambda>revoked.
           sbind (revoke_identity_row identity_id now reason) (\<lambda>_.
           sbind (insert_audit now ''operator'' actor_id (''identity:'' @ str_uuid identity_id)
             ''identity.revoke'' ''accepted'' reason correlation_id []) (\<lambda>_.
           sreturn revoked)))))"

definition pg_revoke_identity ::
  "uuid \<Rightarrow> string \<Rightarrow> string \<Rightarrow> datetime \<Rightarrow> uuid option \<Rightarrow> EndpointIdentity pg_op" where
  "pg_revoke_identity identity_id reason actor_id now correlation_id =
     sbind (lift (require_aware now ''now'')) (\<lambda>_.
     sbind (lift (raise_if (empty_or_longer reason 256)
       (ValidationError ''revocation reason is empty or too long''))) (\<lambda>_.
     sbind (case correlation_id of Some c \<Rightarrow> sreturn c | None \<Rightarrow> uuid4) (\<lambda>event_correlation_id.
     transaction (revoke_transaction identity_id reason actor_id now event_correlation_id))))"


section \<open>Message ingestion\<close>

text \<open>
  A failure is the exception that will be raised; its reason is the exception's text.  \<open>fail_if\<close> is
  one of the tests \<^verbatim>\<open>if failure is None and \<dots>: failure = \<dots>\<close>.
\<close>

definition fail_if :: "bool \<Rightarrow> error \<Rightarrow> error option \<Rightarrow> error option" where
  "fail_if b e failure = (if failure = None \<and> b then Some e else failure)"

fun error_text :: "error \<Rightarrow> string" where
  "error_text (ValidationError m) = m"
| "error_text (AuthorizationError m) = m"
| "error_text (ServiceUnavailableError m) = m"
| "error_text (ReplayError m) = m"
| "error_text (NotFoundError m) = m"
| "error_text (AssertionError m) = m"
| "error_text (DatabaseError m) = m"
| "error_text OverflowError = ''''"
| "error_text UniqueViolation = ''''"

definition ingest_identity_failure ::
  "(IdentityRow \<times> Endpoint) option \<Rightarrow> EndpointIdentity option \<Rightarrow> MessageEnvelope \<Rightarrow> string \<Rightarrow> error option" where
  "ingest_identity_failure row identity envelope observation_type =
     (case (row, identity) of
        (Some (r, e), Some i) \<Rightarrow>
          fail_if (me_endpoint_id envelope \<noteq> ei_endpoint_id i)
            (AuthorizationError ''message endpoint does not match transport identity'')
          (fail_if (ei_status r = ISSUED \<and> observation_type \<noteq> ''heartbeat'')
            (AuthorizationError ''issued identity requires an activation heartbeat'')
          (fail_if (ei_status r \<notin> {ISSUED, ACTIVE} \<or> \<not> is_current r e)
            (AuthorizationError ''authenticated identity is not current'')
          (fail_if (ei_revoked_at i \<noteq> None)
            (AuthorizationError ''authenticated identity is revoked'') None)))
      | _ \<Rightarrow> Some (AuthorizationError ''unknown authenticated identity''))"

definition select_message :: "uuid \<Rightarrow> Database \<Rightarrow> ObservationRow option" where
  "select_message message_id db = find (\<lambda>r. ob_message_id r = message_id) (db_observations db)"

text \<open>A message identifier that is already stored: an exact retry is acknowledged, anything else refused.\<close>

definition ingest_existing ::
  "uuid \<Rightarrow> MessageEnvelope \<Rightarrow> string \<Rightarrow> datetime \<Rightarrow> string option \<Rightarrow>
   (error option \<times> Observation option) pg_op" where
  "ingest_existing authenticated_identity_id envelope observation_type received_at encoded_digest =
     sbind (db_read (select_message (me_message_id envelope))) (\<lambda>existing.
     case existing of
       None \<Rightarrow> sreturn (None, None)
     | Some row \<Rightarrow>
         sbind (lift (load_times (observation_times row))) (\<lambda>_.
         if encoded_digest \<noteq> None \<and> ob_encoded_message_digest row = encoded_digest \<and>
            or_identity_id row = authenticated_identity_id \<and> ob_endpoint_id row = me_endpoint_id envelope
         then sbind (lift (observation_from_row row)) (\<lambda>observation.
           sbind (insert_audit received_at ''endpoint_identity'' (str_uuid authenticated_identity_id)
             (''endpoint:'' @ str_uuid (me_endpoint_id envelope)) (observation_type @ ''.ingest'')
             ''no_change'' ''exact accepted message retry acknowledged'' (me_correlation_id envelope)
             [(''message_id'', str_uuid (me_message_id envelope))]) (\<lambda>_.
           sreturn (None, Some observation)))
         else sreturn (Some (ReplayError ''message ID reused with conflict''), None)))"

text \<open>The tests of a message that is neither refused nor a retry, up to the sequence number.\<close>

definition ingest_new_failure ::
  "uuid \<Rightarrow> (IdentityRow \<times> Endpoint) option \<Rightarrow> MessageEnvelope \<Rightarrow> datetime \<Rightarrow>
   (Platform \<times> string) option \<Rightarrow> error option pg_op" where
  "ingest_new_failure authenticated_identity_id row envelope received_at inventory_binding =
     sbind (lift (dt_add received_at MAX_CLOCK_SKEW)) (\<lambda>latest.
     let failure = fail_if (case (inventory_binding, row) of
             (Some (platform, architecture), Some (_, e)) \<Rightarrow>
               platform_value platform \<noteq> platform_value (ep_platform e) \<or> architecture \<noteq> ep_architecture e
           | _ \<Rightarrow> False)
           (ValidationError ''inventory binding does not match enrolled endpoint'')
         (fail_if (instant received_at \<ge> instant (me_expires_at envelope))
           (ValidationError ''message expired before receipt'')
         (fail_if (instant (me_created_at envelope) > instant latest)
           (ValidationError ''message creation time exceeds allowed clock skew'') None))
     in if failure \<noteq> None then sreturn failure
        else sbind (upsert_sequence_row authenticated_identity_id (me_boot_id envelope)
            (me_sequence envelope)) (\<lambda>advanced.
          sreturn (if advanced then None
            else Some (ReplayError ''boot sequence replayed or out of order''))))"

definition new_row_observation ::
  "uuid \<Rightarrow> EndpointIdentity \<Rightarrow> MessageEnvelope \<Rightarrow> string \<Rightarrow> int \<Rightarrow> string \<Rightarrow> datetime \<Rightarrow> string option \<Rightarrow> Observation" where
  "new_row_observation v i env ty sv pd t d =
     \<lparr>ob_observation_id = v, ob_endpoint_id = ei_endpoint_id i, ob_message_id = me_message_id env,
      ob_observation_type = ty, ob_schema_version = sv, ob_source_time = me_created_at env,
      ob_received_at = t, ob_boot_id = me_boot_id env, ob_sequence = me_sequence env,
      ob_payload_digest = pd, ob_encoded_message_digest = d\<rparr>"

definition ingest_record ::
  "uuid \<Rightarrow> EndpointIdentity \<Rightarrow> MessageEnvelope \<Rightarrow> string \<Rightarrow> int \<Rightarrow> string \<Rightarrow> datetime \<Rightarrow> string option \<Rightarrow>
   Observation pg_op" where
  "ingest_record authenticated_identity_id identity envelope observation_type schema_version
       payload_digest received_at encoded_digest =
     sbind uuid4 (\<lambda>observation_id.
     sbind (lift (Observation_post_init (new_row_observation observation_id identity envelope
       observation_type schema_version payload_digest received_at encoded_digest))) (\<lambda>observation.
     sbind (insert_observation_row authenticated_identity_id observation) (\<lambda>_.
     sbind (if observation_type = ''heartbeat''
       then sbind (update_receipt True (ei_endpoint_id identity) received_at) (\<lambda>_.
         sbind (activate_identity_row (ei_identity_id identity) received_at) (\<lambda>activated.
         if activated
         then insert_audit received_at ''endpoint_identity'' (str_uuid (ei_identity_id identity))
           (''endpoint:'' @ str_uuid (ei_endpoint_id identity)) ''identity.activate'' ''accepted''
           ''first authenticated heartbeat accepted'' (me_correlation_id envelope) []
         else sreturn ()))
       else update_receipt False (ei_endpoint_id identity) received_at) (\<lambda>_.
     sbind (insert_audit received_at ''endpoint_identity'' (str_uuid (ei_identity_id identity))
       (''endpoint:'' @ str_uuid (ei_endpoint_id identity)) (observation_type @ ''.ingest'') ''accepted''
       ''message contract and authorization checks passed'' (me_correlation_id envelope)
       (acceptance_metadata observation)) (\<lambda>_.
     sreturn observation)))))"

definition ingest_finish ::
  "uuid \<Rightarrow> MessageEnvelope \<Rightarrow> string \<Rightarrow> int \<Rightarrow> string \<Rightarrow> datetime \<Rightarrow> string option \<Rightarrow>
   EndpointIdentity option \<Rightarrow> Observation option \<Rightarrow> error option \<Rightarrow>
   (error option \<times> Observation option) pg_op" where
  "ingest_finish authenticated_identity_id envelope observation_type schema_version payload_digest
       received_at encoded_digest identity observation failure =
     (case (failure, observation, identity) of
       (Some e, _, _) \<Rightarrow>
         sbind (insert_rejection authenticated_identity_id (me_endpoint_id envelope)
           (observation_type @ ''.ingest'') (error_text e) (me_correlation_id envelope) received_at) (\<lambda>_.
         sreturn (Some e, observation))
     | (None, Some ob, _) \<Rightarrow> sreturn (None, Some ob)
     | (None, None, None) \<Rightarrow> sraise (AssertionError ''authorized ingestion requires an identity'')
     | (None, None, Some i) \<Rightarrow>
         sbind (ingest_record authenticated_identity_id i envelope observation_type schema_version
           payload_digest received_at encoded_digest) (\<lambda>ob.
         sreturn (None, Some ob)))"

definition ingest_transaction ::
  "uuid \<Rightarrow> MessageEnvelope \<Rightarrow> string \<Rightarrow> int \<Rightarrow> string \<Rightarrow> datetime \<Rightarrow> (Platform \<times> string) option \<Rightarrow>
   string option \<Rightarrow> (error option \<times> Observation option) pg_op" where
  "ingest_transaction authenticated_identity_id envelope observation_type schema_version payload_digest
       received_at inventory_binding encoded_digest =
     sbind (db_read (select_identity authenticated_identity_id)) (\<lambda>row.
     sbind (case row of
         None \<Rightarrow> sreturn None
       | Some (r, _) \<Rightarrow> sbind (lift (identity_from_row r)) (\<lambda>i. sreturn (Some i))) (\<lambda>identity.
     sbind (case ingest_identity_failure row identity envelope observation_type of
         Some e \<Rightarrow> sreturn (Some e, None)
       | None \<Rightarrow> ingest_existing authenticated_identity_id envelope observation_type received_at
           encoded_digest) (\<lambda>(failure, observation).
     sbind (if failure = None \<and> observation = None
       then ingest_new_failure authenticated_identity_id row envelope received_at inventory_binding
       else sreturn failure)
     (ingest_finish authenticated_identity_id envelope observation_type schema_version payload_digest
       received_at encoded_digest identity observation))))"

definition pg_ingest ::
  "uuid \<Rightarrow> MessageEnvelope \<Rightarrow> string \<Rightarrow> int \<Rightarrow> string \<Rightarrow> datetime \<Rightarrow> (Platform \<times> string) option \<Rightarrow>
   string option \<Rightarrow> Observation pg_op" where
  "pg_ingest authenticated_identity_id envelope observation_type schema_version payload_digest
       received received_binding encoded_digest =
     sbind (lift (require_aware received ''received_at'')) (\<lambda>_.
     sbind (lift (astimezone_utc received)) (\<lambda>received_at.
     sbind (on_unique_violation
       (transaction (ingest_transaction authenticated_identity_id envelope observation_type
         schema_version payload_digest received_at received_binding encoded_digest))
       (sbind (record_rejection authenticated_identity_id (me_endpoint_id envelope)
          (observation_type @ ''.ingest'') ''message ID or boot sequence replayed''
          (me_correlation_id envelope) received_at) (\<lambda>_.
        sraise (ReplayError ''message ID or boot sequence replayed'')))) (\<lambda>(failure, observation).
     case (failure, observation) of
       (Some e, _) \<Rightarrow> sraise e
     | (None, None) \<Rightarrow> sraise (AssertionError ''accepted ingestion must create an observation'')
     | (None, Some ob) \<Rightarrow> sreturn ob)))"

definition pg_ingest_heartbeat ::
  "uuid \<Rightarrow> HeartbeatMessage \<Rightarrow> datetime \<Rightarrow> string option \<Rightarrow> Observation pg_op" where
  "pg_ingest_heartbeat authenticated_identity_id message received_at encoded_digest =
     pg_ingest authenticated_identity_id (hm_envelope message) ''heartbeat'' 1
       (heartbeat_digest (hm_payload message)) received_at None encoded_digest"

definition pg_ingest_inventory ::
  "uuid \<Rightarrow> InventoryMessage \<Rightarrow> datetime \<Rightarrow> string option \<Rightarrow> Observation pg_op" where
  "pg_ingest_inventory authenticated_identity_id message received_at encoded_digest =
     pg_ingest authenticated_identity_id (im_envelope message) ''inventory''
       (ip_schema_version (im_payload message)) (inventory_digest (im_payload message)) received_at
       (Some (ip_platform (im_payload message), ip_architecture (im_payload message))) encoded_digest"

end
