(* ===== verification/Persistence_Steps.thy ===== *)
theory Persistence_Steps
  imports Persistence
begin

text \<open>
  What the operations of the database adapter can do to the tables.  \<open>db_change\<close> has one rule per kind
  of change; every operation, whether it returns or raises, makes a sequence of such changes.  The
  invariants and the permanence results follow from \<open>db_change\<close> alone.
\<close>


section \<open>Changes\<close>

definition log_row :: "AuditEvent \<Rightarrow> Database \<Rightarrow> Database" where
  "log_row ev db = db\<lparr>db_audit_events := db_audit_events db @ [ev]\<rparr>"

text \<open>A new endpoint and its identity: constructed values, new keys, a new fingerprint.\<close>

definition fresh_pair :: "Endpoint \<Rightarrow> EndpointIdentity \<Rightarrow> Database \<Rightarrow> bool" where
  "fresh_pair e i db \<longleftrightarrow>
     endpoint_ok e \<and> identity_ok i \<and> ep_identity_id e = ei_identity_id i \<and> ei_endpoint_id i = ep_endpoint_id e \<and>
     ep_last_receipt_at e = None \<and> ep_last_heartbeat_at e = None \<and> ei_status i \<in> {ACTIVE, PENDING} \<and>
     dict_get (db_endpoints db) (ep_endpoint_id e) = None \<and>
     dict_get (db_identities db) (ei_identity_id i) = None \<and>
     (\<forall>r\<in>set (dict_values (db_identities db)). ei_public_key_fingerprint r \<noteq> ei_public_key_fingerprint i)"

definition stored_endpoint :: "Endpoint \<Rightarrow> Endpoint" where
  "stored_endpoint e = e\<lparr>ep_enrolled_at := pg_timestamptz (ep_enrolled_at e), ep_last_receipt_at := None,
     ep_last_heartbeat_at := None\<rparr>"

definition join_rows :: "Endpoint \<Rightarrow> EndpointIdentity \<Rightarrow> Database \<Rightarrow> Database" where
  "join_rows e i db =
     db\<lparr>db_endpoints := dict_set (ep_endpoint_id e) (stored_endpoint e) (db_endpoints db),
        db_identities := dict_set (ei_identity_id i) (identity_row i) (db_identities db)\<rparr>"

definition stored_grant :: "EnrollmentGrant \<Rightarrow> EnrollmentGrant" where
  "stored_grant g = g\<lparr>eg_created_at := pg_timestamptz (eg_created_at g),
     eg_expires_at := pg_timestamptz (eg_expires_at g), eg_consumed_at := None,
     eg_consumed_identity_id := None\<rparr>"

definition consumed_grant :: "datetime \<Rightarrow> uuid \<Rightarrow> EnrollmentGrant \<Rightarrow> EnrollmentGrant" where
  "consumed_grant t v g = g\<lparr>eg_consumed_at := Some (pg_timestamptz t), eg_consumed_identity_id := Some v\<rparr>"

definition issued_row :: "string \<Rightarrow> string \<Rightarrow> datetime \<Rightarrow> datetime \<Rightarrow> IdentityRow \<Rightarrow> IdentityRow" where
  "issued_row serial issuer not_before not_after r =
     r\<lparr>ei_status := ISSUED, ir_certificate_serial := Some serial, ir_certificate_issuer := Some issuer,
       ir_certificate_not_before := Some (pg_timestamptz not_before),
       ir_certificate_not_after := Some (pg_timestamptz not_after)\<rparr>"

definition revoked_row :: "datetime \<Rightarrow> string \<Rightarrow> IdentityRow \<Rightarrow> IdentityRow" where
  "revoked_row t reason r =
     r\<lparr>ei_status := REVOKED, ei_revoked_at := Some (pg_timestamptz t), ei_revocation_reason := Some reason\<rparr>"

definition activated_row :: "datetime \<Rightarrow> IdentityRow \<Rightarrow> IdentityRow" where
  "activated_row t r = r\<lparr>ei_status := ACTIVE, ir_activated_at := Some (pg_timestamptz t)\<rparr>"

text \<open>A grant that can be exchanged at \<open>server_time\<close> for an identity with fingerprint \<open>fp\<close>.\<close>

definition open_grant :: "EnrollmentGrant \<Rightarrow> datetime \<Rightarrow> string \<Rightarrow> Database \<Rightarrow> bool" where
  "open_grant g server_time fp db \<longleftrightarrow>
     g \<in> set (dict_values (db_grants db)) \<and> grant_ok g \<and> eg_consumed_at g = None \<and> is_fingerprint fp \<and>
     instant (eg_created_at g) \<le> instant server_time \<and> instant server_time < instant (eg_expires_at g)"

text \<open>An accepted message of the current identity \<open>k\<close>, whose row is \<open>r\<close> and whose endpoint is \<open>e\<close>.\<close>

definition acceptable :: "uuid \<Rightarrow> IdentityRow \<Rightarrow> Endpoint \<Rightarrow> Observation \<Rightarrow> Database \<Rightarrow> bool" where
  "acceptable k r e ob db \<longleftrightarrow>
     select_identity k db = Some (r, e) \<and> is_current r e \<and> ei_revoked_at r = None \<and>
     ei_status r \<in> {ISSUED, ACTIVE} \<and> ob_observation_type ob \<in> {''heartbeat'', ''inventory''} \<and>
     (ei_status r = ISSUED \<longrightarrow> ob_observation_type ob = ''heartbeat'' \<and>
        instant (ei_created_at r) \<le> instant (ob_received_at ob)) \<and>
     observation_ok ob \<and> ob_endpoint_id ob = ei_endpoint_id r \<and>
     (\<forall>x\<in>set (db_observations db). ob_message_id x \<noteq> ob_message_id ob) \<and>
     (case dict_get (db_sequences db) (k, ob_boot_id ob) of None \<Rightarrow> True | Some n \<Rightarrow> n < ob_sequence ob)"

definition ingest_rows :: "uuid \<Rightarrow> IdentityRow \<Rightarrow> Endpoint \<Rightarrow> Observation \<Rightarrow> Database \<Rightarrow> Database" where
  "ingest_rows k r e ob db =
     db\<lparr>db_sequences := dict_set (k, ob_boot_id ob) (ob_sequence ob) (db_sequences db),
        db_observations := db_observations db @ [observation_row k ob],
        db_endpoints := dict_set (ei_endpoint_id r)
          (touch_row (ob_observation_type ob = ''heartbeat'') (ob_received_at ob) e) (db_endpoints db),
        db_identities := (if ei_status r = ISSUED
          then dict_set k (activated_row (ob_received_at ob) r) (db_identities db) else db_identities db)\<rparr>"

inductive db_change :: "Database \<Rightarrow> Database \<Rightarrow> bool" for db where
  logged: "db_change db (log_row ev db)"
| granted: "grant_ok g \<Longrightarrow> dict_get (db_grants db) (eg_grant_id g) = None \<Longrightarrow>
    \<forall>h\<in>set (dict_values (db_grants db)). eg_token_sha256 h \<noteq> eg_token_sha256 g \<Longrightarrow>
    db_change db (db\<lparr>db_grants := dict_set (eg_grant_id g) (stored_grant g) (db_grants db)\<rparr>)"
| joined: "fresh_pair e i db \<Longrightarrow> db_change db (join_rows e i db)"
| exchanged: "fresh_pair e i db \<Longrightarrow> open_grant h t (ei_public_key_fingerprint i) db \<Longrightarrow>
    is_aware t \<Longrightarrow> in_range (instant t) \<Longrightarrow> ep_display_name e = eg_display_name h \<Longrightarrow>
    ep_platform e = eg_platform h \<Longrightarrow> ep_architecture e = eg_architecture h \<Longrightarrow>
    dict_get (db_grants db) (eg_grant_id h) = Some g \<Longrightarrow> eg_consumed_at g = None \<Longrightarrow>
    \<forall>x\<in>set (dict_values (db_grants db)). eg_consumed_identity_id x \<noteq> Some (ei_identity_id i) \<Longrightarrow>
    db_change db ((join_rows e i db)\<lparr>db_grants :=
      dict_set (eg_grant_id h) (consumed_grant t (ei_identity_id i) g) (db_grants db)\<rparr>)"
| issued: "dict_get (db_identities db) k = Some r \<Longrightarrow> ei_status r = PENDING \<Longrightarrow>
    \<forall>(j, x)\<in>set (db_identities db). j \<noteq> k \<longrightarrow>
      \<not> (ir_certificate_issuer x = Some issuer \<and> ir_certificate_serial x = Some serial) \<Longrightarrow>
    db_change db (db\<lparr>db_identities :=
      dict_set k (issued_row serial issuer not_before not_after r) (db_identities db)\<rparr>)"
| revoked: "dict_get (db_identities db) k = Some r \<Longrightarrow> ei_revoked_at r = None \<Longrightarrow>
    identity_ok (EndpointIdentity.truncate (revoked_row t reason r)) \<Longrightarrow>
    db_change db (db\<lparr>db_identities := dict_set k (revoked_row t reason r) (db_identities db)\<rparr>)"
| ingested: "acceptable k r e ob db \<Longrightarrow> db_change db (ingest_rows k r e ob db)"

abbreviation db_changes :: "Database \<Rightarrow> Database \<Rightarrow> bool" where
  "db_changes \<equiv> db_change\<^sup>*\<^sup>*"

inductive_cases db_changeE: "db_change db db'"


section \<open>Rules for the statements\<close>

lemma pg_varchar_Inr: "pg_varchar n s = Inr t \<Longrightarrow> length s \<le> n \<Longrightarrow> t = s"
  by (auto simp: pg_varchar_def split: if_splits)

lemma wp_insert_audit:
  assumes "\<And>ev n. Q () (s\<lparr>rng_pos := n, pg_db := log_row ev (pg_db s)\<rparr>)"
  shows "wp (insert_audit t ty ai su ac de re co me) Q s"
  using assms by (simp add: insert_audit_def insert_audit_row_def log_row_def)

lemma changes_logged: "db_changes db db' \<Longrightarrow> db_changes db (log_row ev db')"
  by (rule rtranclp.rtrancl_into_rtrancl) (auto intro: db_change.logged)

lemma wp_insert_audit_changes:
  "db_changes db (pg_db s) \<Longrightarrow> wp (insert_audit t ty ai su ac de re co me) (\<lambda>_ s'. db_changes db (pg_db s')) s"
  by (rule wp_insert_audit) (simp add: changes_logged)

lemma transaction_changes:
  assumes "wp m (\<lambda>_ s'. db_changes (pg_db s) (pg_db s')) s"
  shows "db_changes (pg_db s) (pg_db (snd (transaction m s)))"
  using wp_Inr [OF assms] by (auto simp: transaction_def split: prod.splits sum.splits)

text \<open>Every row is stored under its own identifier.\<close>

definition keyed :: "Database \<Rightarrow> bool" where
  "keyed db \<longleftrightarrow>
     (\<forall>k e. dict_get (db_endpoints db) k = Some e \<longrightarrow> ep_endpoint_id e = k) \<and>
     (\<forall>k r. dict_get (db_identities db) k = Some r \<longrightarrow> ei_identity_id r = k) \<and>
     (\<forall>k g. dict_get (db_grants db) k = Some g \<longrightarrow> eg_grant_id g = k)"

lemma identity_row_sel [simp]:
  "ei_identity_id (identity_row i) = ei_identity_id i"
  "ei_endpoint_id (identity_row i) = ei_endpoint_id i"
  "ei_public_key_fingerprint (identity_row i) = ei_public_key_fingerprint i"
  "ei_created_at (identity_row i) = pg_timestamptz (ei_created_at i)"
  "ei_status (identity_row i) = ei_status i"
  "ei_revoked_at (identity_row i) = None"
  "ei_revocation_reason (identity_row i) = None"
  "ir_certificate_serial (identity_row i) = None"
  "ir_certificate_issuer (identity_row i) = None"
  "ir_activated_at (identity_row i) = None"
  by (simp_all add: identity_row_def EndpointIdentity.extend_def IdentityRow.fields_def)

lemma touch_row_sel [simp]:
  "ep_endpoint_id (touch_row h t e) = ep_endpoint_id e" "ep_identity_id (touch_row h t e) = ep_identity_id e"
  "ep_platform (touch_row h t e) = ep_platform e" "ep_architecture (touch_row h t e) = ep_architecture e"
  by (simp_all add: touch_row_def)

lemmas row_defs = stored_endpoint_def join_rows_def stored_grant_def consumed_grant_def issued_row_def
  revoked_row_def activated_row_def ingest_rows_def log_row_def

lemma keyed_change: "db_change db db' \<Longrightarrow> keyed db \<Longrightarrow> keyed db'"
  by (erule db_changeE) (auto simp: keyed_def row_defs acceptable_def select_identity_def split: option.splits)

lemma keyed_changes: "db_changes db db' \<Longrightarrow> keyed db \<Longrightarrow> keyed db'"
  by (induction rule: rtranclp_induct) (auto intro: keyed_change)

text \<open>\<open>changes m\<close>: whatever happens, the tables evolve by changes.\<close>

definition changes :: "'a pg_op \<Rightarrow> bool" where
  "changes m \<longleftrightarrow> (\<forall>s. keyed (pg_db s) \<longrightarrow> db_changes (pg_db s) (pg_db (snd (m s))))"

lemma changes_sbind:
  assumes "changes m" "\<And>x. changes (f x)"
  shows "changes (sbind m f)"
  unfolding changes_def
proof (intro allI impI)
  fix s :: PostgresControlPlane
  assume k: "keyed (pg_db s)"
  obtain r s' where m: "m s = (r, s')"
    by fastforce
  then have *: "db_changes (pg_db s) (pg_db s')"
    using assms(1) k by (auto simp: changes_def dest: spec [of _ s])
  with k have "keyed (pg_db s')"
    by (blast intro: keyed_changes)
  then show "db_changes (pg_db s) (pg_db (snd (sbind m f s)))"
    using assms(2) * m by (auto simp: sbind_def changes_def split: sum.split intro: rtranclp_trans)
qed

lemma changes_on_unique_violation:
  assumes "changes m" "changes h"
  shows "changes (on_unique_violation m h)"
  unfolding changes_def
proof (intro allI impI)
  fix s :: PostgresControlPlane
  assume k: "keyed (pg_db s)"
  obtain r s' where m: "m s = (r, s')"
    by fastforce
  then have *: "db_changes (pg_db s) (pg_db s')"
    using assms(1) k by (auto simp: changes_def dest: spec [of _ s])
  with k have "keyed (pg_db s')"
    by (blast intro: keyed_changes)
  then show "db_changes (pg_db s) (pg_db (snd (on_unique_violation m h s)))"
    using assms(2) * m
    by (auto simp: on_unique_violation_def changes_def split: sum.split error.split intro: rtranclp_trans)
qed

lemma changes_prims:
  "changes (sreturn x)" "changes (sraise e)" "changes (lift r)" "changes (sread g)" "changes (db_read h)"
  "changes uuid4" "changes token_urlsafe"
  by (simp_all add: changes_def op_simps db_read_def uuid4_def token_urlsafe_def)

lemma changes_transaction:
  "(\<And>s. keyed (pg_db s) \<Longrightarrow> wp m (\<lambda>_ s'. db_changes (pg_db s) (pg_db s')) s) \<Longrightarrow> changes (transaction m)"
  by (simp add: changes_def transaction_changes)

lemma changes_case_option:
  "changes a \<Longrightarrow> (\<And>x. changes (f x)) \<Longrightarrow> changes (case v of None \<Rightarrow> a | Some x \<Rightarrow> f x)"
  by (cases v) auto

lemma changes_if: "changes a \<Longrightarrow> changes b \<Longrightarrow> changes (if c then a else b)"
  by simp

lemmas changes_intros = changes_sbind changes_on_unique_violation changes_prims changes_case_option changes_if

lemma changes_record_audit: "changes (record_audit t ty ai su ac de re co me)"
  unfolding record_audit_def by (intro changes_transaction wp_insert_audit_changes) simp

lemma changes_record_rejection: "changes (record_rejection k e a r c t)"
  unfolding record_rejection_def by (rule changes_record_audit)

text \<open>What a check established is available to what follows.\<close>

lemma changes_lift: "(\<And>x. r = Inr x \<Longrightarrow> changes (f x)) \<Longrightarrow> changes (sbind (lift r) f)"
  by (cases r) (simp_all add: changes_def op_simps)

lemma changes_correlation:
  "(\<And>v. changes (f v)) \<Longrightarrow> changes (sbind (case c of Some v \<Rightarrow> sreturn v | None \<Rightarrow> uuid4) f)"
  by (intro changes_sbind changes_case_option changes_prims)

lemma wp_case_option [simp]:
  "wp (case v of None \<Rightarrow> a | Some x \<Rightarrow> f x) Q s \<longleftrightarrow> (case v of None \<Rightarrow> wp a Q s | Some x \<Rightarrow> wp (f x) Q s)"
  by (cases v) simp_all

lemma wp_if [simp]: "wp (if c then a else b) Q s \<longleftrightarrow> (if c then wp a Q s else wp b Q s)"
  by simp


section \<open>The operations\<close>

lemma changes_record_operator_access:
  "changes (pg_record_operator_access actor subject action decision reason c now metadata)"
  unfolding pg_record_operator_access_def by (intro changes_intros changes_record_audit)

lemma not_longer: "\<not> empty_or_longer s n \<Longrightarrow> length s \<le> n"
  by (simp add: empty_or_longer_def)

lemma wp_insert_grant_row:
  assumes "grant_ok g" "db_changes db (pg_db s)"
  shows "wp (insert_grant_row g) (\<lambda>_ s'. db_changes db (pg_db s')) s"
proof -
  have len: "length (eg_display_name g) \<le> 128" "length (eg_created_by g) \<le> 256"
    using assms(1) by (simp_all add: EnrollmentGrant_post_init_Inr not_longer MAX_DISPLAY_NAME_LENGTH_def)
  show ?thesis
    using assms len
    by (auto simp: insert_grant_row_def list_ex_iff stored_grant_def dest!: pg_varchar_Inr
        intro!: rtranclp.rtrancl_into_rtrancl [OF assms(2)] db_change.granted [unfolded stored_grant_def]) force
qed

lemma changes_create_enrollment_grant: "changes (create_enrollment_grant name pl ar now actor ttl)"
  unfolding create_enrollment_grant_def Let_def
proof (intro changes_lift changes_sbind changes_prims changes_transaction)
  fix g c x s a v e t u
  assume "EnrollmentGrant_post_init x = Inr g"
  then have "grant_ok g"
    by (auto simp: EnrollmentGrant_post_init_Inr)
  then show "wp (sbind (insert_grant_row g) (\<lambda>_. insert_audit t ''operator'' actor
        (''enrollment_grant:'' @ str_uuid (eg_grant_id g)) ''enrollment_grant.create'' ''accepted''
        ''short-lived single-use grant created'' c
        [(''architecture'', eg_architecture g), (''display_name'', eg_display_name g),
         (''expires_at'', isoformat (eg_expires_at g)), (''platform'', platform_value (eg_platform g))]))
      (\<lambda>_ s'. db_changes (pg_db s) (pg_db s')) s"
    by (simp only: wp_sbind) (rule wp_mono [OF wp_insert_grant_row], auto intro: wp_insert_audit_changes)
qed

text \<open>The two inserts of an enrollment.\<close>

lemma wp_insert_pair:
  assumes ok: "endpoint_ok e" "identity_ok i" "ep_identity_id e = ei_identity_id i"
      "ei_endpoint_id i = ep_endpoint_id e" "ep_last_receipt_at e = None" "ep_last_heartbeat_at e = None"
      "ei_status i \<in> {ACTIVE, PENDING}"
    and post: "fresh_pair e i (pg_db s) \<Longrightarrow> Q () (s\<lparr>pg_db := join_rows e i (pg_db s)\<rparr>)"
  shows "wp (insert_endpoint_row e) (\<lambda>_. wp (insert_identity_row i) Q) s"
proof -
  have len: "length (ep_display_name e) \<le> 128" "length (ep_architecture e) \<le> 32"
    using ok(1) by (simp_all add: Endpoint_post_init_Inr not_longer MAX_DISPLAY_NAME_LENGTH_def)
  have fresh: "fresh_pair e i (pg_db s)"
    if "dict_get (db_endpoints (pg_db s)) (ep_endpoint_id e) = None"
      "dict_get (db_identities (pg_db s)) (ei_identity_id i) = None"
      "\<not> list_ex (\<lambda>r. ei_public_key_fingerprint r = ei_public_key_fingerprint i)
         (dict_values (db_identities (pg_db s)))"
    using that ok by (auto simp: fresh_pair_def list_ex_iff)
  show ?thesis
    using len post fresh ok
    by (auto simp: insert_endpoint_row_def insert_identity_row_def join_rows_def stored_endpoint_def
        dest!: pg_varchar_Inr)
qed

lemma changes_pg_enroll_synthetic_endpoint:
  "changes (pg_enroll_synthetic_endpoint name pl ar fp now actor)"
  unfolding pg_enroll_synthetic_endpoint_def
proof (intro changes_lift changes_intros changes_transaction changes_record_audit)
  fix ep_id id_id c i e and s :: PostgresControlPlane
  assume i: "EndpointIdentity_post_init
       \<lparr>ei_identity_id = id_id, ei_endpoint_id = ep_id, ei_public_key_fingerprint = fp, ei_created_at = now,
        ei_status = ACTIVE, ei_revoked_at = None, ei_revocation_reason = None\<rparr> = Inr i"
    and e: "Endpoint_post_init
       \<lparr>ep_endpoint_id = ep_id, ep_display_name = name, ep_platform = pl, ep_architecture = ar,
        ep_identity_id = id_id, ep_enrolled_at = now, ep_last_receipt_at = None,
        ep_last_heartbeat_at = None\<rparr> = Inr e"
  have "db_changes (pg_db s) (join_rows e i (pg_db s))" if "fresh_pair e i (pg_db s)"
    using that by (auto intro: db_change.joined)
  then show "wp (sbind (insert_endpoint_row e) (\<lambda>_. sbind (insert_identity_row i) (\<lambda>_.
       insert_audit now ''operator'' actor (''endpoint:'' @ str_uuid ep_id) ''endpoint.enroll'' ''accepted''
         ''synthetic Phase 1 enrollment'' c [(''identity_id'', str_uuid id_id)])))
      (\<lambda>_ s'. db_changes (pg_db s) (pg_db s')) s"
    using i e
    by (simp only: wp_sbind)
       (rule wp_insert_pair, auto simp: post_init_iffs intro: wp_insert_audit_changes)
qed

lemma find_Some: "find P xs = Some x \<Longrightarrow> x \<in> set xs \<and> P x"
  by (auto simp: find_Some_iff)

lemma select_identityD:
  "select_identity k db = Some (r, e) \<Longrightarrow>
     dict_get (db_identities db) k = Some r \<and> dict_get (db_endpoints db) (ei_endpoint_id r) = Some e"
  by (auto simp: select_identity_def split: option.splits)

text \<open>Looking a grant up changes nothing; an unconsumed grant without a reason to refuse it is open.\<close>

lemma wp_inspect_grant:
  assumes "\<And>failure grant. failure \<noteq> None \<Longrightarrow> Q (failure, grant, None) s"
    and "\<And>g e i. grant_ok g \<Longrightarrow> eg_consumed_at g \<noteq> None \<Longrightarrow> Q (None, Some g, Some (e, i)) s"
    and "\<And>g. open_grant g server_time fp (pg_db s) \<Longrightarrow> Q (None, Some g, None) s"
  shows "wp (inspect_grant token fp server_time retry) Q s"
proof (cases token)
  case (Some d)
  show ?thesis
  proof (cases "find_grant_row d (pg_db s)")
    case found: (Some row)
    then have row: "row \<in> set (dict_values (db_grants (pg_db s)))"
      unfolding find_grant_row_def by (blast dest: find_Some)
    have "wp (resume_enrollment g v fp) Q s" if "grant_ok g" "eg_consumed_at g \<noteq> None" for g v
      using assms(1,2) that by (auto simp: resume_enrollment_def split: option.splits)
    then show ?thesis
      using Some found row assms
      by (auto simp: inspect_grant_def from_row_Inr open_grant_def not_less not_le
          EnrollmentGrant_post_init_Inr split: option.splits)
  qed (use Some assms in \<open>simp add: inspect_grant_def\<close>)
qed (use assms in \<open>simp add: inspect_grant_def\<close>)

lemma wp_consume_grant_row:
  assumes "\<And>g. dict_get (db_grants (pg_db s)) k = Some g \<Longrightarrow> eg_consumed_at g = None \<Longrightarrow>
      \<forall>x\<in>set (dict_values (db_grants (pg_db s))). eg_consumed_identity_id x \<noteq> Some v \<Longrightarrow>
      Q 1 (s\<lparr>pg_db := (pg_db s)\<lparr>db_grants := dict_set k (consumed_grant t v g) (db_grants (pg_db s))\<rparr>\<rparr>)"
    and "Q 0 s"
  shows "wp (consume_grant_row k t v) Q s"
  using assms by (auto simp: consume_grant_row_def consumed_grant_def list_ex_iff split: option.splits)

lemma wp_exchange_grant:
  assumes "open_grant g server_time fp (pg_db s)" "is_aware server_time" "in_range (instant server_time)"
    and "status \<in> {ACTIVE, PENDING}"
  shows "wp (exchange_grant g fp server_time actor status c) (\<lambda>_ s'. db_changes (pg_db s) (pg_db s')) s"
proof -
  let ?v = "rng_seq s (rng_pos s)" and ?w = "rng_seq s (Suc (rng_pos s))"
  let ?i = "\<lparr>ei_identity_id = ?w, ei_endpoint_id = ?v, ei_public_key_fingerprint = fp,
      ei_created_at = server_time, ei_status = status, ei_revoked_at = None, ei_revocation_reason = None\<rparr>"
  let ?e = "\<lparr>ep_endpoint_id = ?v, ep_display_name = eg_display_name g, ep_platform = eg_platform g,
      ep_architecture = eg_architecture g, ep_identity_id = ?w, ep_enrolled_at = server_time,
      ep_last_receipt_at = None, ep_last_heartbeat_at = None\<rparr>"
  have change: "db_changes (pg_db s) ((join_rows ?e ?i (pg_db s))\<lparr>db_grants :=
      dict_set (eg_grant_id g) (consumed_grant server_time ?w x) (db_grants (pg_db s))\<rparr>)"
    if "fresh_pair ?e ?i (pg_db s)" "dict_get (db_grants (pg_db s)) (eg_grant_id g) = Some x"
      "eg_consumed_at x = None"
      "\<forall>h\<in>set (dict_values (db_grants (pg_db s))). eg_consumed_identity_id h \<noteq> Some ?w" for x
    using db_change.exchanged [OF that(1), of g server_time x] assms that by auto
  have grants: "db_grants (join_rows ?e ?i db) = db_grants db" for db
    by (simp add: join_rows_def)
  have "wp (insert_endpoint_row ?e) (\<lambda>_. wp (insert_identity_row ?i) (\<lambda>_.
      wp (consume_grant_row (eg_grant_id g) server_time ?w)
        (\<lambda>n s'. n = 1 \<longrightarrow> db_changes (pg_db s) (pg_db s')))) (s\<lparr>rng_pos := Suc (Suc (rng_pos s))\<rparr>)"
    if "endpoint_ok ?e" "identity_ok ?i"
  proof (rule wp_insert_pair [OF that])
    assume fresh: "fresh_pair ?e ?i (pg_db (s\<lparr>rng_pos := Suc (Suc (rng_pos s))\<rparr>))"
    then show "wp (consume_grant_row (eg_grant_id g) server_time ?w)
        (\<lambda>n s'. n = 1 \<longrightarrow> db_changes (pg_db s) (pg_db s'))
        (s\<lparr>rng_pos := Suc (Suc (rng_pos s)),
           pg_db := join_rows ?e ?i (pg_db (s\<lparr>rng_pos := Suc (Suc (rng_pos s))\<rparr>))\<rparr>)"
      by (intro wp_consume_grant_row) (simp_all add: grants change)
  qed (use assms(4) in simp_all)
  then show ?thesis
    by (auto simp: exchange_grant_def post_init_iffs elim!: wp_mono intro!: wp_insert_audit changes_logged)
qed

lemma wp_consume_transaction:
  assumes "is_aware server_time" "in_range (instant server_time)" "status \<in> {ACTIVE, PENDING}"
  shows "wp (consume_transaction token fp server_time actor status retry c)
    (\<lambda>_ s'. db_changes (pg_db s) (pg_db s')) s"
  unfolding consume_transaction_def wp_sbind
proof (rule wp_inspect_grant, goal_cases)
  case (3 g)
  then show ?case
    using wp_exchange_grant [OF 3 assms] by simp
qed (auto intro!: wp_insert_audit changes_logged)

lemma astimezone_utcD: "astimezone_utc t = Inr u \<Longrightarrow> is_aware u \<and> in_range (instant u) \<and> instant u = instant t"
  by (auto simp: astimezone_utc_def split: if_splits)

lemma changes_consume_grant:
  assumes "status \<in> {ACTIVE, PENDING}"
  shows "changes (consume_grant token fp now actor status retry)"
  unfolding consume_grant_def Let_def
proof (intro changes_lift changes_intros changes_transaction changes_record_audit, goal_cases)
  case (1 _ t _ v s)
  then show ?case
    using astimezone_utcD [OF 1(2)] assms by (intro wp_consume_transaction) auto
next
  case (2 _ t _ v x)
  then show ?case
    by (cases x) (auto intro: changes_intros split: option.split)
qed

lemma changes_consume_enrollment_grant: "changes (consume_enrollment_grant token fp now actor)"
  by (simp add: consume_enrollment_grant_def changes_consume_grant)

lemma changes_begin_endpoint_enrollment: "changes (begin_endpoint_enrollment token fp now actor)"
  by (simp add: begin_endpoint_enrollment_def changes_consume_grant)

lemma check_issuanceD:
  "check_issuance serial issuer nb na now actor = Inr (t, b, a) \<Longrightarrow> length issuer \<le> 256"
  by (auto simp: check_issuance_def rbind_Inr_iff empty_or_longer_def)

lemma wp_issue_identity_row:
  assumes "length issuer \<le> 256" "dict_get (db_identities (pg_db s)) k = Some r"
    and "\<forall>(j, x)\<in>set (db_identities (pg_db s)). j \<noteq> k \<longrightarrow>
        \<not> (ir_certificate_issuer x = Some issuer \<and> ir_certificate_serial x = Some serial) \<Longrightarrow>
      Q () (s\<lparr>pg_db := (pg_db s)\<lparr>db_identities :=
        dict_set k (issued_row serial issuer nb na r) (db_identities (pg_db s))\<rparr>\<rparr>)"
  shows "wp (issue_identity_row k serial issuer nb na) Q s"
  using assms by (auto simp: issue_identity_row_def issued_row_def list_ex_iff dest!: pg_varchar_Inr)

lemma wp_issue_transaction:
  assumes "length issuer \<le> 256"
  shows "wp (issue_transaction k serial issuer nb na t actor c) (\<lambda>_ s'. db_changes (pg_db s) (pg_db s')) s"
proof (cases "select_identity k (pg_db s)")
  case (Some p)
  obtain r e where p: "p = (r, e)"
    by fastforce
  note r = select_identityD [OF Some [unfolded p]]
  have "wp (issue_identity_row k serial issuer nb na) (\<lambda>_ s'. db_changes (pg_db s) (pg_db s')) s"
    if "ei_status r = PENDING"
    using r that assms by (intro wp_issue_identity_row) (auto intro!: r_into_rtranclp db_change.issued)
  then show ?thesis
    using Some p
    by (auto simp: issue_transaction_def elim!: wp_mono intro!: wp_insert_audit changes_logged)
qed (simp add: issue_transaction_def)

lemma changes_record_issued_endpoint_identity:
  "changes (record_issued_endpoint_identity k serial issuer nb na now actor)"
  unfolding record_issued_endpoint_identity_def
proof (rule changes_lift)
  fix x
  assume *: "check_issuance serial issuer nb na now actor = Inr x"
  obtain t b a where x: "x = (t, b, a)"
    by (cases x)
  have len: "length issuer \<le> 256"
    using check_issuanceD * x by blast
  show "changes (case x of (server_time, not_before, not_after) \<Rightarrow>
     sbind uuid4 (\<lambda>correlation_id. on_unique_violation
       (transaction (issue_transaction k serial issuer not_before not_after server_time actor correlation_id))
       (sbind (record_audit server_time ''service'' actor (''identity:'' @ str_uuid k) ''identity.issue''
          ''rejected'' ''certificate issuer and serial are already registered'' correlation_id [])
        (\<lambda>_. sraise (ValidationError ''certificate identity metadata conflicts'')))))"
    unfolding x prod.case
    by (intro changes_intros changes_transaction changes_record_audit wp_issue_transaction len)
qed

lemma changes_authenticate_endpoint_certificate:
  "changes (authenticate_endpoint_certificate endpoint_id fp t c)"
  unfolding authenticate_endpoint_certificate_def
proof (intro changes_lift changes_intros changes_transaction, goal_cases)
  case (1 _ _ s)
  then show ?case
    by (auto simp: authenticate_transaction_def split: option.split intro!: wp_insert_audit changes_logged)
next
  case (2 _ _ x)
  then show ?case
    by (cases x) (auto intro: changes_intros split: option.split)
qed

lemma truncate_sel [simp]:
  "ei_identity_id (EndpointIdentity.truncate r) = ei_identity_id r"
  "ei_endpoint_id (EndpointIdentity.truncate r) = ei_endpoint_id r"
  "ei_public_key_fingerprint (EndpointIdentity.truncate r) = ei_public_key_fingerprint r"
  "ei_created_at (EndpointIdentity.truncate r) = ei_created_at r"
  "ei_status (EndpointIdentity.truncate r) = ei_status r"
  "ei_revoked_at (EndpointIdentity.truncate r) = ei_revoked_at r"
  "ei_revocation_reason (EndpointIdentity.truncate r) = ei_revocation_reason r"
  by (simp_all add: EndpointIdentity.truncate_def)

lemma identity_from_rowD:
  "identity_from_row r = Inr i \<Longrightarrow>
     i = EndpointIdentity.truncate r \<and> identity_ok (EndpointIdentity.truncate r) \<and> times_load (identity_times r)"
  by (auto simp: from_row_Inr EndpointIdentity_post_init_Inr)

lemma wp_revoke_transaction:
  assumes "\<not> empty_or_longer reason 256"
  shows "wp (revoke_transaction k reason actor now c) (\<lambda>_ s'. db_changes (pg_db s) (pg_db s')) s"
proof (cases "dict_get (db_identities (pg_db s)) k")
  case (Some r)
  have len: "length reason \<le> 256" "reason \<noteq> []"
    using assms by (auto simp: empty_or_longer_def)
  have "db_changes (pg_db s)
      ((pg_db s)\<lparr>db_identities := dict_set k (revoked_row now reason r) (db_identities (pg_db s))\<rparr>)"
    if "ei_revoked_at r = None" "identity_ok (EndpointIdentity.truncate r)"
      "EndpointIdentity_post_init ((EndpointIdentity.truncate r)\<lparr>ei_status := REVOKED, ei_revoked_at := Some now,
        ei_revocation_reason := Some reason\<rparr>) = Inr x" for x
    using that Some len
    by (intro r_into_rtranclp db_change.revoked)
       (auto simp: EndpointIdentity_post_init_Inr revoked_row_def pg_timestamptz_def)
  then show ?thesis
    using Some len
    by (auto simp: revoke_transaction_def revoke_identity_row_def revoked_row_def
        dest!: identity_from_rowD pg_varchar_Inr intro!: wp_insert_audit changes_logged)
qed (simp add: revoke_transaction_def)

lemma changes_pg_revoke_identity: "changes (pg_revoke_identity k reason actor now c)"
  unfolding pg_revoke_identity_def
  by (intro changes_lift changes_correlation changes_transaction wp_revoke_transaction) simp

text \<open>Ingestion.\<close>

definition ingest_authorized :: "uuid \<Rightarrow> IdentityRow \<Rightarrow> Endpoint \<Rightarrow> MessageEnvelope \<Rightarrow> string \<Rightarrow> Database \<Rightarrow> bool" where
  "ingest_authorized k r e env ty db \<longleftrightarrow>
     select_identity k db = Some (r, e) \<and> ei_revoked_at r = None \<and> ei_status r \<in> {ISSUED, ACTIVE} \<and>
     is_current r e \<and> (ei_status r = ISSUED \<longrightarrow> ty = ''heartbeat'') \<and> me_endpoint_id env = ei_endpoint_id r \<and>
     times_load (identity_times r)"

lemma ingest_identity_failure_None:
  "ingest_identity_failure (Some (r, e)) (Some (EndpointIdentity.truncate r)) env ty = None \<longleftrightarrow>
     ei_revoked_at r = None \<and> ei_status r \<in> {ISSUED, ACTIVE} \<and> is_current r e \<and>
     (ei_status r = ISSUED \<longrightarrow> ty = ''heartbeat'') \<and> me_endpoint_id env = ei_endpoint_id r"
  by (auto simp: ingest_identity_failure_def fail_if_def)

lemma find_None: "find P xs = None \<longleftrightarrow> (\<forall>x\<in>set xs. \<not> P x)"
  by (auto simp: find_None_iff)

text \<open>A stored message that a repeated request with the same bytes is an exact retry of.\<close>

definition exact_retry :: "uuid \<Rightarrow> MessageEnvelope \<Rightarrow> string option \<Rightarrow> ObservationRow \<Rightarrow> bool" where
  "exact_retry k env d x \<longleftrightarrow>
     d \<noteq> None \<and> ob_encoded_message_digest x = d \<and> or_identity_id x = k \<and> ob_endpoint_id x = me_endpoint_id env \<and>
     times_load (observation_times x)"

lemma wp_ingest_existing:
  assumes "\<forall>x\<in>set (db_observations (pg_db s)). ob_message_id x \<noteq> me_message_id env \<Longrightarrow> Q (None, None) s"
    and "\<And>e. Q (Some e, None) s"
    and "\<And>x ev n. x \<in> set (db_observations (pg_db s)) \<Longrightarrow> ob_message_id x = me_message_id env \<Longrightarrow>
      exact_retry k env d x \<Longrightarrow>
      Q (None, Some (Observation.truncate x)) (s\<lparr>rng_pos := n, pg_db := log_row ev (pg_db s)\<rparr>)"
  shows "wp (ingest_existing k env ty t d) Q s"
proof (cases "select_message (me_message_id env) (pg_db s)")
  case None
  then have "\<forall>x\<in>set (db_observations (pg_db s)). ob_message_id x \<noteq> me_message_id env"
    by (simp add: select_message_def find_None)
  then show ?thesis
    using assms(1) None by (simp add: ingest_existing_def)
next
  case (Some x)
  then have x: "x \<in> set (db_observations (pg_db s))" "ob_message_id x = me_message_id env"
    unfolding select_message_def by (blast dest: find_Some)+
  have post: "observation_from_row x = Inr ob \<longleftrightarrow>
      times_load (observation_times x) \<and> ob = Observation.truncate x \<and> observation_ok ob" for ob
    by (auto simp: from_row_Inr Observation_post_init_Inr)
  show ?thesis
    using Some assms(2) assms(3) [OF x]
    by (auto simp: ingest_existing_def exact_retry_def post intro!: wp_insert_audit)
qed

text \<open>The tests of time, binding and order that a new message must pass.\<close>

definition ingest_timely :: "MessageEnvelope \<Rightarrow> datetime \<Rightarrow> bool" where
  "ingest_timely env t \<longleftrightarrow>
     in_range (wall t + MAX_CLOCK_SKEW) \<and> instant (me_created_at env) \<le> instant t + MAX_CLOCK_SKEW \<and>
     instant t < instant (me_expires_at env)"

definition binding_ok :: "(Platform \<times> string) option \<Rightarrow> Endpoint \<Rightarrow> bool" where
  "binding_ok b e \<longleftrightarrow> (case b of None \<Rightarrow> True | Some (p, a) \<Rightarrow> p = ep_platform e \<and> a = ep_architecture e)"

definition sequence_new :: "uuid \<Rightarrow> MessageEnvelope \<Rightarrow> Database \<Rightarrow> bool" where
  "sequence_new k env db \<longleftrightarrow>
     (case dict_get (db_sequences db) (k, me_boot_id env) of None \<Rightarrow> True | Some n \<Rightarrow> n < me_sequence env)"

definition sequence_rows :: "uuid \<Rightarrow> MessageEnvelope \<Rightarrow> Database \<Rightarrow> Database" where
  "sequence_rows k env db =
     db\<lparr>db_sequences := dict_set (k, me_boot_id env) (me_sequence env) (db_sequences db)\<rparr>"

lemma platform_value_inject [simp]: "platform_value a = platform_value b \<longleftrightarrow> a = b"
  by (cases a; cases b) simp_all

lemma dt_add_Inr_iff: "dt_add t d = Inr u \<longleftrightarrow> in_range (wall t + d) \<and> u = t\<lparr>wall := wall t + d\<rparr>"
  by (auto simp: dt_add_def)

lemma wp_ingest_new_failure:
  assumes "\<And>e. Q (Some e) s"
    and "ingest_timely env t \<Longrightarrow> binding_ok b e \<Longrightarrow> sequence_new k env (pg_db s) \<Longrightarrow>
      Q None (s\<lparr>pg_db := sequence_rows k env (pg_db s)\<rparr>)"
  shows "wp (ingest_new_failure k (Some (r, e)) env t b) Q s"
  using assms
  by (auto simp: ingest_new_failure_def Let_def fail_if_def dt_add_Inr_iff ingest_timely_def binding_ok_def
      sequence_new_def sequence_rows_def upsert_sequence_row_def not_less not_le split: option.splits)

lemma new_row_observation_sel [simp]:
  "ob_endpoint_id (new_row_observation v i env ty sv pd t d) = ei_endpoint_id i"
  "ob_message_id (new_row_observation v i env ty sv pd t d) = me_message_id env"
  "ob_observation_type (new_row_observation v i env ty sv pd t d) = ty"
  "ob_received_at (new_row_observation v i env ty sv pd t d) = t"
  "ob_boot_id (new_row_observation v i env ty sv pd t d) = me_boot_id env"
  "ob_sequence (new_row_observation v i env ty sv pd t d) = me_sequence env"
  "ob_encoded_message_digest (new_row_observation v i env ty sv pd t d) = d"
  by (simp_all add: new_row_observation_def)

lemma wp_ingest_record:
  assumes auth: "ingest_authorized k r e env ty db" and ty: "ty \<in> {''heartbeat'', ''inventory''}"
    and new: "\<forall>x\<in>set (db_observations db). ob_message_id x \<noteq> me_message_id env"
    and seq: "sequence_new k env db" and s: "pg_db s = sequence_rows k env db"
    and key: "ei_identity_id r = k"
    and post: "\<And>v ob db' n. ob = new_row_observation v (EndpointIdentity.truncate r) env ty sv pd t d \<Longrightarrow>
      acceptable k r e ob db \<Longrightarrow> db_changes (ingest_rows k r e ob db) db' \<Longrightarrow>
      Q ob (s\<lparr>rng_pos := n, pg_db := db'\<rparr>)"
  shows "wp (ingest_record k (EndpointIdentity.truncate r) env ty sv pd t d) Q s"
proof -
  define ob where "ob = new_row_observation (rng_seq s (rng_pos s)) (EndpointIdentity.truncate r) env ty sv pd t d"
  have row: "dict_get (db_identities db) k = Some r" "dict_get (db_endpoints db) (ei_endpoint_id r) = Some e"
    using auth by (auto simp: ingest_authorized_def dest!: select_identityD)
  have acc: "acceptable k r e ob db"
    if "observation_ok ob" "ei_status r = ISSUED \<Longrightarrow> instant (ei_created_at r) \<le> instant t"
    using that auth ty new seq by (auto simp: acceptable_def ingest_authorized_def sequence_new_def ob_def
        split: option.splits)
  have final: "Q ob (s\<lparr>rng_pos := n, pg_db := db'\<rparr>)"
    if "acceptable k r e ob db" "db_changes (ingest_rows k r e ob db) db'" for db' n
    using post [OF _ that] by (simp add: ob_def)
  have ob_eq: "(\<forall>x. Observation_post_init ob = Inr x \<longrightarrow> P x) \<longleftrightarrow> (observation_ok ob \<longrightarrow> P ob)" for P
    by (auto simp: Observation_post_init_Inr)
  have rows: "ingest_rows k r e ob db = db\<lparr>db_sequences := db_sequences (sequence_rows k env db),
      db_observations := db_observations db @ [observation_row k ob],
      db_endpoints := dict_set (ei_endpoint_id r) (touch_row (ty = ''heartbeat'') t e) (db_endpoints db),
      db_identities := (if ei_status r = ISSUED then dict_set k (activated_row t r) (db_identities db)
        else db_identities db)\<rparr>"
    by (simp add: ingest_rows_def sequence_rows_def ob_def)
  have done1: "Q ob (s\<lparr>rng_pos := n, pg_db := log_row ev (ingest_rows k r e ob db)\<rparr>)"
    if "acceptable k r e ob db" for n ev
    by (rule final [OF that]) (auto intro!: changes_logged)
  have done2: "Q ob (s\<lparr>rng_pos := n, pg_db := log_row ev' (log_row ev (ingest_rows k r e ob db))\<rparr>)"
    if "acceptable k r e ob db" for n ev ev'
    by (rule final [OF that]) (auto intro!: changes_logged)
  define rest where "rest = (\<lambda>s::PostgresControlPlane. wp (insert_observation_row k ob) (\<lambda>_.
      wp (if ty = ''heartbeat''
       then sbind (update_receipt True (ei_endpoint_id r) t) (\<lambda>_.
         sbind (activate_identity_row k t) (\<lambda>activated.
         if activated
         then insert_audit t ''endpoint_identity'' (str_uuid k) (''endpoint:'' @ str_uuid (ei_endpoint_id r))
           ''identity.activate'' ''accepted'' ''first authenticated heartbeat accepted'' (me_correlation_id env) []
         else sreturn ()))
       else update_receipt False (ei_endpoint_id r) t) (\<lambda>_.
      wp (insert_audit t ''endpoint_identity'' (str_uuid k) (''endpoint:'' @ str_uuid (ei_endpoint_id r))
       (ty @ ''.ingest'') ''accepted'' ''message contract and authorization checks passed''
       (me_correlation_id env) (acceptance_metadata ob)) (\<lambda>_. Q ob))) s)"
  have unfold: "wp (ingest_record k (EndpointIdentity.truncate r) env ty sv pd t d) Q s \<longleftrightarrow>
      (observation_ok ob \<longrightarrow> rest (s\<lparr>rng_pos := Suc (rng_pos s)\<rparr>))"
    unfolding ingest_record_def rest_def wp_sbind wp_uuid4 ob_def [symmetric] truncate_sel key wp_simps ob_eq ..
  have "rest (s\<lparr>rng_pos := n\<rparr>)" if ok: "observation_ok ob" for n
  proof (cases "ei_status r = ISSUED")
    case True
    then have ty': "ty = ''heartbeat''"
      using auth by (simp add: ingest_authorized_def)
    have "Q ob (s\<lparr>rng_pos := m, pg_db := log_row ev' (log_row ev (ingest_rows k r e ob db))\<rparr>)"
      if "instant (ei_created_at r) \<le> instant t" for m ev ev'
      using done2 acc ok that by blast
    then show ?thesis
      using True row unfolding rest_def rows
      by (auto simp: ty' insert_observation_row_def s sequence_rows_def update_receipt_def log_row_def
          activate_identity_row_def activated_row_def not_less intro!: wp_insert_audit)
  next
    case False
    have "Q ob (s\<lparr>rng_pos := m, pg_db := log_row ev (ingest_rows k r e ob db)\<rparr>)" for m ev
      using done1 acc ok False by blast
    then show ?thesis
      using False row ty unfolding rest_def rows
      by (auto simp: insert_observation_row_def s sequence_rows_def update_receipt_def log_row_def
          activate_identity_row_def intro!: wp_insert_audit)
  qed
  then show ?thesis
    by (simp add: unfold)
qed

lemma wp_ingest_transaction:
  assumes keyed: "keyed (pg_db s)" and ty: "ty \<in> {''heartbeat'', ''inventory''}"
    and refuse: "\<And>e ev n. Q (Some e, None) (s\<lparr>rng_pos := n, pg_db := log_row ev (pg_db s)\<rparr>)"
    and retry: "\<And>r e x ev n. ingest_authorized k r e env ty (pg_db s) \<Longrightarrow>
      x \<in> set (db_observations (pg_db s)) \<Longrightarrow> ob_message_id x = me_message_id env \<Longrightarrow> exact_retry k env d x \<Longrightarrow>
      Q (None, Some (Observation.truncate x)) (s\<lparr>rng_pos := n, pg_db := log_row ev (pg_db s)\<rparr>)"
    and accept: "\<And>r e v ob db' n. ingest_authorized k r e env ty (pg_db s) \<Longrightarrow>
      ob = new_row_observation v (EndpointIdentity.truncate r) env ty sv pd t d \<Longrightarrow>
      acceptable k r e ob (pg_db s) \<Longrightarrow> ingest_timely env t \<Longrightarrow> binding_ok b e \<Longrightarrow>
      db_changes (ingest_rows k r e ob (pg_db s)) db' \<Longrightarrow> Q (None, Some ob) (s\<lparr>rng_pos := n, pg_db := db'\<rparr>)"
  shows "wp (ingest_transaction k env ty sv pd t b d) Q s"
proof -
  let ?finish = "ingest_finish k env ty sv pd t d"
  have refused: "wp (?finish i None (Some e)) Q s" for i e
    using refuse by (auto simp: ingest_finish_def insert_rejection_def intro!: wp_insert_audit)
  have kept: "wp (?finish i (Some ob) None) Q = Q (None, Some ob)" for i ob
    by (simp add: ingest_finish_def)
  have known: "wp (sbind (ingest_existing k env ty t d) (\<lambda>(failure, observation).
      sbind (if failure = None \<and> observation = None then ingest_new_failure k (Some (r, e)) env t b
        else sreturn failure) (?finish (Some (EndpointIdentity.truncate r)) observation))) Q s"
    if auth: "ingest_authorized k r e env ty (pg_db s)" for r e
    unfolding wp_sbind
  proof (rule wp_ingest_existing, goal_cases)
    case 1
    have key: "ei_identity_id r = k"
      using auth keyed by (auto simp: ingest_authorized_def keyed_def dest!: select_identityD)
    have "wp (ingest_new_failure k (Some (r, e)) env t b)
        (\<lambda>failure. wp (?finish (Some (EndpointIdentity.truncate r)) None failure) Q) s"
    proof (rule wp_ingest_new_failure)
      assume timely: "ingest_timely env t" "binding_ok b e" and seq: "sequence_new k env (pg_db s)"
      have "wp (ingest_record k (EndpointIdentity.truncate r) env ty sv pd t d) (\<lambda>ob. Q (None, Some ob))
          (s\<lparr>pg_db := sequence_rows k env (pg_db s)\<rparr>)"
        by (rule wp_ingest_record [OF auth ty 1 seq _ key]) (use accept [OF auth] timely in auto)
      then show "wp (?finish (Some (EndpointIdentity.truncate r)) None None) Q
          (s\<lparr>pg_db := sequence_rows k env (pg_db s)\<rparr>)"
        by (simp add: ingest_finish_def)
    qed (rule refused)
    then show ?case
      by simp
  qed (use retry [OF auth] in \<open>simp_all add: refused kept\<close>)
  show ?thesis
  proof (cases "select_identity k (pg_db s)")
    case None
    then show ?thesis
      using refused
      by (simp add: ingest_transaction_def ingest_identity_failure_def)
  next
    case (Some p)
    obtain r e where p: "p = (r, e)"
      by fastforce
    show ?thesis
    proof (cases "ingest_identity_failure (Some (r, e)) (Some (EndpointIdentity.truncate r)) env ty")
      case None
      then have "ingest_authorized k r e env ty (pg_db s)" if "times_load (identity_times r)"
        using Some p that by (simp add: ingest_authorized_def ingest_identity_failure_None)
      then show ?thesis
        using None known unfolding ingest_transaction_def wp_sbind wp_db Some p
        by (auto dest!: identity_from_rowD)
    next
      case (Some f)
      then show ?thesis
        using \<open>select_identity k (pg_db s) = Some p\<close> p refused
        by (auto simp: ingest_transaction_def dest!: identity_from_rowD)
    qed
  qed
qed

lemma changes_pg_ingest:
  assumes "ty \<in> {''heartbeat'', ''inventory''}"
  shows "changes (pg_ingest k env ty sv pd t b d)"
  unfolding pg_ingest_def
proof (intro changes_lift changes_intros changes_transaction changes_record_rejection, goal_cases)
  case (1 _ u s)
  then show ?case
    using assms
    by (intro wp_ingest_transaction)
       (auto intro: changes_logged dest: db_change.ingested converse_rtranclp_into_rtranclp)
next
  case (2 _ _ x)
  then show ?case
    by (cases x) (auto intro: changes_intros split: option.split)
qed

lemma changes_pg_ingest_heartbeat: "changes (pg_ingest_heartbeat k m t d)"
  by (simp add: pg_ingest_heartbeat_def changes_pg_ingest)

lemma changes_pg_ingest_inventory: "changes (pg_ingest_inventory k m t d)"
  by (simp add: pg_ingest_inventory_def changes_pg_ingest)

text \<open>The reads change nothing.\<close>

lemma transaction_read_same:
  "(\<And>s. pg_db (snd (m s)) = pg_db s) \<Longrightarrow> pg_db (snd (transaction m s)) = pg_db s"
  by (auto simp: transaction_def split: prod.splits sum.splits) (metis snd_conv)

end
