(* ===== verification/Persistence_Invariant.thy ===== *)
theory Persistence_Invariant
  imports Persistence_Steps "HOL-Library.Sublist"
begin

text \<open>
  The invariant of the tables and what no operation undoes.  Both are proved of \<open>db_change\<close>, one part
  at a time, and so hold of every run of the operations of the database adapter.
\<close>


section \<open>The invariant\<close>

definition db_dicts :: "Database \<Rightarrow> bool" where
  "db_dicts db \<longleftrightarrow> keyed db \<and> dict_ok (db_endpoints db) \<and> dict_ok (db_identities db) \<and>
     dict_ok (db_sequences db) \<and> dict_ok (db_grants db)"

text \<open>Every row reads back as a value of its class; the times of a stored message are in UTC.\<close>

definition times_utc :: "ObservationRow \<Rightarrow> bool" where
  "times_utc x \<longleftrightarrow> ob_source_time x = pg_timestamptz (ob_source_time x) \<and>
     ob_received_at x = pg_timestamptz (ob_received_at x)"

definition db_rows_ok :: "Database \<Rightarrow> bool" where
  "db_rows_ok db \<longleftrightarrow>
     (\<forall>k e. dict_get (db_endpoints db) k = Some e \<longrightarrow> endpoint_ok e) \<and>
     (\<forall>k r. dict_get (db_identities db) k = Some r \<longrightarrow> identity_ok (EndpointIdentity.truncate r)) \<and>
     (\<forall>k g. dict_get (db_grants db) k = Some g \<longrightarrow> grant_ok g) \<and>
     (\<forall>x\<in>set (db_observations db). observation_ok (Observation.truncate x) \<and> times_utc x)"

text \<open>Endpoints and identities point at each other.\<close>

definition db_linked :: "Database \<Rightarrow> bool" where
  "db_linked db \<longleftrightarrow>
     (\<forall>k r. dict_get (db_identities db) k = Some r \<longrightarrow>
        (\<exists>e. dict_get (db_endpoints db) (ei_endpoint_id r) = Some e \<and> ep_identity_id e = k)) \<and>
     (\<forall>k e. dict_get (db_endpoints db) k = Some e \<longrightarrow>
        (\<exists>r. dict_get (db_identities db) (ep_identity_id e) = Some r \<and> ei_endpoint_id r = k))"

text \<open>One identity per public key and per certificate.\<close>

definition db_unique :: "Database \<Rightarrow> bool" where
  "db_unique db \<longleftrightarrow>
     (\<forall>j k r x. dict_get (db_identities db) j = Some r \<longrightarrow> dict_get (db_identities db) k = Some x \<longrightarrow>
        ei_public_key_fingerprint r = ei_public_key_fingerprint x \<or>
        ir_certificate_serial r \<noteq> None \<and> ir_certificate_serial r = ir_certificate_serial x \<and>
        ir_certificate_issuer r = ir_certificate_issuer x \<longrightarrow> j = k)"

text \<open>What the status of an identity says of its certificate and its activation.\<close>

definition lifecycle_ok :: "IdentityRow \<Rightarrow> bool" where
  "lifecycle_ok r \<longleftrightarrow>
     ((ir_certificate_serial r = None) = (ir_certificate_issuer r = None)) \<and>
     (ei_status r = PENDING \<longrightarrow> ir_certificate_serial r = None) \<and>
     (ei_status r = ISSUED \<longrightarrow> ir_certificate_serial r \<noteq> None) \<and>
     (ei_status r \<in> {PENDING, ISSUED} \<longrightarrow> ir_activated_at r = None) \<and> ei_status r \<noteq> RETIRED \<and>
     (\<forall>t. ir_activated_at r = Some t \<longrightarrow>
        ir_certificate_serial r \<noteq> None \<and> instant (ei_created_at r) \<le> instant t)"

definition db_lifecycles :: "Database \<Rightarrow> bool" where
  "db_lifecycles db \<longleftrightarrow> (\<forall>k r. dict_get (db_identities db) k = Some r \<longrightarrow> lifecycle_ok r)"

text \<open>
  The stored messages of one boot of an identity have increasing sequence numbers below its mark,
  no message identifier is stored twice, and the receipt times of the endpoint cover them.
\<close>

definition covers :: "datetime option \<Rightarrow> datetime \<Rightarrow> bool" where
  "covers v t \<longleftrightarrow> (\<exists>u. v = Some u \<and> instant t \<le> instant u)"

definition accounted :: "Database \<Rightarrow> ObservationRow \<Rightarrow> bool" where
  "accounted db x \<longleftrightarrow>
     (\<exists>r e n. dict_get (db_identities db) (or_identity_id x) = Some r \<and>
        ei_endpoint_id r = ob_endpoint_id x \<and> ei_status r \<in> {ACTIVE, REVOKED} \<and>
        dict_get (db_endpoints db) (ob_endpoint_id x) = Some e \<and>
        covers (ep_last_receipt_at e) (ob_received_at x) \<and>
        (ob_observation_type x = ''heartbeat'' \<longrightarrow> covers (ep_last_heartbeat_at e) (ob_received_at x)) \<and>
        dict_get (db_sequences db) (or_identity_id x, ob_boot_id x) = Some n \<and> ob_sequence x \<le> n)"

definition later :: "ObservationRow \<Rightarrow> ObservationRow \<Rightarrow> bool" where
  "later x y \<longleftrightarrow> ob_message_id x \<noteq> ob_message_id y \<and>
     (or_identity_id x = or_identity_id y \<longrightarrow> ob_boot_id x = ob_boot_id y \<longrightarrow> ob_sequence x < ob_sequence y)"

definition db_history :: "Database \<Rightarrow> bool" where
  "db_history db \<longleftrightarrow> sorted_wrt later (db_observations db) \<and> (\<forall>x\<in>set (db_observations db). accounted db x)"

text \<open>Every sequence mark is the number of a stored message.\<close>

definition db_marks :: "Database \<Rightarrow> bool" where
  "db_marks db \<longleftrightarrow> (\<forall>k b n. dict_get (db_sequences db) (k, b) = Some n \<longrightarrow>
     (\<exists>x\<in>set (db_observations db). or_identity_id x = k \<and> ob_boot_id x = b \<and> ob_sequence x = n))"

text \<open>A consumed grant became one endpoint, with the name and platform the grant was made for.\<close>

definition exchanged_for :: "Database \<Rightarrow> EnrollmentGrant \<Rightarrow> uuid \<Rightarrow> bool" where
  "exchanged_for db g v \<longleftrightarrow>
     (\<exists>r e. dict_get (db_identities db) v = Some r \<and> dict_get (db_endpoints db) (ei_endpoint_id r) = Some e \<and>
        ep_display_name e = eg_display_name g \<and> ep_platform e = eg_platform g \<and>
        ep_architecture e = eg_architecture g)"

definition db_grants_ok :: "Database \<Rightarrow> bool" where
  "db_grants_ok db \<longleftrightarrow>
     (\<forall>j k g h. dict_get (db_grants db) j = Some g \<longrightarrow> dict_get (db_grants db) k = Some h \<longrightarrow>
        eg_token_sha256 g = eg_token_sha256 h \<or>
        eg_consumed_identity_id g \<noteq> None \<and> eg_consumed_identity_id g = eg_consumed_identity_id h \<longrightarrow> j = k) \<and>
     (\<forall>k g v. dict_get (db_grants db) k = Some g \<longrightarrow> eg_consumed_identity_id g = Some v \<longrightarrow>
        exchanged_for db g v)"

definition db_inv :: "Database \<Rightarrow> bool" where
  "db_inv db \<longleftrightarrow> db_dicts db \<and> db_rows_ok db \<and> db_linked db \<and> db_unique db \<and> db_lifecycles db \<and>
     db_history db \<and> db_marks db \<and> db_grants_ok db"

lemmas db_inv_defs = db_dicts_def db_rows_ok_def db_linked_def db_unique_def db_lifecycles_def
  db_history_def db_marks_def db_grants_ok_def

lemma db_inv_empty: "db_inv empty_database"
  by (simp add: db_inv_def db_inv_defs empty_database_def keyed_def)


section \<open>Every change keeps it\<close>

lemma join_rows_sel [simp]:
  "db_endpoints (join_rows e i db) = dict_set (ep_endpoint_id e) (stored_endpoint e) (db_endpoints db)"
  "db_identities (join_rows e i db) = dict_set (ei_identity_id i) (identity_row i) (db_identities db)"
  "db_sequences (join_rows e i db) = db_sequences db"
  "db_observations (join_rows e i db) = db_observations db"
  "db_audit_events (join_rows e i db) = db_audit_events db"
  "db_grants (join_rows e i db) = db_grants db"
  by (simp_all add: join_rows_def)

lemma log_row_sel [simp]:
  "db_endpoints (log_row ev db) = db_endpoints db"
  "db_identities (log_row ev db) = db_identities db"
  "db_sequences (log_row ev db) = db_sequences db"
  "db_observations (log_row ev db) = db_observations db"
  "db_audit_events (log_row ev db) = db_audit_events db @ [ev]"
  "db_grants (log_row ev db) = db_grants db"
  by (simp_all add: log_row_def)

lemma ingest_rows_sel [simp]:
  "db_endpoints (ingest_rows k r e ob db) = dict_set (ei_endpoint_id r)
     (touch_row (ob_observation_type ob = ''heartbeat'') (ob_received_at ob) e) (db_endpoints db)"
  "db_identities (ingest_rows k r e ob db) = (if ei_status r = ISSUED
     then dict_set k (activated_row (ob_received_at ob) r) (db_identities db) else db_identities db)"
  "db_sequences (ingest_rows k r e ob db) = dict_set (k, ob_boot_id ob) (ob_sequence ob) (db_sequences db)"
  "db_observations (ingest_rows k r e ob db) = db_observations db @ [observation_row k ob]"
  "db_audit_events (ingest_rows k r e ob db) = db_audit_events db"
  "db_grants (ingest_rows k r e ob db) = db_grants db"
  by (simp_all add: ingest_rows_def)

lemma row_sel [simp]:
  "ep_endpoint_id (stored_endpoint e) = ep_endpoint_id e" "ep_identity_id (stored_endpoint e) = ep_identity_id e"
  "ep_display_name (stored_endpoint e) = ep_display_name e" "ep_platform (stored_endpoint e) = ep_platform e"
  "ep_architecture (stored_endpoint e) = ep_architecture e"
  "ep_enrolled_at (stored_endpoint e) = pg_timestamptz (ep_enrolled_at e)"
  "ep_last_receipt_at (stored_endpoint e) = None" "ep_last_heartbeat_at (stored_endpoint e) = None"
  "ep_display_name (touch_row h t e) = ep_display_name e"
  "ep_enrolled_at (touch_row h t e) = ep_enrolled_at e"
  "ei_endpoint_id (issued_row serial issuer nb na r) = ei_endpoint_id r"
  "ei_endpoint_id (revoked_row t reason r) = ei_endpoint_id r"
  "ei_endpoint_id (activated_row t r) = ei_endpoint_id r"
  "ei_status (issued_row serial issuer nb na r) = ISSUED"
  "ei_status (revoked_row t reason r) = REVOKED"
  "ei_status (activated_row t r) = ACTIVE"
  "ei_public_key_fingerprint (issued_row serial issuer nb na r) = ei_public_key_fingerprint r"
  "ei_public_key_fingerprint (revoked_row t reason r) = ei_public_key_fingerprint r"
  "ei_public_key_fingerprint (activated_row t r) = ei_public_key_fingerprint r"
  "ir_certificate_serial (issued_row serial issuer nb na r) = Some serial"
  "ir_certificate_issuer (issued_row serial issuer nb na r) = Some issuer"
  "ir_certificate_serial (revoked_row t reason r) = ir_certificate_serial r"
  "ir_certificate_issuer (revoked_row t reason r) = ir_certificate_issuer r"
  "ir_certificate_serial (activated_row t r) = ir_certificate_serial r"
  "ir_certificate_issuer (activated_row t r) = ir_certificate_issuer r"
  "eg_token_sha256 (stored_grant g) = eg_token_sha256 g" "eg_consumed_at (stored_grant g) = None"
  "eg_consumed_identity_id (stored_grant g) = None" "eg_grant_id (stored_grant g) = eg_grant_id g"
  "eg_token_sha256 (consumed_grant t v g) = eg_token_sha256 g"
  "eg_consumed_identity_id (consumed_grant t v g) = Some v"
  "eg_display_name (consumed_grant t v g) = eg_display_name g"
  "eg_platform (consumed_grant t v g) = eg_platform g"
  "eg_architecture (consumed_grant t v g) = eg_architecture g"
  by (simp_all add: stored_endpoint_def touch_row_def issued_row_def revoked_row_def activated_row_def
      stored_grant_def consumed_grant_def)

lemma observation_row_sel [simp]:
  "or_identity_id (observation_row k ob) = k"
  "ob_observation_id (observation_row k ob) = ob_observation_id ob"
  "ob_endpoint_id (observation_row k ob) = ob_endpoint_id ob"
  "ob_message_id (observation_row k ob) = ob_message_id ob"
  "ob_observation_type (observation_row k ob) = ob_observation_type ob"
  "ob_boot_id (observation_row k ob) = ob_boot_id ob"
  "ob_sequence (observation_row k ob) = ob_sequence ob"
  "ob_encoded_message_digest (observation_row k ob) = ob_encoded_message_digest ob"
  "ob_received_at (observation_row k ob) = pg_timestamptz (ob_received_at ob)"
  by (simp_all add: observation_row_def Observation.extend_def ObservationRow.fields_def)

lemma instant_pg_timestamptz [simp]: "instant (pg_timestamptz t) = instant t" "is_aware (pg_timestamptz t)"
  by (simp_all add: pg_timestamptz_def)

lemma times_utc_row [simp]: "times_utc (observation_row k ob)"
  by (simp add: times_utc_def observation_row_def Observation.extend_def ObservationRow.fields_def pg_timestamptz_def)

lemma db_dicts_change: "db_change db db' \<Longrightarrow> db_dicts db \<Longrightarrow> db_dicts db'"
  using keyed_change by (auto simp: db_dicts_def elim!: db_changeE)

lemma stored_ok:
  "endpoint_ok e \<Longrightarrow> endpoint_ok (stored_endpoint e)"
  "endpoint_ok e \<Longrightarrow> endpoint_ok (touch_row h t e)"
  "grant_ok g \<Longrightarrow> grant_ok (stored_grant g)"
  "observation_ok ob \<Longrightarrow> observation_ok (Observation.truncate (observation_row k ob))"
  "identity_ok i \<Longrightarrow> ei_status i \<noteq> REVOKED \<Longrightarrow> identity_ok (EndpointIdentity.truncate (identity_row i))"
  by (auto simp: post_init_iffs stored_endpoint_def touch_row_def stored_grant_def pg_greatest_def
      observation_row_def Observation.truncate_def Observation.extend_def ObservationRow.fields_def
      split: option.splits)

lemma advanced_ok:
  "identity_ok (EndpointIdentity.truncate r) \<Longrightarrow> ei_revoked_at r = None \<Longrightarrow>
     identity_ok (EndpointIdentity.truncate (activated_row t r))"
  "identity_ok (EndpointIdentity.truncate r) \<Longrightarrow> ei_status r = PENDING \<Longrightarrow>
     identity_ok (EndpointIdentity.truncate (issued_row serial issuer nb na r))"
  by (auto simp: EndpointIdentity_post_init_Inr activated_row_def issued_row_def split: option.splits)

lemma consumed_ok:
  assumes "grant_ok g" "is_aware t" "in_range (instant t)" "instant (eg_created_at g) \<le> instant t"
    "instant t < instant (eg_expires_at g)"
  shows "grant_ok (consumed_grant t v g)"
  using assms by (auto simp: EnrollmentGrant_post_init_Inr consumed_grant_def)

lemma open_grant_get:
  assumes "open_grant h t fp db" "db_dicts db" "dict_get (db_grants db) (eg_grant_id h) = Some g"
  shows "h = g"
proof -
  obtain k where "dict_get (db_grants db) k = Some h"
    using assms(1,2) dict_get_values [of "db_grants db" h] by (auto simp: open_grant_def db_dicts_def)
  then show ?thesis
    using assms(2,3) unfolding db_dicts_def keyed_def by (metis option.inject)
qed

lemma db_rows_ok_change:
  assumes "db_change db db'" "db_dicts db" "db_rows_ok db"
  shows "db_rows_ok db'"
  using assms(1)
proof cases
  case (exchanged e i h t g)
  moreover have "h = g"
    using exchanged assms(2) by (blast dest: open_grant_get)
  moreover have "grant_ok (consumed_grant t (ei_identity_id i) g)"
    using exchanged \<open>h = g\<close> by (auto simp: open_grant_def intro!: consumed_ok)
  ultimately show ?thesis
    using assms(3) by (auto simp: db_rows_ok_def fresh_pair_def stored_ok)
next
  case (ingested k r e ob)
  then show ?thesis
    using assms(3) select_identityD [of k db r e]
    by (auto simp: db_rows_ok_def acceptable_def stored_ok advanced_ok)
qed (use assms(3) in \<open>auto simp: db_rows_ok_def fresh_pair_def stored_ok advanced_ok\<close>)

lemma db_linkedI:
  assumes "\<And>k r. dict_get (db_identities db) k = Some r \<Longrightarrow>
      \<exists>e. dict_get (db_endpoints db) (ei_endpoint_id r) = Some e \<and> ep_identity_id e = k"
    and "\<And>k e. dict_get (db_endpoints db) k = Some e \<Longrightarrow>
      \<exists>r. dict_get (db_identities db) (ep_identity_id e) = Some r \<and> ei_endpoint_id r = k"
  shows "db_linked db"
  using assms by (simp add: db_linked_def)

lemma db_linkedD:
  assumes "db_linked db"
  shows "dict_get (db_identities db) k = Some r \<Longrightarrow>
      \<exists>e. dict_get (db_endpoints db) (ei_endpoint_id r) = Some e \<and> ep_identity_id e = k"
    and "dict_get (db_endpoints db) k = Some e \<Longrightarrow>
      \<exists>r. dict_get (db_identities db) (ep_identity_id e) = Some r \<and> ei_endpoint_id r = k"
  using assms by (simp_all add: db_linked_def)

lemma linked_join:
  assumes "fresh_pair e i db" "db_linked db" "db_endpoints db' = db_endpoints (join_rows e i db)"
    "db_identities db' = db_identities (join_rows e i db)"
  shows "db_linked db'"
proof (rule db_linkedI, goal_cases)
  case (1 k r)
  then show ?case
    using assms(1,3,4) db_linkedD(1) [OF assms(2), of k r]
    by (fastforce simp: fresh_pair_def split: if_splits)
next
  case (2 k x)
  then show ?case
    using assms(1,3,4) db_linkedD(2) [OF assms(2), of k x]
    by (fastforce simp: fresh_pair_def split: if_splits)
qed

lemma linked_identity:
  assumes "db_linked db" "dict_get (db_identities db) k = Some r" "ei_endpoint_id r' = ei_endpoint_id r"
    "db_endpoints db' = db_endpoints db" "db_identities db' = dict_set k r' (db_identities db)"
  shows "db_linked db'"
proof (rule db_linkedI, goal_cases)
  case (1 j x)
  then show ?case
    using assms(2-) db_linkedD(1) [OF assms(1), of j] by (auto split: if_splits)
next
  case (2 j x)
  then show ?case
    using assms(2-) db_linkedD(2) [OF assms(1), of j x] by (auto split: if_splits)
qed

lemma linked_endpoint:
  assumes "db_linked db" "dict_get (db_endpoints db) k = Some e" "ep_identity_id e' = ep_identity_id e"
    "db_identities db' = db_identities db" "db_endpoints db' = dict_set k e' (db_endpoints db)"
  shows "db_linked db'"
proof (rule db_linkedI, goal_cases)
  case (1 j x)
  then show ?case
    using assms(2-) db_linkedD(1) [OF assms(1), of j x] by (auto split: if_splits)
next
  case (2 j x)
  then show ?case
    using assms(2-) db_linkedD(2) [OF assms(1), of j] by (auto split: if_splits)
qed

lemma db_linked_change:
  assumes "db_change db db'" "db_linked db"
  shows "db_linked db'"
  using assms(1)
proof cases
  case (ingested k r e ob)
  define db1 where "db1 = db\<lparr>db_endpoints := dict_set (ei_endpoint_id r)
    (touch_row (ob_observation_type ob = ''heartbeat'') (ob_received_at ob) e) (db_endpoints db)\<rparr>"
  have row: "dict_get (db_identities db) k = Some r" "dict_get (db_endpoints db) (ei_endpoint_id r) = Some e"
    using ingested select_identityD [of k db r e] by (simp_all add: acceptable_def)
  then have "db_linked db1"
    by (intro linked_endpoint [OF assms(2) row(2)]) (simp_all add: db1_def)
  then show ?thesis
    using row linked_identity [OF \<open>db_linked db1\<close>, of k r "activated_row (ob_received_at ob) r" db']
    by (cases "ei_status r = ISSUED") (simp_all add: ingested(1) db1_def, simp add: db_linked_def)
next
  case (issued k r issuer serial not_before not_after)
  then show ?thesis
    by (intro linked_identity [OF assms(2) issued(2)]) simp_all
next
  case (revoked k r t reason)
  then show ?thesis
    by (intro linked_identity [OF assms(2) revoked(2)]) simp_all
next
  case (joined e i)
  then show ?thesis
    by (intro linked_join [OF joined(2) assms(2)]) simp_all
next
  case (exchanged e i h t g)
  then show ?thesis
    by (intro linked_join [OF exchanged(2) assms(2)]) simp_all
qed (use assms(2) in \<open>simp_all add: db_linked_def\<close>)

lemma db_uniqueI:
  assumes "\<And>j k r x. dict_get (db_identities db) j = Some r \<Longrightarrow> dict_get (db_identities db) k = Some x \<Longrightarrow>
      ei_public_key_fingerprint r = ei_public_key_fingerprint x \<or>
      ir_certificate_serial r \<noteq> None \<and> ir_certificate_serial r = ir_certificate_serial x \<and>
      ir_certificate_issuer r = ir_certificate_issuer x \<Longrightarrow> j = k"
  shows "db_unique db"
  using assms unfolding db_unique_def by blast

lemma db_uniqueD:
  "db_unique db \<Longrightarrow> dict_get (db_identities db) j = Some r \<Longrightarrow> dict_get (db_identities db) k = Some x \<Longrightarrow>
     ei_public_key_fingerprint r = ei_public_key_fingerprint x \<or>
     ir_certificate_serial r \<noteq> None \<and> ir_certificate_serial r = ir_certificate_serial x \<and>
     ir_certificate_issuer r = ir_certificate_issuer x \<Longrightarrow> j = k"
  unfolding db_unique_def by blast

lemma unique_same: "db_unique db \<Longrightarrow> db_identities db' = db_identities db \<Longrightarrow> db_unique db'"
  unfolding db_unique_def by (elim ssubst)

lemma unique_join:
  assumes "fresh_pair e i db" "db_unique db" "dict_ok (db_identities db)"
    "db_identities db' = db_identities (join_rows e i db)"
  shows "db_unique db'"
proof (rule db_uniqueI)
  fix j k r x
  have new: "ei_public_key_fingerprint y \<noteq> ei_public_key_fingerprint i"
    if "dict_get (db_identities db) l = Some y" for l y
    using that assms(1) map_of_SomeD [OF that] by (force simp: fresh_pair_def)
  assume "dict_get (db_identities db') j = Some r" "dict_get (db_identities db') k = Some x"
    "ei_public_key_fingerprint r = ei_public_key_fingerprint x \<or>
     ir_certificate_serial r \<noteq> None \<and> ir_certificate_serial r = ir_certificate_serial x \<and>
     ir_certificate_issuer r = ir_certificate_issuer x"
  then show "j = k"
    using new [of j r] new [of k x] db_uniqueD [OF assms(2), of j r k x]
    by (auto simp: assms(4) split: if_splits)
qed

lemma unique_identity:
  assumes "db_unique db" "dict_get (db_identities db) k = Some r"
    "ei_public_key_fingerprint r' = ei_public_key_fingerprint r"
    "ir_certificate_serial r' = ir_certificate_serial r" "ir_certificate_issuer r' = ir_certificate_issuer r"
    "db_identities db' = dict_set k r' (db_identities db)"
  shows "db_unique db'"
proof (rule db_uniqueI)
  fix j l y x
  assume "dict_get (db_identities db') j = Some y" "dict_get (db_identities db') l = Some x"
    "ei_public_key_fingerprint y = ei_public_key_fingerprint x \<or>
     ir_certificate_serial y \<noteq> None \<and> ir_certificate_serial y = ir_certificate_serial x \<and>
     ir_certificate_issuer y = ir_certificate_issuer x"
  then show "j = l"
    using assms(2-) db_uniqueD [OF assms(1), of j "if j = k then r else y" l "if l = k then r else x"]
    by (auto split: if_splits)
qed

lemma unique_issue:
  assumes "db_unique db" "dict_get (db_identities db) k = Some r" "dict_ok (db_identities db)"
    "\<forall>(j, x)\<in>set (db_identities db). j \<noteq> k \<longrightarrow>
      \<not> (ir_certificate_issuer x = Some issuer \<and> ir_certificate_serial x = Some serial)"
    "db_identities db' = dict_set k (issued_row serial issuer nb na r) (db_identities db)"
  shows "db_unique db'"
proof (rule db_uniqueI)
  fix j l y x
  have other: "\<not> (ir_certificate_issuer z = Some issuer \<and> ir_certificate_serial z = Some serial)"
    if "dict_get (db_identities db) m = Some z" "m \<noteq> k" for m z
    using that assms(4) map_of_SomeD [OF that(1)] by blast
  assume "dict_get (db_identities db') j = Some y" "dict_get (db_identities db') l = Some x"
    "ei_public_key_fingerprint y = ei_public_key_fingerprint x \<or>
     ir_certificate_serial y \<noteq> None \<and> ir_certificate_serial y = ir_certificate_serial x \<and>
     ir_certificate_issuer y = ir_certificate_issuer x"
  then show "j = l"
    using assms(2,5) other [of j y] other [of l x]
      db_uniqueD [OF assms(1), of j "if j = k then r else y" l "if l = k then r else x"]
    by (auto split: if_splits)
qed

lemma db_unique_change:
  assumes "db_change db db'" "db_dicts db" "db_unique db"
  shows "db_unique db'"
  using assms(1)
proof cases
  case (ingested k r e ob)
  then have "dict_get (db_identities db) k = Some r"
    using select_identityD [of k db r e] by (simp add: acceptable_def)
  from unique_identity [OF assms(3) this, of "activated_row (ob_received_at ob) r" db'] show ?thesis
    using unique_same [OF assms(3), of db'] by (cases "ei_status r = ISSUED") (simp_all add: ingested(1))
next
  case (issued k r issuer serial not_before not_after)
  then show ?thesis
    using assms(2) by (intro unique_issue [OF assms(3) issued(2)]) (simp_all add: db_dicts_def)
next
  case (revoked k r t reason)
  then show ?thesis
    by (intro unique_identity [OF assms(3) revoked(2)]) simp_all
next
  case (joined e i)
  then show ?thesis
    using assms(2) by (intro unique_join [OF joined(2) assms(3)]) (simp_all add: db_dicts_def)
next
  case (exchanged e i h t g)
  then show ?thesis
    using assms(2) by (intro unique_join [OF exchanged(2) assms(3)]) (simp_all add: db_dicts_def)
qed (use unique_same [OF assms(3), of db'] in simp_all)

lemma lifecycle_rows:
  "ei_status i \<in> {ACTIVE, PENDING} \<Longrightarrow> lifecycle_ok (identity_row i)"
  "lifecycle_ok r \<Longrightarrow> ei_status r = PENDING \<Longrightarrow> lifecycle_ok (issued_row serial issuer nb na r)"
  "lifecycle_ok r \<Longrightarrow> lifecycle_ok (revoked_row t reason r)"
  "lifecycle_ok r \<Longrightarrow> ei_status r = ISSUED \<Longrightarrow> instant (ei_created_at r) \<le> instant t \<Longrightarrow>
     lifecycle_ok (activated_row t r)"
  by (auto simp: lifecycle_ok_def issued_row_def revoked_row_def activated_row_def)

lemma db_lifecycles_change:
  assumes "db_change db db'" "db_lifecycles db"
  shows "db_lifecycles db'"
  using assms(1)
proof cases
  case (ingested k r e ob)
  then show ?thesis
    using assms(2) select_identityD [of k db r e]
    by (auto simp: db_lifecycles_def acceptable_def lifecycle_rows)
qed (use assms(2) in \<open>auto simp: db_lifecycles_def fresh_pair_def lifecycle_rows\<close>)

lemma accounted_mono:
  assumes "accounted db x"
    and "\<And>k r. dict_get (db_identities db) k = Some r \<Longrightarrow> ei_status r \<in> {ACTIVE, REVOKED} \<Longrightarrow>
      \<exists>r'. dict_get (db_identities db') k = Some r' \<and> ei_endpoint_id r' = ei_endpoint_id r \<and>
        ei_status r' \<in> {ACTIVE, REVOKED}"
    and "\<And>k e. dict_get (db_endpoints db) k = Some e \<Longrightarrow> \<exists>e'. dict_get (db_endpoints db') k = Some e' \<and>
      (\<forall>t. covers (ep_last_receipt_at e) t \<longrightarrow> covers (ep_last_receipt_at e') t) \<and>
      (\<forall>t. covers (ep_last_heartbeat_at e) t \<longrightarrow> covers (ep_last_heartbeat_at e') t)"
    and "\<And>k n. dict_get (db_sequences db) k = Some n \<Longrightarrow>
      \<exists>n'. dict_get (db_sequences db') k = Some n' \<and> n \<le> n'"
  shows "accounted db' x"
proof -
  from assms(1) obtain r e n where *: "dict_get (db_identities db) (or_identity_id x) = Some r"
    "ei_endpoint_id r = ob_endpoint_id x" "ei_status r \<in> {ACTIVE, REVOKED}"
    "dict_get (db_endpoints db) (ob_endpoint_id x) = Some e" "covers (ep_last_receipt_at e) (ob_received_at x)"
    "ob_observation_type x = ''heartbeat'' \<longrightarrow> covers (ep_last_heartbeat_at e) (ob_received_at x)"
    "dict_get (db_sequences db) (or_identity_id x, ob_boot_id x) = Some n" "ob_sequence x \<le> n"
    unfolding accounted_def by blast
  obtain r' where r': "dict_get (db_identities db') (or_identity_id x) = Some r'"
    "ei_endpoint_id r' = ob_endpoint_id x" "ei_status r' \<in> {ACTIVE, REVOKED}"
    using assms(2) [OF *(1,3)] *(2) by auto
  obtain e' where e': "dict_get (db_endpoints db') (ob_endpoint_id x) = Some e'"
    "covers (ep_last_receipt_at e') (ob_received_at x)"
    "ob_observation_type x = ''heartbeat'' \<longrightarrow> covers (ep_last_heartbeat_at e') (ob_received_at x)"
    using assms(3) [OF *(4)] *(5,6) by auto
  obtain n' where "dict_get (db_sequences db') (or_identity_id x, ob_boot_id x) = Some n'" "ob_sequence x \<le> n'"
    using assms(4) [OF *(7)] *(8) by force
  with r' e' show ?thesis
    unfolding accounted_def by blast
qed

lemma covers_timestamptz [simp]: "covers v (pg_timestamptz t) = covers v t"
  by (simp add: covers_def)

lemma covers_greatest:
  "covers v u \<Longrightarrow> covers (Some (pg_greatest v t)) u" "covers (Some (pg_greatest v t)) t"
  by (cases v; simp add: covers_def pg_greatest_def)+

lemma covers_touch:
  "covers (ep_last_receipt_at e) u \<Longrightarrow> covers (ep_last_receipt_at (touch_row h t e)) u"
  "covers (ep_last_heartbeat_at e) u \<Longrightarrow> covers (ep_last_heartbeat_at (touch_row h t e)) u"
  "covers (ep_last_receipt_at (touch_row h t e)) t"
  "covers (ep_last_heartbeat_at (touch_row True t e)) t"
  by (simp_all add: touch_row_def covers_greatest)

lemma db_history_change:
  assumes "db_change db db'" "db_dicts db" "db_history db"
  shows "db_history db'"
proof -
  have acc: "accounted db x" if "x \<in> set (db_observations db)" for x
    using assms(3) that by (simp add: db_history_def)
  show ?thesis
    using assms(1)
  proof cases
    case (ingested k r e ob)
    note row = select_identityD [of k db r e]
    have old: "accounted db' x" if "x \<in> set (db_observations db)" for x
      using ingested row acc [OF that]
      by (elim accounted_mono) (auto simp: acceptable_def covers_touch less_imp_le split: option.splits)
    have new: "accounted db' (observation_row k ob)"
      using ingested row by (auto simp: accounted_def acceptable_def covers_touch)
    have "later x (observation_row k ob)" if x: "x \<in> set (db_observations db)" for x
    proof -
      obtain n where "dict_get (db_sequences db) (or_identity_id x, ob_boot_id x) = Some n" "ob_sequence x \<le> n"
        using acc [OF x] unfolding accounted_def by blast
      then show ?thesis
        using ingested x by (auto simp: later_def acceptable_def)
    qed
    then show ?thesis
      using old new assms(3) ingested(1) by (auto simp: db_history_def sorted_wrt_append)
  next
    case (joined e i)
    have "accounted db' x" if "x \<in> set (db_observations db)" for x
      using joined acc [OF that] by (elim accounted_mono) (auto simp: fresh_pair_def)
    then show ?thesis
      using assms(3) joined(1) by (simp add: db_history_def)
  next
    case (exchanged e i h t g)
    have "accounted db' x" if "x \<in> set (db_observations db)" for x
      using exchanged acc [OF that] by (elim accounted_mono) (auto simp: fresh_pair_def)
    then show ?thesis
      using assms(3) exchanged(1) by (simp add: db_history_def)
  next
    case (issued k r issuer serial not_before not_after)
    have "accounted db' x" if "x \<in> set (db_observations db)" for x
      using issued acc [OF that] by (elim accounted_mono) auto
    then show ?thesis
      using assms(3) issued(1) by (simp add: db_history_def)
  next
    case (revoked k r t reason)
    have "accounted db' x" if "x \<in> set (db_observations db)" for x
      using revoked acc [OF that] by (elim accounted_mono) auto
    then show ?thesis
      using assms(3) revoked(1) by (simp add: db_history_def)
  qed (use assms(3) in \<open>simp_all add: db_history_def accounted_def\<close>)
qed

lemma exchanged_for_mono:
  assumes "exchanged_for db g v"
    and "\<And>k r. dict_get (db_identities db) k = Some r \<Longrightarrow>
      \<exists>r'. dict_get (db_identities db') k = Some r' \<and> ei_endpoint_id r' = ei_endpoint_id r"
    and "\<And>k e. dict_get (db_endpoints db) k = Some e \<Longrightarrow> \<exists>e'. dict_get (db_endpoints db') k = Some e' \<and>
      ep_display_name e' = ep_display_name e \<and> ep_platform e' = ep_platform e \<and>
      ep_architecture e' = ep_architecture e"
  shows "exchanged_for db' g v"
proof -
  from assms(1) obtain r e where *: "dict_get (db_identities db) v = Some r"
    "dict_get (db_endpoints db) (ei_endpoint_id r) = Some e" "ep_display_name e = eg_display_name g"
    "ep_platform e = eg_platform g" "ep_architecture e = eg_architecture g"
    unfolding exchanged_for_def by blast
  obtain r' where "dict_get (db_identities db') v = Some r'" "ei_endpoint_id r' = ei_endpoint_id r"
    using assms(2) [OF *(1)] by blast
  with assms(3) [OF *(2)] * show ?thesis
    unfolding exchanged_for_def by auto
qed

lemma exchanged_for_change:
  assumes "db_change db db'" "exchanged_for db g v"
  shows "exchanged_for db' g v"
  using assms(1)
proof cases
  case (ingested k r e ob)
  then show ?thesis
    using select_identityD [of k db r e] by (intro exchanged_for_mono [OF assms(2)]) (auto simp: acceptable_def)
qed (intro exchanged_for_mono [OF assms(2)]; auto simp: fresh_pair_def)+

lemma db_grants_okI:
  assumes "\<And>j k g h. dict_get (db_grants db) j = Some g \<Longrightarrow> dict_get (db_grants db) k = Some h \<Longrightarrow>
        eg_token_sha256 g = eg_token_sha256 h \<or>
        eg_consumed_identity_id g \<noteq> None \<and> eg_consumed_identity_id g = eg_consumed_identity_id h \<Longrightarrow> j = k"
    and "\<And>k g v. dict_get (db_grants db) k = Some g \<Longrightarrow> eg_consumed_identity_id g = Some v \<Longrightarrow>
        exchanged_for db g v"
  shows "db_grants_ok db"
  using assms unfolding db_grants_ok_def by blast

lemma db_grants_okD:
  assumes "db_grants_ok db"
  shows "dict_get (db_grants db) j = Some g \<Longrightarrow> dict_get (db_grants db) k = Some h \<Longrightarrow>
        eg_token_sha256 g = eg_token_sha256 h \<or>
        eg_consumed_identity_id g \<noteq> None \<and> eg_consumed_identity_id g = eg_consumed_identity_id h \<Longrightarrow> j = k"
    and "dict_get (db_grants db) k = Some g \<Longrightarrow> eg_consumed_identity_id g = Some v \<Longrightarrow> exchanged_for db g v"
  using assms unfolding db_grants_ok_def by blast+

lemma grants_same:
  assumes "db_grants_ok db" "db_change db db'" "db_grants db' = db_grants db"
  shows "db_grants_ok db'"
  using db_grants_okD [OF assms(1)] exchanged_for_change [OF assms(2)]
  by (intro db_grants_okI) (auto simp: assms(3))

lemma db_grants_ok_change:
  assumes step: "db_change db db'" and "db_dicts db" and inv: "db_grants_ok db"
  shows "db_grants_ok db'"
  using step
proof cases
  case (granted g)
  have new: "eg_token_sha256 h \<noteq> eg_token_sha256 g" if "dict_get (db_grants db) k = Some h" for k h
    using granted(4) map_of_SomeD [OF that] by force
  show ?thesis
  proof (rule db_grants_okI, goal_cases)
    case (1 j k x y)
    then show ?case
      using new [of j x] new [of k y] db_grants_okD(1) [OF inv, of j x k y]
      by (auto simp: granted(1) split: if_splits)
  next
    case (2 k x v)
    then show ?case
      using db_grants_okD(2) [OF inv, of k x v] exchanged_for_change [OF step]
      by (auto simp: granted(1) split: if_splits)
  qed
next
  case (exchanged e i h t g)
  have hg: "h = g"
    using exchanged assms(2) by (blast dest: open_grant_get)
  have new: "eg_consumed_identity_id x \<noteq> Some (ei_identity_id i)" if "dict_get (db_grants db) k = Some x" for k x
    using exchanged(11) map_of_SomeD [OF that] by force
  have old: "exchanged_for db' x v" if "exchanged_for db x v" for x v
    using exchanged_for_change [OF step that] .
  show ?thesis
  proof (rule db_grants_okI, goal_cases)
    case (1 j k x y)
    then show ?case
      using new [of j x] new [of k y]
        db_grants_okD(1) [OF inv, of j "if j = eg_grant_id h then g else x" k "if k = eg_grant_id h then g else y"]
        exchanged(9)
      by (auto simp: exchanged(1) split: if_splits)
  next
    case (2 k x v)
    show ?case
    proof (cases "k = eg_grant_id h")
      case True
      then show ?thesis
        using 2 exchanged hg by (auto simp: exchanged_for_def fresh_pair_def)
    next
      case False
      then show ?thesis
        using 2 db_grants_okD(2) [OF inv, of k x v] old by (simp add: exchanged(1))
    qed
  qed
qed (use grants_same [OF inv step] in simp_all)

lemma db_marks_change: "db_change db db' \<Longrightarrow> db_marks db \<Longrightarrow> db_marks db'"
  by (erule db_changeE) (auto simp: db_marks_def)

theorem db_inv_change: "db_change db db' \<Longrightarrow> db_inv db \<Longrightarrow> db_inv db'"
  unfolding db_inv_def
  by (intro conjI; elim conjE; (rule db_dicts_change db_rows_ok_change db_linked_change db_unique_change
      db_lifecycles_change db_history_change db_marks_change db_grants_ok_change; assumption))

lemma db_inv_changes: "db_changes db db' \<Longrightarrow> db_inv db \<Longrightarrow> db_inv db'"
  by (induction rule: rtranclp_induct) (auto intro: db_inv_change)

section \<open>What no change undoes\<close>

fun lifecycle_rank :: "EndpointLifecycle \<Rightarrow> nat" where
  "lifecycle_rank PENDING = 0"
| "lifecycle_rank ISSUED = 1"
| "lifecycle_rank ACTIVE = 2"
| "lifecycle_rank RETIRED = 3"
| "lifecycle_rank REVOKED = 4"

text \<open>
  An identity keeps its endpoint, its key, its creation time and, once it has one, its certificate;
  its status only advances and a revoked identity never changes.
\<close>

definition identity_le :: "IdentityRow \<Rightarrow> IdentityRow \<Rightarrow> bool" where
  "identity_le r r' \<longleftrightarrow>
     ei_identity_id r' = ei_identity_id r \<and> ei_endpoint_id r' = ei_endpoint_id r \<and>
     ei_public_key_fingerprint r' = ei_public_key_fingerprint r \<and> ei_created_at r' = ei_created_at r \<and>
     lifecycle_rank (ei_status r) \<le> lifecycle_rank (ei_status r') \<and>
     (ei_status r = REVOKED \<longrightarrow> r' = r) \<and>
     (ir_certificate_serial r \<noteq> None \<longrightarrow>
        ir_certificate_serial r' = ir_certificate_serial r \<and> ir_certificate_issuer r' = ir_certificate_issuer r \<and>
        ir_certificate_not_before r' = ir_certificate_not_before r \<and>
        ir_certificate_not_after r' = ir_certificate_not_after r)"

definition endpoint_le :: "Endpoint \<Rightarrow> Endpoint \<Rightarrow> bool" where
  "endpoint_le e e' \<longleftrightarrow>
     e' = e\<lparr>ep_last_receipt_at := ep_last_receipt_at e', ep_last_heartbeat_at := ep_last_heartbeat_at e'\<rparr> \<and>
     (\<forall>t. covers (ep_last_receipt_at e) t \<longrightarrow> covers (ep_last_receipt_at e') t) \<and>
     (\<forall>t. covers (ep_last_heartbeat_at e) t \<longrightarrow> covers (ep_last_heartbeat_at e') t)"

definition grant_le :: "EnrollmentGrant \<Rightarrow> EnrollmentGrant \<Rightarrow> bool" where
  "grant_le g g' \<longleftrightarrow> g' = g \<or> eg_consumed_at g = None \<and> (\<exists>t v. g' = consumed_grant t v g)"

definition db_le :: "Database \<Rightarrow> Database \<Rightarrow> bool" where
  "db_le db db' \<longleftrightarrow>
     prefix (db_observations db) (db_observations db') \<and> prefix (db_audit_events db) (db_audit_events db') \<and>
     dict_le identity_le (db_identities db) (db_identities db') \<and>
     dict_le endpoint_le (db_endpoints db) (db_endpoints db') \<and>
     dict_le grant_le (db_grants db) (db_grants db') \<and>
     dict_le (\<le>) (db_sequences db) (db_sequences db')"

lemma row_le_refl [simp]: "reflp identity_le" "reflp endpoint_le" "reflp grant_le" "reflp ((\<le>) :: int \<Rightarrow> _)"
  by (auto intro!: reflpI simp: identity_le_def endpoint_le_def grant_le_def)

lemma row_le_trans [simp]: "transp identity_le" "transp grant_le" "transp ((\<le>) :: int \<Rightarrow> _)"
  by (auto intro!: transpI simp: identity_le_def grant_le_def) (auto simp: consumed_grant_def)

lemma endpoint_le_trans [simp]: "transp endpoint_le"
proof (rule transpI)
  fix x y z
  assume "endpoint_le x y" "endpoint_le y z"
  then show "endpoint_le x z"
    by (cases x; cases y; cases z) (simp add: endpoint_le_def)
qed

lemma rank_le_4: "lifecycle_rank s \<le> 4"
  by (cases s) simp_all

lemma revoked_iff: "identity_ok (EndpointIdentity.truncate r) \<Longrightarrow> ei_revoked_at r \<noteq> None \<longleftrightarrow> ei_status r = REVOKED"
  by (auto simp: EndpointIdentity_post_init_Inr split: option.splits)

lemma row_le:
  "lifecycle_ok r \<Longrightarrow> ei_status r = PENDING \<Longrightarrow> identity_le r (issued_row serial issuer nb na r)"
  "ei_status r \<noteq> REVOKED \<Longrightarrow> identity_le r (revoked_row t reason r)"
  "ei_status r = ISSUED \<Longrightarrow> identity_le r (activated_row t r)"
  "endpoint_le e (touch_row h t e)"
  by (auto simp: identity_le_def issued_row_def revoked_row_def activated_row_def lifecycle_ok_def
      endpoint_le_def covers_touch rank_le_4)

lemma db_change_le:
  assumes "db_change db db'" "db_inv db"
  shows "db_le db db'"
  using assms(1)
proof cases
  case (ingested k r e ob)
  then show ?thesis
    using select_identityD [of k db r e]
    by (auto simp: db_le_def acceptable_def row_le dict_le_refl split: option.splits intro!: dict_le_set)
next
  case (issued k r issuer serial not_before not_after)
  then have "lifecycle_ok r"
    using assms(2) by (auto simp: db_inv_def db_lifecycles_def)
  then show ?thesis
    using issued by (auto simp: db_le_def row_le dict_le_refl intro!: dict_le_set)
next
  case (revoked k r t reason)
  then have "ei_status r \<noteq> REVOKED"
    using assms(2) by (auto simp: db_inv_def db_rows_ok_def revoked_iff [symmetric])
  then show ?thesis
    using revoked by (auto simp: db_le_def row_le dict_le_refl intro!: dict_le_set)
next
  case (exchanged e i h t g)
  then have "grant_le g (consumed_grant t (ei_identity_id i) g)"
    unfolding grant_le_def by blast
  then show ?thesis
    using exchanged by (auto simp: db_le_def dict_le_refl fresh_pair_def intro!: dict_le_set)
qed (auto simp: db_le_def dict_le_refl fresh_pair_def intro!: dict_le_set)

interpretation db: evolution db_change db_inv db_le
proof unfold_locales
  show "db_le a c" if "db_le a b" "db_le b c" for a b c
    using that unfolding db_le_def by (meson dict_le_trans endpoint_le_trans prefix_order.trans row_le_trans)
qed (simp_all add: db_inv_change db_change_le, simp add: db_le_def dict_le_refl)


section \<open>Steps and reachable states\<close>

text \<open>
  A step is one call of a public operation that can write, whether it returns or raises, with any
  arguments; the reads change nothing.
\<close>

inductive pg_step :: "PostgresControlPlane \<Rightarrow> PostgresControlPlane \<Rightarrow> bool" where
  shutdown: "pg_step s (snd (begin_shutdown s))"
| access: "pg_step s (snd (pg_record_operator_access actor subject action decision reason cid now metadata s))"
| grant: "pg_step s (snd (create_enrollment_grant name pl ar now actor ttl s))"
| consume: "pg_step s (snd (consume_enrollment_grant token fp now actor s))"
| start: "pg_step s (snd (begin_endpoint_enrollment token fp now actor s))"
| issue: "pg_step s (snd (record_issued_endpoint_identity k serial issuer nb na now actor s))"
| enroll: "pg_step s (snd (pg_enroll_synthetic_endpoint name pl ar fp now actor s))"
| heartbeat: "pg_step s (snd (pg_ingest_heartbeat k m now d s))"
| inventory: "pg_step s (snd (pg_ingest_inventory k n now d s))"
| authenticate: "pg_step s (snd (authenticate_endpoint_certificate ep fp now cid s))"
| revoke: "pg_step s (snd (pg_revoke_identity k reason actor now c s))"

inductive pg_reachable :: "PostgresControlPlane \<Rightarrow> bool" where
  init: "PostgresControlPlane_init dsn timeout empty_database ids tokens = Inr s \<Longrightarrow> pg_reachable s"
| step: "pg_reachable s \<Longrightarrow> pg_step s s' \<Longrightarrow> pg_reachable s'"

inductive_cases pg_stepE: "pg_step s s'"

lemmas changes_ops = changes_record_operator_access changes_create_enrollment_grant
  changes_consume_enrollment_grant changes_begin_endpoint_enrollment
  changes_record_issued_endpoint_identity changes_pg_enroll_synthetic_endpoint
  changes_pg_ingest_heartbeat changes_pg_ingest_inventory changes_authenticate_endpoint_certificate
  changes_pg_revoke_identity

lemma changesD: "changes m \<Longrightarrow> keyed (pg_db s) \<Longrightarrow> db_changes (pg_db s) (pg_db (snd (m s)))"
  by (simp add: changes_def)

lemma pg_step_changes: "pg_step s s' \<Longrightarrow> db_inv (pg_db s) \<Longrightarrow> db_changes (pg_db s) (pg_db s')"
  by (erule pg_stepE)
     (auto intro!: changesD changes_ops simp: db_inv_def db_dicts_def begin_shutdown_def op_simps)

abbreviation pg_steps :: "PostgresControlPlane \<Rightarrow> PostgresControlPlane \<Rightarrow> bool" where
  "pg_steps \<equiv> pg_step\<^sup>*\<^sup>*"

interpretation pg: evolution pg_step "\<lambda>s. db_inv (pg_db s)" "\<lambda>s s'. db_le (pg_db s) (pg_db s')"
  by unfold_locales (blast intro: db.run_inv db.run_le db.le_refl db.le_trans pg_step_changes)+

lemma pg_reachable_inv: "pg_reachable s \<Longrightarrow> db_inv (pg_db s)"
  by (induction rule: pg_reachable.induct)
     (auto simp: PostgresControlPlane_init_def db_inv_empty split: if_splits intro: pg.step_inv)

end
