(* ===== verification/Persistence_Outcomes.thy ===== *)
theory Persistence_Outcomes
  imports Persistence_Invariant
begin

text \<open>
  When the operations of the database adapter succeed.  The adapter can fail for reasons that its own
  checks do not mention: a text the column refuses, or a random identifier that is in use.  The rules
  here show that its own texts always fit, and reduce the second to \<open>fresh_draws\<close>.
\<close>


section \<open>Texts that fit their columns\<close>

definition clean :: "string \<Rightarrow> bool" where
  "clean s \<longleftrightarrow> CHR 0x00 \<notin> set s"

lemma clean_append [simp]: "clean (s @ t) \<longleftrightarrow> clean s \<and> clean t"
  by (simp add: clean_def)

lemma clean_Nil [simp]: "clean []"
  by (simp add: clean_def)

lemma clean_Cons [simp]: "clean (c # s) \<longleftrightarrow> c \<noteq> CHR 0x00 \<and> clean s"
  by (auto simp: clean_def)

lemma clean_lower_hex: "list_all is_lower_hex s \<Longrightarrow> clean s"
  by (auto simp: clean_def list_all_iff is_lower_hex_def is_digit_def)

lemma clean_str_uuid [simp]: "clean (str_uuid u)"
  by (auto simp: clean_def is_lower_hex_def is_digit_def dest!: str_uuid_chars)

lemma clean_sha256 [simp]: "is_sha256 s \<Longrightarrow> clean s"
  by (simp add: is_sha256_def clean_lower_hex)

lemma clean_dec_nat [simp]: "clean (dec_nat n)"
proof (induction n rule: dec_nat.induct)
  case (1 n)
  have "char_of (48 + m) \<noteq> CHR 0x00" if "m < 10" for m :: nat
    using that code_char_of [of "48 + m"] by (auto dest: arg_cong [of _ _ "of_char :: char \<Rightarrow> nat"])
  then show ?case
    using 1 by (subst dec_nat.simps) auto
qed

lemma clean_str_int [simp]: "clean (str_int i)"
  by (simp add: str_int_def)

lemma pg_varchar_clean [simp]: "clean s \<Longrightarrow> length s \<le> n \<Longrightarrow> pg_varchar n s = Inr s"
  by (simp add: pg_varchar_def clean_def)

definition clean_pairs :: "(string \<times> string) list \<Rightarrow> bool" where
  "clean_pairs ps \<longleftrightarrow> list_all (\<lambda>(k, v). clean k \<and> clean v) ps"

lemma pg_metadata_clean: "clean_pairs ps \<Longrightarrow> pg_metadata ps = Inr (dict_of (sort ps))"
  by (auto simp: pg_metadata_def clean_pairs_def list_all_iff list_ex_iff clean_def)

lemma clean_pad [simp]: "clean (pad w n)"
  by (auto simp: pad_def) (simp add: clean_def)

lemma clean_if [simp]: "clean (if c then s else t) \<longleftrightarrow> (if c then clean s else clean t)"
  by simp

lemma clean_iso_fraction [simp]: "clean (iso_fraction n)"
  unfolding iso_fraction_def clean_if by simp

lemma clean_iso_offset [simp]: "clean (iso_offset z)"
  by (cases z) (simp_all add: iso_offset_def Let_def)

lemma clean_isoformat [simp]: "clean (isoformat t)"
  unfolding isoformat_def Let_def by (simp only: split_def clean_append clean_pad clean_iso_fraction
      clean_iso_offset) simp


section \<open>Rows that are read\<close>

text \<open>
  The rows of the tables are values of their classes, so that reading one fails only if it has a time that
  cannot be fetched.  A grant has none: its constructor normalises its times.
\<close>

definition row_result :: "datetime option list \<Rightarrow> 'a \<Rightarrow> 'a result" where
  "row_result columns v = (if times_load columns then Inr v else Inl (DatabaseError ''timestamp out of range''))"

lemma row_result_Inr [simp]: "row_result columns v = Inr w \<longleftrightarrow> times_load columns \<and> w = v"
  by (auto simp: row_result_def)

lemma rows_read:
  assumes "db_inv db"
  shows "dict_get (db_endpoints db) k = Some e \<Longrightarrow> endpoint_from_row e = row_result (endpoint_times e) e"
    and "dict_get (db_identities db) k = Some r \<Longrightarrow>
      identity_from_row r = row_result (identity_times r) (EndpointIdentity.truncate r)"
    and "dict_get (db_grants db) k = Some g \<Longrightarrow> enrollment_grant_from_row g = Inr g"
    and "x \<in> set (db_observations db) \<Longrightarrow>
      observation_from_row x = row_result (observation_times x) (Observation.truncate x)"
proof -
  show "enrollment_grant_from_row g = Inr g" if "dict_get (db_grants db) k = Some g"
  proof -
    have "grant_ok g"
      using that assms by (simp add: db_inv_def db_rows_ok_def)
    then show ?thesis
      by (auto simp: from_row_Inr grant_times_def EnrollmentGrant_post_init_Inr split: option.splits)
  qed
qed (use assms in \<open>simp_all add: db_inv_def db_rows_ok_def endpoint_from_row_def identity_from_row_def
      observation_from_row_def row_result_def load_times_def\<close>)


section \<open>Identifiers not in use\<close>

definition used_ids :: "Database \<Rightarrow> uuid set" where
  "used_ids db =
     au_event_id ` set (db_audit_events db) \<union> ob_observation_id ` set (db_observations db) \<union>
     fst ` set (db_endpoints db) \<union> fst ` set (db_identities db) \<union> fst ` set (db_grants db)"

definition draws :: "nat \<Rightarrow> 'a rng_scheme \<Rightarrow> uuid list" where
  "draws n s = map (\<lambda>i. rng_seq s (rng_pos s + i)) [0..<n]"

text \<open>The next \<open>n\<close> values that \<^verbatim>\<open>uuid4()\<close> returns are different and not in use.\<close>

definition fresh_draws :: "nat \<Rightarrow> PostgresControlPlane \<Rightarrow> bool" where
  "fresh_draws n s \<longleftrightarrow> distinct (draws n s) \<and> set (draws n s) \<inter> used_ids (pg_db s) = {}"

lemma draws_0 [simp]: "draws 0 s = []"
  by (simp add: draws_def)

lemma draws_Suc: "draws (Suc n) s = rng_seq s (rng_pos s) # draws n (s\<lparr>rng_pos := Suc (rng_pos s)\<rparr>)"
proof -
  have "[0..<Suc n] = 0 # map Suc [0..<n]"
    by (simp add: map_Suc_upt upt_conv_Cons del: upt_Suc)
  then show ?thesis
    by (simp add: draws_def)
qed

lemma draws_update [simp]: "draws n (s\<lparr>pg_db := db\<rparr>) = draws n s" for s :: PostgresControlPlane
  by (simp add: draws_def)

text \<open>Drawing a value and storing it, or nothing, leaves the others fresh.\<close>

lemma fresh_draws_Suc:
  assumes "fresh_draws (Suc n) s"
  shows "rng_seq s (rng_pos s) \<notin> used_ids (pg_db s)"
    and "used_ids db \<subseteq> insert (rng_seq s (rng_pos s)) (used_ids (pg_db s)) \<Longrightarrow>
      fresh_draws n (s\<lparr>rng_pos := Suc (rng_pos s), pg_db := db\<rparr>)"
    and "fresh_draws n (s\<lparr>rng_pos := Suc (rng_pos s)\<rparr>)"
  using assms by (auto simp: fresh_draws_def draws_Suc)

lemma fresh_draws_db:
  "fresh_draws n s \<Longrightarrow> used_ids db \<subseteq> used_ids (pg_db s) \<Longrightarrow> fresh_draws n (s\<lparr>pg_db := db\<rparr>)"
  by (auto simp: fresh_draws_def)

lemma fresh_draws_mono: "fresh_draws n s \<Longrightarrow> m \<le> n \<Longrightarrow> fresh_draws m s"
  unfolding fresh_draws_def draws_def by (fastforce simp: distinct_map inj_on_def)


section \<open>Audit events\<close>

text \<open>The row of an audit event.\<close>

definition audit_row ::
  "uuid \<Rightarrow> datetime \<Rightarrow> string \<Rightarrow> string \<Rightarrow> string \<Rightarrow> string \<Rightarrow> string \<Rightarrow> string \<Rightarrow> uuid \<Rightarrow>
   (string \<times> string) list \<Rightarrow> AuditEvent" where
  "audit_row v t actor_type actor subject action decision reason cid metadata =
     \<lparr>au_event_id = v, au_server_time = pg_timestamptz t, au_actor_type = actor_type, au_actor_id = actor,
      au_subject = subject, au_action = action, au_decision = decision, au_reason = reason,
      au_correlation_id = cid, au_metadata = dict_of (sort metadata)\<rparr>"

definition auditable ::
  "string \<Rightarrow> string \<Rightarrow> string \<Rightarrow> string \<Rightarrow> string \<Rightarrow> string \<Rightarrow> (string \<times> string) list \<Rightarrow> bool" where
  "auditable actor_type actor subject action decision reason metadata \<longleftrightarrow>
     clean actor_type \<and> length actor_type \<le> 64 \<and> clean actor \<and> length actor \<le> 256 \<and> clean subject \<and>
     length subject \<le> 256 \<and> clean action \<and> length action \<le> 128 \<and> clean reason \<and> length reason \<le> 512 \<and>
     decision \<in> {''accepted'', ''rejected'', ''no_change''} \<and> clean_pairs metadata"

lemma insert_audit_runs:
  assumes "auditable ty ai su ac de re me" "rng_seq s (rng_pos s) \<notin> used_ids (pg_db s)"
  shows "insert_audit t ty ai su ac de re c me s =
    (Inr (), s\<lparr>rng_pos := Suc (rng_pos s),
       pg_db := log_row (audit_row (rng_seq s (rng_pos s)) t ty ai su ac de re c me) (pg_db s)\<rparr>)"
proof -
  have "\<not> list_ex (\<lambda>r. au_event_id r = rng_seq s (rng_pos s)) (db_audit_events (pg_db s))"
    using assms(2) by (force simp: list_ex_iff used_ids_def)
  then show ?thesis
    using assms(1)
    by (auto simp: insert_audit_def insert_audit_row_def op_simps auditable_def pg_metadata_clean db_read_def
        db_modify_def raise_if_def log_row_def audit_row_def)
qed

lemma used_ids_log_row [simp]: "used_ids (log_row ev db) = insert (au_event_id ev) (used_ids db)"
  by (auto simp: used_ids_def)

lemma audit_row_sel [simp]:
  "au_event_id (audit_row v t ty ai su ac de re c me) = v" "au_action (audit_row v t ty ai su ac de re c me) = ac"
  "au_decision (audit_row v t ty ai su ac de re c me) = de" "au_reason (audit_row v t ty ai su ac de re c me) = re"
  "au_server_time (audit_row v t ty ai su ac de re c me) = pg_timestamptz t"
  by (simp_all add: audit_row_def)

section \<open>Ingestion\<close>

lemma sequence_new_row:
  assumes "db_inv db" "sequence_new k env db" "x \<in> set (db_observations db)" "or_identity_id x = k"
    "ob_boot_id x = me_boot_id env"
  shows "ob_sequence x < me_sequence env"
proof -
  obtain n where "dict_get (db_sequences db) (or_identity_id x, ob_boot_id x) = Some n" "ob_sequence x \<le> n"
    using assms(1,3) unfolding db_inv_def db_history_def accounted_def by blast
  then show ?thesis
    using assms(2,4,5) by (simp add: sequence_new_def)
qed

lemma insert_observation_row_runs:
  assumes "db_inv db" "sequence_new k env db" "pg_db s = sequence_rows k env db"
    and new: "\<forall>x\<in>set (db_observations db). ob_message_id x \<noteq> me_message_id env"
    and ob: "ob_observation_id ob \<notin> used_ids db" "ob_message_id ob = me_message_id env"
      "ob_boot_id ob = me_boot_id env" "ob_sequence ob = me_sequence env"
  shows "insert_observation_row k ob s = (Inr (), s\<lparr>pg_db :=
    (pg_db s)\<lparr>db_observations := db_observations db @ [observation_row k ob]\<rparr>\<rparr>)"
proof -
  have "ob_observation_id x \<noteq> ob_observation_id ob" if "x \<in> set (db_observations db)" for x
    using ob(1) imageI [OF that, of ob_observation_id] by (auto simp: used_ids_def)
  moreover have "\<not> (or_identity_id x = k \<and> ob_boot_id x = ob_boot_id ob \<and> ob_sequence x = ob_sequence ob)"
    if "x \<in> set (db_observations db)" for x
    using sequence_new_row [OF assms(1,2) that] ob by auto
  ultimately have "\<not> list_ex (\<lambda>r. ob_observation_id r = ob_observation_id ob \<or>
      ob_message_id r = ob_message_id ob \<or>
      or_identity_id r = k \<and> ob_boot_id r = ob_boot_id ob \<and> ob_sequence r = ob_sequence ob) (db_observations db)"
    using new ob(2) unfolding list_ex_iff by metis
  then show ?thesis
    by (simp add: insert_observation_row_def op_simps db_read_def db_modify_def raise_if_def assms(3)
        sequence_rows_def)
qed

definition activation_event :: "uuid \<Rightarrow> uuid \<Rightarrow> uuid \<Rightarrow> MessageEnvelope \<Rightarrow> datetime \<Rightarrow> AuditEvent" where
  "activation_event v k endpoint_id env t =
     audit_row v t ''endpoint_identity'' (str_uuid k) (''endpoint:'' @ str_uuid endpoint_id)
       ''identity.activate'' ''accepted'' ''first authenticated heartbeat accepted'' (me_correlation_id env) []"

definition acceptance_event :: "uuid \<Rightarrow> uuid \<Rightarrow> Observation \<Rightarrow> MessageEnvelope \<Rightarrow> datetime \<Rightarrow> AuditEvent" where
  "acceptance_event v k ob env t =
     audit_row v t ''endpoint_identity'' (str_uuid k) (''endpoint:'' @ str_uuid (ob_endpoint_id ob))
       (ob_observation_type ob @ ''.ingest'') ''accepted'' ''message contract and authorization checks passed''
       (me_correlation_id env) (acceptance_metadata ob)"

lemma ingest_auditable:
  assumes "ty \<in> {''heartbeat'', ''inventory''}" "observation_ok ob"
  shows "auditable ''endpoint_identity'' (str_uuid k) (''endpoint:'' @ str_uuid v) (ty @ ''.ingest'')
      ''accepted'' ''message contract and authorization checks passed'' (acceptance_metadata ob)"
    "auditable ''endpoint_identity'' (str_uuid k) (''endpoint:'' @ str_uuid v) ''identity.activate''
      ''accepted'' ''first authenticated heartbeat accepted'' []"
    "auditable ''endpoint_identity'' (str_uuid k) (''endpoint:'' @ str_uuid v) (ty @ ''.ingest'')
      ''no_change'' ''exact accepted message retry acknowledged'' [(''message_id'', str_uuid w)]"
  using assms by (auto simp: auditable_def clean_pairs_def acceptance_metadata_def Observation_post_init_Inr)

lemma used_ids_ingest:
  assumes "dict_get (db_identities db) k = Some r" "dict_get (db_endpoints db) (ei_endpoint_id r) = Some e"
  shows "used_ids (ingest_rows k r e ob db) = insert (ob_observation_id ob) (used_ids db)"
proof -
  have "k \<in> fst ` set (db_identities db)" "ei_endpoint_id r \<in> fst ` set (db_endpoints db)"
    using map_of_SomeD [OF assms(1)] map_of_SomeD [OF assms(2)] by (auto intro: rev_image_eqI)
  then show ?thesis
    by (auto simp: used_ids_def dom_update)
qed

definition ingest_events :: "uuid \<Rightarrow> uuid \<Rightarrow> IdentityRow \<Rightarrow> Observation \<Rightarrow> MessageEnvelope \<Rightarrow> datetime \<Rightarrow> AuditEvent list" where
  "ingest_events v w r ob env t =
     (if ei_status r = ISSUED
      then [activation_event v (ei_identity_id r) (ei_endpoint_id r) env t,
            acceptance_event w (ei_identity_id r) ob env t]
      else [acceptance_event v (ei_identity_id r) ob env t])"

text \<open>How many identifiers an accepted message draws.\<close>

definition ingest_draws :: "IdentityRow \<Rightarrow> nat" where
  "ingest_draws r = (if ei_status r = ISSUED then 3 else 2)"

lemma ingest_record_runs:
  fixes s :: PostgresControlPlane
  assumes inv: "db_inv db" and auth: "ingest_authorized k r e env ty db"
    and ty: "ty \<in> {''heartbeat'', ''inventory''}"
    and new: "\<forall>x\<in>set (db_observations db). ob_message_id x \<noteq> me_message_id env"
    and seq: "sequence_new k env db" and s: "pg_db s = sequence_rows k env db"
    and active: "ei_status r = ISSUED \<longrightarrow> instant (ei_created_at r) \<le> instant t"
    and fresh: "fresh_draws 3 (s\<lparr>pg_db := db\<rparr>)"
    and ob: "ob = new_row_observation (rng_seq s (rng_pos s)) (EndpointIdentity.truncate r) env ty sv pd t d"
      "observation_ok ob"
  shows "ingest_record k (EndpointIdentity.truncate r) env ty sv pd t d s =
    (Inr ob, s\<lparr>rng_pos := rng_pos s + ingest_draws r, pg_db := (ingest_rows k r e ob db)\<lparr>db_audit_events := db_audit_events db @
       ingest_events (rng_seq s (Suc (rng_pos s))) (rng_seq s (Suc (Suc (rng_pos s)))) r ob env t\<rparr>\<rparr>)"
proof -
  define v w where "v = rng_seq s (Suc (rng_pos s))" and "w = rng_seq s (Suc (Suc (rng_pos s)))"
  have row: "dict_get (db_identities db) k = Some r" "dict_get (db_endpoints db) (ei_endpoint_id r) = Some e"
    "ei_identity_id r = k"
    using auth inv by (auto simp: ingest_authorized_def db_inv_def db_dicts_def keyed_def dest!: select_identityD)
  have ids: "rng_seq s (rng_pos s) \<notin> used_ids db" "v \<notin> used_ids db" "w \<notin> used_ids db"
    "v \<noteq> rng_seq s (rng_pos s)" "w \<noteq> rng_seq s (rng_pos s)" "v \<noteq> w"
    using fresh by (auto simp: fresh_draws_def numeral_eq_Suc draws_Suc v_def w_def)
  have oid: "ob_observation_id ob = rng_seq s (rng_pos s)"
    by (simp add: ob new_row_observation_def)
  have ins: "insert_observation_row k ob (s\<lparr>rng_pos := n\<rparr>) = (Inr (), s\<lparr>rng_pos := n,
      pg_db := (sequence_rows k env db)\<lparr>db_observations := db_observations db @ [observation_row k ob]\<rparr>\<rparr>)" for n
    by (subst insert_observation_row_runs [OF inv seq _ new]) (simp_all add: s oid ids(1), simp_all add: ob)
  have sel: "ob_endpoint_id ob = ei_endpoint_id r" "ob_observation_type ob = ty" "ob_received_at ob = t"
    "ob_boot_id ob = me_boot_id env" "ob_sequence ob = me_sequence env"
    by (simp_all add: ob(1))
  define s1 where "s1 = s\<lparr>rng_pos := Suc (rng_pos s), pg_db := ingest_rows k r e ob db\<rparr>"
  let ?mid = "s\<lparr>rng_pos := Suc (rng_pos s),
      pg_db := (sequence_rows k env db)\<lparr>db_observations := db_observations db @ [observation_row k ob]\<rparr>\<rparr>"
  define activate where "activate = insert_audit t ''endpoint_identity'' (str_uuid k)
      (''endpoint:'' @ str_uuid (ei_endpoint_id r)) ''identity.activate'' ''accepted''
      ''first authenticated heartbeat accepted'' (me_correlation_id env) []"
  define accept where "accept = (\<lambda>ob. insert_audit t ''endpoint_identity'' (str_uuid k)
      (''endpoint:'' @ str_uuid (ei_endpoint_id r)) (ty @ ''.ingest'') ''accepted''
      ''message contract and authorization checks passed'' (me_correlation_id env) (acceptance_metadata ob))"
  define update where "update = (if ty = ''heartbeat''
       then sbind (update_receipt True (ei_endpoint_id r) t) (\<lambda>_. sbind (activate_identity_row k t) (\<lambda>activated.
         if activated then activate else sreturn ()))
       else update_receipt False (ei_endpoint_id r) t)"
  have update: "update ?mid = (if ei_status r = ISSUED then activate s1 else (Inr (), s1))"
    using row auth ty active
    by (auto simp: update_def update_receipt_def activate_identity_row_def op_simps db_modify_def db_read_def
        sequence_rows_def s1_def ingest_rows_def sel activated_row_def ingest_authorized_def raise_if_def)
  have used: "used_ids (ingest_rows k r e ob db) = insert (rng_seq s (rng_pos s)) (used_ids db)"
    by (simp add: used_ids_ingest [OF row(1,2)] oid)
  have run1: "activate s1 = (Inr (), s\<lparr>rng_pos := Suc (Suc (rng_pos s)),
      pg_db := log_row (activation_event v k (ei_endpoint_id r) env t) (ingest_rows k r e ob db)\<rparr>)"
    unfolding activate_def using ids used
    by (subst insert_audit_runs [OF ingest_auditable(2) [OF ty ob(2)]])
       (simp_all add: s1_def activation_event_def v_def)
  have run2: "accept ob s1 = (Inr (), s\<lparr>rng_pos := Suc (Suc (rng_pos s)),
      pg_db := log_row (acceptance_event v k ob env t) (ingest_rows k r e ob db)\<rparr>)"
    unfolding accept_def using ids used
    by (subst insert_audit_runs [OF ingest_auditable(1) [OF ty ob(2)]])
       (simp_all add: s1_def acceptance_event_def v_def sel)
  have run3: "accept ob (s\<lparr>rng_pos := Suc (Suc (rng_pos s)), pg_db := log_row (activation_event v k x env t)
        (ingest_rows k r e ob db)\<rparr>) =
      (Inr (), s\<lparr>rng_pos := Suc (Suc (Suc (rng_pos s))), pg_db := log_row (acceptance_event w k ob env t)
        (log_row (activation_event v k x env t) (ingest_rows k r e ob db))\<rparr>)" for x
    unfolding accept_def using ids used
    by (subst insert_audit_runs [OF ingest_auditable(1) [OF ty ob(2)]])
       (simp_all add: acceptance_event_def activation_event_def w_def sel)
  have "ingest_record k (EndpointIdentity.truncate r) env ty sv pd t d =
      sbind uuid4 (\<lambda>v. sbind (lift (Observation_post_init
        (new_row_observation v (EndpointIdentity.truncate r) env ty sv pd t d))) (\<lambda>ob.
      sbind (insert_observation_row k ob) (\<lambda>_. sbind update (\<lambda>_. sbind (accept ob) (\<lambda>_. sreturn ob)))))"
    unfolding ingest_record_def truncate_sel row(3) update_def activate_def accept_def ..
  then have "ingest_record k (EndpointIdentity.truncate r) env ty sv pd t d s =
      sbind (\<lambda>_. if ei_status r = ISSUED then activate s1 else (Inr (), s1))
        (\<lambda>_. sbind (accept ob) (\<lambda>_. sreturn ob)) s"
    using ob(2) by (simp add: op_simps ob(1) [symmetric] ins) (simp add: sbind_def update)
  then show ?thesis
    using run1 run2 run3
    by (auto simp: ingest_draws_def ingest_events_def numeral_eq_Suc op_simps row(3) v_def w_def log_row_def ingest_rows_def s1_def)
qed

lemma ingest_transaction_known:
  assumes "db_inv (pg_db s)" "ingest_authorized k r e env ty (pg_db s)"
  shows "ingest_transaction k env ty sv pd t b d s =
    sbind (ingest_existing k env ty t d) (\<lambda>(failure, observation).
      sbind (if failure = None \<and> observation = None then ingest_new_failure k (Some (r, e)) env t b
        else sreturn failure)
      (ingest_finish k env ty sv pd t d (Some (EndpointIdentity.truncate r)) observation)) s"
proof -
  have row: "select_identity k (pg_db s) = Some (r, e)"
    using assms(2) by (simp add: ingest_authorized_def)
  have "identity_from_row r = Inr (EndpointIdentity.truncate r)"
    using rows_read(2) [OF assms(1), of k r] select_identityD [OF row] assms(2) by (simp add: ingest_authorized_def)
  moreover have "ingest_identity_failure (Some (r, e)) (Some (EndpointIdentity.truncate r)) env ty = None"
    using assms(2) by (simp add: ingest_authorized_def ingest_identity_failure_None)
  ultimately show ?thesis
    unfolding ingest_transaction_def db_read_def sbind_prims row by (simp add: op_simps)
qed

lemma ingest_accepts:
  fixes s :: PostgresControlPlane
  defines "db \<equiv> pg_db s"
  assumes inv: "db_inv db" and auth: "ingest_authorized k r e env ty db"
    and ty: "ty \<in> {''heartbeat'', ''inventory''}"
    and new: "\<forall>x\<in>set (db_observations db). ob_message_id x \<noteq> me_message_id env"
    and timely: "ingest_timely env t" "binding_ok b e" and seq: "sequence_new k env db"
    and active: "ei_status r = ISSUED \<longrightarrow> instant (ei_created_at r) \<le> instant t"
    and fresh: "fresh_draws 3 s"
    and ob: "ob = new_row_observation (rng_seq s (rng_pos s)) (EndpointIdentity.truncate r) env ty sv pd t d"
      "observation_ok ob"
  shows "ingest_transaction k env ty sv pd t b d s =
    (Inr (None, Some ob), s\<lparr>rng_pos := rng_pos s + ingest_draws r, pg_db := (ingest_rows k r e ob db)\<lparr>db_audit_events :=
       db_audit_events db @
       ingest_events (rng_seq s (Suc (rng_pos s))) (rng_seq s (Suc (Suc (rng_pos s)))) r ob env t\<rparr>\<rparr>)"
proof -
  have existing: "ingest_existing k env ty t d s = (Inr (None, None), s)"
  proof -
    have "select_message (me_message_id env) (pg_db s) = None"
      using new unfolding select_message_def find_None db_def .
    then show ?thesis
      by (simp add: ingest_existing_def op_simps db_read_def)
  qed
  define s1 where "s1 = s\<lparr>pg_db := sequence_rows k env db\<rparr>"
  have checks: "ingest_new_failure k (Some (r, e)) env t b s = (Inr None, s1)"
    using timely seq
    by (auto simp: ingest_new_failure_def op_simps Let_def fail_if_def dt_add_Inr_iff ingest_timely_def
        binding_ok_def dt_add_def instant_def upsert_sequence_row_def sequence_new_def db_read_def db_modify_def
        sequence_rows_def s1_def db_def split: option.splits)
  have "ingest_record k (EndpointIdentity.truncate r) env ty sv pd t d s1 =
    (Inr ob, s1\<lparr>rng_pos := rng_pos s1 + ingest_draws r, pg_db := (ingest_rows k r e ob db)\<lparr>db_audit_events := db_audit_events db @
       ingest_events (rng_seq s1 (Suc (rng_pos s1))) (rng_seq s1 (Suc (Suc (rng_pos s1)))) r ob env t\<rparr>\<rparr>)"
    by (rule ingest_record_runs [OF inv auth ty new seq _ active _ _ ob(2)])
       (use fresh in \<open>simp_all add: s1_def db_def ob(1)\<close>)
  then show ?thesis
    using ingest_transaction_known [OF inv [unfolded db_def] auth [unfolded db_def], of sv pd t b d] existing checks
    by (simp add: op_simps ingest_finish_def s1_def)
qed

lemma sorted_wrt_later_unique:
  assumes "sorted_wrt later xs" "x \<in> set xs" "y \<in> set xs" "ob_message_id x = ob_message_id y"
  shows "x = y"
  using assms by (induction xs) (auto simp: later_def)

lemma message_unique:
  "db_inv db \<Longrightarrow> x \<in> set (db_observations db) \<Longrightarrow> y \<in> set (db_observations db) \<Longrightarrow>
     ob_message_id x = ob_message_id y \<Longrightarrow> x = y"
  unfolding db_inv_def db_history_def by (blast intro: sorted_wrt_later_unique)

lemma ingest_acknowledges:
  fixes s :: PostgresControlPlane
  defines "db \<equiv> pg_db s"
  assumes inv: "db_inv db" and auth: "ingest_authorized k r e env ty db"
    and ty: "ty \<in> {''heartbeat'', ''inventory''}"
    and x: "x \<in> set (db_observations db)" "ob_message_id x = me_message_id env" "exact_retry k env d x"
    and fresh: "fresh_draws 1 s"
  shows "ingest_transaction k env ty sv pd t b d s =
    (Inr (None, Some (Observation.truncate x)), s\<lparr>rng_pos := Suc (rng_pos s), pg_db := log_row
      (audit_row (rng_seq s (rng_pos s)) t ''endpoint_identity'' (str_uuid k)
        (''endpoint:'' @ str_uuid (me_endpoint_id env)) (ty @ ''.ingest'') ''no_change''
        ''exact accepted message retry acknowledged'' (me_correlation_id env)
        [(''message_id'', str_uuid (me_message_id env))]) db\<rparr>)"
proof -
  obtain y where y: "select_message (me_message_id env) (pg_db s) = Some y"
    using x(1,2) find_None [of "\<lambda>r. ob_message_id r = me_message_id env" "db_observations (pg_db s)"]
    by (cases "select_message (me_message_id env) (pg_db s)") (auto simp: select_message_def db_def)
  have mem: "y \<in> set (db_observations db)" "ob_message_id y = me_message_id env"
    using y find_Some [of _ "db_observations db" y] unfolding select_message_def db_def by blast+
  have "x = y"
    using message_unique [OF inv x(1) mem(1)] x(2) mem(2) by simp
  have ok: "observation_from_row x = Inr (Observation.truncate x)"
    using rows_read(4) [OF inv x(1)] x(3) by (simp add: exact_retry_def)
  have id: "rng_seq s (rng_pos s) \<notin> used_ids (pg_db s)"
    using fresh by (simp add: fresh_draws_def numeral_eq_Suc draws_Suc)
  have audit: "auditable ''endpoint_identity'' (str_uuid k) (''endpoint:'' @ str_uuid (me_endpoint_id env))
      (ty @ ''.ingest'') ''no_change'' ''exact accepted message retry acknowledged''
      [(''message_id'', str_uuid (me_message_id env))]"
    using ty by (auto simp: auditable_def clean_pairs_def)
  have "ingest_existing k env ty t d s =
      (Inr (None, Some (Observation.truncate x)), s\<lparr>rng_pos := Suc (rng_pos s), pg_db := log_row
      (audit_row (rng_seq s (rng_pos s)) t ''endpoint_identity'' (str_uuid k)
        (''endpoint:'' @ str_uuid (me_endpoint_id env)) (ty @ ''.ingest'') ''no_change''
        ''exact accepted message retry acknowledged'' (me_correlation_id env)
        [(''message_id'', str_uuid (me_message_id env))]) db\<rparr>)"
    using x(3) ok y \<open>x = y\<close> insert_audit_runs [OF audit id]
    by (auto simp: ingest_existing_def op_simps db_read_def exact_retry_def db_def)
  then show ?thesis
    using ingest_transaction_known [OF inv [unfolded db_def] auth [unfolded db_def], of sv pd t b d]
    by (simp add: op_simps ingest_finish_def)
qed

lemma transaction_Inr:
  "transaction m s = (Inr x, s') \<longleftrightarrow> \<not> pg_shutting_down s \<and> m s = (Inr x, s')"
  by (auto simp: transaction_def split: prod.splits sum.splits)

lemma on_unique_violation_Inr:
  "on_unique_violation m h s = (Inr x, s') \<longleftrightarrow>
     m s = (Inr x, s') \<or> (\<exists>s''. m s = (Inl UniqueViolation, s'') \<and> h s'' = (Inr x, s'))"
  by (auto simp: on_unique_violation_def split: prod.splits sum.splits error.splits)

lemma pg_ingest_Inr:
  "pg_ingest k env ty sv pd t b d s = (Inr ob, s') \<longleftrightarrow>
     is_aware t \<and> in_range (instant t) \<and> \<not> pg_shutting_down s \<and>
     ingest_transaction k env ty sv pd (utc (instant t)) b d s = (Inr (None, Some ob), s')"
  by (auto simp: pg_ingest_def sbind_Inr lift_def sraise_def sreturn_def on_unique_violation_Inr transaction_Inr
      astimezone_utc_def split: if_splits option.splits)

text \<open>What a message must satisfy to be acknowledged at \<open>t\<close>: it is an exact retry, or it is new and timely.\<close>

definition ingest_admits ::
  "uuid \<Rightarrow> MessageEnvelope \<Rightarrow> string \<Rightarrow> datetime \<Rightarrow> (Platform \<times> string) option \<Rightarrow> string option \<Rightarrow> Database \<Rightarrow> bool" where
  "ingest_admits k env ty t b d db \<longleftrightarrow>
     (\<exists>r e. ingest_authorized k r e env ty db \<and>
       ((\<exists>x\<in>set (db_observations db). ob_message_id x = me_message_id env \<and> exact_retry k env d x) \<or>
        (\<forall>x\<in>set (db_observations db). ob_message_id x \<noteq> me_message_id env) \<and>
        instant (me_created_at env) \<le> instant t + MAX_CLOCK_SKEW \<and> instant t < instant (me_expires_at env) \<and>
        binding_ok b e \<and> sequence_new k env db \<and>
        (ei_status r = ISSUED \<longrightarrow> instant (ei_created_at r) \<le> instant t)))"

lemma acceptable_new:
  "acceptable k r e (new_row_observation v (EndpointIdentity.truncate r) env ty sv pd t d) db \<Longrightarrow>
     (\<forall>x\<in>set (db_observations db). ob_message_id x \<noteq> me_message_id env) \<and> sequence_new k env db \<and>
     (ei_status r = ISSUED \<longrightarrow> instant (ei_created_at r) \<le> instant t)"
  by (simp add: acceptable_def sequence_new_def split: option.splits)

lemma pg_ingest_admitted:
  assumes "db_inv (pg_db s)" "ty \<in> {''heartbeat'', ''inventory''}" "pg_ingest k env ty sv pd t b d s = (Inr ob, s')"
  shows "ingest_admits k env ty t b d (pg_db s)"
proof -
  have "wp (ingest_transaction k env ty sv pd (utc (instant t)) b d)
      (\<lambda>x _. fst x = None \<longrightarrow> ingest_admits k env ty t b d (pg_db s)) s"
  proof (rule wp_ingest_transaction [OF _ assms(2)], goal_cases)
    case (4 r e v ob db' n)
    then show ?case
      using acceptable_new [of k r e v env ty sv pd "utc (instant t)" d "pg_db s"]
      unfolding ingest_admits_def ingest_timely_def instant_utc by blast
  qed (use assms(1) in \<open>auto simp: db_inv_def db_dicts_def ingest_admits_def\<close>)
  from wp_Inr [OF this] show ?thesis
    using assms(3) by (auto simp: pg_ingest_Inr)
qed

lemma pg_ingest_admits:
  fixes s :: PostgresControlPlane
  assumes "db_inv (pg_db s)" "ty \<in> {''heartbeat'', ''inventory''}" "ingest_admits k env ty t b d (pg_db s)"
    and "\<not> pg_shutting_down s" "is_aware t" "in_range (instant t)" "in_range (instant t + MAX_CLOCK_SKEW)"
    and "is_aware (me_created_at env)" "is_sha256 pd" "pred_option is_sha256 d" "fresh_draws 3 s"
  shows "\<exists>ob s'. pg_ingest k env ty sv pd t b d s = (Inr ob, s')"
proof -
  obtain r e where auth: "ingest_authorized k r e env ty (pg_db s)" and
    or: "(\<exists>x\<in>set (db_observations (pg_db s)). ob_message_id x = me_message_id env \<and> exact_retry k env d x) \<or>
        (\<forall>x\<in>set (db_observations (pg_db s)). ob_message_id x \<noteq> me_message_id env) \<and>
        instant (me_created_at env) \<le> instant t + MAX_CLOCK_SKEW \<and> instant t < instant (me_expires_at env) \<and>
        binding_ok b e \<and> sequence_new k env (pg_db s) \<and>
        (ei_status r = ISSUED \<longrightarrow> instant (ei_created_at r) \<le> instant t)"
    using assms(3) unfolding ingest_admits_def by blast
  from or show ?thesis
  proof (elim disjE bexE conjE)
    fix x
    assume "x \<in> set (db_observations (pg_db s))" "ob_message_id x = me_message_id env" "exact_retry k env d x"
    from ingest_acknowledges [OF assms(1) auth assms(2) this, of sv pd "utc (instant t)" b] show ?thesis
      using assms fresh_draws_mono [of 3 s 1] by (auto simp: pg_ingest_Inr)
  next
    assume *: "\<forall>x\<in>set (db_observations (pg_db s)). ob_message_id x \<noteq> me_message_id env"
      "instant (me_created_at env) \<le> instant t + MAX_CLOCK_SKEW" "instant t < instant (me_expires_at env)"
      "binding_ok b e" "sequence_new k env (pg_db s)"
      "ei_status r = ISSUED \<longrightarrow> instant (ei_created_at r) \<le> instant t"
    let ?ob = "new_row_observation (rng_seq s (rng_pos s)) (EndpointIdentity.truncate r) env ty sv pd (utc (instant t)) d"
    have ok: "observation_ok ?ob"
      using assms by (simp add: Observation_post_init_Inr new_row_observation_def)
    have "ingest_timely env (utc (instant t))"
      using * assms by (simp add: ingest_timely_def utc_def instant_def)
    from ingest_accepts [OF assms(1) auth assms(2) *(1) this *(4,5) _ assms(11) refl ok] show ?thesis
      using assms *(6) by (auto simp: pg_ingest_Inr)
  qed
qed

section \<open>Atomicity\<close>

text \<open>An operation that raises leaves the tables as they were, but for at most one audit event.\<close>

definition at_most_logged :: "Database \<Rightarrow> Database \<Rightarrow> bool" where
  "at_most_logged db db' \<longleftrightarrow> db' = db \<or> (\<exists>ev. db' = log_row ev db)"

definition atomic :: "'a pg_op \<Rightarrow> bool" where
  "atomic m \<longleftrightarrow> (\<forall>s e s'. keyed (pg_db s) \<longrightarrow> m s = (Inl e, s') \<longrightarrow> at_most_logged (pg_db s) (pg_db s'))"

definition quiet :: "'a pg_op \<Rightarrow> bool" where
  "quiet m \<longleftrightarrow> (\<forall>s. pg_db (snd (m s)) = pg_db s)"

lemma quiet_prims:
  "quiet (sreturn x)" "quiet (sraise e)" "quiet (lift r)" "quiet (db_read g)" "quiet uuid4" "quiet token_urlsafe"
  by (simp_all add: quiet_def op_simps db_read_def uuid4_def token_urlsafe_def)

lemma quiet_case: "quiet a \<Longrightarrow> (\<And>x. quiet (f x)) \<Longrightarrow> quiet (case v of None \<Rightarrow> a | Some x \<Rightarrow> f x)"
  by (cases v) simp_all

lemma atomic_sbind:
  assumes "quiet m" "\<And>x. atomic (f x)"
  shows "atomic (sbind m f)"
proof (unfold atomic_def, intro allI impI)
  fix s :: PostgresControlPlane and e s'
  assume k: "keyed (pg_db s)" and "sbind m f s = (Inl e, s')"
  then consider "m s = (Inl e, s')" | x s1 where "m s = (Inr x, s1)" "f x s1 = (Inl e, s')"
    by (auto simp: sbind_Inl)
  then show "at_most_logged (pg_db s) (pg_db s')"
  proof cases
    case 1
    then show ?thesis
      using assms(1) unfolding quiet_def at_most_logged_def by (metis snd_conv)
  next
    case 2
    then have "pg_db s1 = pg_db s"
      using assms(1) unfolding quiet_def by (metis snd_conv)
    then show ?thesis
      using assms(2) [of x] 2 k unfolding atomic_def by metis
  qed
qed

lemma transaction_Inl: "transaction m s = (Inl e, s') \<Longrightarrow> pg_db s' = pg_db s"
  by (auto simp: transaction_def split: if_splits prod.splits sum.splits)

lemma atomic_transaction: "atomic (transaction m)"
  by (auto simp: atomic_def at_most_logged_def dest: transaction_Inl)

lemma atomic_on_unique_violation:
  assumes "\<And>s e s'. h s = (Inl e, s') \<Longrightarrow> at_most_logged (pg_db s) (pg_db s')"
  shows "atomic (on_unique_violation (transaction m) h)"
proof (unfold atomic_def, intro allI impI)
  fix s :: PostgresControlPlane and e s'
  assume "on_unique_violation (transaction m) h s = (Inl e, s')"
  then consider "transaction m s = (Inl e, s')"
    | s1 where "transaction m s = (Inl UniqueViolation, s1)" "h s1 = (Inl e, s')"
    by (auto simp: on_unique_violation_def split: prod.splits sum.splits error.splits)
  then show "at_most_logged (pg_db s) (pg_db s')"
  proof cases
    case 1
    then show ?thesis
      using transaction_Inl by (auto simp: at_most_logged_def)
  next
    case 2
    then show ?thesis
      using assms [OF 2(2)] transaction_Inl [OF 2(1)] by simp
  qed
qed

lemma record_audit_then_raise:
  "sbind (record_audit t ty ai su ac de re c me) (\<lambda>_. sraise f) s = (Inl e, s') \<Longrightarrow>
     at_most_logged (pg_db s) (pg_db s')"
proof -
  have "wp (insert_audit t ty ai su ac de re c me) (\<lambda>_ s'. at_most_logged (pg_db s) (pg_db s')) s"
    by (rule wp_insert_audit) (auto simp: at_most_logged_def)
  from wp_Inr [OF this] have "at_most_logged (pg_db s) (pg_db s1)"
    if "record_audit t ty ai su ac de re c me s = (Inr x, s1)" for x s1
    using that by (auto simp: record_audit_def transaction_Inr)
  then show "sbind (record_audit t ty ai su ac de re c me) (\<lambda>_. sraise f) s = (Inl e, s') \<Longrightarrow> ?thesis"
    by (auto simp: sbind_Inl sraise_def record_audit_def at_most_logged_def dest: transaction_Inl)
qed

lemmas atomic_handler = atomic_on_unique_violation [OF record_audit_then_raise]

lemma atomic_result:
  assumes "atomic m"
    and "\<And>s. keyed (pg_db s) \<Longrightarrow> wp m (\<lambda>x s'. (\<exists>y. f x = sreturn y) \<or>
      at_most_logged (pg_db s) (pg_db s') \<and> quiet (f x)) s"
  shows "atomic (sbind m f)"
proof (unfold atomic_def, intro allI impI)
  fix s :: PostgresControlPlane and e s'
  assume k: "keyed (pg_db s)" and "sbind m f s = (Inl e, s')"
  then consider "m s = (Inl e, s')" | x s1 where "m s = (Inr x, s1)" "f x s1 = (Inl e, s')"
    by (auto simp: sbind_Inl)
  then show "at_most_logged (pg_db s) (pg_db s')"
  proof cases
    case 1
    then show ?thesis
      using assms(1) k unfolding atomic_def by blast
  next
    case 2
    from wp_Inr [OF assms(2) [OF k] 2(1)] show ?thesis
      using 2(2) by (auto simp: sreturn_def quiet_def) (metis snd_conv)
  qed
qed

lemma wp_on_unique_violation:
  assumes "wp m Q s" "\<And>s. wp h Q s"
  shows "wp (on_unique_violation (transaction m) h) Q s"
proof -
  have "Q x s'" if "h t = (Inr x, s')" for t x s'
    using wp_Inr [OF assms(2) that] .
  then show ?thesis
    using assms(1)
    by (auto simp: wp_def on_unique_violation_def transaction_def split: prod.splits sum.splits error.splits)
qed

lemma wp_trivial [simp]: "wp m (\<lambda>_. wp (sraise e) Q) s" "wp m (\<lambda>_ _. True) s"
  by (simp_all add: wp_def sraise_def split: prod.splits sum.splits)

lemma at_most_logged_log [simp]: "at_most_logged db (log_row ev db)" "at_most_logged db db"
  by (auto simp: at_most_logged_def)

lemma atomic_return: "atomic m \<Longrightarrow> atomic (sbind m (\<lambda>x. sreturn (f x)))"
  by (rule atomic_result) (auto simp: wp_def split: prod.splits sum.splits)

lemmas atomic_intros = atomic_sbind [OF quiet_prims(3)] atomic_sbind [OF quiet_prims(5)]
  atomic_sbind [OF quiet_prims(6)] atomic_sbind [OF quiet_case [OF quiet_prims(5,1)]]
  atomic_return atomic_transaction atomic_handler

lemma atomic_record_operator_access:
  "atomic (pg_record_operator_access actor subject action decision reason c now metadata)"
  unfolding pg_record_operator_access_def record_audit_def by (intro atomic_intros)

lemma atomic_create_enrollment_grant: "atomic (create_enrollment_grant name pl ar now actor ttl)"
  unfolding create_enrollment_grant_def Let_def by (intro atomic_intros)

lemma atomic_enroll: "atomic (pg_enroll_synthetic_endpoint name pl ar fp now actor)"
  unfolding pg_enroll_synthetic_endpoint_def by (intro atomic_intros)

lemma atomic_record_issued: "atomic (record_issued_endpoint_identity k serial issuer nb na now actor)"
  unfolding record_issued_endpoint_identity_def
  by (rule atomic_intros) (auto intro!: atomic_intros split: prod.split)

lemma atomic_revoke: "atomic (pg_revoke_identity k reason actor now c)"
  unfolding pg_revoke_identity_def by (intro atomic_intros)

lemma wp_transaction: "wp m Q s \<Longrightarrow> wp (transaction m) Q s"
  by (auto simp: wp_def transaction_def split: prod.splits sum.splits)

lemma atomic_authenticate: "atomic (authenticate_endpoint_certificate endpoint_id fp t c)"
  unfolding authenticate_endpoint_certificate_def
  by (intro atomic_intros atomic_result wp_transaction)
     (auto simp: authenticate_transaction_def quiet_prims split: option.split intro!: wp_insert_audit)

lemma atomic_ingest:
  assumes "ty \<in> {''heartbeat'', ''inventory''}"
  shows "atomic (pg_ingest k env ty sv pd t b d)"
  unfolding pg_ingest_def record_rejection_def
  by (intro atomic_intros atomic_result wp_on_unique_violation wp_ingest_transaction)
     (use assms in \<open>auto simp: quiet_prims\<close>)

lemma wp_consume_refuses:
  "wp (consume_transaction token_sha256 fp u actor status retry v)
     (\<lambda>x s'. fst x \<noteq> None \<and> at_most_logged (pg_db s) (pg_db s') \<or> fst x = None \<and> snd x \<noteq> None) s"
  unfolding consume_transaction_def wp_sbind
  by (rule wp_inspect_grant) (auto intro!: wp_insert_audit)

lemma atomic_consume_grant: "atomic (consume_grant token fp now actor status retry)"
  unfolding consume_grant_def Let_def
  by (intro atomic_intros atomic_result atomic_on_unique_violation wp_on_unique_violation)
     (auto simp: db_read_def op_simps quiet_prims dest: record_audit_then_raise
       intro!: wp_mono [OF wp_consume_refuses], blast+)

section \<open>Enrollment\<close>

lemma draws_add:
  "rng_seq s' = rng_seq s \<Longrightarrow> rng_pos s' = rng_pos s + m \<Longrightarrow> draws (m + n) s = draws m s @ draws n s'"
  by (rule nth_equalityI) (auto simp: draws_def nth_append)

text \<open>After an operation that drew \<open>m\<close> identifiers and stored no others, the next ones are fresh.\<close>

lemma fresh_draws_add:
  assumes "fresh_draws (m + n) s" "rng_seq s' = rng_seq s" "rng_pos s' = rng_pos s + m"
    "used_ids (pg_db s') \<subseteq> used_ids (pg_db s) \<union> set (draws m s)"
  shows "fresh_draws n s'"
  using assms(1,4) unfolding fresh_draws_def draws_add [OF assms(2,3)] by auto

definition grant_row :: "string \<Rightarrow> uuid \<Rightarrow> string \<Rightarrow> datetime \<Rightarrow> string \<Rightarrow> timedelta \<Rightarrow> EnrollmentGrant" where
  "grant_row token v name now actor ttl =
     \<lparr>eg_grant_id = v, eg_token_sha256 = sha256_hex token, eg_display_name = name, eg_platform = LINUX,
      eg_architecture = ''amd64'', eg_created_at = utc (instant now), eg_expires_at = utc (instant now + ttl),
      eg_created_by = actor, eg_consumed_at = None, eg_consumed_identity_id = None\<rparr>"

lemma stored_grant_row: "stored_grant (grant_row token v name now actor ttl) = grant_row token v name now actor ttl"
  by (simp add: stored_grant_def grant_row_def pg_timestamptz_def)

lemma dt_add_utc: "in_range (t + d) \<Longrightarrow> dt_add (utc t) d = Inr (utc (t + d))"
  by (simp add: dt_add_def utc_def)

lemma create_enrollment_grant_runs:
  fixes s :: PostgresControlPlane and name actor :: string and now :: datetime and ttl :: timedelta
  defines "token \<equiv> GRANT_NAMESPACE @ pg_token_seq s (pg_token_pos s)"
    and "g \<equiv> grant_row (GRANT_NAMESPACE @ pg_token_seq s (pg_token_pos s)) (rng_seq s (rng_pos s)) name now actor ttl"
  assumes now: "is_aware now" "in_range (instant now)" "in_range (instant now + ttl)"
    and ttl: "0 < ttl" "ttl \<le> MAX_ENROLLMENT_GRANT_TTL"
    and texts: "\<not> empty_or_longer name 128" "clean name" "\<not> empty_or_longer actor 256" "clean actor"
    and run: "\<not> pg_shutting_down s" "fresh_draws 3 s"
    and new: "\<forall>h\<in>set (dict_values (db_grants (pg_db s))). eg_token_sha256 h \<noteq> sha256_hex token"
  shows "\<exists>ev. create_enrollment_grant name LINUX ''amd64'' now actor ttl s =
    (Inr (g, token), s\<lparr>pg_token_pos := Suc (pg_token_pos s), rng_pos := rng_pos s + 3,
       pg_db := log_row ev ((pg_db s)\<lparr>db_grants := dict_set (eg_grant_id g) g (db_grants (pg_db s))\<rparr>)\<rparr>) \<and>
     au_event_id ev = rng_seq s (Suc (Suc (rng_pos s)))"
proof -
  have ids: "rng_seq s (rng_pos s) \<notin> used_ids (pg_db s)" "rng_seq s (Suc (Suc (rng_pos s))) \<notin> used_ids (pg_db s)"
    "rng_seq s (Suc (Suc (rng_pos s))) \<noteq> rng_seq s (rng_pos s)"
    using run(2) by (auto simp: fresh_draws_def numeral_eq_Suc draws_Suc)
  have len: "length name \<le> 128" "length actor \<le> 256"
    using texts by (auto simp: empty_or_longer_def)
  have ok: "grant_ok g"
    using now ttl texts by (simp add: EnrollmentGrant_post_init_Inr g_def grant_row_def MAX_DISPLAY_NAME_LENGTH_def)
  have none: "dict_get (db_grants (pg_db s)) (rng_seq s (rng_pos s)) = None"
    using ids(1) by (auto simp: used_ids_def map_of_eq_None_iff)
  have insert: "insert_grant_row g s' = (Inr (), s'\<lparr>pg_db :=
      (pg_db s)\<lparr>db_grants := dict_set (eg_grant_id g) g (db_grants (pg_db s))\<rparr>\<rparr>)" if "pg_db s' = pg_db s" for s'
    using new none len texts that stored_grant_row [unfolded stored_grant_def]
    by (auto simp: insert_grant_row_def op_simps db_read_def db_modify_def raise_if_def list_ex_iff
        g_def grant_row_def token_def pg_timestamptz_def)
  have audit: "auditable ''operator'' actor (''enrollment_grant:'' @ str_uuid (eg_grant_id g)) ''enrollment_grant.create''
      ''accepted'' ''short-lived single-use grant created'' [(''architecture'', eg_architecture g),
        (''display_name'', eg_display_name g), (''expires_at'', isoformat (eg_expires_at g)),
        (''platform'', platform_value (eg_platform g))]"
    using texts len by (simp add: auditable_def clean_pairs_def g_def grant_row_def)
  define s1 where "s1 = s\<lparr>pg_token_pos := Suc (pg_token_pos s), rng_pos := Suc (Suc (rng_pos s))\<rparr>"
  define ev where "ev = audit_row (rng_seq s (Suc (Suc (rng_pos s)))) (utc (instant now)) ''operator'' actor
      (''enrollment_grant:'' @ str_uuid (eg_grant_id g)) ''enrollment_grant.create''
      ''accepted'' ''short-lived single-use grant created'' (rng_seq s (Suc (rng_pos s)))
      [(''architecture'', eg_architecture g), (''display_name'', eg_display_name g),
       (''expires_at'', isoformat (eg_expires_at g)), (''platform'', platform_value (eg_platform g))]"
  let ?db = "(pg_db s)\<lparr>db_grants := dict_set (eg_grant_id g) g (db_grants (pg_db s))\<rparr>"
  have "rng_seq s (Suc (Suc (rng_pos s))) \<notin> used_ids ?db"
    using ids by (auto simp: used_ids_def dom_update g_def grant_row_def)
  then have logged: "insert_audit (utc (instant now)) ''operator'' actor
      (''enrollment_grant:'' @ str_uuid (eg_grant_id g)) ''enrollment_grant.create''
      ''accepted'' ''short-lived single-use grant created'' (rng_seq s (Suc (rng_pos s)))
      [(''architecture'', eg_architecture g), (''display_name'', eg_display_name g),
       (''expires_at'', isoformat (eg_expires_at g)), (''platform'', platform_value (eg_platform g))]
      (s1\<lparr>pg_db := ?db\<rparr>) = (Inr (), s1\<lparr>rng_pos := rng_pos s + 3, pg_db := log_row ev ?db\<rparr>)"
    by (subst insert_audit_runs [OF audit]) (simp_all add: s1_def ev_def numeral_eq_Suc)
  have post: "EnrollmentGrant_post_init \<lparr>eg_grant_id = rng_seq s (rng_pos s),
      eg_token_sha256 = sha256_hex token, eg_display_name = name, eg_platform = LINUX,
      eg_architecture = ''amd64'', eg_created_at = utc (instant now), eg_expires_at = utc (instant now + ttl),
      eg_created_by = actor, eg_consumed_at = None, eg_consumed_identity_id = None\<rparr> = Inr g"
    using ok by (simp add: g_def grant_row_def token_def)
  have "create_enrollment_grant name LINUX ''amd64'' now actor ttl s =
      (Inr (g, token), s1\<lparr>rng_pos := rng_pos s + 3, pg_db := log_row ev ?db\<rparr>)"
    using now run(1) insert [of s1] logged post
    by (simp add: create_enrollment_grant_def op_simps astimezone_utc_def require_aware_aware dt_add_utc
        Let_def transaction_def s1_def token_def)
  then show ?thesis
    by (auto simp: s1_def ev_def intro!: exI [of _ ev])
qed

definition new_pair :: "EnrollmentGrant \<Rightarrow> string \<Rightarrow> datetime \<Rightarrow> EndpointLifecycle \<Rightarrow> uuid \<Rightarrow> uuid \<Rightarrow> Endpoint \<times> EndpointIdentity" where
  "new_pair g fp now status v w =
     (\<lparr>ep_endpoint_id = v, ep_display_name = eg_display_name g, ep_platform = eg_platform g,
       ep_architecture = eg_architecture g, ep_identity_id = w, ep_enrolled_at = utc (instant now),
       ep_last_receipt_at = None, ep_last_heartbeat_at = None\<rparr>,
      \<lparr>ei_identity_id = w, ei_endpoint_id = v, ei_public_key_fingerprint = fp, ei_created_at = utc (instant now),
       ei_status = status, ei_revoked_at = None, ei_revocation_reason = None\<rparr>)"

lemma unused_id:
  assumes "db_inv db" "v \<notin> used_ids db"
  shows "dict_get (db_endpoints db) v = None" "dict_get (db_identities db) v = None"
    "dict_get (db_grants db) v = None"
    "\<forall>e\<in>set (dict_values (db_endpoints db)). ep_identity_id e \<noteq> v"
    "\<forall>g\<in>set (dict_values (db_grants db)). eg_consumed_identity_id g \<noteq> Some v"
proof -
  have keys: "dict_get (db_endpoints db) v = None" "dict_get (db_identities db) v = None"
    "dict_get (db_grants db) v = None"
    using assms(2) by (auto simp: used_ids_def map_of_eq_None_iff)
  then show "dict_get (db_endpoints db) v = None" "dict_get (db_identities db) v = None"
    "dict_get (db_grants db) v = None" .
  have d: "dict_ok (db_endpoints db)" "dict_ok (db_grants db)"
    using assms(1) by (simp_all add: db_inv_def db_dicts_def)
  show "\<forall>e\<in>set (dict_values (db_endpoints db)). ep_identity_id e \<noteq> v"
    using assms(1) keys(2) unfolding dict_get_values [OF d(1)] Ball_def db_inv_def db_linked_def by fastforce
  show "\<forall>g\<in>set (dict_values (db_grants db)). eg_consumed_identity_id g \<noteq> Some v"
    using assms(1) keys(2) unfolding dict_get_values [OF d(2)] Ball_def db_inv_def db_grants_ok_def exchanged_for_def
    by fastforce
qed

text \<open>The two inserts of a new endpoint with unused identifiers and an unused key.\<close>

lemma insert_pair_runs:
  fixes s :: PostgresControlPlane
  assumes "db_inv (pg_db s)" "ep_endpoint_id e \<notin> used_ids (pg_db s)" "ei_identity_id i \<notin> used_ids (pg_db s)"
    "ep_identity_id e = ei_identity_id i" "clean (ep_display_name e)" "clean (ep_architecture e)" "endpoint_ok e"
    "\<forall>r\<in>set (dict_values (db_identities (pg_db s))). ei_public_key_fingerprint r \<noteq> ei_public_key_fingerprint i"
  shows "insert_endpoint_row e s = (Inr (), s\<lparr>pg_db :=
      (pg_db s)\<lparr>db_endpoints := dict_set (ep_endpoint_id e) (stored_endpoint e) (db_endpoints (pg_db s))\<rparr>\<rparr>)"
    and "insert_identity_row i (s\<lparr>pg_db :=
      (pg_db s)\<lparr>db_endpoints := dict_set (ep_endpoint_id e) (stored_endpoint e) (db_endpoints (pg_db s))\<rparr>\<rparr>) =
      (Inr (), s\<lparr>pg_db := join_rows e i (pg_db s)\<rparr>)"
proof -
  have len: "length (ep_display_name e) \<le> 128" "length (ep_architecture e) \<le> 32"
    using assms(7) by (simp_all add: Endpoint_post_init_Inr not_longer MAX_DISPLAY_NAME_LENGTH_def)
  show "insert_endpoint_row e s = (Inr (), s\<lparr>pg_db :=
      (pg_db s)\<lparr>db_endpoints := dict_set (ep_endpoint_id e) (stored_endpoint e) (db_endpoints (pg_db s))\<rparr>\<rparr>)"
    using unused_id [OF assms(1,2)] unused_id [OF assms(1,3)] len assms(4-6)
    by (auto simp: insert_endpoint_row_def op_simps db_read_def db_modify_def raise_if_def list_ex_iff
        stored_endpoint_def)
  show "insert_identity_row i (s\<lparr>pg_db :=
      (pg_db s)\<lparr>db_endpoints := dict_set (ep_endpoint_id e) (stored_endpoint e) (db_endpoints (pg_db s))\<rparr>\<rparr>) =
      (Inr (), s\<lparr>pg_db := join_rows e i (pg_db s)\<rparr>)"
    using unused_id [OF assms(1,3)] assms(8)
    by (auto simp: insert_identity_row_def op_simps db_read_def db_modify_def raise_if_def list_ex_iff
        join_rows_def)
qed

lemma find_grant_row_unique:
  assumes "db_inv db" "dict_get (db_grants db) k = Some g" "eg_token_sha256 g = d"
  shows "find_grant_row d db = Some g"
proof -
  have "g \<in> set (dict_values (db_grants db))"
    using map_of_SomeD [OF assms(2)] by force
  then obtain h where h: "find_grant_row d db = Some h"
    using assms(3) find_None [of "\<lambda>g. eg_token_sha256 g = d" "dict_values (db_grants db)"]
    unfolding find_grant_row_def by (cases "find (\<lambda>g. eg_token_sha256 g = d) (dict_values (db_grants db))") auto
  then have mem: "h \<in> set (dict_values (db_grants db))" "eg_token_sha256 h = d"
    unfolding find_grant_row_def by (blast dest: find_Some)+
  obtain j where j: "dict_get (db_grants db) j = Some h"
    using mem(1) dict_get_values [of "db_grants db" h] assms(1) by (auto simp: db_inv_def db_dicts_def)
  have "j = k"
    using db_grants_okD(1) [OF _ j assms(2)] assms(1,3) mem(2) by (simp add: db_inv_def)
  then show ?thesis
    using h j assms(2) by simp
qed

definition exchange_rows :: "EnrollmentGrant \<Rightarrow> datetime \<Rightarrow> Endpoint \<Rightarrow> EndpointIdentity \<Rightarrow> Database \<Rightarrow> Database" where
  "exchange_rows g now e i db = (join_rows e i db)\<lparr>db_grants :=
     dict_set (eg_grant_id g) (consumed_grant (utc (instant now)) (ei_identity_id i) g) (db_grants db)\<rparr>"

lemma used_ids_exchange:
  "dict_get (db_grants db) (eg_grant_id g) = Some h \<Longrightarrow>
     used_ids (exchange_rows g now e i db) = {ep_endpoint_id e, ei_identity_id i} \<union> used_ids db"
  by (auto simp: exchange_rows_def used_ids_def dom_update dest!: map_of_SomeD intro: rev_image_eqI)

lemma insert_audit_logs:
  assumes "auditable ty ai su ac de re me" "pg_db s = db" "rng_seq s (rng_pos s) = v" "v \<notin> used_ids db"
  shows "\<exists>ev. insert_audit t ty ai su ac de re c me s =
      (Inr (), s\<lparr>rng_pos := Suc (rng_pos s), pg_db := log_row ev db\<rparr>) \<and> au_event_id ev = v"
  using insert_audit_runs [OF assms(1), of s] assms(2-)
  by (auto intro!: exI [of _ "audit_row v t ty ai su ac de re c me"])

lemma exchange_grant_runs:
  fixes s :: PostgresControlPlane
  assumes inv: "db_inv (pg_db s)" and fresh: "fresh_draws 4 s"
    and g: "dict_get (db_grants (pg_db s)) (eg_grant_id g) = Some g" "eg_consumed_at g = None"
    and now: "is_aware now" and fp: "is_fingerprint fp"
      "\<forall>r\<in>set (dict_values (db_identities (pg_db s))). ei_public_key_fingerprint r \<noteq> fp"
    and texts: "clean (eg_display_name g)" "clean actor" "length actor \<le> 256" and status: "status \<in> {PENDING, ACTIVE}"
    and pair: "new_pair g fp now status (rng_seq s (rng_pos s)) (rng_seq s (Suc (rng_pos s))) = (e, i)"
  shows "\<exists>ev ev'. exchange_grant g fp (utc (instant now)) actor status c s =
    (Inr (e, i), s\<lparr>rng_pos := rng_pos s + 4,
      pg_db := log_row ev' (log_row ev (exchange_rows g now e i (pg_db s)))\<rparr>) \<and>
    au_event_id ev = rng_seq s (rng_pos s + 2) \<and> au_event_id ev' = rng_seq s (rng_pos s + 3)"
proof -
  let ?v = "rng_seq s (rng_pos s)" and ?w = "rng_seq s (Suc (rng_pos s))"
  let ?x = "rng_seq s (Suc (Suc (rng_pos s)))" and ?y = "rng_seq s (Suc (Suc (Suc (rng_pos s))))"
  have ids: "?v \<notin> used_ids (pg_db s)" "?w \<notin> used_ids (pg_db s)" "?x \<notin> used_ids (pg_db s)"
    "?y \<notin> used_ids (pg_db s)" "distinct [?v, ?w, ?x, ?y]"
    using fresh by (auto simp: fresh_draws_def numeral_eq_Suc draws_Suc)
  have gok: "grant_ok g"
    using inv g(1) by (simp add: db_inv_def db_rows_ok_def)
  have ei: "ep_endpoint_id e = ?v" "ei_identity_id i = ?w" "ep_identity_id e = ?w" "ei_public_key_fingerprint i = fp"
    "ep_display_name e = eg_display_name g" "ep_architecture e = eg_architecture g"
    using pair by (auto simp: new_pair_def)
  have ok: "endpoint_ok e" "identity_ok i"
    using pair gok fp(1) status by (auto simp: new_pair_def post_init_iffs empty_or_longer_def)
  have arch: "clean (eg_architecture g)"
    using gok by (simp add: EnrollmentGrant_post_init_Inr)
  define s2 where "s2 = s\<lparr>rng_pos := Suc (Suc (rng_pos s))\<rparr>"
  note pair_runs = insert_pair_runs [of s2 e i, unfolded ei]
  have p1: "insert_endpoint_row e s2 = (Inr (), s2\<lparr>pg_db := (pg_db s)\<lparr>db_endpoints :=
      dict_set ?v (stored_endpoint e) (db_endpoints (pg_db s))\<rparr>\<rparr>)"
    and p2: "insert_identity_row i (s2\<lparr>pg_db := (pg_db s)\<lparr>db_endpoints :=
      dict_set ?v (stored_endpoint e) (db_endpoints (pg_db s))\<rparr>\<rparr>) =
      (Inr (), s2\<lparr>pg_db := join_rows e i (pg_db s)\<rparr>)"
    using pair_runs inv ids ei ok fp(2) texts(1) arch by (simp_all add: s2_def)
  have p3: "consume_grant_row (eg_grant_id g) (utc (instant now)) ?w (s2\<lparr>pg_db := join_rows e i (pg_db s)\<rparr>) =
      (Inr 1, s2\<lparr>pg_db := exchange_rows g now e i (pg_db s)\<rparr>)"
    using g unused_id(5) [OF inv ids(2)]
    by (auto simp: consume_grant_row_def op_simps db_read_def db_modify_def raise_if_def list_ex_iff
        exchange_rows_def consumed_grant_def ei)
  have used: "used_ids (exchange_rows g now e i (pg_db s)) = {?v, ?w} \<union> used_ids (pg_db s)"
    using used_ids_exchange [OF g(1)] ei by simp
  have a1: "auditable ''service'' actor (grant_subject (Some g)) ''enrollment_grant.consume'' ''accepted''
      ''grant exchanged for one endpoint identity'' [(''endpoint_id'', str_uuid ?v),
        (''identity_status'', lifecycle_value status), (''identity_id'', str_uuid ?w)]"
    using texts status by (auto simp: auditable_def clean_pairs_def grant_subject_def)
  have a2: "auditable ''service'' actor (''endpoint:'' @ str_uuid ?v) ''endpoint.enroll'' ''accepted''
      ''single-use enrollment grant consumed'' [(''grant_id'', str_uuid (eg_grant_id g)),
        (''identity_id'', str_uuid ?w)]"
    using texts by (auto simp: auditable_def clean_pairs_def)
  define db where "db = exchange_rows g now e i (pg_db s)"
  obtain ev where r1: "insert_audit (utc (instant now)) ''service'' actor (grant_subject (Some g))
      ''enrollment_grant.consume'' ''accepted'' ''grant exchanged for one endpoint identity'' c
      [(''endpoint_id'', str_uuid ?v), (''identity_status'', lifecycle_value status), (''identity_id'', str_uuid ?w)]
      (s2\<lparr>pg_db := db\<rparr>) = (Inr (), s2\<lparr>rng_pos := Suc (rng_pos s2), pg_db := log_row ev db\<rparr>)"
    "au_event_id ev = ?x"
    using insert_audit_logs [OF a1, of "s2\<lparr>pg_db := db\<rparr>" db ?x "utc (instant now)" c] ids used
    by (auto simp: s2_def db_def)
  obtain ev' where r2: "insert_audit (utc (instant now)) ''service'' actor (''endpoint:'' @ str_uuid ?v)
      ''endpoint.enroll'' ''accepted'' ''single-use enrollment grant consumed'' c
      [(''grant_id'', str_uuid (eg_grant_id g)), (''identity_id'', str_uuid ?w)]
      (s2\<lparr>rng_pos := Suc (rng_pos s2), pg_db := log_row ev db\<rparr>) =
      (Inr (), s2\<lparr>rng_pos := Suc (Suc (rng_pos s2)), pg_db := log_row ev' (log_row ev db)\<rparr>)"
    "au_event_id ev' = ?y"
    using insert_audit_logs [OF a2, of "s2\<lparr>rng_pos := Suc (rng_pos s2), pg_db := log_row ev db\<rparr>" "log_row ev db" ?y
        "utc (instant now)" c] ids used r1(2)
    by (auto simp: s2_def db_def)
  have "exchange_grant g fp (utc (instant now)) actor status c s =
      (Inr (e, i), s2\<lparr>rng_pos := Suc (Suc (rng_pos s2)), pg_db := log_row ev' (log_row ev db)\<rparr>)"
    using pair ok p1 p2 p3 r1(1) r2(1) ei
    by (simp add: exchange_grant_def op_simps s2_def [symmetric] new_pair_def raise_if_def db_def)
  then show ?thesis
    using r1(2) r2(2) by (auto simp: s2_def db_def numeral_eq_Suc)
qed

lemma begin_endpoint_enrollment_runs:
  fixes s :: PostgresControlPlane
  assumes inv: "db_inv (pg_db s)" and run: "\<not> pg_shutting_down s" "fresh_draws 5 s"
    and g: "dict_get (db_grants (pg_db s)) k = Some g" "eg_token_sha256 g = sha256_hex token" "eg_consumed_at g = None"
    and token: "is_enrollment_token token"
    and now: "is_aware now" "in_range (instant now)" "instant (eg_created_at g) \<le> instant now"
      "instant now < instant (eg_expires_at g)"
    and fp: "is_fingerprint fp"
      "\<forall>r\<in>set (dict_values (db_identities (pg_db s))). ei_public_key_fingerprint r \<noteq> fp"
    and texts: "clean (eg_display_name g)" "clean actor" "\<not> empty_or_longer actor 256"
    and pair: "new_pair g fp now PENDING (rng_seq s (Suc (rng_pos s))) (rng_seq s (Suc (Suc (rng_pos s)))) = (e, i)"
  shows "\<exists>ev ev'. begin_endpoint_enrollment token fp now actor s =
    (Inr (e, i), s\<lparr>rng_pos := rng_pos s + 5,
      pg_db := log_row ev' (log_row ev (exchange_rows g now e i (pg_db s)))\<rparr>) \<and>
    au_event_id ev = rng_seq s (rng_pos s + 3) \<and> au_event_id ev' = rng_seq s (rng_pos s + 4)"
proof -
  define s1 where "s1 = s\<lparr>rng_pos := Suc (rng_pos s)\<rparr>"
  have id: "eg_grant_id g = k" and gok: "grant_ok g"
    using inv g(1) by (auto simp: db_inv_def db_dicts_def keyed_def db_rows_ok_def)
  have "fresh_draws 4 s1"
    by (rule fresh_draws_add [of 1 4 s]) (use run(2) in \<open>simp_all add: s1_def\<close>)
  then obtain ev ev' where ex: "exchange_grant g fp (utc (instant now)) actor PENDING (rng_seq s (rng_pos s)) s1 =
    (Inr (e, i), s1\<lparr>rng_pos := rng_pos s1 + 4,
      pg_db := log_row ev' (log_row ev (exchange_rows g now e i (pg_db s1)))\<rparr>)"
    "au_event_id ev = rng_seq s1 (rng_pos s1 + 2)" "au_event_id ev' = rng_seq s1 (rng_pos s1 + 3)"
    using exchange_grant_runs [of s1 g now fp actor PENDING e i "rng_seq s (rng_pos s)"] inv g id now fp texts pair
    by (auto simp: s1_def empty_or_longer_def)
  have found: "find_grant_row (sha256_hex token) (pg_db s1) = Some g"
    using find_grant_row_unique [OF inv g(1,2)] by (simp add: s1_def)
  have consumed: "eg_consumed_identity_id g = None"
    using gok g(3) by (auto simp: EnrollmentGrant_post_init_Inr split: option.splits)
  have inspect: "inspect_grant (Some (sha256_hex token)) fp (utc (instant now)) True s1 = (Inr (None, Some g, None), s1)"
    using found rows_read(3) [OF inv g(1)] now fp(1) g(3) consumed
    by (simp add: inspect_grant_def op_simps db_read_def not_less not_le)
  have "consume_transaction (Some (sha256_hex token)) fp (utc (instant now)) actor PENDING True (rng_seq s (rng_pos s)) s1 =
      (Inr (None, Some (e, i)), s1\<lparr>rng_pos := rng_pos s1 + 4,
      pg_db := log_row ev' (log_row ev (exchange_rows g now e i (pg_db s1)))\<rparr>)"
    using inspect ex(1) by (simp add: consume_transaction_def op_simps)
  then have "begin_endpoint_enrollment token fp now actor s =
      (Inr (e, i), s1\<lparr>rng_pos := rng_pos s1 + 4,
      pg_db := log_row ev' (log_row ev (exchange_rows g now e i (pg_db s1)))\<rparr>)"
    using now run texts token
    by (simp add: begin_endpoint_enrollment_def consume_grant_def op_simps require_aware_aware astimezone_utc_def
        raise_if_def Let_def on_unique_violation_def transaction_def s1_def)
  then show ?thesis
    using ex(2,3) by (auto simp: s1_def numeral_eq_Suc)
qed

section \<open>Issuance and authentication\<close>

lemma record_issued_runs:
  fixes s :: PostgresControlPlane
  assumes inv: "db_inv (pg_db s)" and run: "\<not> pg_shutting_down s" "fresh_draws 2 s"
    and r: "dict_get (db_identities (pg_db s)) k = Some r" "ei_status r = PENDING"
    and times: "is_aware nb" "is_aware na" "is_aware now" "in_range (instant nb)" "in_range (instant na)"
      "in_range (instant now)" "instant nb \<le> instant now" "instant now < instant na"
      "instant na - instant nb \<le> MAX_ENDPOINT_CERTIFICATE_TTL"
    and texts: "is_certificate_serial serial" "\<not> empty_or_longer issuer 256" "clean issuer"
      "\<not> empty_or_longer actor 256" "clean actor"
    and new: "\<forall>(j, x)\<in>set (db_identities (pg_db s)). j \<noteq> k \<longrightarrow>
        \<not> (ir_certificate_issuer x = Some issuer \<and> ir_certificate_serial x = Some serial)"
    and loads: "times_load (identity_times r)" "times_load (certificate_times r)"
  shows "\<exists>ev. record_issued_endpoint_identity k serial issuer nb na now actor s =
    (Inr ((EndpointIdentity.truncate r)\<lparr>ei_status := ISSUED\<rparr>), s\<lparr>rng_pos := rng_pos s + 2, pg_db := log_row ev
      ((pg_db s)\<lparr>db_identities := dict_set k (issued_row serial issuer nb na r) (db_identities (pg_db s))\<rparr>)\<rparr>) \<and>
    au_event_id ev = rng_seq s (Suc (rng_pos s))"
proof -
  obtain e where e: "dict_get (db_endpoints (pg_db s)) (ei_endpoint_id r) = Some e" "ep_identity_id e = k"
    using inv r(1) unfolding db_inv_def db_linked_def by blast
  have ok: "identity_ok (EndpointIdentity.truncate r)" "ei_identity_id r = k" "lifecycle_ok r"
    using inv r(1) by (auto simp: db_inv_def db_rows_ok_def db_dicts_def keyed_def db_lifecycles_def)
  have issued: "identity_ok ((EndpointIdentity.truncate r)\<lparr>ei_status := ISSUED\<rparr>)"
    using ok(1) r(2) by (auto simp: EndpointIdentity_post_init_Inr split: option.splits)
  have serial: "clean serial"
    using texts(1) by (simp add: is_certificate_serial_def clean_lower_hex)
  have len: "length issuer \<le> 256" "length actor \<le> 256"
    using texts by (auto simp: empty_or_longer_def)
  have audit: "auditable ''service'' actor (''identity:'' @ str_uuid k) ''identity.issue'' ''accepted''
      ''external endpoint certificate recorded'' [(''certificate_issuer'', issuer), (''certificate_serial'', serial),
        (''endpoint_id'', str_uuid (ei_endpoint_id r))]"
    using texts serial len by (auto simp: auditable_def clean_pairs_def)
  define s1 where "s1 = s\<lparr>rng_pos := Suc (rng_pos s)\<rparr>"
  define db where "db = (pg_db s)\<lparr>db_identities := dict_set k (issued_row serial issuer nb na r) (db_identities (pg_db s))\<rparr>"
  have issue: "issue_identity_row k serial issuer (utc (instant nb)) (utc (instant na)) s1 = (Inr (), s1\<lparr>pg_db := db\<rparr>)"
    using new r len texts(3)
    by (auto simp: issue_identity_row_def op_simps db_read_def db_modify_def raise_if_def list_ex_iff s1_def db_def
        issued_row_def pg_timestamptz_def)
  have "used_ids db = used_ids (pg_db s)"
    using map_of_SomeD [OF r(1)] by (auto simp: used_ids_def db_def dom_update intro: rev_image_eqI)
  then obtain ev where ev: "insert_audit (utc (instant now)) ''service'' actor (''identity:'' @ str_uuid k)
      ''identity.issue'' ''accepted'' ''external endpoint certificate recorded'' (rng_seq s (rng_pos s))
      [(''certificate_issuer'', issuer), (''certificate_serial'', serial),
        (''endpoint_id'', str_uuid (ei_endpoint_id r))] (s1\<lparr>pg_db := db\<rparr>) =
      (Inr (), s1\<lparr>rng_pos := Suc (rng_pos s1), pg_db := log_row ev db\<rparr>)" "au_event_id ev = rng_seq s (Suc (rng_pos s))"
    using insert_audit_logs [OF audit, of "s1\<lparr>pg_db := db\<rparr>" db "rng_seq s (Suc (rng_pos s))" "utc (instant now)"
        "rng_seq s (rng_pos s)"] run(2)
    by (auto simp: s1_def fresh_draws_def numeral_eq_Suc draws_Suc)
  have check: "check_issuance serial issuer nb na now actor =
      Inr (utc (instant now), utc (instant nb), utc (instant na))"
    using times texts by (simp add: check_issuance_def require_aware_aware astimezone_utc_def raise_if_def)
  have sel: "select_identity k (pg_db s) = Some (r, e)" "is_current r e"
    using r(1) e ok(2) by (simp_all add: select_identity_def is_current_def)
  have "issue_transaction k serial issuer (utc (instant nb)) (utc (instant na)) (utc (instant now)) actor
      (rng_seq s (rng_pos s)) s1 =
      (Inr ((EndpointIdentity.truncate r)\<lparr>ei_status := ISSUED\<rparr>), s1\<lparr>rng_pos := Suc (rng_pos s1), pg_db := log_row ev db\<rparr>)"
    using sel r(2) rows_read(2) [OF inv r(1)] loads issue ev(1) issued
    by (simp add: issue_transaction_def op_simps db_read_def s1_def load_times_loads exact_issuance_retry_def)
  then show ?thesis
    using check run(1) ev(2)
    by (auto simp: record_issued_endpoint_identity_def op_simps on_unique_violation_def transaction_def s1_def db_def)
qed

lemma select_certificate_unique:
  assumes "db_inv db" "dict_get (db_identities db) k = Some r" "dict_get (db_endpoints db) (ei_endpoint_id r) = Some e"
  shows "select_certificate (ei_endpoint_id r) (ei_public_key_fingerprint r) db = Some (r, e)"
proof -
  let ?P = "\<lambda>i. ei_endpoint_id i = ei_endpoint_id r \<and> ei_public_key_fingerprint i = ei_public_key_fingerprint r"
  have "r \<in> set (dict_values (db_identities db))"
    using map_of_SomeD [OF assms(2)] by force
  then obtain x where x: "find ?P (dict_values (db_identities db)) = Some x"
    using find_None [of ?P "dict_values (db_identities db)"] by (cases "find ?P (dict_values (db_identities db))") auto
  then have mem: "x \<in> set (dict_values (db_identities db))" "?P x"
    by (blast dest: find_Some)+
  obtain j where j: "dict_get (db_identities db) j = Some x"
    using mem(1) dict_get_values [of "db_identities db" x] assms(1) by (auto simp: db_inv_def db_dicts_def)
  have "j = k"
    using db_uniqueD [OF _ j assms(2)] assms(1) mem(2) by (simp add: db_inv_def)
  then show ?thesis
    using x j assms(2,3) by (simp add: select_certificate_def)
qed

text \<open>The row whose key a certificate presents for an endpoint, if that identity may still be used.\<close>

definition certified :: "uuid \<Rightarrow> string \<Rightarrow> IdentityRow \<Rightarrow> Database \<Rightarrow> bool" where
  "certified endpoint_id fp r db \<longleftrightarrow>
     dict_get (db_identities db) (ei_identity_id r) = Some r \<and> ei_endpoint_id r = endpoint_id \<and>
     ei_public_key_fingerprint r = fp \<and> ei_status r \<in> {ISSUED, ACTIVE} \<and>
     (\<exists>e. dict_get (db_endpoints db) endpoint_id = Some e \<and> is_current r e) \<and> times_load (identity_times r)"

text \<open>Whether the row of that key, if there is one, can be fetched.\<close>

definition certificate_loads :: "uuid \<Rightarrow> string \<Rightarrow> Database \<Rightarrow> bool" where
  "certificate_loads endpoint_id fp db \<longleftrightarrow>
     (case select_certificate endpoint_id fp db of None \<Rightarrow> True | Some (r, e) \<Rightarrow> times_load (identity_times r))"

lemma select_certificateD:
  assumes "db_inv db" "select_certificate endpoint_id fp db = Some (r, e)"
  shows "dict_get (db_identities db) (ei_identity_id r) = Some r" "ei_endpoint_id r = endpoint_id"
    "ei_public_key_fingerprint r = fp" "is_current r e" "identity_ok (EndpointIdentity.truncate r)"
    "dict_get (db_endpoints db) endpoint_id = Some e"
proof -
  have r: "r \<in> set (dict_values (db_identities db))" "ei_endpoint_id r = endpoint_id" "ei_public_key_fingerprint r = fp"
    and e: "dict_get (db_endpoints db) (ei_endpoint_id r) = Some e"
    using assms(2) by (auto simp: select_certificate_def split: option.splits dest!: find_Some)
  obtain k where k: "dict_get (db_identities db) k = Some r"
    using r(1) dict_get_values [of "db_identities db" r] assms(1) by (auto simp: db_inv_def db_dicts_def)
  then have "ei_identity_id r = k"
    using assms(1) by (simp add: db_inv_def db_dicts_def keyed_def)
  with k show *: "dict_get (db_identities db) (ei_identity_id r) = Some r"
    by simp
  show "ei_endpoint_id r = endpoint_id" "ei_public_key_fingerprint r = fp"
    by (fact r)+
  show "dict_get (db_endpoints db) endpoint_id = Some e"
    using e r(2) by simp
  show "is_current r e"
    using assms(1) * e unfolding db_inv_def db_linked_def is_current_def by force
  show "identity_ok (EndpointIdentity.truncate r)"
    using assms(1) * by (simp add: db_inv_def db_rows_ok_def)
qed

lemma authenticate_outcome:
  fixes s :: PostgresControlPlane
  assumes inv: "db_inv (pg_db s)" and run: "\<not> pg_shutting_down s" "fresh_draws 1 s"
    and now: "is_aware t" "in_range (instant t)" and loads: "certificate_loads endpoint_id fp (pg_db s)"
  obtains ev where "pg_db (snd (authenticate_endpoint_certificate endpoint_id fp t c s)) = log_row ev (pg_db s)"
    "au_action ev = ''certificate.authenticate''"
    "\<And>r. certified endpoint_id fp r (pg_db s) \<Longrightarrow> au_decision ev = ''accepted'' \<and>
       fst (authenticate_endpoint_certificate endpoint_id fp t c s) = Inr (EndpointIdentity.truncate r)"
    "\<nexists>r. certified endpoint_id fp r (pg_db s) \<Longrightarrow> au_decision ev = ''rejected'' \<and>
       fst (authenticate_endpoint_certificate endpoint_id fp t c s) =
         Inl (AuthorizationError ''endpoint certificate is unauthorized'')"
proof -
  have id: "rng_seq s (rng_pos s) \<notin> used_ids (pg_db s)"
    using run(2) by (simp add: fresh_draws_def draws_Suc)
  have audit: "auditable ''endpoint_certificate'' (str_uuid endpoint_id) (''endpoint:'' @ str_uuid endpoint_id)
      ''certificate.authenticate'' d reason []"
    if "d \<in> {''accepted'', ''rejected''}" "clean reason" "length reason \<le> 512" for d reason
    using that by (auto simp: auditable_def clean_pairs_def)
  note log = insert_audit_runs [OF audit id, of _ _ "utc (instant t)" c]
  have auth: "authenticate_endpoint_certificate endpoint_id fp t c s =
      sbind (authenticate_transaction endpoint_id fp (utc (instant t)) c) (\<lambda>(failure_reason, identity).
        case (failure_reason, identity) of (None, Some i) \<Rightarrow> sreturn i
        | _ \<Rightarrow> sraise (AuthorizationError ''endpoint certificate is unauthorized'')) s"
    if "\<exists>x s'. authenticate_transaction endpoint_id fp (utc (instant t)) c s = (Inr x, s')"
    using that now run(1)
    by (auto simp: authenticate_endpoint_certificate_def op_simps require_aware_aware astimezone_utc_def
        transaction_def)
  show thesis
  proof (cases "select_certificate endpoint_id fp (pg_db s)")
    case None
    have "\<nexists>r. certified endpoint_id fp r (pg_db s)"
    proof
      assume "\<exists>r. certified endpoint_id fp r (pg_db s)"
      then obtain r where r: "certified endpoint_id fp r (pg_db s)" ..
      then obtain e where "dict_get (db_endpoints (pg_db s)) (ei_endpoint_id r) = Some e"
        using inv unfolding db_inv_def db_linked_def certified_def by blast
      with select_certificate_unique [OF inv] r None show False
        by (auto simp: certified_def)
    qed
    moreover have run: "authenticate_transaction endpoint_id fp (utc (instant t)) c s =
        (Inr (Some ''certificate endpoint or public key is unknown'', None), s\<lparr>rng_pos := Suc (rng_pos s),
          pg_db := log_row (audit_row (rng_seq s (rng_pos s)) (utc (instant t)) ''endpoint_certificate''
            (str_uuid endpoint_id) (''endpoint:'' @ str_uuid endpoint_id) ''certificate.authenticate'' ''rejected''
            ''certificate endpoint or public key is unknown'' c []) (pg_db s)\<rparr>)"
      using None log by (simp add: authenticate_transaction_def op_simps db_read_def)
    ultimately show thesis
      using auth by (intro that) (auto simp: op_simps)
  next
    case (Some p)
    obtain r e where p: "p = (r, e)"
      by fastforce
    note row = select_certificateD [OF inv Some [unfolded p]]
    have load: "times_load (identity_times r)"
      using loads Some p by (simp add: certificate_loads_def)
    then have read: "identity_from_row r = Inr (EndpointIdentity.truncate r)"
      using rows_read(2) [OF inv row(1)] by simp
    have only: "x = r" if cert: "certified endpoint_id fp x (pg_db s)" for x
    proof -
      have x: "dict_get (db_identities (pg_db s)) (ei_identity_id x) = Some x" "ei_public_key_fingerprint x = fp"
        using cert by (simp_all add: certified_def)
      have "db_unique (pg_db s)"
        using inv by (simp add: db_inv_def)
      from db_uniqueD [OF this x(1) row(1)] have "ei_identity_id x = ei_identity_id r"
        using x(2) row(3) by simp
      then show ?thesis
        using x(1) row(1) by (metis option.inject)
    qed
    have current: "certificate_failure r e (EndpointIdentity.truncate r) = None \<longleftrightarrow> certified endpoint_id fp r (pg_db s)"
      using row load revoked_iff [OF row(5)] by (auto simp: certificate_failure_def certified_def)
    have reason: "clean f \<and> length f \<le> 512" if "certificate_failure r e (EndpointIdentity.truncate r) = Some f" for f
      using that by (auto simp: certificate_failure_def split: if_splits)
    show thesis
    proof (cases "certificate_failure r e (EndpointIdentity.truncate r)")
      case None
      then have "authenticate_transaction endpoint_id fp (utc (instant t)) c s =
        (Inr (None, Some (EndpointIdentity.truncate r)), s\<lparr>rng_pos := Suc (rng_pos s),
          pg_db := log_row (audit_row (rng_seq s (rng_pos s)) (utc (instant t)) ''endpoint_certificate''
            (str_uuid endpoint_id) (''endpoint:'' @ str_uuid endpoint_id) ''certificate.authenticate'' ''accepted''
            ''verified certificate key is current'' c []) (pg_db s)\<rparr>)"
        using Some p read log by (simp add: authenticate_transaction_def op_simps db_read_def)
      then show thesis
        using auth current None by (intro that) (auto simp: op_simps dest: only)
    next
      case (Some f)
      then have "authenticate_transaction endpoint_id fp (utc (instant t)) c s =
        (Inr (Some f, Some (EndpointIdentity.truncate r)), s\<lparr>rng_pos := Suc (rng_pos s),
          pg_db := log_row (audit_row (rng_seq s (rng_pos s)) (utc (instant t)) ''endpoint_certificate''
            (str_uuid endpoint_id) (''endpoint:'' @ str_uuid endpoint_id) ''certificate.authenticate'' ''rejected''
            f c []) (pg_db s)\<rparr>)"
        using \<open>select_certificate endpoint_id fp (pg_db s) = Some p\<close> p read log reason
        by (simp add: authenticate_transaction_def op_simps db_read_def)
      then show thesis
        using auth current Some by (intro that) (auto simp: op_simps dest: only)
    qed
  qed
qed

lemma authenticate_unreadable:
  fixes s :: PostgresControlPlane
  assumes inv: "db_inv (pg_db s)" and run: "\<not> pg_shutting_down s" and now: "is_aware t" "in_range (instant t)"
    and "\<not> certificate_loads endpoint_id fp (pg_db s)"
  shows "authenticate_endpoint_certificate endpoint_id fp t c s = (Inl (DatabaseError ''timestamp out of range''), s)"
    "\<not> certified endpoint_id fp r (pg_db s)"
proof -
  obtain x e where sel: "select_certificate endpoint_id fp (pg_db s) = Some (x, e)" and x: "\<not> times_load (identity_times x)"
    using assms(5) by (auto simp: certificate_loads_def split: option.splits)
  note row = select_certificateD [OF inv sel]
  have "identity_from_row x = Inl (DatabaseError ''timestamp out of range'')"
    using rows_read(2) [OF inv row(1)] x by (simp add: row_result_def)
  then show "authenticate_endpoint_certificate endpoint_id fp t c s = (Inl (DatabaseError ''timestamp out of range''), s)"
    using run now sel
    by (simp add: authenticate_endpoint_certificate_def authenticate_transaction_def op_simps db_read_def
        require_aware_aware astimezone_utc_def transaction_def)
  show "\<not> certified endpoint_id fp r (pg_db s)"
  proof
    assume "certified endpoint_id fp r (pg_db s)"
    then have r: "dict_get (db_identities (pg_db s)) (ei_identity_id r) = Some r" "ei_public_key_fingerprint r = fp"
      "times_load (identity_times r)"
      by (simp_all add: certified_def)
    have "ei_identity_id r = ei_identity_id x"
      by (rule db_uniqueD [OF _ r(1) row(1)]) (use inv r(2) row(3) in \<open>simp_all add: db_inv_def\<close>)
    then have "r = x"
      using r(1) row(1) by (metis option.inject)
    then show False
      using r(3) x by simp
  qed
qed

text \<open>What happens to an admitted message that is not a retry.\<close>

lemma pg_ingest_new:
  fixes s :: PostgresControlPlane
  assumes inv: "db_inv (pg_db s)" and run: "\<not> pg_shutting_down s \<and> is_aware t \<and> in_range (instant t) \<and> fresh_draws 3 s"
    and "in_range (instant t + MAX_CLOCK_SKEW)" "ty \<in> {''heartbeat'', ''inventory''}"
    and "is_sha256 pd \<and> pred_option is_sha256 d" "envelope_ok env" "ingest_admits k env ty t b d (pg_db s)"
    and "\<forall>x\<in>set (db_observations (pg_db s)). ob_message_id x = me_message_id env \<longrightarrow> \<not> exact_retry k env d x"
  shows "\<exists>r e ob evs. select_identity k (pg_db s) = Some (r, e) \<and>
    ob = new_row_observation (rng_seq s (rng_pos s)) (EndpointIdentity.truncate r) env ty sv pd (utc (instant t)) d \<and>
    pg_ingest k env ty sv pd t b d s = (Inr ob, s\<lparr>rng_pos := rng_pos s + ingest_draws r,
      pg_db := (ingest_rows k r e ob (pg_db s))\<lparr>db_audit_events := evs\<rparr>\<rparr>) \<and>
    au_event_id ` set evs \<subseteq> au_event_id ` set (db_audit_events (pg_db s)) \<union> set (draws (ingest_draws r) s)"
proof -
  obtain r e where auth: "ingest_authorized k r e env ty (pg_db s)" and
    new: "\<forall>x\<in>set (db_observations (pg_db s)). ob_message_id x \<noteq> me_message_id env"
      "instant (me_created_at env) \<le> instant t + MAX_CLOCK_SKEW" "instant t < instant (me_expires_at env)"
      "binding_ok b e" "sequence_new k env (pg_db s)" "ei_status r = ISSUED \<longrightarrow> instant (ei_created_at r) \<le> instant t"
    using assms(7,8) unfolding ingest_admits_def by blast
  let ?ob = "new_row_observation (rng_seq s (rng_pos s)) (EndpointIdentity.truncate r) env ty sv pd (utc (instant t)) d"
  have ok: "observation_ok ?ob"
    using assms(5,6) by (simp add: Observation_post_init_Inr new_row_observation_def MessageEnvelope_post_init_Inr)
  have "ingest_timely env (utc (instant t))"
    using new assms(3) by (simp add: ingest_timely_def utc_def instant_def)
  note tr = ingest_accepts [OF inv auth assms(4) new(1) this new(4,5) _ _ refl ok]
  define evs where "evs = db_audit_events (pg_db s) @
      ingest_events (rng_seq s (Suc (rng_pos s))) (rng_seq s (Suc (Suc (rng_pos s)))) r ?ob env (utc (instant t))"
  have "pg_ingest k env ty sv pd t b d s = (Inr ?ob, s\<lparr>rng_pos := rng_pos s + ingest_draws r,
      pg_db := (ingest_rows k r e ?ob (pg_db s))\<lparr>db_audit_events := evs\<rparr>\<rparr>)"
    using tr run new(6) by (simp add: pg_ingest_Inr evs_def)
  moreover have "au_event_id ` set evs \<subseteq> au_event_id ` set (db_audit_events (pg_db s)) \<union> set (draws (ingest_draws r) s)"
    by (auto simp: evs_def ingest_draws_def ingest_events_def activation_event_def acceptance_event_def numeral_eq_Suc draws_Suc)
  ultimately show ?thesis
    using auth unfolding ingest_authorized_def by blast
qed

lemma pg_revoke_runs:
  fixes s :: PostgresControlPlane
  assumes inv: "db_inv (pg_db s)" and run: "\<not> pg_shutting_down s" "fresh_draws 1 s"
    and r: "dict_get (db_identities (pg_db s)) k = Some r" "ei_revoked_at r = None" "times_load (identity_times r)"
    and now: "is_aware now" "instant (ei_created_at r) \<le> instant now"
    and texts: "\<not> empty_or_longer reason 256" "clean reason" "length actor \<le> 256" "clean actor"
  shows "\<exists>ev. pg_revoke_identity k reason actor now (Some c) s =
    (Inr ((EndpointIdentity.truncate r)\<lparr>ei_status := REVOKED, ei_revoked_at := Some now, ei_revocation_reason := Some reason\<rparr>),
     s\<lparr>rng_pos := Suc (rng_pos s), pg_db := log_row ev
      ((pg_db s)\<lparr>db_identities := dict_set k (revoked_row now reason r) (db_identities (pg_db s))\<rparr>)\<rparr>)"
proof -
  have ok: "identity_ok (EndpointIdentity.truncate r)"
    using inv r(1) by (simp add: db_inv_def db_rows_ok_def)
  then have revoked: "identity_ok ((EndpointIdentity.truncate r)\<lparr>ei_status := REVOKED, ei_revoked_at := Some now,
      ei_revocation_reason := Some reason\<rparr>)"
    using now texts(1) by (auto simp: EndpointIdentity_post_init_Inr empty_or_longer_def)
  have len: "length reason \<le> 256"
    using texts(1) by (auto simp: empty_or_longer_def)
  let ?db = "(pg_db s)\<lparr>db_identities := dict_set k (revoked_row now reason r) (db_identities (pg_db s))\<rparr>"
  have "k \<in> fst ` set (db_identities (pg_db s))"
    using map_of_SomeD [OF r(1)] by (auto intro: rev_image_eqI)
  then have "used_ids ?db = used_ids (pg_db s)"
    by (auto simp: used_ids_def dom_update)
  then have id: "rng_seq s (rng_pos s) \<notin> used_ids ?db"
    using run(2) by (auto simp: fresh_draws_def draws_Suc)
  have "auditable ''operator'' actor (''identity:'' @ str_uuid k) ''identity.revoke'' ''accepted'' reason []"
    using texts len by (simp add: auditable_def clean_pairs_def)
  from insert_audit_logs [OF this, of "s\<lparr>pg_db := ?db\<rparr>", OF _ _ id, of now c] obtain ev where
    "insert_audit now ''operator'' actor (''identity:'' @ str_uuid k) ''identity.revoke'' ''accepted'' reason c []
       (s\<lparr>pg_db := ?db\<rparr>) = (Inr (), s\<lparr>rng_pos := Suc (rng_pos s), pg_db := log_row ev ?db\<rparr>)"
    by auto
  then have "pg_revoke_identity k reason actor now (Some c) s =
    (Inr ((EndpointIdentity.truncate r)\<lparr>ei_status := REVOKED, ei_revoked_at := Some now, ei_revocation_reason := Some reason\<rparr>),
     s\<lparr>rng_pos := Suc (rng_pos s), pg_db := log_row ev ?db\<rparr>)"
    using r rows_read(2) [OF inv r(1)] revoked now texts run(1) len
    by (simp add: pg_revoke_identity_def revoke_transaction_def transaction_def op_simps db_read_def require_aware_aware
        revoke_identity_row_def db_modify_def revoked_row_def raise_if_def)
  then show ?thesis
    by blast
qed

lemma pg_enroll_runs:
  fixes s :: PostgresControlPlane
  assumes inv: "db_inv (pg_db s)" and run: "\<not> pg_shutting_down s" "fresh_draws 4 s"
    and e: "e = \<lparr>ep_endpoint_id = rng_seq s (rng_pos s), ep_display_name = name, ep_platform = pl, ep_architecture = ar,
      ep_identity_id = rng_seq s (Suc (rng_pos s)), ep_enrolled_at = now, ep_last_receipt_at = None,
      ep_last_heartbeat_at = None\<rparr>"
    and i: "i = \<lparr>ei_identity_id = rng_seq s (Suc (rng_pos s)), ei_endpoint_id = rng_seq s (rng_pos s),
      ei_public_key_fingerprint = fp, ei_created_at = now, ei_status = ACTIVE, ei_revoked_at = None,
      ei_revocation_reason = None\<rparr>"
    and ok: "is_aware now" "endpoint_ok e" "identity_ok i" "clean name" "clean ar" "clean actor" "length actor \<le> 256"
    and new: "\<forall>r\<in>set (dict_values (db_identities (pg_db s))). ei_public_key_fingerprint r \<noteq> fp"
  shows "\<exists>ev. pg_enroll_synthetic_endpoint name pl ar fp now actor s =
    (Inr (e, i), s\<lparr>rng_pos := rng_pos s + 4, pg_db := log_row ev (join_rows e i (pg_db s))\<rparr>) \<and>
    au_event_id ev = rng_seq s (rng_pos s + 3)"
proof -
  define s3 where "s3 = s\<lparr>rng_pos := Suc (Suc (Suc (rng_pos s)))\<rparr>"
  let ?db = "join_rows e i (pg_db s)"
  have ids: "rng_seq s (rng_pos s) \<notin> used_ids (pg_db s)" "rng_seq s (Suc (rng_pos s)) \<notin> used_ids (pg_db s)"
    "rng_seq s (rng_pos s + 3) \<notin> used_ids (pg_db s) \<union> {rng_seq s (rng_pos s), rng_seq s (Suc (rng_pos s))}"
    using run(2) by (auto simp: fresh_draws_def numeral_eq_Suc draws_Suc)
  have ins: "insert_endpoint_row e s3 = (Inr (), s3\<lparr>pg_db :=
      (pg_db s3)\<lparr>db_endpoints := dict_set (ep_endpoint_id e) (stored_endpoint e) (db_endpoints (pg_db s3))\<rparr>\<rparr>)"
    "insert_identity_row i (s3\<lparr>pg_db :=
      (pg_db s3)\<lparr>db_endpoints := dict_set (ep_endpoint_id e) (stored_endpoint e) (db_endpoints (pg_db s3))\<rparr>\<rparr>) =
      (Inr (), s3\<lparr>pg_db := join_rows e i (pg_db s3)\<rparr>)"
    by (rule insert_pair_runs [where e = e and i = i]; use inv ids ok new in \<open>simp add: s3_def; simp add: e i\<close>)+
  have used: "used_ids ?db \<subseteq> used_ids (pg_db s) \<union> {rng_seq s (rng_pos s), rng_seq s (Suc (rng_pos s))}"
    by (auto simp: used_ids_def dom_update e i)
  have "auditable ''operator'' actor (''endpoint:'' @ str_uuid (ep_endpoint_id e)) ''endpoint.enroll'' ''accepted''
      ''synthetic Phase 1 enrollment'' [(''identity_id'', str_uuid (ei_identity_id i))]"
    using ok by (simp add: auditable_def clean_pairs_def)
  from insert_audit_logs [OF this, of "s3\<lparr>pg_db := ?db\<rparr>" ?db _ now "rng_seq s (Suc (Suc (rng_pos s)))", OF _ refl]
  obtain ev where log: "insert_audit now ''operator'' actor (''endpoint:'' @ str_uuid (ep_endpoint_id e)) ''endpoint.enroll''
      ''accepted'' ''synthetic Phase 1 enrollment'' (rng_seq s (Suc (Suc (rng_pos s)))) [(''identity_id'', str_uuid (ei_identity_id i))]
      (s3\<lparr>pg_db := ?db\<rparr>) = (Inr (), s\<lparr>rng_pos := rng_pos s + 4, pg_db := log_row ev ?db\<rparr>)"
      "au_event_id ev = rng_seq s (rng_pos s + 3)"
    using used ids(3) by (auto simp: s3_def numeral_eq_Suc)
  have sel: "pg_db s3 = pg_db s" "\<not> pg_shutting_down s3" "ep_endpoint_id e = rng_seq s (rng_pos s)"
    "ei_identity_id i = rng_seq s (Suc (rng_pos s))"
    using run(1) by (simp_all add: s3_def e i)
  have "transaction (sbind (insert_endpoint_row e) (\<lambda>_. sbind (insert_identity_row i) (\<lambda>_.
         insert_audit now ''operator'' actor (''endpoint:'' @ str_uuid (rng_seq s (rng_pos s)))
           ''endpoint.enroll'' ''accepted'' ''synthetic Phase 1 enrollment'' (rng_seq s (Suc (Suc (rng_pos s))))
           [(''identity_id'', str_uuid (rng_seq s (Suc (rng_pos s))))]))) s3 =
      (Inr (), s\<lparr>rng_pos := rng_pos s + 4, pg_db := log_row ev ?db\<rparr>)"
    using ins log(1) sel by (simp add: transaction_def sbind_def)
  then have "pg_enroll_synthetic_endpoint name pl ar fp now actor s =
    (Inr (e, i), s\<lparr>rng_pos := rng_pos s + 4, pg_db := log_row ev ?db\<rparr>)"
    using ok
    by (simp add: pg_enroll_synthetic_endpoint_def op_simps require_aware_aware e [symmetric] i [symmetric] s3_def [symmetric])
       (simp add: on_unique_violation_def sbind_def op_simps)
  then show ?thesis
    using log(2) by blast
qed

end
