(* ===== verification/Control_Plane_Properties.thy ===== *)
theory Control_Plane_Properties
  imports Control_Plane "HOL-Library.Sublist" "HOL-Library.Multiset"
begin

text \<open>
  What the in-memory control plane guarantees in every reachable state: the acceptance condition of a
  message, replay protection, the permanence of a revocation, one audit event per message and an audit
  trail that agrees with the history, health derived from receipt times, and the order and paging of
  the endpoints.
\<close>


section \<open>Steps and runs\<close>

abbreviation cp_steps :: "ControlPlane \<Rightarrow> ControlPlane \<Rightarrow> bool" where
  "cp_steps \<equiv> cp_step\<^sup>*\<^sup>*"

lemma cp_steps_reachable: "cp_steps s s' \<Longrightarrow> cp_reachable s \<Longrightarrow> cp_reachable s'"
  by (induction rule: rtranclp_induct) (auto intro: cp_reachable.step)

text \<open>Nothing in the histories is ever changed or removed.\<close>

definition grows :: "ControlPlane \<Rightarrow> ControlPlane \<Rightarrow> bool" where
  "grows s s' \<longleftrightarrow>
     prefix (observations s) (observations s') \<and> prefix (audit_events s) (audit_events s')"

lemma grows_refl: "grows s s"
  by (simp add: grows_def)

lemma grows_trans: "grows a b \<Longrightarrow> grows b c \<Longrightarrow> grows a c"
  by (auto simp: grows_def)

lemmas history_defs = observations_def audit_events_def

lemma grows_prims [intro]:
  "grows s (with_event ev s)" "grows s (ingested k ob e ev s)" "grows s (enrolled e i ev s)"
  "grows s (s\<lparr>rng_pos := n\<rparr>)" "grows s (revoked k i ev (drawn c s))" "grows s (with_event ev (drawn c s))"
  by (simp_all add: grows_def history_defs revoked_def)

lemma refused_grows: "refused a t e s s' \<Longrightarrow> grows s s'"
  by (auto simp: refused_def grows_refl)

lemma cp_change_grows: "cp_change s s' \<Longrightarrow> grows s s'"
  by (induction rule: cp_change.induct) (auto simp: grows_def history_defs revoked_def)

interpretation cp: evolution cp_step cp_inv grows
  by unfold_locales (auto intro: cp_step_inv cp_step_change cp_change_grows grows_refl grows_trans)

lemma cp_steps_grow: "cp_steps s s' \<Longrightarrow> cp_reachable s \<Longrightarrow> grows s s'"
  by (blast intro: cp.run_le cp_reachable_inv)

text \<open>An identity never disappears; the only change it undergoes is one revocation.\<close>

definition identity_evolves :: "EndpointIdentity \<Rightarrow> EndpointIdentity \<Rightarrow> bool" where
  "identity_evolves i j \<longleftrightarrow> j = i \<or> ei_revoked_at i = None \<and> (\<exists>reason t. j = revoked_identity reason t i)"

lemma cp_change_identity:
  "cp_change s s' \<Longrightarrow> dict_get (cp_identities s) k = Some i \<Longrightarrow>
     \<exists>j. dict_get (cp_identities s') k = Some j \<and> identity_evolves i j"
  by (induction rule: cp_change.induct)
     (auto simp: identity_evolves_def revoked_def new_identity_def fresh_identifiers_def, blast)

lemma cp_steps_revoked:
  assumes "cp_steps s s'" "cp_reachable s" "dict_get (cp_identities s) k = Some i" "ei_revoked_at i \<noteq> None"
  shows "dict_get (cp_identities s') k = Some i"
  using assms
proof (induction rule: rtranclp_induct)
  case (step y z)
  then obtain j where "dict_get (cp_identities z) k = Some j" "identity_evolves i j"
    using cp_change_identity [OF cp_reachable_change] cp_steps_reachable by metis
  then show ?case
    using step.prems by (auto simp: identity_evolves_def)
qed simp


section \<open>Acceptance and replay\<close>

text \<open>
  C2: in every reachable state a heartbeat is accepted exactly when its identity is known, not revoked
  and the identity of the endpoint the message names, the message was not created more than the
  allowed skew after its receipt and had not expired, its identifier is new, and its sequence number
  exceeds the last one accepted from this identity in this boot.
\<close>

theorem ingest_heartbeat_accepted_iff:
  assumes "cp_reachable s" "envelope_ok (hm_envelope m)"
  shows "is_ok (fst (ingest_heartbeat k m t s)) \<longleftrightarrow> message_authorized k (hm_envelope m) t s"
proof (cases "message_authorized k (hm_envelope m) t s")
  case True
  then show ?thesis
    by (rule ingest_heartbeat_accepts [OF cp_reachable_inv [OF assms(1)] assms(2)]) (simp add: True)
next
  case False
  then show ?thesis
    by (rule ingest_heartbeat_refuses) (simp add: False)
qed

text \<open>
  C8: an inventory is accepted exactly when its envelope is authorised and it describes the platform
  and architecture the endpoint was enrolled with.
\<close>

theorem ingest_inventory_accepted_iff:
  assumes "cp_reachable s" "envelope_ok (im_envelope m)"
  shows "is_ok (fst (ingest_inventory k m t s)) \<longleftrightarrow>
    message_authorized k (im_envelope m) t s \<and>
    inventory_bound (me_endpoint_id (im_envelope m)) (im_payload m) s"
proof (cases "message_authorized k (im_envelope m) t s \<and>
    inventory_bound (me_endpoint_id (im_envelope m)) (im_payload m) s")
  case True
  then show ?thesis
    by (auto intro: ingest_inventory_accepts [OF cp_reachable_inv [OF assms(1)] assms(2)])
next
  case False
  show ?thesis
    by (rule ingest_inventory_refuses [OF cp_reachable_inv [OF assms(1)] False]) (simp add: False)
qed

text \<open>
  C1: replay protection.  In every reachable state no two observations have the same message
  identifier, and the observations of one endpoint in one boot carry strictly increasing sequence
  numbers in the order of their acceptance.
\<close>

theorem observations_never_replayed:
  assumes "cp_reachable s" "i < j" "j < length (observations s)"
  shows "ob_message_id (observations s ! i) \<noteq> ob_message_id (observations s ! j) \<and>
    (same_stream (observations s ! i) (observations s ! j) \<longrightarrow>
      ob_sequence (observations s ! i) < ob_sequence (observations s ! j))"
  using cp_invD(3)[OF cp_reachable_inv [OF assms(1)]] assms(2,3)
  by (auto simp: history_ok_def observations_def distinct_conv_nth sorted_wrt_iff_nth_less)


section \<open>Revocation\<close>

text \<open>
  C3: a revocation is final.  Once an identity is revoked, every later state holds it with the same
  facts, and no later message of that identity is accepted: each attempt is refused and leaves the
  observations as they are.
\<close>

theorem revocation_is_final:
  assumes "cp_reachable s" "dict_get (cp_identities s) k = Some i" "ei_revoked_at i \<noteq> None" "cp_steps s s'"
  shows "get_identity k s' = Inr i \<and>
    \<not> is_ok (fst (ingest_heartbeat k m t s')) \<and> observations (snd (ingest_heartbeat k m t s')) = observations s' \<and>
    \<not> is_ok (fst (ingest_inventory k n t s')) \<and> observations (snd (ingest_inventory k n t s')) = observations s'"
proof -
  have i: "dict_get (cp_identities s') k = Some i"
    using assms by (blast intro: cp_steps_revoked)
  have inv: "cp_inv s'"
    using assms by (blast intro: cp_reachable_inv cp_steps_reachable)
  have no: "\<not> message_authorized k env t s'" for env
    using i assms(3) by (simp add: message_authorized_def)
  have same: "observations x = observations s'" if "refused a t e s' x" for a e x
    using that by (auto simp: refused_def observations_def)
  have "\<not> (message_authorized k (im_envelope n) t s' \<and>
      inventory_bound (me_endpoint_id (im_envelope n)) (im_payload n) s')"
    using no by simp
  then obtain f y where y: "ingest_inventory k n t s' = (Inl f, y)" "refused ''inventory.ingest'' t f s' y"
    by (rule ingest_inventory_refuses [OF inv])
  obtain e x where x: "ingest_heartbeat k m t s' = (Inl e, x)" "refused ''heartbeat.ingest'' t e s' x"
    using no by (rule ingest_heartbeat_refuses)
  show ?thesis
    using i x y by (simp add: get_identity_def same)
qed

text \<open>
  C11: revoking an identity that is already revoked changes no identity, records the attempt as one
  event without effect, and returns the first revocation's facts.
\<close>

theorem revoke_identity_idempotent:
  assumes "dict_get (cp_identities s) k = Some i" "ei_revoked_at i \<noteq> None"
    "is_aware now" "\<not> empty_or_longer reason 256"
  shows "fst (revoke_identity k reason actor now c s) = Inr i \<and>
    cp_identities (snd (revoke_identity k reason actor now c s)) = cp_identities s \<and>
    (\<exists>ev. audit_events (snd (revoke_identity k reason actor now c s)) = audit_events s @ [ev] \<and>
       au_decision ev = ''no_change'' \<and> au_action ev = ''identity.revoke'')"
  using revoke_again [OF assms(3,4,1,2)] by (simp add: audit_events_def)


section \<open>Audit trail\<close>

text \<open>
  C6: every message leaves exactly one audit event, appended at the end of the trail.  It says
  \<^verbatim>\<open>accepted\<close> if and only if the message was accepted, which is also when an observation is appended;
  otherwise it says \<^verbatim>\<open>rejected\<close> and nothing else of the state changes.
\<close>

theorem ingest_heartbeat_audited:
  assumes "cp_reachable s" "envelope_ok (hm_envelope m)" "is_aware t" "in_range (wall t + MAX_CLOCK_SKEW)"
  shows "\<exists>ev. audit_events (snd (ingest_heartbeat k m t s)) = audit_events s @ [ev] \<and>
    au_action ev = ''heartbeat.ingest'' \<and> au_server_time ev = t \<and>
    (case fst (ingest_heartbeat k m t s) of
       Inr ob \<Rightarrow> au_decision ev = ''accepted'' \<and> au_metadata ev = acceptance_metadata ob \<and>
         observations (snd (ingest_heartbeat k m t s)) = observations s @ [ob]
     | Inl e \<Rightarrow> au_decision ev = ''rejected'' \<and>
         e \<in> {ValidationError (au_reason ev), AuthorizationError (au_reason ev), ReplayError (au_reason ev)} \<and>
         snd (ingest_heartbeat k m t s) = with_event ev s)"
proof (cases "message_authorized k (hm_envelope m) t s")
  case True
  then show ?thesis
    by (rule ingest_heartbeat_accepts [OF cp_reachable_inv [OF assms(1)] assms(2)])
       (simp add: history_defs)
next
  case False
  then show ?thesis
    by (rule ingest_heartbeat_refuses) (use assms(3,4) in \<open>auto simp: refused_def audit_events_def\<close>)
qed

text \<open>
  C5: the audit trail and the history agree.  In every reachable state the acceptance events, in
  order, state the receipt time, endpoint, kind, message identifier, payload digest and sequence
  number of the observations, in order; operators and revocations never add such an event.
\<close>

theorem audit_trail_matches_history:
  assumes "cp_reachable s"
  shows "map event_facts (filter is_acceptance (audit_events s)) = map observation_facts (observations s)"
  using cp_invD(6)[OF cp_reachable_inv [OF assms]] by (simp add: trail_ok_def history_defs)

text \<open>
  C9: the observations and the audit trail are append-only: whatever operations follow, every earlier
  entry stays in its place.
\<close>

theorem histories_append_only:
  assumes "cp_reachable s" "cp_steps s s'"
  shows "prefix (observations s) (observations s') \<and> prefix (audit_events s) (audit_events s')"
  using cp_steps_grow [OF assms(2,1)] by (simp add: grows_def)


section \<open>Enrollment\<close>


section \<open>Health\<close>

text \<open>The heartbeats of an endpoint in the history.\<close>

definition heartbeats_of :: "uuid \<Rightarrow> ControlPlane \<Rightarrow> Observation list" where
  "heartbeats_of k s =
     filter (\<lambda>ob. ob_endpoint_id ob = k \<and> ob_observation_type ob = ''heartbeat'') (observations s)"

lemma receipts_heartbeats_of:
  "receipts k (heartbeats (cp_observations s)) = map ob_received_at (heartbeats_of k s)"
  by (simp add: receipts_def heartbeats_def heartbeats_of_def observations_def conj_commute)

lemma latest_of_ge: "latest_of ts v \<Longrightarrow> t \<in> set ts \<Longrightarrow> \<exists>u. v = Some u \<and> instant t \<le> instant u \<and> u \<in> set ts"
  by (auto simp: latest_of_def split: option.splits)

lemma derive_health_latest:
  assumes "latest_of ts v" "FreshnessPolicy_post_init p = Inr p"
  shows "derive_health v now p = ONLINE \<longleftrightarrow> (\<exists>t\<in>set ts. instant now - instant t \<le> fp_online_for p)"
    and "derive_health v now p = OFFLINE \<longleftrightarrow> (\<forall>t\<in>set ts. instant now - instant t > fp_stale_for p)"
proof -
  have p: "0 < fp_online_for p" "fp_online_for p < fp_stale_for p"
    using assms(2) by (auto simp: FreshnessPolicy_post_init_def split: if_splits)
  show "derive_health v now p = ONLINE \<longleftrightarrow> (\<exists>t\<in>set ts. instant now - instant t \<le> fp_online_for p)"
    using assms(1) p by (force simp: derive_health_def latest_of_def Let_def split: option.splits)
  show "derive_health v now p = OFFLINE \<longleftrightarrow> (\<forall>t\<in>set ts. instant now - instant t > fp_stale_for p)"
    using assms(1) p by (force simp: derive_health_def latest_of_def Let_def split: option.splits)
qed

text \<open>
  C4: health is a function of the receipt times of accepted heartbeats.  In every reachable state an
  enrolled endpoint is online if and only if a heartbeat of it was received within \<^verbatim>\<open>online_for\<close>,
  offline if and only if none was received within \<^verbatim>\<open>stale_for\<close>, and stale otherwise; the lifecycle
  shown is that of its identity.  The clock of the endpoint plays no part.
\<close>

theorem endpoint_status_from_receipts:
  assumes "cp_reachable s" "get_endpoint k s = Inr e" "is_aware now" "FreshnessPolicy_post_init p = Inr p"
  shows "\<exists>st i. endpoint_status k now (Some p) s = Inr st \<and> get_identity (ep_identity_id e) s = Inr i \<and>
    es_lifecycle st = ei_status i \<and>
    (es_health st = ONLINE \<longleftrightarrow>
       (\<exists>ob\<in>set (heartbeats_of k s). instant now - instant (ob_received_at ob) \<le> fp_online_for p)) \<and>
    (es_health st = OFFLINE \<longleftrightarrow>
       (\<forall>ob\<in>set (heartbeats_of k s). instant now - instant (ob_received_at ob) > fp_stale_for p))"
proof -
  note inv = cp_reachable_inv [OF assms(1)]
  have e: "dict_get (cp_endpoints s) k = Some e"
    using assms(2) by (auto simp: get_endpoint_def split: option.splits)
  obtain i where i: "dict_get (cp_identities s) (ep_identity_id e) = Some i"
    using links_okD(1)[OF cp_invD(2)[OF inv] e] by blast
  have "latest_of (map ob_received_at (heartbeats_of k s)) (ep_last_heartbeat_at e)"
    using cp_invD(5)[OF inv] e by (simp add: receipts_ok_def receipts_heartbeats_of)
  from derive_health_latest [OF this assms(4), of now] show ?thesis
    using e i assms(3)
    by (simp add: endpoint_status_def get_endpoint_def get_identity_def require_aware_aware Let_def
        ei_lifecycle_def)
qed


section \<open>Order and paging\<close>

lemma sort_key_strict_mono:
  fixes f :: "'a \<Rightarrow> 'b::linorder" and g :: "'a \<Rightarrow> 'c::linorder"
  assumes "\<And>x y. f x \<le> f y \<longleftrightarrow> g x \<le> g y"
  shows "sort_key f xs = sort_key g xs"
proof -
  have "insort_key f x ys = insort_key g x ys" for x ys
    by (induction ys) (simp_all add: assms)
  then show ?thesis
    by (induction xs) simp_all
qed

lemma list_endpoints_sort: "list_endpoints s = sort_key ep_endpoint_id (dict_values (cp_endpoints s))"
  unfolding list_endpoints_def by (rule sort_key_strict_mono) (rule str_uuid_le_iff)

lemma endpoint_values:
  assumes "cp_inv s"
  shows "map ep_endpoint_id (dict_values (cp_endpoints s)) = map fst (cp_endpoints s)"
  using cp_invD(1)[OF assms] links_okD(1)[OF cp_invD(2)[OF assms]]
  by (auto simp: dicts_ok_def)

lemma list_endpoints_strict:
  assumes "cp_inv s"
  shows "sorted_wrt (<) (map ep_endpoint_id (list_endpoints s))"
proof -
  have "distinct (map ep_endpoint_id (dict_values (cp_endpoints s)))"
    using cp_invD(1)[OF assms] by (simp only: endpoint_values [OF assms] dicts_ok_def)
  then have "distinct (map ep_endpoint_id (list_endpoints s))"
    by (metis distinct_map list_endpoints_sort distinct_sort set_sort)
  then show ?thesis
    by (simp add: strict_sorted_iff list_endpoints_sort)
qed

lemma filter_sort_key: "filter P (sort_key f xs) = sort_key f (filter P xs)"
  by (rule filter_sort)

lemma filter_greater_sorted:
  fixes f :: "'a \<Rightarrow> 'b::linorder"
  assumes "sorted_wrt (<) (map f xs)" "n < length xs"
  shows "filter (\<lambda>x. f x > f (xs ! n)) xs = drop (Suc n) xs"
  using assms
proof (induction xs arbitrary: n)
  case (Cons a xs)
  show ?case
  proof (cases n)
    case 0
    then show ?thesis
      using Cons.prems by (auto intro!: filter_True)
  next
    case (Suc m)
    then have "\<not> f a > f (xs ! m)"
      using Cons.prems by (auto simp: not_less intro: less_imp_le)
    then show ?thesis
      using Cons Suc by simp
  qed
qed simp

text \<open>
  C7: the endpoints are listed once each, in increasing order of identifier, and the pages are
  consecutive segments of that list: the first page is its first \<^verbatim>\<open>limit\<close> entries, and the page after
  the entry at position \<open>n\<close> starts at position \<open>n + 1\<close>.  So following the cursor visits every endpoint
  exactly once.
\<close>

theorem list_endpoint_page_segments:
  assumes "cp_reachable s" "1 \<le> limit" "limit \<le> 1000"
  shows "sorted_wrt (<) (map ep_endpoint_id (list_endpoints s)) \<and>
    mset (list_endpoints s) = mset (dict_values (cp_endpoints s)) \<and>
    list_endpoint_page None limit s = Inr (take (nat limit) (list_endpoints s)) \<and>
    (\<forall>n < length (list_endpoints s).
       list_endpoint_page (Some (ep_endpoint_id (list_endpoints s ! n))) limit s =
         Inr (take (nat limit) (drop (Suc n) (list_endpoints s))))"
proof -
  have strict: "sorted_wrt (<) (map ep_endpoint_id (list_endpoints s))"
    using assms(1) by (blast intro: list_endpoints_strict cp_reachable_inv)
  have "list_endpoint_page (Some (ep_endpoint_id (list_endpoints s ! n))) limit s =
         Inr (take (nat limit) (drop (Suc n) (list_endpoints s)))" if "n < length (list_endpoints s)" for n
    using filter_greater_sorted [OF strict that] assms(2,3)
    by (simp add: list_endpoint_page_def nsmallest_def list_endpoints_sort filter_sort_key)
  then show ?thesis
    using strict assms(2,3)
    by (simp add: list_endpoint_page_def nsmallest_def list_endpoints_sort)
qed

section \<open>A concrete run\<close>

text \<open>An endpoint is enrolled, sends a heartbeat and is revoked.\<close>

definition example_ids :: "nat \<Rightarrow> uuid" where
  "example_ids n = word_of_nat (Suc n)"

definition example_time :: "int \<Rightarrow> datetime" where
  "example_time n = utc (hours 1000 + seconds n)"

definition example_start :: ControlPlane where
  "example_start = ControlPlane_init example_ids"

definition example_fingerprint :: string where
  "example_fingerprint = ''sha256:'' @ replicate 64 (CHR ''a'')"

definition example_enrolled :: ControlPlane where
  "example_enrolled = snd (enroll_synthetic_endpoint ''desk'' LINUX ''amd64'' example_fingerprint
     (example_time 0) ''operator'' example_start)"

definition example_envelope :: "uuid \<Rightarrow> int \<Rightarrow> MessageEnvelope" where
  "example_envelope message_id sequence =
     \<lparr>me_message_id = message_id, me_endpoint_id = 1, me_boot_id = 7, me_sequence = sequence,
      me_created_at = example_time 1, me_expires_at = example_time 61, me_correlation_id = 9,
      me_protocol_version = 1\<rparr>"

definition example_heartbeat :: HeartbeatMessage where
  "example_heartbeat = \<lparr>hm_envelope = example_envelope 100 1,
     hm_payload = \<lparr>hp_agent_version = ''1.0'', hp_capabilities = [''heartbeat'']\<rparr>\<rparr>"

definition example_inventory :: InventoryMessage where
  "example_inventory = \<lparr>im_envelope = example_envelope 101 2,
     im_payload = \<lparr>ip_platform = LINUX, ip_architecture = ''amd64'', ip_fields = [(''os'', ''x'')],
       ip_collector_complete = True, ip_schema_version = 1\<rparr>\<rparr>"

definition example_online :: ControlPlane where
  "example_online = snd (ingest_heartbeat 2 example_heartbeat (example_time 2) example_enrolled)"

definition example_both :: ControlPlane where
  "example_both = snd (ingest_inventory 2 example_inventory (example_time 3) example_online)"

definition example_revoked :: ControlPlane where
  "example_revoked = snd (revoke_identity 2 ''lost'' ''operator'' (example_time 4) (Some 5) example_both)"

lemmas example_msgs = example_heartbeat_def example_inventory_def example_envelope_def

lemma instant_example_time [simp]: "instant (example_time n) = hours 1000 + seconds n"
  by (simp add: example_time_def)

lemma aware_example_time [simp]: "is_aware (example_time n)"
  by (simp add: example_time_def)

lemma example_in_range [simp]: "0 \<le> n \<Longrightarrow> n \<le> 100 \<Longrightarrow> in_range (wall (example_time n) + MAX_CLOCK_SKEW)"
  by (simp add: example_time_def utc_def in_range_def max_wall_def td_defs MAX_CLOCK_SKEW_def)

lemma example_envelope_ok [simp]: "1 \<le> n \<Longrightarrow> n \<le> 100 \<Longrightarrow> envelope_ok (example_envelope v n)"
  by (simp add: example_envelope_def MessageEnvelope_post_init_Inr limits td_defs)

lemma example_fingerprint_ok [simp]: "is_fingerprint example_fingerprint"
  unfolding example_fingerprint_def is_fingerprint_append by (simp add: is_sha256_def list_all_iff is_lower_hex_def is_digit_def)

abbreviation example_identity :: EndpointIdentity where
  "example_identity \<equiv> new_identity example_fingerprint (example_time 0) example_start"

abbreviation example_endpoint :: Endpoint where
  "example_endpoint \<equiv> new_endpoint ''desk'' LINUX ''amd64'' (example_time 0) example_start"

lemma example_enrolled_eq:
  "example_enrolled = enrolled (new_endpoint ''desk'' LINUX ''amd64'' (example_time 0) example_start)
     (new_identity example_fingerprint (example_time 0) example_start)
     (enrollment_event ''operator'' (example_time 0) example_start) example_start"
  unfolding example_enrolled_def
  by (subst enroll_accepts)
     (simp_all add: enrollment_accepted_def example_start_def ControlPlane_init_def
       empty_or_longer_def limits)

lemma example_enrolled_sel [simp]:
  "cp_endpoints example_enrolled = [(1, new_endpoint ''desk'' LINUX ''amd64'' (example_time 0) example_start)]"
  "cp_identities example_enrolled = [(2, new_identity example_fingerprint (example_time 0) example_start)]"
  "cp_observations example_enrolled = []" "cp_seen_message_ids example_enrolled = {}"
  "cp_last_sequences example_enrolled = []"
  by (simp_all add: example_enrolled_eq new_endpoint_def new_identity_def example_start_def ControlPlane_init_def
      example_ids_def)

lemma example_enrolled_reachable: "cp_reachable example_enrolled"
  unfolding example_enrolled_def
  by (intro cp_reachable.step [OF cp_reachable.init [of example_ids]])
     (simp add: example_start_def cp_step.enroll fresh_identifiers_def ControlPlane_init_def)

lemma example_identity_sel [simp]:
  "ei_endpoint_id (new_identity f t example_start) = 1" "ei_identity_id (new_identity f t example_start) = 2"
  "ei_revoked_at (new_identity f t example_start) = None" "ei_created_at (new_identity f t example_start) = t"
  by (simp_all add: new_identity_def example_start_def ControlPlane_init_def example_ids_def)

lemma example_endpoint_sel [simp]:
  "ep_endpoint_id (new_endpoint n p a t example_start) = 1"
  "ep_identity_id (new_endpoint n p a t example_start) = 2"
  "ep_platform (new_endpoint n p a t example_start) = p"
  "ep_architecture (new_endpoint n p a t example_start) = a"
  by (simp_all add: new_endpoint_def example_start_def ControlPlane_init_def example_ids_def)

lemma example_envelope_sel [simp]:
  "me_message_id (example_envelope v n) = v" "me_endpoint_id (example_envelope v n) = 1"
  "me_boot_id (example_envelope v n) = 7" "me_sequence (example_envelope v n) = n"
  "me_created_at (example_envelope v n) = example_time 1" "me_expires_at (example_envelope v n) = example_time 61"
  by (simp_all add: example_envelope_def)

lemma example_message_sel [simp]:
  "hm_envelope example_heartbeat = example_envelope 100 1"
  "im_envelope example_inventory = example_envelope 101 2"
  by (simp_all add: example_heartbeat_def example_inventory_def)

lemma example_heartbeat_authorized:
  "message_authorized 2 (hm_envelope example_heartbeat) (example_time 2) example_enrolled"
  by (simp add: message_authorized_def previous_sequence_def) (simp add: limits td_defs)

definition example_ob1 :: Observation where
  "example_ob1 = heartbeat_observation (rng_seq example_enrolled (rng_pos example_enrolled)) example_identity
     example_heartbeat (example_time 2)"

definition example_ob2 :: Observation where
  "example_ob2 = inventory_observation (rng_seq example_online (rng_pos example_online)) example_identity
     example_inventory (example_time 3)"

lemma example_ob_sel [simp]:
  "ob_message_id example_ob1 = 100" "ob_boot_id example_ob1 = 7" "ob_sequence example_ob1 = 1"
  "ob_endpoint_id example_ob1 = 1" "ob_observation_type example_ob1 = ''heartbeat''"
  "ob_received_at example_ob1 = example_time 2"
  "ob_message_id example_ob2 = 101" "ob_boot_id example_ob2 = 7" "ob_sequence example_ob2 = 2"
  "ob_endpoint_id example_ob2 = 1" "ob_observation_type example_ob2 = ''inventory''"
  "ob_received_at example_ob2 = example_time 3"
  by (simp_all add: example_ob1_def example_ob2_def)

lemma example_online_eq: "\<exists>ev. example_online = ingested 2 example_ob1 (touch example_ob1 example_endpoint) ev example_enrolled"
  by (rule ingest_heartbeat_accepts [OF cp_reachable_inv [OF example_enrolled_reachable] _ example_heartbeat_authorized])
     (auto simp: example_online_def new_observation_def example_ob1_def)

lemma example_online_reachable: "cp_reachable example_online"
  unfolding example_online_def
  by (intro cp_reachable.step [OF example_enrolled_reachable] cp_step.heartbeat) simp

lemma example_online_sel [simp]:
  "cp_identities example_online = cp_identities example_enrolled"
  "cp_endpoints example_online = [(1, touch example_ob1 example_endpoint)]"
  "cp_observations example_online = [example_ob1]" "cp_seen_message_ids example_online = {100}" "cp_last_sequences example_online = [((2, 7), 1)]"
proof -
  obtain ev where eq: "example_online = ingested 2 example_ob1 (touch example_ob1 example_endpoint) ev example_enrolled"
    using example_online_eq by blast
  show "cp_identities example_online = cp_identities example_enrolled"
    "cp_endpoints example_online = [(1, touch example_ob1 example_endpoint)]"
    "cp_observations example_online = [example_ob1]"
    "cp_seen_message_ids example_online = {100}"
    "cp_last_sequences example_online = [((2, 7), 1)]"
    unfolding eq by simp_all
qed

lemma example_inventory_authorized:
  "message_authorized 2 (im_envelope example_inventory) (example_time 3) example_online"
  by (simp add: message_authorized_def previous_sequence_def) (simp add: limits td_defs)

lemma example_inventory_bound:
  "inventory_bound (me_endpoint_id (im_envelope example_inventory)) (im_payload example_inventory) example_online"
  by (simp add: inventory_bound_def example_inventory_def)

lemma example_both_reachable: "cp_reachable example_both"
  unfolding example_both_def
  by (intro cp_reachable.step [OF example_online_reachable] cp_step.inventory) simp

lemma example_both_eq: "\<exists>ev. example_both = ingested 2 example_ob2 (touch example_ob2 (touch example_ob1 example_endpoint)) ev example_online"
  by (rule ingest_inventory_accepts [OF cp_reachable_inv [OF example_online_reachable] _
        example_inventory_authorized example_inventory_bound])
     (auto simp: example_both_def new_observation_def example_ob2_def)

lemma example_both_sel [simp]:
  "cp_identities example_both = cp_identities example_enrolled"
  "cp_endpoints example_both = [(1, touch example_ob2 (touch example_ob1 example_endpoint))]"
  "cp_observations example_both = [example_ob1, example_ob2]"
proof -
  obtain ev where eq: "example_both = ingested 2 example_ob2 (touch example_ob2 (touch example_ob1 example_endpoint)) ev example_online"
    using example_both_eq by blast
  show "cp_identities example_both = cp_identities example_enrolled"
    "cp_endpoints example_both = [(1, touch example_ob2 (touch example_ob1 example_endpoint))]"
    "cp_observations example_both = [example_ob1, example_ob2]"
    unfolding eq by simp_all
qed

lemma example_revoked_reachable: "cp_reachable example_revoked"
  unfolding example_revoked_def by (intro cp_reachable.step [OF example_both_reachable] cp_step.revoke)

lemma example_revoked_identity:
  "dict_get (cp_identities example_revoked) 2 =
     Some (revoked_identity ''lost'' (example_time 4) (new_identity example_fingerprint (example_time 0) example_start))"
proof -
  let ?i = "new_identity example_fingerprint (example_time 0) example_start"
  have "identity_ok ?i"
    by (simp add: new_identity_def EndpointIdentity_post_init_Inr)
  then have "snd (revoke_identity 2 ''lost'' ''operator'' (example_time 4) (Some 5) example_both) =
      revoked 2 (revoked_identity ''lost'' (example_time 4) ?i)
       (revocation_event 2 ''accepted'' ''lost'' ''operator'' (example_time 4) (correlation (Some 5) example_both)
          (rng_seq (drawn (Some 5) example_both) (rng_pos (drawn (Some 5) example_both))))
       (drawn (Some 5) example_both)"
    by (subst revoke_accepts [of _ _ _ _ ?i]) (simp_all add: empty_or_longer_def td_defs)
  then show ?thesis
    by (simp add: example_revoked_def revoked_def)
qed

section \<open>The properties on the concrete run\<close>

theorem ingest_heartbeat_accepted_iff_witness:
  "cp_reachable example_enrolled \<and> envelope_ok (hm_envelope example_heartbeat) \<and>
   is_ok (fst (ingest_heartbeat 2 example_heartbeat (example_time 2) example_enrolled))"
  using ingest_heartbeat_accepted_iff [OF example_enrolled_reachable, of example_heartbeat 2 "example_time 2"]
    example_enrolled_reachable example_heartbeat_authorized by simp

theorem ingest_inventory_accepted_iff_witness:
  "cp_reachable example_online \<and> envelope_ok (im_envelope example_inventory) \<and>
   is_ok (fst (ingest_inventory 2 example_inventory (example_time 3) example_online))"
  using ingest_inventory_accepted_iff [OF example_online_reachable, of example_inventory 2 "example_time 3"]
    example_online_reachable example_inventory_authorized example_inventory_bound by simp

theorem observations_never_replayed_witness:
  "cp_reachable example_both \<and> length (observations example_both) = 2 \<and>
   ob_sequence (observations example_both ! 0) < ob_sequence (observations example_both ! 1)"
  using observations_never_replayed [OF example_both_reachable, of 0 1] example_both_reachable
  by (simp add: observations_def same_stream_def)

theorem revocation_is_final_witness:
  "cp_reachable example_revoked \<and> ei_revoked_at (revoked_identity ''lost'' (example_time 4) example_identity) \<noteq> None \<and>
   \<not> is_ok (fst (ingest_heartbeat 2 example_heartbeat (example_time 5) example_revoked))"
  using revocation_is_final [OF example_revoked_reachable example_revoked_identity, of example_revoked example_heartbeat
      "example_time 5" example_inventory] example_revoked_reachable by simp

theorem revoke_identity_idempotent_witness:
  "fst (revoke_identity 2 ''again'' ''operator'' (example_time 9) None example_revoked) =
     Inr (revoked_identity ''lost'' (example_time 4) example_identity)"
  using revoke_identity_idempotent [OF example_revoked_identity, of "example_time 9" "''again''" "''operator''" None]
  by (simp add: empty_or_longer_def)

theorem ingest_heartbeat_audited_witness:
  "cp_reachable example_enrolled \<and>
   (\<exists>ev. audit_events (snd (ingest_heartbeat 2 example_heartbeat (example_time 2) example_enrolled)) =
      audit_events example_enrolled @ [ev] \<and> au_action ev = ''heartbeat.ingest'')"
  using ingest_heartbeat_audited [OF example_enrolled_reachable, of example_heartbeat "example_time 2" 2]
    example_enrolled_reachable by auto

theorem audit_trail_matches_history_witness:
  "length (filter is_acceptance (audit_events example_both)) = 2"
  using arg_cong [OF audit_trail_matches_history [OF example_both_reachable], of length]
  by (simp add: observations_def)

theorem histories_append_only_witness:
  "cp_reachable example_both \<and> cp_steps example_both example_revoked \<and>
   prefix (observations example_both) (observations example_revoked)"
proof -
  have "cp_steps example_both example_revoked"
    unfolding example_revoked_def by (intro r_into_rtranclp cp_step.revoke)
  then show ?thesis
    using histories_append_only [OF example_both_reachable] example_both_reachable by simp
qed


theorem endpoint_status_from_receipts_witness:
  "cp_reachable example_online \<and> FreshnessPolicy_post_init default_policy = Inr default_policy \<and>
   (\<exists>st. endpoint_status 1 (example_time 92) (Some default_policy) example_online = Inr st \<and>
      es_health st = ONLINE)"
  using endpoint_status_from_receipts [OF example_online_reachable, of 1 _ "example_time 92" default_policy]
    example_online_reachable
  by (simp add: get_endpoint_def FreshnessPolicy_post_init_def default_policy_def heartbeats_of_def
      observations_def td_defs) blast

theorem list_endpoint_page_segments_witness:
  "cp_reachable example_online \<and>
   list_endpoint_page None 10 example_online = Inr (take (nat 10) (list_endpoints example_online))"
  using list_endpoint_page_segments [OF example_online_reachable, of 10] example_online_reachable by simp

end
