(* ===== verification/Persistence_Properties.thy ===== *)
theory Persistence_Properties
  imports Persistence_Outcomes Control_Plane_Properties
begin

text \<open>
  What the PostgreSQL control plane guarantees in every reachable state: replay protection, the exact
  condition under which a message is acknowledged, idempotent retries, atomic operations, records that
  only advance, single-use grants, certificate authentication, the whole enrollment, shutdown, and the
  agreement with the in-memory control plane.
\<close>


section \<open>Histories\<close>

text \<open>
  C12: replay protection in the database.  In every reachable state no two stored messages have the same
  identifier, and the messages stored for one identity and boot have strictly increasing sequence numbers
  in the order of their acceptance, none of them above the mark that later messages must exceed.
\<close>

theorem pg_never_replayed:
  assumes "pg_reachable s" "i < j" "j < length (db_observations (pg_db s))"
  defines "x \<equiv> db_observations (pg_db s) ! i" and "y \<equiv> db_observations (pg_db s) ! j"
  shows "ob_message_id x \<noteq> ob_message_id y \<and>
    (or_identity_id x = or_identity_id y \<and> ob_boot_id x = ob_boot_id y \<longrightarrow> ob_sequence x < ob_sequence y) \<and>
    (\<exists>n. dict_get (db_sequences (pg_db s)) (or_identity_id y, ob_boot_id y) = Some n \<and> ob_sequence y \<le> n)"
proof -
  have inv: "sorted_wrt later (db_observations (pg_db s))" "accounted (pg_db s) y"
    using pg_reachable_inv [OF assms(1)] assms(3) by (auto simp: db_inv_def db_history_def y_def)
  from inv(1) have "later x y"
    using assms(2,3) by (simp add: sorted_wrt_iff_nth_less x_def y_def)
  then show ?thesis
    using inv(2) by (auto simp: later_def accounted_def)
qed

text \<open>
  C22: no record goes back.  Whatever operations follow, the stored messages and the audit events stay as
  they are and in their places; every identity keeps its endpoint, key and creation time, its status only
  advances from pending over issued and active to revoked, and once revoked it never changes; a grant
  changes only once, when it is consumed; sequence marks and receipt times only grow.
\<close>

theorem pg_records_advance:
  assumes "pg_reachable s" "pg_steps s s'"
  shows "prefix (db_observations (pg_db s)) (db_observations (pg_db s')) \<and>
    prefix (db_audit_events (pg_db s)) (db_audit_events (pg_db s')) \<and>
    dict_le identity_le (db_identities (pg_db s)) (db_identities (pg_db s')) \<and>
    dict_le endpoint_le (db_endpoints (pg_db s)) (db_endpoints (pg_db s')) \<and>
    dict_le grant_le (db_grants (pg_db s)) (db_grants (pg_db s')) \<and>
    dict_le (\<le>) (db_sequences (pg_db s)) (db_sequences (pg_db s'))"
  using pg.run_le [OF assms(2) pg_reachable_inv [OF assms(1)]] by (simp add: db_le_def)


section \<open>Identities and endpoints\<close>

text \<open>
  C23: the operations of \<^verbatim>\<open>PostgresControlPlane\<close> keep endpoints and identities in one-to-one
  correspondence.  In every state they reach from an empty database, each identity's endpoint exists and
  names that identity, each endpoint's identity exists and belongs to that endpoint, and two identities
  with the same endpoint, the same public key or the same certificate are the same.  The schema itself
  no longer forces this (migration 0004 drops the unique constraint on \<^verbatim>\<open>endpoint_id\<close> so that rows written
  by other means may record a rotation), but no operation stores a second identity for an endpoint.
\<close>

theorem pg_identities_unique:
  assumes "pg_reachable s"
  defines "identities \<equiv> db_identities (pg_db s)" and "endpoints \<equiv> db_endpoints (pg_db s)"
  shows "(\<forall>k r. dict_get identities k = Some r \<longrightarrow>
      (\<exists>e. dict_get endpoints (ei_endpoint_id r) = Some e \<and> ep_identity_id e = k)) \<and>
    (\<forall>v e. dict_get endpoints v = Some e \<longrightarrow>
      (\<exists>r. dict_get identities (ep_identity_id e) = Some r \<and> ei_endpoint_id r = v)) \<and>
    (\<forall>j k r x. dict_get identities j = Some r \<longrightarrow> dict_get identities k = Some x \<longrightarrow>
      ei_endpoint_id r = ei_endpoint_id x \<or> ei_public_key_fingerprint r = ei_public_key_fingerprint x \<or>
      ir_certificate_serial r \<noteq> None \<and> ir_certificate_serial r = ir_certificate_serial x \<and>
      ir_certificate_issuer r = ir_certificate_issuer x \<longrightarrow> j = k)"
proof -
  have inv: "db_linked (pg_db s)" "db_unique (pg_db s)"
    using pg_reachable_inv [OF assms(1)] by (simp_all add: db_inv_def)
  have "j = k" if rows: "dict_get identities j = Some r" "dict_get identities k = Some x"
    "ei_endpoint_id r = ei_endpoint_id x" for j k r x
    using db_linkedD(1) [OF inv(1), of j r] db_linkedD(1) [OF inv(1), of k x] rows by (auto simp: identities_def)
  moreover have "j = k" if rows: "dict_get identities j = Some r" "dict_get identities k = Some x"
    "ei_public_key_fingerprint r = ei_public_key_fingerprint x \<or>
      ir_certificate_serial r \<noteq> None \<and> ir_certificate_serial r = ir_certificate_serial x \<and>
      ir_certificate_issuer r = ir_certificate_issuer x" for j k r x
    using db_uniqueD [OF inv(2), of j r k x] rows unfolding identities_def by blast
  ultimately show ?thesis
    using db_linkedD [OF inv(1)] unfolding identities_def endpoints_def by blast
qed

lemma transaction_read: "transaction (db_read f) s =
    (if pg_shutting_down s then (Inl (ValidationError ''database control plane is shutting down''), s)
     else (Inr (f (pg_db s)), s))"
  by (simp add: transaction_def db_read_def op_simps)

lemma transaction_query: "\<not> pg_shutting_down s \<Longrightarrow>
    transaction (sbind (db_read f) (\<lambda>rows. lift (g rows))) s = (g (f (pg_db s)), s)"
  by (simp add: transaction_def db_read_def op_simps split: sum.split)

lemma rmap_row_result:
  "(\<And>x. x \<in> set xs \<Longrightarrow> f x = row_result (columns x) (g x)) \<Longrightarrow>
     rmap f xs = row_result (concat (map columns xs)) (map g xs)"
  by (induction xs) (auto simp: row_result_def)

text \<open>
  C24: what reading the stored rows gives.  In every reachable state that is not shutting down, listing the
  endpoints, the observations or the audit events returns the stored rows, unless one of their times lies
  outside the years 1 to 9999 in UTC, which the driver cannot load: then the operation raises a database
  error.  Looking up an endpoint or an identity raises a not-found error if there is none, that database
  error if its times cannot be loaded, and otherwise returns the row.  A stored grant is always returned.
  None of these operations changes the state.
\<close>

theorem pg_rows_read_back:
  assumes "pg_reachable s" "\<not> pg_shutting_down s"
  defines "endpoints \<equiv> sort_key ep_endpoint_id (dict_values (db_endpoints (pg_db s)))"
    and "stored \<equiv> sort_key (\<lambda>r. (instant (ob_received_at r), ob_observation_id r)) (db_observations (pg_db s))"
    and "events \<equiv> db_audit_events (pg_db s)"
  shows "pg_list_endpoints s = (row_result (concat (map endpoint_times endpoints)) endpoints, s) \<and>
    pg_observations s =
      (row_result (concat (map observation_times stored)) (map Observation.truncate stored), s) \<and>
    pg_audit_events s = (row_result (map (\<lambda>ev. Some (au_server_time ev)) events)
      (map (\<lambda>ev. ev\<lparr>au_metadata := sort (au_metadata ev)\<rparr>) events), s) \<and>
    pg_get_endpoint k s = (case dict_get (db_endpoints (pg_db s)) k of
      None \<Rightarrow> Inl (NotFoundError ''endpoint does not exist'') | Some e \<Rightarrow> row_result (endpoint_times e) e, s) \<and>
    pg_get_identity k s = (case dict_get (db_identities (pg_db s)) k of
      None \<Rightarrow> Inl (NotFoundError ''identity does not exist'')
    | Some r \<Rightarrow> row_result (identity_times r) (EndpointIdentity.truncate r), s) \<and>
    get_enrollment_grant k s = (case dict_get (db_grants (pg_db s)) k of
      None \<Rightarrow> Inl (NotFoundError ''enrollment grant does not exist'') | Some g \<Rightarrow> Inr g, s)"
proof -
  have inv: "db_inv (pg_db s)"
    by (rule pg_reachable_inv [OF assms(1)])
  note read = rows_read [OF inv]
  have "endpoint_from_row e = row_result (endpoint_times e) e" if "e \<in> set endpoints" for e
    using that inv read(1) dict_get_values [of "db_endpoints (pg_db s)" e]
    by (auto simp: endpoints_def db_inv_def db_dicts_def)
  then have rows: "rmap endpoint_from_row endpoints = row_result (concat (map endpoint_times endpoints)) endpoints"
    by (subst rmap_row_result [where g = "\<lambda>e. e" and columns = endpoint_times]) auto
  have obs: "rmap observation_from_row stored =
      row_result (concat (map observation_times stored)) (map Observation.truncate stored)"
    using read(4) by (intro rmap_row_result) (auto simp: stored_def)
  have "rmap audit_from_row events = row_result (concat (map (\<lambda>ev. [Some (au_server_time ev)]) events))
      (map (\<lambda>ev. ev\<lparr>au_metadata := sort (au_metadata ev)\<rparr>) events)"
    by (intro rmap_row_result) (simp add: audit_from_row_def row_result_def load_times_def)
  then have evs: "rmap audit_from_row events = row_result (map (\<lambda>ev. Some (au_server_time ev)) events)
      (map (\<lambda>ev. ev\<lparr>au_metadata := sort (au_metadata ev)\<rparr>) events)"
    by (simp add: concat_map_singleton)
  show ?thesis
    using assms(2) rows obs evs read(1-3)
    by (simp add: pg_list_endpoints_def pg_observations_def pg_audit_events_def pg_get_endpoint_def pg_get_identity_def
        get_enrollment_grant_def transaction_query transaction_read op_simps endpoints_def stored_def events_def
        split: option.split)
qed


section \<open>Failures\<close>

definition harmless :: "'a pg_op \<Rightarrow> PostgresControlPlane \<Rightarrow> bool" where
  "harmless m s \<longleftrightarrow> is_ok (fst (m s)) \<or> at_most_logged (pg_db s) (pg_db (snd (m s)))"

lemma atomic_harmless: "atomic m \<Longrightarrow> keyed (pg_db s) \<Longrightarrow> harmless m s"
  by (cases "m s"; cases "fst (m s)") (auto simp: atomic_def harmless_def is_ok_iff)

text \<open>
  C16: every operation is atomic.  If it raises, whatever the reason, the tables are as they were, but for
  at most one audit event that records the refusal.
\<close>

theorem pg_operations_atomic:
  assumes "pg_reachable s"
  shows "harmless (create_enrollment_grant name pl ar now actor ttl) s \<and>
    harmless (consume_enrollment_grant token fp now actor) s \<and>
    harmless (begin_endpoint_enrollment token fp now actor) s \<and>
    harmless (record_issued_endpoint_identity k serial issuer nb na now actor) s \<and>
    harmless (pg_enroll_synthetic_endpoint name pl ar fp now actor) s \<and>
    harmless (pg_ingest_heartbeat k hb now d) s \<and> harmless (pg_ingest_inventory k iv now d) s \<and>
    harmless (authenticate_endpoint_certificate ep fp now cid) s \<and>
    harmless (pg_revoke_identity k reason actor now c) s \<and>
    harmless (pg_record_operator_access actor subject action decision reason cid now metadata) s"
proof -
  have "keyed (pg_db s)"
    using pg_reachable_inv [OF assms] by (simp add: db_inv_def db_dicts_def)
  then show ?thesis
    unfolding consume_enrollment_grant_def begin_endpoint_enrollment_def pg_ingest_heartbeat_def
      pg_ingest_inventory_def
    by (intro conjI atomic_harmless atomic_create_enrollment_grant atomic_consume_grant atomic_record_issued
        atomic_enroll atomic_ingest atomic_authenticate atomic_revoke atomic_record_operator_access) simp_all
qed

definition shut :: "'a pg_op \<Rightarrow> PostgresControlPlane \<Rightarrow> bool" where
  "shut m s \<longleftrightarrow> \<not> is_ok (fst (m s)) \<and> pg_db (snd (m s)) = pg_db s \<and> pg_shutting_down (snd (m s))"

definition closed :: "'a pg_op \<Rightarrow> bool" where
  "closed m \<longleftrightarrow> (\<forall>s. pg_shutting_down s \<longrightarrow> shut m s)"

lemma closed_transaction: "closed (transaction m)"
  by (simp add: closed_def shut_def transaction_def is_ok_iff)

lemma closed_bind: "closed m \<Longrightarrow> closed (sbind m f)"
  by (fastforce simp: closed_def shut_def sbind_def is_ok_iff split: prod.splits sum.splits)

lemma closed_then:
  assumes "\<And>s. pg_shutting_down s \<Longrightarrow> pg_db (snd (m s)) = pg_db s \<and> pg_shutting_down (snd (m s))" "\<And>x. closed (f x)"
  shows "closed (sbind m f)"
  unfolding closed_def
proof (intro allI impI)
  fix s :: PostgresControlPlane
  assume s: "pg_shutting_down s"
  obtain r s' where m: "m s = (r, s')"
    by fastforce
  then have "pg_db s' = pg_db s" "pg_shutting_down s'"
    using assms(1) [OF s] by simp_all
  then show "shut (sbind m f) s"
    using assms(2) m by (cases r) (auto simp: shut_def closed_def sbind_def is_ok_iff)
qed

lemma closed_draws:
  "(\<And>x. closed (f x)) \<Longrightarrow> closed (sbind (lift r) f)" "(\<And>x. closed (g x)) \<Longrightarrow> closed (sbind uuid4 g)"
  "(\<And>x. closed (h x)) \<Longrightarrow> closed (sbind token_urlsafe h)"
  "(\<And>x. closed (g x)) \<Longrightarrow> closed (sbind (case c of Some v \<Rightarrow> sreturn v | None \<Rightarrow> uuid4) g)"
  by (rule closed_then; simp add: op_simps uuid4_def token_urlsafe_def split: option.split)+

lemma closed_on_unique_violation: "closed (on_unique_violation (transaction m) h)"
  by (simp add: closed_def shut_def on_unique_violation_def transaction_def is_ok_iff)

lemmas closed_intros = closed_draws closed_transaction closed_on_unique_violation
  closed_bind [OF closed_transaction] closed_bind [OF closed_on_unique_violation]

lemma closed_ops:
  "closed (create_enrollment_grant name pl ar now actor ttl)" "closed (consume_enrollment_grant token fp now actor)"
  "closed (begin_endpoint_enrollment token fp now actor)"
  "closed (record_issued_endpoint_identity k serial issuer nb na now actor)"
  "closed (pg_enroll_synthetic_endpoint name pl ar fp now actor)" "closed (pg_ingest_heartbeat k hb now d)"
  "closed (pg_ingest_inventory k iv now d)" "closed (authenticate_endpoint_certificate ep fp now cid)"
  "closed (pg_revoke_identity k reason actor now c)"
  "closed (pg_record_operator_access actor subject action decision reason cid now metadata)"
  unfolding create_enrollment_grant_def consume_enrollment_grant_def begin_endpoint_enrollment_def
    consume_grant_def record_issued_endpoint_identity_def pg_enroll_synthetic_endpoint_def pg_ingest_heartbeat_def
    pg_ingest_inventory_def pg_ingest_def authenticate_endpoint_certificate_def pg_revoke_identity_def
    pg_record_operator_access_def record_audit_def Let_def
  by (auto intro!: closed_intros split: prod.split)

lemma closedD: "closed m \<Longrightarrow> pg_shutting_down s \<Longrightarrow> shut m s"
  by (simp add: closed_def)

lemma closed_stays: "closed m \<Longrightarrow> pg_shutting_down s \<Longrightarrow> pg_shutting_down (snd (m s))"
  by (simp add: closed_def shut_def)

lemma pg_step_shut: "pg_step s s' \<Longrightarrow> pg_shutting_down s \<Longrightarrow> pg_shutting_down s'"
proof (induction rule: pg_step.induct)
  case (shutdown s)
  then show ?case
    by (simp add: begin_shutdown_def op_simps)
qed (intro closed_stays closed_ops; assumption)+

text \<open>
  C25: a control plane that is shutting down refuses.  Once \<^verbatim>\<open>begin_shutdown\<close> has been called, no operation
  that writes succeeds and none changes the tables, now or after any further operations.
\<close>

theorem pg_shutdown_refuses:
  assumes "pg_steps (snd (begin_shutdown s0)) s"
  shows "shut (create_enrollment_grant name pl ar now actor ttl) s \<and>
    shut (consume_enrollment_grant token fp now actor) s \<and>
    shut (begin_endpoint_enrollment token fp now actor) s \<and>
    shut (record_issued_endpoint_identity k serial issuer nb na now actor) s \<and>
    shut (pg_enroll_synthetic_endpoint name pl ar fp now actor) s \<and>
    shut (pg_ingest_heartbeat k hb now d) s \<and> shut (pg_ingest_inventory k iv now d) s \<and>
    shut (authenticate_endpoint_certificate ep fp now cid) s \<and>
    shut (pg_revoke_identity k reason actor now c) s \<and>
    shut (pg_record_operator_access actor subject action decision reason cid now metadata) s"
proof -
  have "pg_shutting_down s"
    using assms
    by (induction rule: rtranclp_induct) (auto simp: begin_shutdown_def op_simps intro: pg_step_shut)
  then show ?thesis
    by (intro conjI closedD closed_ops)
qed

section \<open>Messages\<close>

text \<open>The circumstances in which only the message decides: the service runs and identifiers do not collide.\<close>

definition serving :: "nat \<Rightarrow> datetime \<Rightarrow> PostgresControlPlane \<Rightarrow> bool" where
  "serving n t s \<longleftrightarrow> pg_reachable s \<and> \<not> pg_shutting_down s \<and> is_aware t \<and> in_range (instant t) \<and> fresh_draws n s"

text \<open>
  C13: the exact condition for a message.  A heartbeat or an inventory is acknowledged if and only if its
  identity is stored, current, not revoked, issued or active (an issued one only with a heartbeat) and the
  identity of the named endpoint, and either it is an exact retry of a stored message or its identifier is
  new, it is within the clock skew, it has not expired, it fits the enrolled platform, its sequence number
  exceeds the mark, and an issued identity was not created after the receipt.  The times of the identity,
  and of the stored message for a retry, must be ones that can be loaded.
\<close>

theorem pg_ingest_accepted_iff:
  assumes "serving 3 t s" "in_range (instant t + MAX_CLOCK_SKEW)" "pred_option is_sha256 d"
    "envelope_ok (hm_envelope m)" "envelope_ok (im_envelope n)"
  shows "(is_ok (fst (pg_ingest_heartbeat k m t d s)) \<longleftrightarrow>
      ingest_admits k (hm_envelope m) ''heartbeat'' t None d (pg_db s)) \<and>
    (is_ok (fst (pg_ingest_inventory k n t d s)) \<longleftrightarrow>
      ingest_admits k (im_envelope n) ''inventory'' t
        (Some (ip_platform (im_payload n), ip_architecture (im_payload n))) d (pg_db s))"
proof -
  have inv: "db_inv (pg_db s)"
    using assms(1) by (auto simp: serving_def intro: pg_reachable_inv)
  have "is_ok (fst (pg_ingest k env ty sv pd t b d s)) \<longleftrightarrow> ingest_admits k env ty t b d (pg_db s)"
    if "ty \<in> {''heartbeat'', ''inventory''}" "is_sha256 pd" "envelope_ok env" for env ty sv pd b
    using pg_ingest_admitted [OF inv that(1), of k env sv pd t b d] assms(1-3) that
      pg_ingest_admits [OF inv that(1), of k env t b d pd sv]
    by (cases "pg_ingest k env ty sv pd t b d s") (auto simp: serving_def is_ok_iff MessageEnvelope_post_init_Inr)
  then show ?thesis
    using assms(4,5) by (simp add: pg_ingest_heartbeat_def pg_ingest_inventory_def)
qed

lemma retruncate:
  "times_utc x \<Longrightarrow> Observation.truncate x = Observation.truncate (observation_row k (Observation.truncate x))"
  by (cases x) (simp add: times_utc_def observation_row_def Observation.truncate_def Observation.extend_def
      ObservationRow.fields_def)

lemma observation_row_times [simp]:
  "times_load (observation_times (observation_row k ob)) \<longleftrightarrow>
     in_range (instant (ob_source_time ob)) \<and> in_range (instant (ob_received_at ob))"
  by (simp add: observation_times_def observation_row_def Observation.extend_def ObservationRow.fields_def)

text \<open>
  C21: retries are idempotent.  A heartbeat that was accepted with its encoded form is answered, whenever
  the identity may still send, with the stored observation; only an audit event marked \<^verbatim>\<open>no_change\<close> is
  added.  The observation returned is the one first returned, with its times in UTC.  The message's
  creation time lies in the years 1 to 9999 in UTC, so that the stored observation can be loaded.
\<close>

theorem pg_heartbeat_retry:
  assumes "pg_reachable s" "pg_ingest_heartbeat k m t (Some d) s = (Inr ob, s1)" "pg_steps s1 s2"
    and "serving 1 t' s2" "ingest_authorized k r e (hm_envelope m) ''heartbeat'' (pg_db s2)"
    and "in_range (instant (me_created_at (hm_envelope m)))"
  shows "\<exists>ev. fst (pg_ingest_heartbeat k m t' (Some d) s2) = Inr (Observation.truncate (observation_row k ob)) \<and>
    pg_db (snd (pg_ingest_heartbeat k m t' (Some d) s2)) = log_row ev (pg_db s2) \<and> au_decision ev = ''no_change''"
proof -
  have inv: "db_inv (pg_db s)" and inv2: "db_inv (pg_db s2)"
    using assms(1,4) by (auto simp: serving_def intro: pg_reachable_inv)
  have times: "in_range (instant t)"
    using assms(2) by (simp add: pg_ingest_heartbeat_def pg_ingest_Inr)
  have "wp (ingest_transaction k (hm_envelope m) ''heartbeat'' 1 (heartbeat_digest (hm_payload m)) (utc (instant t))
      None (Some d)) (\<lambda>r s'. fst r = None \<longrightarrow> (\<exists>x ob. snd r = Some ob \<and> x \<in> set (db_observations (pg_db s')) \<and>
        ob_message_id x = me_message_id (hm_envelope m) \<and> exact_retry k (hm_envelope m) (Some d) x \<and>
        Observation.truncate x = Observation.truncate (observation_row k ob))) s"
  proof (rule wp_ingest_transaction, goal_cases)
    case (4 r e x ev n)
    then have "Observation.truncate x = Observation.truncate (observation_row k (Observation.truncate x))"
      using inv by (intro retruncate) (auto simp: db_inv_def db_rows_ok_def)
    with 4 show ?case
      by auto
  next
    case (5 r e v ob db' n)
    then have "db_le (ingest_rows k r e ob (pg_db s)) db'"
      using inv db.run_le db_inv_change db_change.ingested by blast
    then have "observation_row k ob \<in> set (db_observations db')"
      by (auto simp: db_le_def dest: set_mono_prefix)
    with 5 times assms(6) show ?case
      by (auto simp: exact_retry_def ingest_authorized_def intro!: exI [of _ "observation_row k ob"])
         (simp_all add: new_row_observation_def)
  qed (use inv in \<open>simp_all add: db_inv_def db_dicts_def\<close>)
  from wp_Inr [OF this] obtain x where x: "x \<in> set (db_observations (pg_db s1))"
    "ob_message_id x = me_message_id (hm_envelope m)" "exact_retry k (hm_envelope m) (Some d) x"
    "Observation.truncate x = Observation.truncate (observation_row k ob)"
    using assms(2) by (auto simp: pg_ingest_heartbeat_def pg_ingest_Inr)
  have "pg_step s s1"
    using pg_step.heartbeat [of s k m t "Some d"] assms(2) by simp
  then have "db_inv (pg_db s1)"
    using inv by (rule pg.step_inv)
  then have "x \<in> set (db_observations (pg_db s2))"
    using x(1) pg.run_le [OF assms(3)] by (auto simp: db_le_def dest: set_mono_prefix)
  from ingest_acknowledges [OF inv2 assms(5) _ this x(2,3), of 1 "heartbeat_digest (hm_payload m)" "utc (instant t')" None]
  obtain ev s3 where "ingest_transaction k (hm_envelope m) ''heartbeat'' 1 (heartbeat_digest (hm_payload m))
      (utc (instant t')) None (Some d) s2 = (Inr (None, Some (Observation.truncate x)), s3)"
    and ev: "pg_db s3 = log_row ev (pg_db s2)" "au_decision ev = ''no_change''"
    using assms(4) by (auto simp: serving_def)
  then have "pg_ingest_heartbeat k m t' (Some d) s2 = (Inr (Observation.truncate x), s3)"
    using assms(4) by (simp add: pg_ingest_heartbeat_def pg_ingest_Inr serving_def)
  then show ?thesis
    using ev x(4) by auto
qed

lemma authenticate_Inr:
  "authenticate_endpoint_certificate endpoint_id fp t c s = (Inr i, s') \<longleftrightarrow>
     is_aware t \<and> in_range (instant t) \<and> \<not> pg_shutting_down s \<and>
     authenticate_transaction endpoint_id fp (utc (instant t)) c s = (Inr (None, Some i), s')"
  by (auto simp: authenticate_endpoint_certificate_def sbind_Inr lift_def sraise_def sreturn_def transaction_Inr
      astimezone_utc_def split: if_splits option.splits)

lemma revoked_permanent:
  assumes "pg_reachable s" "dict_get (db_identities (pg_db s)) k = Some r" "ei_status r = REVOKED" "pg_steps s s'"
  shows "dict_get (db_identities (pg_db s')) k = Some r"
proof -
  have "dict_le identity_le (db_identities (pg_db s)) (db_identities (pg_db s'))"
    using pg.run_le [OF assms(4) pg_reachable_inv [OF assms(1)]] by (simp add: db_le_def)
  then show ?thesis
    using assms(2,3) by (auto simp: dict_le_def identity_le_def)
qed

lemma revoked_not_admitted:
  assumes "dict_get (db_identities db) k = Some r" "ei_status r = REVOKED"
  shows "\<not> ingest_admits k env ty t b d db"
proof
  assume "ingest_admits k env ty t b d db"
  then obtain x e where "ingest_authorized k x e env ty db"
    unfolding ingest_admits_def by blast
  then show False
    using assms select_identityD [of k db x e] by (simp add: ingest_authorized_def)
qed

lemma not_admitted_refused:
  assumes "db_inv (pg_db s)" "ty \<in> {''heartbeat'', ''inventory''}" "\<not> ingest_admits k env ty t b d (pg_db s)"
  shows "\<not> is_ok (fst (pg_ingest k env ty sv pd t b d s))"
    and "at_most_logged (pg_db s) (pg_db (snd (pg_ingest k env ty sv pd t b d s)))"
proof -
  show no: "\<not> is_ok (fst (pg_ingest k env ty sv pd t b d s))"
    using pg_ingest_admitted [OF assms(1,2), of k env sv pd t b d] assms(3)
    by (cases "pg_ingest k env ty sv pd t b d s") (auto simp: is_ok_iff)
  have "harmless (pg_ingest k env ty sv pd t b d) s"
    using assms(1,2) by (intro atomic_harmless atomic_ingest) (auto simp: db_inv_def db_dicts_def)
  then show "at_most_logged (pg_db s) (pg_db (snd (pg_ingest k env ty sv pd t b d s)))"
    using no by (simp add: harmless_def)
qed

lemma at_most_logged_observations: "at_most_logged db db' \<Longrightarrow> db_observations db' = db_observations db"
  by (auto simp: at_most_logged_def)

lemma revoked_not_authenticated:
  assumes "db_inv (pg_db s)" "dict_get (db_identities (pg_db s)) k = Some r" "ei_status r = REVOKED"
  shows "\<not> is_ok (fst (authenticate_endpoint_certificate (ei_endpoint_id r) (ei_public_key_fingerprint r) t c s))"
proof -
  obtain e where e: "dict_get (db_endpoints (pg_db s)) (ei_endpoint_id r) = Some e"
    using assms(1,2) unfolding db_inv_def db_linked_def by blast
  note sel = select_certificate_unique [OF assms(1,2) e]
  have "wp (authenticate_transaction (ei_endpoint_id r) (ei_public_key_fingerprint r) (utc (instant t)) c)
      (\<lambda>x _. fst x \<noteq> None) s"
    using sel assms(3)
    by (auto simp: authenticate_transaction_def certificate_failure_def intro!: wp_insert_audit)
  from wp_Inr [OF this] show ?thesis
    by (cases "authenticate_endpoint_certificate (ei_endpoint_id r) (ei_public_key_fingerprint r) t c s")
       (auto simp: is_ok_iff authenticate_Inr)
qed

text \<open>
  C17: a revoked identity is shut out for good.  Once an identity is revoked, every later state holds the
  same row, refuses each message of that identity, stores nothing for it and refuses its certificate.
\<close>

theorem pg_revocation_is_final:
  assumes "pg_reachable s" "dict_get (db_identities (pg_db s)) k = Some r" "ei_status r = REVOKED" "pg_steps s s'"
  shows "dict_get (db_identities (pg_db s')) k = Some r \<and>
    \<not> is_ok (fst (pg_ingest_heartbeat k m t d s')) \<and> \<not> is_ok (fst (pg_ingest_inventory k n t d s')) \<and>
    db_observations (pg_db (snd (pg_ingest_heartbeat k m t d s'))) = db_observations (pg_db s') \<and>
    db_observations (pg_db (snd (pg_ingest_inventory k n t d s'))) = db_observations (pg_db s') \<and>
    \<not> is_ok (fst (authenticate_endpoint_certificate (ei_endpoint_id r) (ei_public_key_fingerprint r) t c s'))"
proof -
  have row: "dict_get (db_identities (pg_db s')) k = Some r"
    by (rule revoked_permanent [OF assms])
  have inv: "db_inv (pg_db s')"
    using pg.run_inv [OF assms(4) pg_reachable_inv [OF assms(1)]] .
  note no = not_admitted_refused [OF inv _ revoked_not_admitted [OF row assms(3)]]
  show ?thesis
    unfolding pg_ingest_heartbeat_def pg_ingest_inventory_def
    by (intro conjI row no at_most_logged_observations revoked_not_authenticated [OF inv row assms(3)]) simp_all
qed

section \<open>Enrollment\<close>

lemma consume_malformed: "consume_transaction None fp t actor status retry c s = (Inr x, s') \<Longrightarrow> fst x \<noteq> None"
  by (auto simp: consume_transaction_def inspect_grant_def op_simps sbind_Inr)

lemma consume_grant_Inr:
  assumes "consume_grant token fp now actor status retry s = (Inr p, s')"
  shows "is_enrollment_token token"
    and "\<exists>c. consume_transaction (Some (sha256_hex token)) fp (utc (instant now)) actor status retry c
      (s\<lparr>rng_pos := Suc (rng_pos s)\<rparr>) = (Inr (None, Some p), s')"
  using assms
  by (auto simp: consume_grant_def Let_def sbind_Inr lift_def sraise_def sreturn_def on_unique_violation_Inr
      transaction_Inr astimezone_utc_def uuid4_def db_read_def sread_def record_audit_def
      split: if_splits option.splits dest: consume_malformed)

lemma wp_consume_used:
  assumes "db_inv (pg_db s)" "find_grant_row d (pg_db s) = Some g" "eg_consumed_identity_id g = Some v"
  shows "wp (consume_transaction (Some d) fp t actor status retry c) (\<lambda>x s'. at_most_logged (pg_db s) (pg_db s') \<and>
    (\<forall>e i. x = (None, Some (e, i)) \<longrightarrow> retry \<and> ei_identity_id i = v \<and> ei_public_key_fingerprint i = fp)) s"
proof -
  have used: "eg_consumed_at g \<noteq> None" if "grant_ok g"
    using that assms(3) by (auto simp: EnrollmentGrant_post_init_Inr split: option.splits)
  have key: "ei_identity_id r = v" if "select_identity v (pg_db s) = Some (r, e)" for r e
    using assms(1) select_identityD [OF that] by (auto simp: db_inv_def db_dicts_def keyed_def)
  show ?thesis
    using assms(2,3) used key
    by (auto simp: consume_transaction_def inspect_grant_def resume_enrollment_def from_row_Inr
        EnrollmentGrant_post_init_Inr EndpointIdentity_post_init_Inr Endpoint_post_init_Inr
        split: option.splits intro!: wp_insert_audit)
qed

text \<open>
  C15: a grant is used once.  After a grant has been consumed, its row never changes again; its token can
  no longer be exchanged for an active identity, and \<^verbatim>\<open>begin_endpoint_enrollment\<close> accepts the token only
  to resume the same enrollment: it returns the identity the grant was consumed for, for the same public
  key, and adds nothing but an audit event.
\<close>

theorem grant_single_use:
  assumes "pg_reachable s" "dict_get (db_grants (pg_db s)) k = Some g" "eg_consumed_identity_id g = Some v"
    and "eg_token_sha256 g = sha256_hex token" "pg_steps s s'"
  shows "dict_get (db_grants (pg_db s')) k = Some g \<and> \<not> is_ok (fst (consume_enrollment_grant token fp now actor s')) \<and>
    (case fst (begin_endpoint_enrollment token fp now actor s') of
       Inr (e, i) \<Rightarrow> ei_identity_id i = v \<and> ei_public_key_fingerprint i = fp \<and>
         at_most_logged (pg_db s') (pg_db (snd (begin_endpoint_enrollment token fp now actor s')))
     | Inl _ \<Rightarrow> True)"
proof -
  have inv: "db_inv (pg_db s)" "db_inv (pg_db s')"
    using pg_reachable_inv [OF assms(1)] pg.run_inv [OF assms(5)] by simp_all
  have "grant_ok g"
    using inv(1) assms(2) by (simp add: db_inv_def db_rows_ok_def)
  then have "eg_consumed_at g \<noteq> None"
    using assms(3) by (auto simp: EnrollmentGrant_post_init_Inr split: option.splits)
  moreover have "dict_le grant_le (db_grants (pg_db s)) (db_grants (pg_db s'))"
    using pg.run_le [OF assms(5) inv(1)] by (simp add: db_le_def)
  ultimately have row: "dict_get (db_grants (pg_db s')) k = Some g"
    using assms(2) by (fastforce simp: dict_le_def grant_le_def)
  have found: "find_grant_row (sha256_hex token) (pg_db s') = Some g"
    using find_grant_row_unique [OF inv(2) row assms(4)] .
  have once: "retry \<and> ei_identity_id i = v \<and> ei_public_key_fingerprint i = fp \<and> at_most_logged (pg_db s') (pg_db s'')"
    if ret: "consume_grant token fp now actor status retry s' = (Inr (e, i), s'')" for status retry e i s''
  proof -
    obtain c where "consume_transaction (Some (sha256_hex token)) fp (utc (instant now)) actor status retry c
        (s'\<lparr>rng_pos := Suc (rng_pos s')\<rparr>) = (Inr (None, Some (e, i)), s'')"
      using consume_grant_Inr(2) [OF ret] by blast
    from wp_Inr [OF wp_consume_used [of "s'\<lparr>rng_pos := Suc (rng_pos s')\<rparr>"] this] show ?thesis
      using inv(2) found assms(3) by simp
  qed
  show ?thesis
    using row once [of ACTIVE False] once [of PENDING True]
    by (auto simp: consume_enrollment_grant_def begin_endpoint_enrollment_def is_ok_iff split: sum.splits)
       (metis prod.exhaust_sel)+
qed

text \<open>
  C20: certificate authentication.  A certificate is accepted if and only if its public key is that of an
  issued or active identity that is the current one of the endpoint it names and whose times can be
  loaded; the identity is returned.  Unless the row of that key cannot be loaded, exactly one audit event
  is added, which says whether the certificate was accepted, and nothing else changes; if it cannot be
  loaded, a database error is raised and nothing changes.
\<close>

theorem certificate_authentication:
  fixes endpoint_id c :: uuid and fp :: string
  assumes "serving 1 t s"
  defines "out \<equiv> authenticate_endpoint_certificate endpoint_id fp t c s"
  shows "(if certificate_loads endpoint_id fp (pg_db s)
     then \<exists>ev. pg_db (snd out) = log_row ev (pg_db s) \<and> au_action ev = ''certificate.authenticate'' \<and>
       au_decision ev = (if is_ok (fst out) then ''accepted'' else ''rejected'')
     else out = (Inl (DatabaseError ''timestamp out of range''), s)) \<and>
    (fst out = Inr i \<longleftrightarrow> (\<exists>r. certified endpoint_id fp r (pg_db s) \<and> i = EndpointIdentity.truncate r))"
proof -
  have inv: "db_inv (pg_db s)" "\<not> pg_shutting_down s" "fresh_draws 1 s" "is_aware t" "in_range (instant t)"
    using assms(1) by (auto simp: serving_def intro: pg_reachable_inv)
  show ?thesis
  proof (cases "certificate_loads endpoint_id fp (pg_db s)")
    case loads: True
    obtain ev where ev: "pg_db (snd out) = log_row ev (pg_db s)" "au_action ev = ''certificate.authenticate''"
      and yes: "\<And>r. certified endpoint_id fp r (pg_db s) \<Longrightarrow>
        au_decision ev = ''accepted'' \<and> fst out = Inr (EndpointIdentity.truncate r)"
      and no: "\<nexists>r. certified endpoint_id fp r (pg_db s) \<Longrightarrow> au_decision ev = ''rejected'' \<and>
        fst out = Inl (AuthorizationError ''endpoint certificate is unauthorized'')"
      unfolding out_def using authenticate_outcome [OF inv loads] by blast
    then have "(au_decision ev = (if is_ok (fst out) then ''accepted'' else ''rejected'')) \<and>
        (fst out = Inr i \<longleftrightarrow> (\<exists>r. certified endpoint_id fp r (pg_db s) \<and> i = EndpointIdentity.truncate r))"
      by (cases "\<exists>r. certified endpoint_id fp r (pg_db s)") (metis is_ok_iff sum.inject(2), metis is_ok_iff sum.distinct(1))
    with loads ev show ?thesis
      by auto
  next
    case False
    then show ?thesis
      using authenticate_unreadable [OF inv(1,2,4,5)] by (simp add: out_def)
  qed
qed


section \<open>Listing\<close>

text \<open>
  C27: whenever the list of all endpoints can be read, the endpoints are listed once each, in increasing order of identifier, and a page is the segment of
  that list that starts at the beginning or right after the cursor: following the cursor from page to
  page visits every endpoint exactly once.
\<close>

theorem pg_endpoint_pages:
  assumes "pg_reachable s" "\<not> pg_shutting_down s" "1 \<le> limit" "limit \<le> 1000"
    "fst (pg_list_endpoints s) = Inr es" "n < length es"
  shows "sorted_wrt (<) (map ep_endpoint_id es) \<and> set es = set (dict_values (db_endpoints (pg_db s))) \<and>
    fst (pg_list_endpoint_page None limit s) = Inr (take (nat limit) es) \<and>
    fst (pg_list_endpoint_page (Some (ep_endpoint_id (es ! n))) limit s) = Inr (take (nat limit) (drop (Suc n) es))"
proof -
  let ?rows = "dict_values (db_endpoints (pg_db s))"
  have inv: "db_inv (pg_db s)"
    by (rule pg_reachable_inv [OF assms(1)])
  have d: "dict_ok (db_endpoints (pg_db s))"
    using inv by (simp add: db_inv_def db_dicts_def)
  have key: "ep_endpoint_id e = k" "endpoint_from_row e = row_result (endpoint_times e) e"
    if "(k, e) \<in> set (db_endpoints (pg_db s))" for k e
    using inv map_of_is_SomeI [OF d that] rows_read(1) [OF inv] by (auto simp: db_inv_def db_dicts_def keyed_def)
  have read: "rmap endpoint_from_row xs = row_result (concat (map endpoint_times xs)) xs" if "set xs \<subseteq> set ?rows" for xs
    using that key(2) by (subst rmap_row_result [where g = "\<lambda>e. e" and columns = endpoint_times]) auto
  have "row_result (concat (map endpoint_times (sort_key ep_endpoint_id ?rows))) (sort_key ep_endpoint_id ?rows) = Inr es"
    using assms(2,5) read [of "sort_key ep_endpoint_id ?rows"]
    by (simp add: pg_list_endpoints_def transaction_query)
  then have es: "es = sort_key ep_endpoint_id ?rows" and loads: "times_load (concat (map endpoint_times es))"
    by auto
  have total: "rmap endpoint_from_row xs = Inr xs" if "set xs \<subseteq> set ?rows" for xs
    using that loads read [OF that] by (auto simp: es times_load_def list_all_iff)
  have "map ep_endpoint_id ?rows = map fst (db_endpoints (pg_db s))"
    using key(1) by (auto simp: map_eq_conv)
  then have "distinct (map ep_endpoint_id ?rows)"
    using d by (simp del: map_map)
  then have "distinct (map ep_endpoint_id es)"
    unfolding es by (metis distinct_map distinct_sort set_sort)
  then have strict: "sorted_wrt (<) (map ep_endpoint_id es)"
    by (simp add: strict_sorted_iff es)
  have "sort_key ep_endpoint_id (filter (\<lambda>e. ep_endpoint_id e > ep_endpoint_id (es ! n)) ?rows) = drop (Suc n) es"
    using filter_greater_sorted [OF strict assms(6)] by (simp add: es filter_sort_key)
  moreover have set: "set es = set ?rows"
    by (simp add: es)
  moreover have "set (take (nat limit) es) \<subseteq> set ?rows" "set (take (nat limit) (drop (Suc n) es)) \<subseteq> set ?rows"
    unfolding set [symmetric] by (blast dest: in_set_takeD in_set_dropD)+
  note total [OF this(1)] total [OF this(2)]
  ultimately show ?thesis
    using assms(2-4) strict es
    by (simp add: pg_list_endpoint_page_def transaction_def op_simps db_read_def)
qed

section \<open>A whole enrollment\<close>

text \<open>
  The parameters of an enrollment: when the grant is created, exchanged, certified and first used, for
  which name, key and certificate, and by whom.
\<close>

record enrollment_plan =
  pl_name :: string
  pl_operator :: string
  pl_service :: string
  pl_fingerprint :: string
  pl_serial :: string
  pl_issuer :: string
  pl_granted :: datetime
  pl_ttl :: timedelta
  pl_begun :: datetime
  pl_issued :: datetime
  pl_not_before :: datetime
  pl_not_after :: datetime
  pl_heartbeat :: datetime

definition bounded_text :: "string \<Rightarrow> nat \<Rightarrow> bool" where
  "bounded_text s n \<longleftrightarrow> \<not> empty_or_longer s n \<and> clean s"

definition usable_time :: "datetime \<Rightarrow> bool" where
  "usable_time t \<longleftrightarrow> is_aware t \<and> in_range (instant t)"

definition valid_plan :: "enrollment_plan \<Rightarrow> bool" where
  "valid_plan p \<longleftrightarrow>
     bounded_text (pl_name p) 128 \<and> bounded_text (pl_operator p) 256 \<and> bounded_text (pl_service p) 256 \<and>
     bounded_text (pl_issuer p) 256 \<and> is_certificate_serial (pl_serial p) \<and> is_fingerprint (pl_fingerprint p) \<and>
     list_all usable_time [pl_granted p, pl_begun p, pl_issued p, pl_not_before p, pl_not_after p, pl_heartbeat p] \<and>
     in_range (instant (pl_granted p) + pl_ttl p) \<and> in_range (instant (pl_heartbeat p) + MAX_CLOCK_SKEW) \<and>
     0 < pl_ttl p \<and> pl_ttl p \<le> MAX_ENROLLMENT_GRANT_TTL \<and>
     instant (pl_granted p) \<le> instant (pl_begun p) \<and>
     instant (pl_begun p) < instant (pl_granted p) + pl_ttl p \<and>
     instant (pl_not_before p) \<le> instant (pl_issued p) \<and> instant (pl_issued p) < instant (pl_not_after p) \<and>
     instant (pl_not_after p) - instant (pl_not_before p) \<le> MAX_ENDPOINT_CERTIFICATE_TTL \<and>
     instant (pl_begun p) \<le> instant (pl_heartbeat p)"

text \<open>Nothing stored stands in the way: the key, the certificate and the next token are new.\<close>

definition unclaimed :: "enrollment_plan \<Rightarrow> PostgresControlPlane \<Rightarrow> bool" where
  "unclaimed p s \<longleftrightarrow>
     (\<forall>r\<in>set (dict_values (db_identities (pg_db s))). ei_public_key_fingerprint r \<noteq> pl_fingerprint p \<and>
        \<not> (ir_certificate_issuer r = Some (pl_issuer p) \<and> ir_certificate_serial r = Some (pl_serial p))) \<and>
     is_enrollment_token (GRANT_NAMESPACE @ pg_token_seq s (pg_token_pos s)) \<and>
     (\<forall>g\<in>set (dict_values (db_grants (pg_db s))).
        eg_token_sha256 g \<noteq> sha256_hex (GRANT_NAMESPACE @ pg_token_seq s (pg_token_pos s)))"

lemma plan_grants:
  fixes s :: PostgresControlPlane
  assumes "pg_reachable s" "\<not> pg_shutting_down s" "fresh_draws 13 s" "valid_plan p" "unclaimed p s"
  obtains g token s1 where
    "create_enrollment_grant (pl_name p) LINUX ''amd64'' (pl_granted p) (pl_operator p) (pl_ttl p) s = (Inr (g, token), s1)"
    "pg_reachable s1" "\<not> pg_shutting_down s1" "fresh_draws 10 s1" "is_enrollment_token token"
    "dict_get (db_grants (pg_db s1)) (eg_grant_id g) = Some g"
    "g = grant_row token (eg_grant_id g) (pl_name p) (pl_granted p) (pl_operator p) (pl_ttl p)"
    "db_identities (pg_db s1) = db_identities (pg_db s)" "db_observations (pg_db s1) = db_observations (pg_db s)"
    "db_sequences (pg_db s1) = db_sequences (pg_db s)"
proof -
  let ?token = "GRANT_NAMESPACE @ pg_token_seq s (pg_token_pos s)"
  define g where "g = grant_row ?token (rng_seq s (rng_pos s)) (pl_name p) (pl_granted p) (pl_operator p) (pl_ttl p)"
  have "fresh_draws 3 s"
    using assms(3) by (rule fresh_draws_mono) simp
  then obtain ev where run: "create_enrollment_grant (pl_name p) LINUX ''amd64'' (pl_granted p) (pl_operator p) (pl_ttl p) s =
      (Inr (g, ?token), s\<lparr>pg_token_pos := Suc (pg_token_pos s), rng_pos := rng_pos s + 3,
       pg_db := log_row ev ((pg_db s)\<lparr>db_grants := dict_set (eg_grant_id g) g (db_grants (pg_db s))\<rparr>)\<rparr>)"
    and ev: "au_event_id ev = rng_seq s (Suc (Suc (rng_pos s)))"
    using create_enrollment_grant_runs [of "pl_granted p" "pl_ttl p" "pl_name p" "pl_operator p" s] assms(2,4,5)
    by (auto simp: g_def valid_plan_def bounded_text_def usable_time_def unclaimed_def)
  let ?s1 = "s\<lparr>pg_token_pos := Suc (pg_token_pos s), rng_pos := rng_pos s + 3,
       pg_db := log_row ev ((pg_db s)\<lparr>db_grants := dict_set (eg_grant_id g) g (db_grants (pg_db s))\<rparr>)\<rparr>"
  have used: "used_ids (pg_db ?s1) \<subseteq> used_ids (pg_db s) \<union> set (draws 3 s)"
    using ev by (auto simp: used_ids_def dom_update g_def grant_row_def numeral_eq_Suc draws_Suc)
  have fresh: "fresh_draws 10 ?s1"
    by (rule fresh_draws_add [of 3 10 s]) (use assms(3) used in simp_all)
  have reach: "pg_reachable ?s1"
    using pg_reachable.step [OF assms(1) pg_step.grant [of s "pl_name p" LINUX "''amd64''" "pl_granted p" "pl_operator p" "pl_ttl p"]]
    by (simp add: run)
  show thesis
    by (rule that [OF run reach _ fresh]) (use assms(2,5) in \<open>simp_all add: g_def grant_row_def unclaimed_def\<close>)
qed

lemma plan_begins:
  fixes s :: PostgresControlPlane
  assumes "pg_reachable s" "\<not> pg_shutting_down s" "fresh_draws 10 s" "valid_plan p" "is_enrollment_token token"
    and g: "dict_get (db_grants (pg_db s)) (eg_grant_id g) = Some g"
      "g = grant_row token (eg_grant_id g) (pl_name p) (pl_granted p) (pl_operator p) (pl_ttl p)"
    and fp: "\<forall>r\<in>set (dict_values (db_identities (pg_db s))). ei_public_key_fingerprint r \<noteq> pl_fingerprint p"
  obtains e i s1 where
    "begin_endpoint_enrollment token (pl_fingerprint p) (pl_begun p) (pl_service p) s = (Inr (e, i), s1)"
    "pg_reachable s1" "\<not> pg_shutting_down s1" "fresh_draws 5 s1" "ei_status i = PENDING"
    "ei_created_at i = utc (instant (pl_begun p))" "ei_endpoint_id i = ep_endpoint_id e"
    "dict_get (db_identities (pg_db s)) (ei_identity_id i) = None" "ei_identity_id i \<notin> used_ids (pg_db s)"
    "db_identities (pg_db s1) = dict_set (ei_identity_id i) (identity_row i) (db_identities (pg_db s))"
    "db_observations (pg_db s1) = db_observations (pg_db s)" "db_sequences (pg_db s1) = db_sequences (pg_db s)"
    "dict_get (db_endpoints (pg_db s1)) (ep_endpoint_id e) = Some (stored_endpoint e)"
    "times_load (endpoint_times (stored_endpoint e))" "times_load (identity_times (identity_row i))"
proof -
  have inv: "db_inv (pg_db s)"
    by (rule pg_reachable_inv [OF assms(1)])
  obtain e i where pair: "new_pair g (pl_fingerprint p) (pl_begun p) PENDING (rng_seq s (Suc (rng_pos s)))
      (rng_seq s (Suc (Suc (rng_pos s)))) = (e, i)"
    by fastforce
  have sel: "ep_endpoint_id e = rng_seq s (Suc (rng_pos s))" "ei_identity_id i = rng_seq s (Suc (Suc (rng_pos s)))"
    "ei_status i = PENDING" "ei_created_at i = utc (instant (pl_begun p))" "ei_endpoint_id i = ep_endpoint_id e"
    using pair by (auto simp: new_pair_def)
  have gsel: "eg_token_sha256 g = sha256_hex token" "eg_consumed_at g = None" "eg_display_name g = pl_name p"
    "eg_created_at g = utc (instant (pl_granted p))" "eg_expires_at g = utc (instant (pl_granted p) + pl_ttl p)"
    by (subst g(2), simp add: grant_row_def)+
  have "fresh_draws 5 s"
    using assms(3) by (rule fresh_draws_mono) simp
  then obtain ev ev' where run: "begin_endpoint_enrollment token (pl_fingerprint p) (pl_begun p) (pl_service p) s =
      (Inr (e, i), s\<lparr>rng_pos := rng_pos s + 5,
        pg_db := log_row ev' (log_row ev (exchange_rows g (pl_begun p) e i (pg_db s)))\<rparr>)"
    and ev: "au_event_id ev = rng_seq s (rng_pos s + 3)" "au_event_id ev' = rng_seq s (rng_pos s + 4)"
    using begin_endpoint_enrollment_runs [where actor = "pl_service p", OF inv assms(2) _ g(1) gsel(1,2) assms(5) _ _ _ _ _ fp _ _ _ pair] assms(4) gsel
    by (auto simp: valid_plan_def bounded_text_def usable_time_def)
  let ?s1 = "s\<lparr>rng_pos := rng_pos s + 5,
        pg_db := log_row ev' (log_row ev (exchange_rows g (pl_begun p) e i (pg_db s)))\<rparr>"
  have used: "used_ids (pg_db ?s1) \<subseteq> used_ids (pg_db s) \<union> set (draws 5 s)"
    using ev sel used_ids_exchange [OF g(1)] by (auto simp: numeral_eq_Suc draws_Suc)
  have fresh: "fresh_draws 5 ?s1"
    by (rule fresh_draws_add [of 5 5 s]) (use assms(3) used in simp_all)
  have reach: "pg_reachable ?s1"
    using pg_reachable.step [OF assms(1) pg_step.start [of s token "pl_fingerprint p" "pl_begun p" "pl_service p"]]
    by (simp add: run)
  have new: "ei_identity_id i \<notin> used_ids (pg_db s)"
    using assms(3) sel(2) by (auto simp: fresh_draws_def numeral_eq_Suc draws_Suc)
  have loads: "times_load (endpoint_times (stored_endpoint e))" "times_load (identity_times (identity_row i))"
    using pair assms(4)
    by (auto simp: new_pair_def endpoint_times_def identity_times_def stored_endpoint_def valid_plan_def usable_time_def)
  show thesis
    by (rule that [OF run reach _ fresh sel(3-5) _ _ _ _ _ _ loads])
       (use assms(2) new unused_id(2) [OF inv new] in \<open>simp_all add: exchange_rows_def\<close>)
qed

lemma plan_issues:
  fixes s :: PostgresControlPlane
  assumes "pg_reachable s" "\<not> pg_shutting_down s" "fresh_draws 5 s" "valid_plan p"
    and r: "dict_get (db_identities (pg_db s)) k = Some r" "ei_status r = PENDING"
      "times_load (identity_times r)" "times_load (certificate_times r)"
    and new: "\<forall>x\<in>set (dict_values (db_identities (pg_db s))).
      \<not> (ir_certificate_issuer x = Some (pl_issuer p) \<and> ir_certificate_serial x = Some (pl_serial p))"
  obtains i s1 where
    "record_issued_endpoint_identity k (pl_serial p) (pl_issuer p) (pl_not_before p) (pl_not_after p) (pl_issued p)
       (pl_service p) s = (Inr i, s1)"
    "pg_reachable s1" "\<not> pg_shutting_down s1" "fresh_draws 3 s1"
    "dict_get (db_identities (pg_db s1)) k =
       Some (issued_row (pl_serial p) (pl_issuer p) (pl_not_before p) (pl_not_after p) r)"
    "db_observations (pg_db s1) = db_observations (pg_db s)" "db_sequences (pg_db s1) = db_sequences (pg_db s)"
    "db_endpoints (pg_db s1) = db_endpoints (pg_db s)"
proof -
  have inv: "db_inv (pg_db s)"
    by (rule pg_reachable_inv [OF assms(1)])
  have new': "\<forall>(j, x)\<in>set (db_identities (pg_db s)). j \<noteq> k \<longrightarrow>
      \<not> (ir_certificate_issuer x = Some (pl_issuer p) \<and> ir_certificate_serial x = Some (pl_serial p))"
    using new by fastforce
  have "fresh_draws 2 s"
    using assms(3) by (rule fresh_draws_mono) simp
  then obtain ev i where run: "record_issued_endpoint_identity k (pl_serial p) (pl_issuer p) (pl_not_before p)
      (pl_not_after p) (pl_issued p) (pl_service p) s = (Inr i, s\<lparr>rng_pos := rng_pos s + 2, pg_db := log_row ev
        ((pg_db s)\<lparr>db_identities := dict_set k
          (issued_row (pl_serial p) (pl_issuer p) (pl_not_before p) (pl_not_after p) r) (db_identities (pg_db s))\<rparr>)\<rparr>)"
    and ev: "au_event_id ev = rng_seq s (Suc (rng_pos s))"
    using record_issued_runs [OF inv assms(2) _ r(1,2), of "pl_not_before p" "pl_not_after p" "pl_issued p" "pl_serial p"
        "pl_issuer p" "pl_service p"] new' assms(4) r(3,4)
    by (auto simp: valid_plan_def bounded_text_def usable_time_def)
  let ?s1 = "s\<lparr>rng_pos := rng_pos s + 2, pg_db := log_row ev
        ((pg_db s)\<lparr>db_identities := dict_set k
          (issued_row (pl_serial p) (pl_issuer p) (pl_not_before p) (pl_not_after p) r) (db_identities (pg_db s))\<rparr>)\<rparr>"
  have "used_ids (pg_db ?s1) \<subseteq> used_ids (pg_db s) \<union> set (draws 2 s)"
    using ev map_of_SomeD [OF r(1)]
    by (auto simp: used_ids_def dom_update numeral_eq_Suc draws_Suc intro: rev_image_eqI)
  then have fresh: "fresh_draws 3 ?s1"
    by (intro fresh_draws_add [of 2 3 s]) (use assms(3) in simp_all)
  have reach: "pg_reachable ?s1"
    using pg_reachable.step [OF assms(1) pg_step.issue [of s k "pl_serial p" "pl_issuer p" "pl_not_before p"
          "pl_not_after p" "pl_issued p" "pl_service p"]] by (simp add: run)
  show thesis
    by (rule that [OF run reach _ fresh]) (use assms(2) in simp_all)
qed

lemma touch_loads:
  "times_load (endpoint_times e) \<Longrightarrow> in_range (instant t) \<Longrightarrow> times_load (endpoint_times (touch_row heartbeat t e))"
  by (auto simp: endpoint_times_def touch_row_def pg_greatest_def dt_max_def times_load_def split: option.splits)

lemma plan_activates:
  fixes s :: PostgresControlPlane
  assumes "pg_reachable s" "\<not> pg_shutting_down s" "fresh_draws 3 s" "valid_plan p"
    and r: "dict_get (db_identities (pg_db s)) k = Some r" "ei_status r = ISSUED"
      "instant (ei_created_at r) \<le> instant (pl_heartbeat p)" "times_load (identity_times r)"
    and endpoint: "dict_get (db_endpoints (pg_db s)) (ei_endpoint_id r) = Some e0" "times_load (endpoint_times e0)"
    and m: "envelope_ok (hm_envelope m)" "me_endpoint_id (hm_envelope m) = ei_endpoint_id r"
      "instant (me_created_at (hm_envelope m)) \<le> instant (pl_heartbeat p) + MAX_CLOCK_SKEW"
      "instant (pl_heartbeat p) < instant (me_expires_at (hm_envelope m))" "pred_option is_sha256 d"
    and new: "\<forall>x\<in>set (db_observations (pg_db s)). ob_message_id x \<noteq> me_message_id (hm_envelope m)"
      "\<forall>x\<in>set (db_observations (pg_db s)). or_identity_id x \<noteq> k"
      "dict_get (db_sequences (pg_db s)) (k, me_boot_id (hm_envelope m)) = None"
  shows "\<exists>ob s'. pg_ingest_heartbeat k m (pl_heartbeat p) d s = (Inr ob, s') \<and>
    (\<exists>st. fst (pg_endpoint_status (ei_endpoint_id r) (pl_heartbeat p) None s') = Inr st \<and>
      es_lifecycle st = ACTIVE \<and> es_health st = ONLINE)"
proof -
  let ?t = "pl_heartbeat p"
  have inv: "db_inv (pg_db s)"
    by (rule pg_reachable_inv [OF assms(1)])
  have t: "is_aware ?t" "in_range (instant ?t)" "in_range (instant ?t + MAX_CLOCK_SKEW)"
    using assms(4) by (simp_all add: valid_plan_def usable_time_def)
  obtain e where e: "dict_get (db_endpoints (pg_db s)) (ei_endpoint_id r) = Some e" "ep_identity_id e = k"
    using inv r(1) unfolding db_inv_def db_linked_def by blast
  have loads: "times_load (endpoint_times e)"
    using e(1) endpoint by simp
  have key: "ei_identity_id r = k" "identity_ok (EndpointIdentity.truncate r)"
    using inv r(1) by (auto simp: db_inv_def db_dicts_def keyed_def db_rows_ok_def)
  have sel: "select_identity k (pg_db s) = Some (r, e)"
    using r(1) e by (simp add: select_identity_def)
  have "ingest_authorized k r e (hm_envelope m) ''heartbeat'' (pg_db s)"
    using sel r(2,4) e key m(2) revoked_iff [OF key(2)] by (auto simp: ingest_authorized_def is_current_def)
  then have "ingest_admits k (hm_envelope m) ''heartbeat'' ?t None d (pg_db s)"
    using new m r(3) unfolding ingest_admits_def binding_ok_def sequence_new_def by auto
  moreover have "\<forall>x\<in>set (db_observations (pg_db s)). \<not> exact_retry k (hm_envelope m) d x"
    using new(2) by (auto simp: exact_retry_def)
  ultimately obtain ob evs where
    run: "pg_ingest_heartbeat k m ?t d s = (Inr ob, s\<lparr>rng_pos := rng_pos s + ingest_draws r,
      pg_db := (ingest_rows k r e ob (pg_db s))\<lparr>db_audit_events := evs\<rparr>\<rparr>)"
    and ob: "ob_observation_type ob = ''heartbeat''" "ob_received_at ob = utc (instant ?t)"
    using pg_ingest_new [OF inv _ t(3) _ _ m(1), of "''heartbeat''" "heartbeat_digest (hm_payload m)" d k None 1]
      assms(2,3) t m(5) sel
    by (auto simp: pg_ingest_heartbeat_def)
  define s' where "s' = s\<lparr>rng_pos := rng_pos s + ingest_draws r, pg_db := (ingest_rows k r e ob (pg_db s))\<lparr>db_audit_events := evs\<rparr>\<rparr>"
  have "pg_step s s'"
    using pg_step.heartbeat [of s k m ?t d] by (simp add: run s'_def)
  then have inv': "db_inv (pg_db s')"
    using inv by (rule pg.step_inv)
  let ?e = "touch_row True (utc (instant ?t)) e" and ?r = "activated_row (utc (instant ?t)) r"
  have rows: "dict_get (db_endpoints (pg_db s')) (ei_endpoint_id r) = Some ?e"
    "dict_get (db_identities (pg_db s')) k = Some ?r" "ep_identity_id ?e = k"
    using r(2) ob e(2) by (simp_all add: s'_def)
  have ok: "endpoint_from_row ?e = Inr ?e" "identity_from_row ?r = Inr (EndpointIdentity.truncate ?r)"
    using rows_read(1,2) [OF inv'] rows(1,2) touch_loads [OF loads, of "utc (instant ?t)"] t(2) r(4)
    by (auto simp: activated_row_def identity_times_def)
  have "covers (ep_last_heartbeat_at ?e) (utc (instant ?t))"
    by (rule covers_touch(4))
  then have "derive_health (ep_last_heartbeat_at ?e) ?t default_policy = ONLINE"
    by (auto simp: covers_def derive_health_def default_policy_def td_defs)
  then have "fst (pg_endpoint_status (ei_endpoint_id r) ?t None s') =
      Inr \<lparr>es_endpoint_id = ei_endpoint_id r, es_lifecycle = ACTIVE, es_health = ONLINE,
        es_last_heartbeat_at = ep_last_heartbeat_at ?e\<rparr>"
    using rows ok assms(2) t(1)
    by (simp add: pg_endpoint_status_def pg_get_endpoint_def pg_get_identity_def op_simps require_aware_aware
        transaction_read Let_def ei_lifecycle_def s'_def)
  then show ?thesis
    using run by (auto simp: s'_def)
qed

text \<open>
  C14: an enrollment completes.  From every reachable state in which the next identifiers are unused, an
  enrollment whose parameters are valid and not yet claimed goes through: the grant is created, its token
  is exchanged for a pending identity, the certificate is recorded, and then any timely first heartbeat of
  the new endpoint is accepted, after which the endpoint is active and online.
\<close>

theorem enrollment_completes:
  assumes "pg_reachable s" "\<not> pg_shutting_down s" "fresh_draws 13 s" "valid_plan p" "unclaimed p s"
  shows "\<exists>g token s1 e i s2 j s3.
    create_enrollment_grant (pl_name p) LINUX ''amd64'' (pl_granted p) (pl_operator p) (pl_ttl p) s = (Inr (g, token), s1) \<and>
    begin_endpoint_enrollment token (pl_fingerprint p) (pl_begun p) (pl_service p) s1 = (Inr (e, i), s2) \<and>
    record_issued_endpoint_identity (ei_identity_id i) (pl_serial p) (pl_issuer p) (pl_not_before p) (pl_not_after p)
      (pl_issued p) (pl_service p) s2 = (Inr j, s3) \<and>
    (\<forall>m d. envelope_ok (hm_envelope m) \<and> me_endpoint_id (hm_envelope m) = ep_endpoint_id e \<and>
       instant (me_created_at (hm_envelope m)) \<le> instant (pl_heartbeat p) + MAX_CLOCK_SKEW \<and>
       instant (pl_heartbeat p) < instant (me_expires_at (hm_envelope m)) \<and> pred_option is_sha256 d \<and>
       me_message_id (hm_envelope m) \<notin> ob_message_id ` set (db_observations (pg_db s)) \<longrightarrow>
       (\<exists>ob s4 st. pg_ingest_heartbeat (ei_identity_id i) m (pl_heartbeat p) d s3 = (Inr ob, s4) \<and>
          fst (pg_endpoint_status (ep_endpoint_id e) (pl_heartbeat p) None s4) = Inr st \<and>
          es_lifecycle st = ACTIVE \<and> es_health st = ONLINE))"
proof -
  obtain g token s1 where grant:
    "create_enrollment_grant (pl_name p) LINUX ''amd64'' (pl_granted p) (pl_operator p) (pl_ttl p) s = (Inr (g, token), s1)"
    and s1: "pg_reachable s1" "\<not> pg_shutting_down s1" "fresh_draws 10 s1" "is_enrollment_token token"
    "dict_get (db_grants (pg_db s1)) (eg_grant_id g) = Some g"
    "g = grant_row token (eg_grant_id g) (pl_name p) (pl_granted p) (pl_operator p) (pl_ttl p)"
    and db1: "db_identities (pg_db s1) = db_identities (pg_db s)" "db_observations (pg_db s1) = db_observations (pg_db s)"
    by (rule plan_grants [OF assms])
  have fp: "\<forall>r\<in>set (dict_values (db_identities (pg_db s1))). ei_public_key_fingerprint r \<noteq> pl_fingerprint p"
    using assms(5) db1(1) by (simp add: unclaimed_def)
  obtain e i s2 where start:
    "begin_endpoint_enrollment token (pl_fingerprint p) (pl_begun p) (pl_service p) s1 = (Inr (e, i), s2)"
    and s2: "pg_reachable s2" "\<not> pg_shutting_down s2" "fresh_draws 5 s2"
    and i: "ei_status i = PENDING" "ei_created_at i = utc (instant (pl_begun p))" "ei_endpoint_id i = ep_endpoint_id e"
    "dict_get (db_identities (pg_db s1)) (ei_identity_id i) = None"
    and db2: "db_identities (pg_db s2) = dict_set (ei_identity_id i) (identity_row i) (db_identities (pg_db s1))"
    "db_observations (pg_db s2) = db_observations (pg_db s1)" "db_sequences (pg_db s2) = db_sequences (pg_db s1)"
    and endpoint: "dict_get (db_endpoints (pg_db s2)) (ep_endpoint_id e) = Some (stored_endpoint e)"
    and loads: "times_load (endpoint_times (stored_endpoint e))" "times_load (identity_times (identity_row i))"
    by (rule plan_begins [OF s1(1-3) assms(4) s1(4-6) fp])
  let ?k = "ei_identity_id i"
  have row: "dict_get (db_identities (pg_db s2)) ?k = Some (identity_row i)" "ei_status (identity_row i) = PENDING"
    using i(1) db2(1) by simp_all
  have none: "times_load (certificate_times (identity_row i))"
    by (simp add: certificate_times_def identity_row_def EndpointIdentity.extend_def IdentityRow.fields_def)
  have cert: "\<forall>x\<in>set (dict_values (db_identities (pg_db s2))).
      \<not> (ir_certificate_issuer x = Some (pl_issuer p) \<and> ir_certificate_serial x = Some (pl_serial p))"
    using assms(5) db1(1) i(4) by (auto simp: db2(1) unclaimed_def dict_set_new)
  obtain j s3 where issue: "record_issued_endpoint_identity ?k (pl_serial p) (pl_issuer p) (pl_not_before p)
      (pl_not_after p) (pl_issued p) (pl_service p) s2 = (Inr j, s3)"
    and s3: "pg_reachable s3" "\<not> pg_shutting_down s3" "fresh_draws 3 s3"
    and db3: "dict_get (db_identities (pg_db s3)) ?k =
       Some (issued_row (pl_serial p) (pl_issuer p) (pl_not_before p) (pl_not_after p) (identity_row i))"
    "db_observations (pg_db s3) = db_observations (pg_db s2)" "db_sequences (pg_db s3) = db_sequences (pg_db s2)"
    "db_endpoints (pg_db s3) = db_endpoints (pg_db s2)"
    by (rule plan_issues [OF s2 assms(4) row loads(2) none cert])
  have unused: "or_identity_id x \<noteq> ?k" if "x \<in> set (db_observations (pg_db s1))" for x
    using pg_reachable_inv [OF s1(1)] that i(4) by (auto simp: db_inv_def db_history_def accounted_def)
  have "db_marks (pg_db s1)"
    using pg_reachable_inv [OF s1(1)] by (simp add: db_inv_def)
  have mark: "dict_get (db_sequences (pg_db s3)) (?k, b) = None" for b
  proof (cases "dict_get (db_sequences (pg_db s1)) (?k, b)")
    case (Some n)
    with \<open>db_marks (pg_db s1)\<close> obtain x where "x \<in> set (db_observations (pg_db s1))" "or_identity_id x = ?k"
      unfolding db_marks_def by metis
    with unused show ?thesis
      by simp
  qed (simp add: db2 db3)
  define r where "r = issued_row (pl_serial p) (pl_issuer p) (pl_not_before p) (pl_not_after p) (identity_row i)"
  have sel: "ei_status r = ISSUED" "ei_endpoint_id r = ep_endpoint_id e" "instant (ei_created_at r) \<le> instant (pl_heartbeat p)"
    "times_load (identity_times r)"
    using i assms(4) loads(2) by (simp_all add: r_def issued_row_def valid_plan_def identity_times_def)
  have current: "dict_get (db_endpoints (pg_db s3)) (ei_endpoint_id r) = Some (stored_endpoint e)"
    using endpoint db3(4) sel(2) by simp
  have obs: "db_observations (pg_db s3) = db_observations (pg_db s)" "db_observations (pg_db s1) = db_observations (pg_db s)"
    by (simp_all add: db1 db2 db3)
  have "\<exists>ob s4 st. pg_ingest_heartbeat ?k m (pl_heartbeat p) d s3 = (Inr ob, s4) \<and>
          fst (pg_endpoint_status (ep_endpoint_id e) (pl_heartbeat p) None s4) = Inr st \<and>
          es_lifecycle st = ACTIVE \<and> es_health st = ONLINE"
    if m: "envelope_ok (hm_envelope m)" "me_endpoint_id (hm_envelope m) = ep_endpoint_id e"
       "instant (me_created_at (hm_envelope m)) \<le> instant (pl_heartbeat p) + MAX_CLOCK_SKEW"
       "instant (pl_heartbeat p) < instant (me_expires_at (hm_envelope m))" "pred_option is_sha256 d"
       "me_message_id (hm_envelope m) \<notin> ob_message_id ` set (db_observations (pg_db s))" for m d
  proof -
    have "\<forall>x\<in>set (db_observations (pg_db s3)). ob_message_id x \<noteq> me_message_id (hm_envelope m)"
      "\<forall>x\<in>set (db_observations (pg_db s3)). or_identity_id x \<noteq> ?k"
      using m(6) unused unfolding obs by (metis imageI)+
    from this mark show ?thesis
      using plan_activates [OF s3 assms(4) db3(1) [folded r_def] sel(1,3,4) current loads(1) m(1) _ m(3-5),
          unfolded sel(2), OF m(2)]
      by metis
  qed
  with grant start issue show ?thesis
    by blast
qed

end
