(* ===== verification/Store_Agreement.thy ===== *)
theory Store_Agreement
  imports Persistence_Properties
begin

text \<open>
  The two control planes implement one contract.  \<open>agree\<close> relates a state of the in-memory control plane
  to a state of the database: the same endpoints, identities, sequence marks and message identifiers, with
  times compared as instants, and the rows of endpoints and identities can be loaded.  Related states
  accept the same new messages, remain related, and show the same status of every endpoint.  They differ
  in one point: a message sent again, byte for byte, is acknowledged by the database and refused by the
  in-memory control plane.
\<close>


section \<open>The relation\<close>

definition endpoint_view :: "Endpoint \<Rightarrow> string \<times> Platform \<times> string \<times> uuid \<times> int option \<times> int option" where
  "endpoint_view e = (ep_display_name e, ep_platform e, ep_architecture e, ep_identity_id e,
     map_option instant (ep_last_receipt_at e), map_option instant (ep_last_heartbeat_at e))"

definition identity_view :: "'a EndpointIdentity_scheme \<Rightarrow> uuid \<times> string \<times> EndpointLifecycle" where
  "identity_view i = (ei_endpoint_id i, ei_public_key_fingerprint i, ei_status i)"

definition agree :: "ControlPlane \<Rightarrow> PostgresControlPlane \<Rightarrow> bool" where
  "agree c s \<longleftrightarrow>
     (\<forall>k. map_option endpoint_view (dict_get (cp_endpoints c) k) =
        map_option endpoint_view (dict_get (db_endpoints (pg_db s)) k)) \<and>
     (\<forall>k. map_option identity_view (dict_get (cp_identities c) k) =
        map_option identity_view (dict_get (db_identities (pg_db s)) k)) \<and>
     (\<forall>k. dict_get (cp_last_sequences c) k = dict_get (db_sequences (pg_db s)) k) \<and>
     cp_seen_message_ids c = ob_message_id ` set (db_observations (pg_db s)) \<and>
     (\<forall>k r. dict_get (db_identities (pg_db s)) k = Some r \<longrightarrow>
        ei_status r \<in> {ACTIVE, REVOKED} \<and> times_load (identity_times r)) \<and>
     (\<forall>k e. dict_get (db_endpoints (pg_db s)) k = Some e \<longrightarrow> times_load (endpoint_times e))"

lemma agreeD:
  assumes "agree c s"
  shows "map_option endpoint_view (dict_get (cp_endpoints c) k) =
      map_option endpoint_view (dict_get (db_endpoints (pg_db s)) k)"
    and "map_option identity_view (dict_get (cp_identities c) k) =
      map_option identity_view (dict_get (db_identities (pg_db s)) k)"
    and "dict_get (cp_last_sequences c) j = dict_get (db_sequences (pg_db s)) j"
    and "cp_seen_message_ids c = ob_message_id ` set (db_observations (pg_db s))"
    and "dict_get (db_identities (pg_db s)) k = Some r \<Longrightarrow> ei_status r \<in> {ACTIVE, REVOKED}"
    and "dict_get (db_identities (pg_db s)) k = Some r \<Longrightarrow> times_load (identity_times r)"
    and "dict_get (db_endpoints (pg_db s)) k = Some e \<Longrightarrow> times_load (endpoint_times e)"
  using assms unfolding agree_def by blast+

lemma agree_logged:
  assumes "agree c s" "at_most_logged (pg_db s) (pg_db s')"
  shows "agree c s'"
  using assms(2) unfolding at_most_logged_def
proof (elim disjE exE)
  show ?thesis if eq: "pg_db s' = pg_db s"
    using assms(1) unfolding agree_def eq .
  show ?thesis if eq: "pg_db s' = log_row ev (pg_db s)" for ev
    using assms(1) unfolding agree_def eq log_row_sel .
qed

lemma agree_refused: "agree c s \<Longrightarrow> refused a t e c c' \<Longrightarrow> agree c' s"
  by (auto simp: agree_def refused_def)

lemma agree_endpoint:
  assumes "agree c s" "dict_get (cp_endpoints c) k = Some e"
  obtains e' where "dict_get (db_endpoints (pg_db s)) k = Some e'" "endpoint_view e' = endpoint_view e"
  using assms unfolding agree_def by (metis map_option_eq_Some)

lemma agree_identity:
  assumes "agree c s" "dict_get (cp_identities c) k = Some i"
  obtains r where "dict_get (db_identities (pg_db s)) k = Some r" "identity_view r = identity_view i"
  using assms unfolding agree_def by (metis map_option_eq_Some)

lemma agree_identity_None:
  "agree c s \<Longrightarrow> dict_get (cp_identities c) k = None \<longleftrightarrow> dict_get (db_identities (pg_db s)) k = None"
  unfolding agree_def by (metis map_option_is_None)


section \<open>The same messages\<close>

lemma agree_sequence:
  assumes "agree c s" "1 \<le> me_sequence env"
  shows "previous_sequence k (me_boot_id env) c < me_sequence env \<longleftrightarrow> sequence_new k env (pg_db s)"
  using assms(2) agreeD(3) [OF assms(1)] by (simp add: previous_sequence_def sequence_new_def split: option.splits)

text \<open>A message sent again: it is stored with the same encoded form, and its identity may still send.\<close>

definition acknowledged_retry :: "uuid \<Rightarrow> MessageEnvelope \<Rightarrow> string \<Rightarrow> string option \<Rightarrow> Database \<Rightarrow> bool" where
  "acknowledged_retry k env ty d db \<longleftrightarrow>
     (\<exists>r e x. ingest_authorized k r e env ty db \<and> x \<in> set (db_observations db) \<and>
        ob_message_id x = me_message_id env \<and> exact_retry k env d x)"

lemma agree_unseen:
  assumes "agree c s" "message_authorized k env t c" "x \<in> set (db_observations (pg_db s))"
  shows "ob_message_id x \<noteq> me_message_id env"
proof -
  have "me_message_id env \<notin> ob_message_id ` set (db_observations (pg_db s))"
    using assms(2) agreeD(4) [OF assms(1)] by (simp add: message_authorized_def)
  then show ?thesis
    using assms(3) by force
qed

lemma retry_not_authorized:
  "agree c s \<Longrightarrow> acknowledged_retry k env ty d (pg_db s) \<Longrightarrow> \<not> message_authorized k env t c"
  unfolding acknowledged_retry_def using agree_unseen by blast

lemma agree_admits:
  assumes "agree c s" "cp_inv c" "db_inv (pg_db s)" "envelope_ok env"
    and "is_aware t" "in_range (wall t + MAX_CLOCK_SKEW)"
  shows "ingest_admits k env ty t b d (pg_db s) \<longleftrightarrow> acknowledged_retry k env ty d (pg_db s) \<or>
    message_authorized k env t c \<and>
    (\<exists>e. dict_get (cp_endpoints c) (me_endpoint_id env) = Some e \<and> binding_ok b e)"
proof (cases "dict_get (cp_identities c) k")
  case None
  then have "dict_get (db_identities (pg_db s)) k = None"
    using agree_identity_None [OF assms(1)] by simp
  then have "\<not> ingest_authorized k r e env ty (pg_db s)" for r e
    by (auto simp: ingest_authorized_def select_identity_def)
  then show ?thesis
    using None by (auto simp: ingest_admits_def message_authorized_def acknowledged_retry_def)
next
  case (Some i)
  then obtain r where r: "dict_get (db_identities (pg_db s)) k = Some r" "identity_view r = identity_view i"
    by (rule agree_identity [OF assms(1)])
  obtain e where e: "dict_get (db_endpoints (pg_db s)) (ei_endpoint_id r) = Some e" "ep_identity_id e = k"
    using assms(3) r(1) unfolding db_inv_def db_linked_def by blast
  obtain e' where e': "dict_get (cp_endpoints c) (ei_endpoint_id i) = Some e'" "endpoint_view e' = endpoint_view e"
  proof -
    obtain x where x: "dict_get (cp_endpoints c) (ei_endpoint_id i) = Some x"
      using links_okD(2) [OF cp_invD(2) [OF assms(2)] Some] by blast
    then obtain y where "dict_get (db_endpoints (pg_db s)) (ei_endpoint_id i) = Some y" "endpoint_view y = endpoint_view x"
      by (rule agree_endpoint [OF assms(1)])
    then show thesis
      using that x e r(2) by (auto simp: identity_view_def)
  qed
  have ok: "identity_ok i" "identity_ok (EndpointIdentity.truncate r)" "ei_identity_id r = k"
    using links_okD(2) [OF cp_invD(2) [OF assms(2)] Some] assms(3) r(1)
    by (auto simp: db_inv_def db_rows_ok_def db_dicts_def keyed_def)
  have rev: "ei_revoked_at i = None \<longleftrightarrow> ei_status i \<noteq> REVOKED" "ei_revoked_at r = None \<longleftrightarrow> ei_status r \<noteq> REVOKED"
    using ok(1) revoked_iff [OF ok(2)] by (auto simp: EndpointIdentity_post_init_Inr split: option.splits)
  have status: "ei_status r \<in> {ACTIVE, REVOKED}" "ei_status r = ei_status i" "ei_endpoint_id r = ei_endpoint_id i"
    using agreeD(5) [OF assms(1) r(1)] r(2) by (simp_all add: identity_view_def)
  have sel: "select_identity k (pg_db s) = Some (r, e)" "is_current r e"
    using r(1) e ok(3) by (simp_all add: select_identity_def is_current_def)
  have auth: "ingest_authorized k x y env ty (pg_db s) \<longleftrightarrow>
      x = r \<and> y = e \<and> ei_revoked_at i = None \<and> me_endpoint_id env = ei_endpoint_id i" for x y
    using sel rev status agreeD(6) [OF assms(1) r(1)] by (auto simp: ingest_authorized_def)
  have bind: "binding_ok b e' \<longleftrightarrow> binding_ok b e"
    using e'(2) by (auto simp: binding_ok_def endpoint_view_def split: option.splits)
  have new: "(\<forall>x\<in>set (db_observations (pg_db s)). ob_message_id x \<noteq> me_message_id env) \<longleftrightarrow>
      me_message_id env \<notin> cp_seen_message_ids c"
    unfolding agreeD(4) [OF assms(1)] by force
  have seq: "previous_sequence k (me_boot_id env) c < me_sequence env \<longleftrightarrow> sequence_new k env (pg_db s)"
    using agree_sequence [OF assms(1)] assms(4) by (simp add: MessageEnvelope_post_init_Inr)
  have "ei_status r \<noteq> ISSUED"
    using status(1) by auto
  then show ?thesis
    using Some e' bind new seq assms(5,6)
    by (auto simp: ingest_admits_def auth acknowledged_retry_def message_authorized_def)
qed

lemma view_touch:
  assumes "endpoint_view e' = endpoint_view e" "ob_observation_type ob' = ob_observation_type ob"
    "instant (ob_received_at ob') = instant (ob_received_at ob)"
  shows "endpoint_view (touch_row (ob_observation_type ob' = ''heartbeat'') (ob_received_at ob') e') =
    endpoint_view (touch ob e)"
proof -
  have "instant (pg_greatest v (ob_received_at ob')) = instant (latest (ob_received_at ob) w)"
    if "map_option instant v = map_option instant w" for v w
    using that assms(3) by (cases v; cases w) (simp_all add: pg_greatest_def latest_def max.commute)
  then show ?thesis
    using assms by (auto simp: endpoint_view_def touch_row_def touch_def)
qed

lemma agree_ingested:
  assumes "agree c s" "dict_get (db_identities (pg_db s)) k = Some r" "ei_status r \<noteq> ISSUED"
    and "ei_endpoint_id r = ep_endpoint_id e" "endpoint_view e' = endpoint_view e"
    and "ob_message_id ob' = ob_message_id ob" "ob_boot_id ob' = ob_boot_id ob" "ob_sequence ob' = ob_sequence ob"
    and "ob_observation_type ob' = ob_observation_type ob" "instant (ob_received_at ob') = instant (ob_received_at ob)"
    and "in_range (instant (ob_received_at ob'))" "dict_get (db_endpoints (pg_db s)) (ei_endpoint_id r) = Some e'"
    and db: "pg_db s' = (ingest_rows k r e' ob' (pg_db s))\<lparr>db_audit_events := evs\<rparr>"
  shows "agree (ingested k ob (touch ob e) ev c) s'"
proof -
  have "map_option endpoint_view (dict_get (cp_endpoints (ingested k ob (touch ob e) ev c)) j) =
      map_option endpoint_view (dict_get (db_endpoints (pg_db s')) j)" for j
    using agreeD(1) [OF assms(1), of j] assms(4) view_touch [OF assms(5,9,10)] by (simp add: db)
  moreover have "map_option identity_view (dict_get (cp_identities (ingested k ob (touch ob e) ev c)) j) =
      map_option identity_view (dict_get (db_identities (pg_db s')) j)" for j
    using agreeD(2) [OF assms(1), of j] assms(3) by (simp add: db)
  moreover have "dict_get (cp_last_sequences (ingested k ob (touch ob e) ev c)) j = dict_get (db_sequences (pg_db s')) j" for j
    using agreeD(3) [OF assms(1), of j] assms(7,8) by (simp add: db)
  moreover have "cp_seen_message_ids (ingested k ob (touch ob e) ev c) = ob_message_id ` set (db_observations (pg_db s'))"
    using agreeD(4) [OF assms(1)] assms(6) by (simp add: db)
  moreover have "ei_status x \<in> {ACTIVE, REVOKED}" if "dict_get (db_identities (pg_db s')) j = Some x" for j x
    using agreeD(5) [OF assms(1), of j x] that assms(3) by (simp add: db)
  moreover have "times_load (identity_times x)" if "dict_get (db_identities (pg_db s')) j = Some x" for j x
    using agreeD(6) [OF assms(1), of j x] that assms(3) by (simp add: db)
  moreover have "times_load (endpoint_times x)" if "dict_get (db_endpoints (pg_db s')) j = Some x" for j x
    using agreeD(7) [OF assms(1), of j x] that touch_loads [OF agreeD(7) [OF assms(1,12)] assms(11)]
    by (auto simp: db split: if_splits)
  ultimately show ?thesis
    unfolding agree_def by blast
qed

lemma agree_new:
  assumes "agree c s" "cp_inv c" "db_inv (pg_db s)" "new_observation k i e ob c" "select_identity k (pg_db s) = Some (r, e')"
  shows "ei_endpoint_id r = ep_endpoint_id e" "endpoint_view e' = endpoint_view e" "ei_status r \<noteq> ISSUED"
    "dict_get (db_identities (pg_db s)) k = Some r" "dict_get (db_endpoints (pg_db s)) (ei_endpoint_id r) = Some e'"
proof -
  have new: "dict_get (cp_identities c) k = Some i" "dict_get (cp_endpoints c) (ei_endpoint_id i) = Some e"
    using assms(4) by (simp_all add: new_observation_def)
  show r: "dict_get (db_identities (pg_db s)) k = Some r"
    using select_identityD [OF assms(5)] by simp
  show e': "dict_get (db_endpoints (pg_db s)) (ei_endpoint_id r) = Some e'"
    using select_identityD [OF assms(5)] by simp
  have view: "ei_endpoint_id r = ei_endpoint_id i"
    using agreeD(2) [OF assms(1), of k] new(1) r by (simp add: identity_view_def)
  then show "endpoint_view e' = endpoint_view e"
    using agreeD(1) [OF assms(1), of "ei_endpoint_id i"] new(2) e' by simp
  show "ei_endpoint_id r = ep_endpoint_id e"
    using view links_okD(1) [OF cp_invD(2) [OF assms(2)] new(2)] by simp
  show "ei_status r \<noteq> ISSUED"
    using agreeD(5) [OF assms(1) r] by auto
qed

section \<open>The simulation\<close>

lemma retry_acknowledged:
  fixes s :: PostgresControlPlane
  assumes "acknowledged_retry k env ty d (pg_db s)" "serving 3 t s" "ty \<in> {''heartbeat'', ''inventory''}"
  shows "is_ok (fst (pg_ingest k env ty sv pd t b d s)) \<and>
    at_most_logged (pg_db s) (pg_db (snd (pg_ingest k env ty sv pd t b d s)))"
proof -
  obtain r e x where x: "ingest_authorized k r e env ty (pg_db s)" "x \<in> set (db_observations (pg_db s))"
    "ob_message_id x = me_message_id env" "exact_retry k env d x"
    using assms(1) unfolding acknowledged_retry_def by blast
  have s: "db_inv (pg_db s)" "\<not> pg_shutting_down s" "is_aware t" "in_range (instant t)" "fresh_draws 1 s"
    using assms(2) by (auto simp: serving_def intro: pg_reachable_inv fresh_draws_mono)
  obtain ob ev s' where "ingest_transaction k env ty sv pd (utc (instant t)) b d s = (Inr (None, Some ob), s')"
    "pg_db s' = log_row ev (pg_db s)"
    using ingest_acknowledges [OF s(1) x(1) assms(3) x(2-4) s(5), of sv pd "utc (instant t)" b] by auto
  then have "pg_ingest k env ty sv pd t b d s = (Inr ob, s')" "at_most_logged (pg_db s) (pg_db s')"
    using s by (auto simp: pg_ingest_Inr at_most_logged_def)
  then show ?thesis
    by simp
qed

lemma simulate_heartbeat:
  assumes "agree c s" "cp_reachable c" "serving 3 t s" "in_range (wall t + MAX_CLOCK_SKEW)"
    "in_range (instant t + MAX_CLOCK_SKEW)" "envelope_ok (hm_envelope m)" "pred_option is_sha256 d"
  shows "(is_ok (fst (pg_ingest_heartbeat k m t d s)) \<longleftrightarrow>
      is_ok (fst (ingest_heartbeat k m t c)) \<or> acknowledged_retry k (hm_envelope m) ''heartbeat'' d (pg_db s)) \<and>
    (acknowledged_retry k (hm_envelope m) ''heartbeat'' d (pg_db s) \<longrightarrow> \<not> is_ok (fst (ingest_heartbeat k m t c))) \<and>
    agree (snd (ingest_heartbeat k m t c)) (snd (pg_ingest_heartbeat k m t d s))"
proof -
  have inv: "cp_inv c" "db_inv (pg_db s)" and t: "is_aware t" "in_range (instant t)"
    using assms(2,3) by (auto simp: serving_def intro: pg_reachable_inv cp_reachable_inv)
  note admits = agree_admits [OF assms(1) inv assms(6) t(1) assms(4)]
  show ?thesis
  proof (cases "message_authorized k (hm_envelope m) t c")
    case True
    then have no_retry: "\<not> acknowledged_retry k (hm_envelope m) ''heartbeat'' d (pg_db s)"
      using retry_not_authorized [OF assms(1)] by blast
    have unseen: "ob_message_id x \<noteq> me_message_id (hm_envelope m)" if "x \<in> set (db_observations (pg_db s))" for x
      using True that agree_unseen [OF assms(1)] by blast
    from True obtain i e ob where mem: "ob = heartbeat_observation (rng_seq c (rng_pos c)) i m t" "new_observation k i e ob c"
      "ingest_heartbeat k m t c = (Inr ob, ingested k ob (touch ob e)
          (acceptance (rng_seq c (Suc (rng_pos c))) i ob (me_correlation_id (hm_envelope m))) c)"
      using ingest_heartbeat_accepts [OF inv(1) assms(6)] by metis
    have "ingest_admits k (hm_envelope m) ''heartbeat'' t None d (pg_db s)"
      using True mem(2) by (auto simp: admits message_authorized_def new_observation_def binding_ok_def)
    then obtain r e' ob' evs s' where pg: "select_identity k (pg_db s) = Some (r, e')"
      "ob' = new_row_observation (rng_seq s (rng_pos s)) (EndpointIdentity.truncate r) (hm_envelope m) ''heartbeat'' 1
        (heartbeat_digest (hm_payload m)) (utc (instant t)) d"
      "pg_ingest_heartbeat k m t d s = (Inr ob', s')"
      "pg_db s' = (ingest_rows k r e' ob' (pg_db s))\<lparr>db_audit_events := evs\<rparr>"
      unfolding pg_ingest_heartbeat_def
      using pg_ingest_new [OF inv(2) _ assms(5) _ _ assms(6), of "''heartbeat''" "heartbeat_digest (hm_payload m)" d k None "1"]
        assms(3,7) unseen by (auto simp: serving_def)
    note new = agree_new [OF assms(1) inv mem(2) pg(1)]
    have "agree (ingested k ob (touch ob e) (acceptance (rng_seq c (Suc (rng_pos c))) i ob
        (me_correlation_id (hm_envelope m))) c) s'"
      by (rule agree_ingested [OF assms(1) new(4,3,1,2) _ _ _ _ _ _ new(5) pg(4)]) (simp_all add: pg(2) mem(1) t(2))
    then show ?thesis
      using no_retry by (simp add: mem(3) pg(3))
  next
    case False
    then obtain e c' where c': "ingest_heartbeat k m t c = (Inl e, c')" "refused ''heartbeat.ingest'' t e c c'"
      using ingest_heartbeat_refuses by metis
    have pg: "(is_ok (fst (pg_ingest_heartbeat k m t d s)) \<longleftrightarrow> acknowledged_retry k (hm_envelope m) ''heartbeat'' d (pg_db s)) \<and>
        at_most_logged (pg_db s) (pg_db (snd (pg_ingest_heartbeat k m t d s)))"
    proof (cases "acknowledged_retry k (hm_envelope m) ''heartbeat'' d (pg_db s)")
      case True
      then show ?thesis
        using retry_acknowledged [OF True assms(3)] by (simp add: pg_ingest_heartbeat_def)
    next
      case fresh: False
      then have "\<not> ingest_admits k (hm_envelope m) ''heartbeat'' t None d (pg_db s)"
        using False by (auto simp: admits message_authorized_def new_observation_def binding_ok_def)
      then show ?thesis
        using not_admitted_refused [OF inv(2), of "''heartbeat''"] fresh by (simp add: pg_ingest_heartbeat_def)
    qed
    then show ?thesis
      using c' agree_logged [OF agree_refused [OF assms(1) c'(2)]] by simp
  qed
qed

lemma simulate_inventory:
  assumes "agree c s" "cp_reachable c" "serving 3 t s" "in_range (wall t + MAX_CLOCK_SKEW)"
    "in_range (instant t + MAX_CLOCK_SKEW)" "envelope_ok (im_envelope n)" "pred_option is_sha256 d"
  shows "(is_ok (fst (pg_ingest_inventory k n t d s)) \<longleftrightarrow>
      is_ok (fst (ingest_inventory k n t c)) \<or> acknowledged_retry k (im_envelope n) ''inventory'' d (pg_db s)) \<and>
    (acknowledged_retry k (im_envelope n) ''inventory'' d (pg_db s) \<longrightarrow> \<not> is_ok (fst (ingest_inventory k n t c))) \<and>
    agree (snd (ingest_inventory k n t c)) (snd (pg_ingest_inventory k n t d s))"
proof -
  have inv: "cp_inv c" "db_inv (pg_db s)" and t: "is_aware t" "in_range (instant t)"
    using assms(2,3) by (auto simp: serving_def intro: pg_reachable_inv cp_reachable_inv)
  note admits = agree_admits [OF assms(1) inv assms(6) t(1) assms(4)]
  let ?b = "Some (ip_platform (im_payload n), ip_architecture (im_payload n))"
  have binding: "(\<exists>e. dict_get (cp_endpoints c) (me_endpoint_id (im_envelope n)) = Some e \<and> binding_ok ?b e) \<longleftrightarrow>
      inventory_bound (me_endpoint_id (im_envelope n)) (im_payload n) c"
    by (auto simp: inventory_bound_def binding_ok_def split: option.splits)
  show ?thesis
  proof (cases "message_authorized k (im_envelope n) t c \<and>
      inventory_bound (me_endpoint_id (im_envelope n)) (im_payload n) c")
    case True
    then have no_retry: "\<not> acknowledged_retry k (im_envelope n) ''inventory'' d (pg_db s)"
      using retry_not_authorized [OF assms(1)] by blast
    have unseen: "ob_message_id x \<noteq> me_message_id (im_envelope n)" if "x \<in> set (db_observations (pg_db s))" for x
      using True that agree_unseen [OF assms(1)] by blast
    from True obtain i e ob where mem: "ob = inventory_observation (rng_seq c (rng_pos c)) i n t" "new_observation k i e ob c"
      "ingest_inventory k n t c = (Inr ob, ingested k ob (touch ob e)
          (acceptance (rng_seq c (Suc (rng_pos c))) i ob (me_correlation_id (im_envelope n))) c)"
      using ingest_inventory_accepts [OF inv(1) assms(6)] by metis
    have "ingest_admits k (im_envelope n) ''inventory'' t ?b d (pg_db s)"
      using True mem(2) by (auto simp: admits binding)
    then obtain r e' ob' evs s' where pg: "select_identity k (pg_db s) = Some (r, e')"
      "ob' = new_row_observation (rng_seq s (rng_pos s)) (EndpointIdentity.truncate r) (im_envelope n) ''inventory''
        (ip_schema_version (im_payload n))
        (inventory_digest (im_payload n)) (utc (instant t)) d"
      "pg_ingest_inventory k n t d s = (Inr ob', s')"
      "pg_db s' = (ingest_rows k r e' ob' (pg_db s))\<lparr>db_audit_events := evs\<rparr>"
      unfolding pg_ingest_inventory_def
      using pg_ingest_new [OF inv(2) _ assms(5) _ _ assms(6), of "''inventory''" "inventory_digest (im_payload n)" d k ?b "ip_schema_version (im_payload n)"]
        assms(3,7) unseen by (auto simp: serving_def)
    note new = agree_new [OF assms(1) inv mem(2) pg(1)]
    have "agree (ingested k ob (touch ob e) (acceptance (rng_seq c (Suc (rng_pos c))) i ob
        (me_correlation_id (im_envelope n))) c) s'"
      by (rule agree_ingested [OF assms(1) new(4,3,1,2) _ _ _ _ _ _ new(5) pg(4)]) (simp_all add: pg(2) mem(1) t(2))
    then show ?thesis
      using no_retry by (simp add: mem(3) pg(3))
  next
    case False
    then obtain e c' where c': "ingest_inventory k n t c = (Inl e, c')" "refused ''inventory.ingest'' t e c c'"
      using ingest_inventory_refuses [OF inv(1)] by metis
    have pg: "(is_ok (fst (pg_ingest_inventory k n t d s)) \<longleftrightarrow> acknowledged_retry k (im_envelope n) ''inventory'' d (pg_db s)) \<and>
        at_most_logged (pg_db s) (pg_db (snd (pg_ingest_inventory k n t d s)))"
    proof (cases "acknowledged_retry k (im_envelope n) ''inventory'' d (pg_db s)")
      case True
      then show ?thesis
        using retry_acknowledged [OF True assms(3)] by (simp add: pg_ingest_inventory_def)
    next
      case fresh: False
      then have "\<not> ingest_admits k (im_envelope n) ''inventory'' t ?b d (pg_db s)"
        using False by (auto simp: admits binding)
      then show ?thesis
        using not_admitted_refused [OF inv(2), of "''inventory''"] fresh by (simp add: pg_ingest_inventory_def)
    qed
    then show ?thesis
      using c' agree_logged [OF agree_refused [OF assms(1) c'(2)]] by simp
  qed
qed

text \<open>
  C18: the database and the in-memory control plane accept the same messages, but for retries.  Given
  related states, a server time whose clock-skew window stays within the years 1 to 9999, and a database
  that is running and whose next identifiers are unused, a heartbeat is accepted by the database if and
  only if the in-memory control plane accepts it or it is an exact retry of a stored message; such a
  retry, which the database acknowledges, the in-memory control plane refuses.  Whatever the outcome, the
  states after it are related again.  The same holds of an inventory.  The digest of the encoded message
  may be absent, in which case nothing is a retry.
\<close>

theorem stores_simulate:
  assumes "agree c s" "cp_reachable c" "serving 3 t s" "in_range (wall t + MAX_CLOCK_SKEW)"
    "in_range (instant t + MAX_CLOCK_SKEW)" "envelope_ok (hm_envelope m)" "envelope_ok (im_envelope n)"
    "pred_option is_sha256 d"
  shows "(is_ok (fst (pg_ingest_heartbeat k m t d s)) \<longleftrightarrow>
      is_ok (fst (ingest_heartbeat k m t c)) \<or> acknowledged_retry k (hm_envelope m) ''heartbeat'' d (pg_db s)) \<and>
    (acknowledged_retry k (hm_envelope m) ''heartbeat'' d (pg_db s) \<longrightarrow> \<not> is_ok (fst (ingest_heartbeat k m t c))) \<and>
    agree (snd (ingest_heartbeat k m t c)) (snd (pg_ingest_heartbeat k m t d s)) \<and>
    (is_ok (fst (pg_ingest_inventory k n t d s)) \<longleftrightarrow>
      is_ok (fst (ingest_inventory k n t c)) \<or> acknowledged_retry k (im_envelope n) ''inventory'' d (pg_db s)) \<and>
    (acknowledged_retry k (im_envelope n) ''inventory'' d (pg_db s) \<longrightarrow> \<not> is_ok (fst (ingest_inventory k n t c))) \<and>
    agree (snd (ingest_inventory k n t c)) (snd (pg_ingest_inventory k n t d s))"
  using simulate_heartbeat [OF assms(1-6,8)] simulate_inventory [OF assms(1-5,7,8)] by blast

text \<open>
  C19: related states show the same status: the lifecycle, health and last heartbeat that the two control
  planes report for an endpoint agree, and one reports that there is no such endpoint if the other does.
\<close>

theorem stores_same_status:
  assumes "agree c s" "cp_reachable c" "pg_reachable s" "\<not> pg_shutting_down s" "is_aware now"
  shows "case (endpoint_status k now p c, fst (pg_endpoint_status k now p s)) of
      (Inr a, Inr b) \<Rightarrow> es_lifecycle a = es_lifecycle b \<and> es_health a = es_health b \<and>
        map_option instant (es_last_heartbeat_at a) = map_option instant (es_last_heartbeat_at b)
    | (Inl a, Inl b) \<Rightarrow> a = b
    | _ \<Rightarrow> False"
proof -
  have inv: "cp_inv c" "db_inv (pg_db s)"
    using assms(2,3) by (auto intro: pg_reachable_inv cp_reachable_inv)
  show ?thesis
  proof (cases "dict_get (cp_endpoints c) k")
    case None
    then have "dict_get (db_endpoints (pg_db s)) k = None"
      using agreeD(1) [OF assms(1), of k] by simp
    with None show ?thesis
      using assms(4,5)
      by (simp add: endpoint_status_def get_endpoint_def pg_endpoint_status_def pg_get_endpoint_def op_simps
          require_aware_aware transaction_read)
  next
    case (Some e)
    then obtain e' where e': "dict_get (db_endpoints (pg_db s)) k = Some e'" "endpoint_view e' = endpoint_view e"
      by (rule agree_endpoint [OF assms(1)])
    obtain i where i: "dict_get (cp_identities c) (ep_identity_id e) = Some i"
      using links_okD(1) [OF cp_invD(2) [OF inv(1)] Some] by blast
    then obtain r where r: "dict_get (db_identities (pg_db s)) (ep_identity_id e) = Some r" "identity_view r = identity_view i"
      by (rule agree_identity [OF assms(1)])
    have ok: "endpoint_from_row e' = Inr e'" "identity_from_row r = Inr (EndpointIdentity.truncate r)"
      using rows_read(1,2) [OF inv(2)] e'(1) r(1) agreeD(6) [OF assms(1) r(1)] agreeD(7) [OF assms(1) e'(1)]
      by (simp_all del: map_of_eq_Some_iff)
    have "derive_health (ep_last_heartbeat_at e) now q = derive_health (ep_last_heartbeat_at e') now q" for q
      using e'(2)
      by (cases "ep_last_heartbeat_at e"; cases "ep_last_heartbeat_at e'")
         (simp_all add: endpoint_view_def derive_health_def)
    then show ?thesis
      using Some e' i r ok assms(4,5)
      by (simp add: endpoint_status_def get_endpoint_def get_identity_def pg_endpoint_status_def pg_get_endpoint_def
          pg_get_identity_def op_simps require_aware_aware transaction_read Let_def ei_lifecycle_def
          endpoint_view_def identity_view_def)
  qed
qed

end
