(* ===== verification/Persistence_Example.thy ===== *)
theory Persistence_Example
  imports Store_Agreement
begin

text \<open>
  A concrete run of the PostgreSQL control plane, from an empty database over a grant, its exchange, the
  certificate and the first messages to the revocation, and the properties of the control plane on it.
\<close>


section \<open>The run\<close>

definition example_token :: string where
  "example_token = GRANT_NAMESPACE @ replicate 43 (CHR ''a'')"

definition example_plan :: enrollment_plan where
  "example_plan = \<lparr>pl_name = ''desk'', pl_operator = ''operator'', pl_service = ''enrollment'',
     pl_fingerprint = example_fingerprint, pl_serial = ''1a'', pl_issuer = ''ca'',
     pl_granted = example_time 0, pl_ttl = seconds 60, pl_begun = example_time 2, pl_issued = example_time 2,
     pl_not_before = example_time 0, pl_not_after = example_time 90, pl_heartbeat = example_time 3\<rparr>"

definition example_pg :: PostgresControlPlane where
  "example_pg = \<lparr>rng_seq = example_ids, rng_pos = 0, pg_db = empty_database, pg_shutting_down = False,
     pg_token_seq = (\<lambda>_. replicate 43 (CHR ''a'')), pg_token_pos = 0\<rparr>"

definition example_granted :: PostgresControlPlane where
  "example_granted = snd (create_enrollment_grant ''desk'' LINUX ''amd64'' (example_time 0) ''operator'' (seconds 60) example_pg)"

definition example_begun :: PostgresControlPlane where
  "example_begun = snd (begin_endpoint_enrollment example_token example_fingerprint (example_time 2) ''enrollment'' example_granted)"

definition example_issued :: PostgresControlPlane where
  "example_issued = snd (record_issued_endpoint_identity 6 ''1a'' ''ca'' (example_time 0) (example_time 90)
     (example_time 2) ''enrollment'' example_begun)"

definition pg_heartbeat :: HeartbeatMessage where
  "pg_heartbeat = example_heartbeat\<lparr>hm_envelope := (example_envelope 100 1)\<lparr>me_endpoint_id := 5\<rparr>\<rparr>"

definition pg_inventory :: InventoryMessage where
  "pg_inventory = example_inventory\<lparr>im_envelope := (example_envelope 101 2)\<lparr>me_endpoint_id := 5\<rparr>\<rparr>"

definition example_digest :: string where
  "example_digest = replicate 64 (CHR ''b'')"

definition example_active :: PostgresControlPlane where
  "example_active = snd (pg_ingest_heartbeat 6 pg_heartbeat (example_time 3) (Some example_digest) example_issued)"

definition example_reported :: PostgresControlPlane where
  "example_reported = snd (pg_ingest_inventory 6 pg_inventory (example_time 4) None example_active)"

definition example_withdrawn :: PostgresControlPlane where
  "example_withdrawn = snd (pg_revoke_identity 6 ''lost'' ''operator'' (example_time 5) (Some 9) example_reported)"

lemma example_plan_sel [simp]:
  "pl_name example_plan = ''desk''" "pl_operator example_plan = ''operator''" "pl_service example_plan = ''enrollment''"
  "pl_fingerprint example_plan = example_fingerprint" "pl_serial example_plan = ''1a''" "pl_issuer example_plan = ''ca''"
  "pl_granted example_plan = example_time 0" "pl_ttl example_plan = seconds 60" "pl_begun example_plan = example_time 2"
  "pl_issued example_plan = example_time 2" "pl_not_before example_plan = example_time 0"
  "pl_not_after example_plan = example_time 90" "pl_heartbeat example_plan = example_time 3"
  by (simp_all add: example_plan_def)

lemma example_instants [simp]: "0 \<le> n \<Longrightarrow> n \<le> 1000 \<Longrightarrow> in_range (hours 1000 + seconds n)"
  "0 \<le> n \<Longrightarrow> n \<le> 1000 \<Longrightarrow> in_range (hours 1000 + seconds n + MAX_CLOCK_SKEW)"
  by (simp_all add: in_range_def max_wall_def td_defs MAX_CLOCK_SKEW_def)

lemma example_plan_valid: "valid_plan example_plan"
  by (simp add: valid_plan_def bounded_text_def usable_time_def empty_or_longer_def is_certificate_serial_def
      is_lower_hex_def is_digit_def)
     (simp add: td_defs MAX_ENROLLMENT_GRANT_TTL_def MAX_ENDPOINT_CERTIFICATE_TTL_def in_range_def max_wall_def)

lemma example_digest_ok [simp]: "is_sha256 example_digest"
  by (simp add: example_digest_def is_sha256_def list_all_iff is_lower_hex_def is_digit_def)

lemma example_token_ok [simp]: "is_enrollment_token example_token"
  by (simp add: example_token_def is_enrollment_token_def GRANT_NAMESPACE_def startswith_def list_all_iff is_urlsafe_def
      is_digit_def)

lemma example_ids_eq [simp]: "m < 1000 \<Longrightarrow> n < 1000 \<Longrightarrow> example_ids m = example_ids n \<longleftrightarrow> m = n"
  by (simp add: example_ids_def word_of_nat_eq_iff take_bit_nat_eq_self)

lemma example_ids_numeral [simp]: "example_ids 0 = 1" "example_ids (Suc 0) = 2" "example_ids (Suc (Suc 0)) = 3"
  "example_ids (numeral n) = numeral (Num.inc n)"
  by (simp_all add: example_ids_def numeral_inc)

text \<open>Nothing stored uses an identifier that is still to be drawn.\<close>

definition tidy :: "PostgresControlPlane \<Rightarrow> bool" where
  "tidy s \<longleftrightarrow> rng_seq s = example_ids \<and> used_ids (pg_db s) \<subseteq> example_ids ` {..<rng_pos s} \<and> rng_pos s \<le> 100"

lemma tidy_fresh: "tidy s \<Longrightarrow> n \<le> 100 \<Longrightarrow> fresh_draws n s"
  unfolding tidy_def fresh_draws_def draws_def distinct_map inj_on_def by fastforce

lemma tidy_step:
  assumes "tidy s" "rng_seq s' = example_ids" "rng_pos s' = rng_pos s + n" "rng_pos s' \<le> 100"
    "used_ids (pg_db s') \<subseteq> used_ids (pg_db s) \<union> set (draws n s)"
  shows "tidy s'"
proof -
  have "set (draws n s) \<subseteq> example_ids ` {..<rng_pos s + n}"
    using assms(1) by (auto simp: tidy_def draws_def)
  moreover have "example_ids ` {..<rng_pos s} \<subseteq> example_ids ` {..<rng_pos s + n}"
    by (intro image_mono) auto
  ultimately show ?thesis
    using assms unfolding tidy_def by (auto 0 3)
qed

lemma example_pg_reachable: "pg_reachable example_pg"
  by (rule pg_reachable.init [of "''db''" 5 example_ids "\<lambda>_. replicate 43 (CHR ''a'')"])
     (simp add: PostgresControlPlane_init_def example_pg_def)

lemma example_pg_sel [simp]:
  "rng_seq example_pg = example_ids" "rng_pos example_pg = 0" "pg_db example_pg = empty_database"
  "\<not> pg_shutting_down example_pg" "GRANT_NAMESPACE @ pg_token_seq example_pg n = example_token"
  by (simp_all add: example_pg_def example_token_def)

lemma example_pg_tidy: "tidy example_pg"
  by (simp add: tidy_def used_ids_def empty_database_def)

definition example_grant :: EnrollmentGrant where
  "example_grant = grant_row example_token 1 ''desk'' (example_time 0) ''operator'' (seconds 60)"

lemma example_grant_sel [simp]:
  "eg_grant_id example_grant = 1" "eg_token_sha256 example_grant = sha256_hex example_token"
  "eg_consumed_at example_grant = None" "eg_display_name example_grant = ''desk''"
  "eg_created_at example_grant = example_time 0" "eg_expires_at example_grant = example_time 60"
  "eg_platform example_grant = LINUX" "eg_architecture example_grant = ''amd64''"
  by (simp_all add: example_grant_def grant_row_def example_time_def td_defs)

lemma example_granted_run:
  obtains ev where "create_enrollment_grant ''desk'' LINUX ''amd64'' (example_time 0) ''operator'' (seconds 60) example_pg =
    (Inr (example_grant, example_token), example_granted)"
   "example_granted = example_pg\<lparr>pg_token_pos := 1, rng_pos := 3,
      pg_db := log_row ev (empty_database\<lparr>db_grants := [(1, example_grant)]\<rparr>)\<rparr>" "au_event_id ev = 3"
proof -
  have "db_grants empty_database = []"
    by (simp add: empty_database_def)
  moreover have "in_range (hours 1000 + seconds 0 + seconds 60)"
    by (simp add: in_range_def max_wall_def td_defs)
  moreover have "0 < seconds 60" "seconds 60 \<le> MAX_ENROLLMENT_GRANT_TTL"
    by (simp_all add: td_defs limits)
  ultimately obtain ev where "create_enrollment_grant ''desk'' LINUX ''amd64'' (example_time 0) ''operator'' (seconds 60) example_pg =
    (Inr (example_grant, example_token), example_pg\<lparr>pg_token_pos := Suc (pg_token_pos example_pg), rng_pos := 3,
      pg_db := log_row ev (empty_database\<lparr>db_grants := [(1, example_grant)]\<rparr>)\<rparr>)" "au_event_id ev = 3"
    using create_enrollment_grant_runs [of "example_time 0" "seconds 60" "''desk''" "''operator''" example_pg]
      tidy_fresh [OF example_pg_tidy, of 3]
    by (auto simp: empty_or_longer_def example_grant_def grant_row_def)
  moreover have "pg_token_pos example_pg = 0"
    by (simp add: example_pg_def)
  ultimately show thesis
    using that by (auto simp: example_granted_def)
qed

lemma example_granted_facts:
  "pg_reachable example_granted" "tidy example_granted"
proof -
  obtain ev where ev: "example_granted = example_pg\<lparr>pg_token_pos := 1, rng_pos := 3,
      pg_db := log_row ev (empty_database\<lparr>db_grants := [(1, example_grant)]\<rparr>)\<rparr>" "au_event_id ev = 3"
    by (rule example_granted_run)
  show "pg_reachable example_granted"
    unfolding example_granted_def by (intro pg_reachable.step [OF example_pg_reachable] pg_step.grant)
  have "{..<3 :: nat} = {0, 1, 2}"
    by auto
  then show "tidy example_granted"
    unfolding ev(1) by (simp add: tidy_def ev(2)) (simp add: used_ids_def empty_database_def)
qed

lemma example_granted_sel [simp]:
  "rng_seq example_granted = example_ids" "rng_pos example_granted = 3" "\<not> pg_shutting_down example_granted"
  "db_grants (pg_db example_granted) = [(1, example_grant)]" "db_identities (pg_db example_granted) = []"
  "db_endpoints (pg_db example_granted) = []" "db_observations (pg_db example_granted) = []"
  "db_sequences (pg_db example_granted) = []"
proof -
  obtain ev where ev: "example_granted = example_pg\<lparr>pg_token_pos := 1, rng_pos := 3,
      pg_db := log_row ev (empty_database\<lparr>db_grants := [(1, example_grant)]\<rparr>)\<rparr>"
    by (rule example_granted_run)
  show "rng_seq example_granted = example_ids" "rng_pos example_granted = 3" "\<not> pg_shutting_down example_granted"
    "db_grants (pg_db example_granted) = [(1, example_grant)]" "db_identities (pg_db example_granted) = []"
    "db_endpoints (pg_db example_granted) = []" "db_observations (pg_db example_granted) = []"
    "db_sequences (pg_db example_granted) = []"
    unfolding ev by (simp_all add: empty_database_def)
qed

definition pg_endpoint :: Endpoint where
  "pg_endpoint = fst (new_pair example_grant example_fingerprint (example_time 2) PENDING 5 6)"

definition pg_identity :: EndpointIdentity where
  "pg_identity = snd (new_pair example_grant example_fingerprint (example_time 2) PENDING 5 6)"

lemma pg_endpoint_sel [simp]: "ep_endpoint_id pg_endpoint = 5" "ep_identity_id pg_endpoint = 6"
  "ep_platform pg_endpoint = LINUX" "ep_architecture pg_endpoint = ''amd64''"
  by (simp_all add: pg_endpoint_def new_pair_def)

lemma pg_identity_sel [simp]: "ei_endpoint_id pg_identity = 5" "ei_identity_id pg_identity = 6"
  "ei_public_key_fingerprint pg_identity = example_fingerprint" "ei_status pg_identity = PENDING"
  "ei_created_at pg_identity = example_time 2" "ei_revoked_at pg_identity = None"
  by (simp_all add: pg_identity_def new_pair_def example_time_def)

abbreviation used_grant :: EnrollmentGrant where
  "used_grant \<equiv> consumed_grant (utc (hours 1000 + seconds 2)) 6 example_grant"

lemma example_begun_run:
  obtains ev ev' where "begin_endpoint_enrollment example_token example_fingerprint (example_time 2) ''enrollment'' example_granted =
      (Inr (pg_endpoint, pg_identity), example_begun)"
    "example_begun = example_granted\<lparr>rng_pos := 8, pg_db := log_row ev' (log_row ev
        (exchange_rows example_grant (example_time 2) pg_endpoint pg_identity (pg_db example_granted)))\<rparr>"
    "au_event_id ev = 7" "au_event_id ev' = 8"
proof -
  have inv: "db_inv (pg_db example_granted)"
    by (rule pg_reachable_inv [OF example_granted_facts(1)])
  have pair: "new_pair example_grant example_fingerprint (example_time 2) PENDING
      (rng_seq example_granted (Suc (rng_pos example_granted)))
      (rng_seq example_granted (Suc (Suc (rng_pos example_granted)))) = (pg_endpoint, pg_identity)"
    by (simp add: pg_endpoint_def pg_identity_def example_ids_def)
  have "fresh_draws 5 example_granted"
    by (rule tidy_fresh [OF example_granted_facts(2)]) simp
  moreover have "hours 1000 + seconds 0 \<le> hours 1000 + seconds 2" "hours 1000 + seconds 2 < hours 1000 + seconds 60"
    by (simp_all add: td_defs)
  ultimately obtain ev ev' where run: "begin_endpoint_enrollment example_token example_fingerprint (example_time 2) ''enrollment'' example_granted =
      (Inr (pg_endpoint, pg_identity), example_granted\<lparr>rng_pos := 8, pg_db := log_row ev' (log_row ev
        (exchange_rows example_grant (example_time 2) pg_endpoint pg_identity (pg_db example_granted)))\<rparr>)"
    "au_event_id ev = 7" "au_event_id ev' = 8"
    using begin_endpoint_enrollment_runs [OF inv _ _ _ _ _ example_token_ok _ _ _ _ example_fingerprint_ok _ _ _ _ pair,
        of 1 "''enrollment''"]
    by (auto simp: empty_or_longer_def)
  then show thesis
    by (intro that [of ev' ev]) (simp_all add: example_begun_def)
qed

lemma example_begun_facts: "pg_reachable example_begun" "tidy example_begun"
proof -
  show "pg_reachable example_begun"
    unfolding example_begun_def by (intro pg_reachable.step [OF example_granted_facts(1)] pg_step.start)
  obtain ev ev' where run: "example_begun = example_granted\<lparr>rng_pos := 8, pg_db := log_row ev' (log_row ev
        (exchange_rows example_grant (example_time 2) pg_endpoint pg_identity (pg_db example_granted)))\<rparr>"
    "au_event_id ev = 7" "au_event_id ev' = 8"
    by (rule example_begun_run)
  have used: "used_ids (exchange_rows example_grant (example_time 2) pg_endpoint pg_identity (pg_db example_granted)) =
      {5, 6} \<union> used_ids (pg_db example_granted)"
    by (subst used_ids_exchange [of _ _ example_grant]) simp_all
  show "tidy example_begun"
    by (rule tidy_step [OF example_granted_facts(2), of _ 5]; unfold run(1))
       (auto simp: run used numeral_eq_Suc draws_Suc, simp_all add: example_ids_def)
qed

lemma example_begun_sel [simp]:
  "rng_seq example_begun = example_ids" "rng_pos example_begun = 8" "\<not> pg_shutting_down example_begun"
  "db_grants (pg_db example_begun) = [(1, used_grant)]" "db_identities (pg_db example_begun) = [(6, identity_row pg_identity)]"
  "db_endpoints (pg_db example_begun) = [(5, pg_endpoint)]" "db_observations (pg_db example_begun) = []"
  "db_sequences (pg_db example_begun) = []"
proof -
  obtain ev ev' where run: "example_begun = example_granted\<lparr>rng_pos := 8, pg_db := log_row ev' (log_row ev
        (exchange_rows example_grant (example_time 2) pg_endpoint pg_identity (pg_db example_granted)))\<rparr>"
    by (rule example_begun_run)
  have "stored_endpoint pg_endpoint = pg_endpoint"
    by (simp add: pg_endpoint_def new_pair_def stored_endpoint_def pg_timestamptz_def)
  then show "rng_seq example_begun = example_ids" "rng_pos example_begun = 8" "\<not> pg_shutting_down example_begun"
    "db_grants (pg_db example_begun) = [(1, used_grant)]" "db_identities (pg_db example_begun) = [(6, identity_row pg_identity)]"
    "db_endpoints (pg_db example_begun) = [(5, pg_endpoint)]" "db_observations (pg_db example_begun) = []"
    "db_sequences (pg_db example_begun) = []"
    unfolding run by (simp_all add: exchange_rows_def)
qed

definition issued_identity :: IdentityRow where
  "issued_identity = issued_row ''1a'' ''ca'' (example_time 0) (example_time 90) (identity_row pg_identity)"

lemma issued_identity_sel [simp]: "ei_endpoint_id issued_identity = 5" "ei_identity_id issued_identity = 6"
  "ei_public_key_fingerprint issued_identity = example_fingerprint" "ei_status issued_identity = ISSUED"
  "instant (ei_created_at issued_identity) = hours 1000 + seconds 2" "ei_revoked_at issued_identity = None"
  "ir_certificate_serial issued_identity = Some ''1a''" "ir_certificate_issuer issued_identity = Some ''ca''"
  by (simp_all add: issued_identity_def issued_row_def)

lemma example_loads [simp]:
  "times_load (identity_times (identity_row pg_identity))" "times_load (certificate_times (identity_row pg_identity))"
  "times_load (endpoint_times pg_endpoint)" "times_load (identity_times issued_identity)"
  "times_load (identity_times (activated_row t issued_identity))"
  by (simp_all add: issued_identity_def issued_row_def activated_row_def identity_times_def certificate_times_def
      endpoint_times_def pg_endpoint_def new_pair_def, simp_all add: identity_row_def EndpointIdentity.defs IdentityRow.defs
      pg_identity_def new_pair_def)

lemma example_issued_run:
  obtains ev where "record_issued_endpoint_identity 6 ''1a'' ''ca'' (example_time 0) (example_time 90) (example_time 2) ''enrollment''
      example_begun = (Inr (pg_identity\<lparr>ei_status := ISSUED\<rparr>), example_issued)"
    "example_issued = example_begun\<lparr>rng_pos := 10, pg_db := log_row ev
      ((pg_db example_begun)\<lparr>db_identities := [(6, issued_identity)]\<rparr>)\<rparr>" "au_event_id ev = 10"
proof -
  have inv: "db_inv (pg_db example_begun)"
    by (rule pg_reachable_inv [OF example_begun_facts(1)])
  have "fresh_draws 2 example_begun"
    by (rule tidy_fresh [OF example_begun_facts(2)]) simp
  moreover have "hours 1000 + seconds 0 \<le> hours 1000 + seconds 2" "hours 1000 + seconds 2 < hours 1000 + seconds 90"
    "hours 1000 + seconds 90 - (hours 1000 + seconds 0) \<le> MAX_ENDPOINT_CERTIFICATE_TTL"
    by (simp_all add: td_defs MAX_ENDPOINT_CERTIFICATE_TTL_def)
  moreover have "is_certificate_serial ''1a''"
    by (simp add: is_certificate_serial_def is_lower_hex_def is_digit_def)
  moreover have "EndpointIdentity.truncate (identity_row pg_identity) = pg_identity"
    by (simp add: identity_row_def EndpointIdentity.defs pg_identity_def new_pair_def pg_timestamptz_def)
  ultimately obtain ev where run: "record_issued_endpoint_identity 6 ''1a'' ''ca'' (example_time 0) (example_time 90)
      (example_time 2) ''enrollment'' example_begun = (Inr (pg_identity\<lparr>ei_status := ISSUED\<rparr>),
     example_begun\<lparr>rng_pos := 10, pg_db := log_row ev ((pg_db example_begun)\<lparr>db_identities := [(6, issued_identity)]\<rparr>)\<rparr>)"
    "au_event_id ev = 10"
    using record_issued_runs [OF inv, of 6 "identity_row pg_identity" "example_time 0" "example_time 90" "example_time 2"
        "''1a''" "''ca''" "''enrollment''"]
    by (auto simp: empty_or_longer_def issued_identity_def)
  then show thesis
    by (intro that [of ev]) (simp_all add: example_issued_def)
qed

lemma example_issued_facts: "pg_reachable example_issued" "tidy example_issued"
proof -
  show "pg_reachable example_issued"
    unfolding example_issued_def by (intro pg_reachable.step [OF example_begun_facts(1)] pg_step.issue)
  obtain ev where run: "example_issued = example_begun\<lparr>rng_pos := 10, pg_db := log_row ev
      ((pg_db example_begun)\<lparr>db_identities := [(6, issued_identity)]\<rparr>)\<rparr>" "au_event_id ev = 10"
    by (rule example_issued_run)
  have "used_ids ((pg_db example_begun)\<lparr>db_identities := [(6, issued_identity)]\<rparr>) = used_ids (pg_db example_begun)"
    by (simp add: used_ids_def)
  then show "tidy example_issued"
    by (intro tidy_step [OF example_begun_facts(2), of _ 2]; unfold run(1))
       (auto simp: run numeral_eq_Suc draws_Suc, simp_all add: example_ids_def)
qed

lemma example_issued_sel [simp]:
  "rng_seq example_issued = example_ids" "rng_pos example_issued = 10" "\<not> pg_shutting_down example_issued"
  "db_grants (pg_db example_issued) = [(1, used_grant)]" "db_identities (pg_db example_issued) = [(6, issued_identity)]"
  "db_endpoints (pg_db example_issued) = [(5, pg_endpoint)]" "db_observations (pg_db example_issued) = []"
  "db_sequences (pg_db example_issued) = []"
proof -
  obtain ev where run: "example_issued = example_begun\<lparr>rng_pos := 10, pg_db := log_row ev
      ((pg_db example_begun)\<lparr>db_identities := [(6, issued_identity)]\<rparr>)\<rparr>"
    by (rule example_issued_run)
  show "rng_seq example_issued = example_ids" "rng_pos example_issued = 10" "\<not> pg_shutting_down example_issued"
    "db_grants (pg_db example_issued) = [(1, used_grant)]" "db_identities (pg_db example_issued) = [(6, issued_identity)]"
    "db_endpoints (pg_db example_issued) = [(5, pg_endpoint)]" "db_observations (pg_db example_issued) = []"
    "db_sequences (pg_db example_issued) = []"
    unfolding run by simp_all
qed

lemma pg_message_sel [simp]:
  "hm_envelope pg_heartbeat = (example_envelope 100 1)\<lparr>me_endpoint_id := 5\<rparr>"
  "im_envelope pg_inventory = (example_envelope 101 2)\<lparr>me_endpoint_id := 5\<rparr>"
  "ip_platform (im_payload pg_inventory) = LINUX" "ip_architecture (im_payload pg_inventory) = ''amd64''"
  by (simp_all add: pg_heartbeat_def pg_inventory_def example_inventory_def)

lemma pg_envelope_ok [simp]: "1 \<le> n \<Longrightarrow> n \<le> 100 \<Longrightarrow> envelope_ok ((example_envelope v n)\<lparr>me_endpoint_id := k\<rparr>)"
  by (simp add: example_envelope_def MessageEnvelope_post_init_Inr limits td_defs)

lemma tidy_serving: "tidy s \<Longrightarrow> pg_reachable s \<Longrightarrow> \<not> pg_shutting_down s \<Longrightarrow> 0 \<le> t \<Longrightarrow> t \<le> 1000 \<Longrightarrow> n \<le> 100 \<Longrightarrow>
    serving n (example_time t) s"
  by (simp add: serving_def tidy_fresh)

text \<open>The effect of the accepted messages of the run on the state.\<close>

lemma example_ingested:
  assumes "tidy s" "pg_reachable s" "\<not> pg_shutting_down s" "rng_pos s \<le> 90" "0 \<le> t" "t \<le> 1000"
    "ty \<in> {''heartbeat'', ''inventory''}" "pred_option is_sha256 d" "is_sha256 pd" "envelope_ok env"
    "ingest_admits k env ty (example_time t) b d (pg_db s)"
    "\<forall>x\<in>set (db_observations (pg_db s)). \<not> exact_retry k env d x"
  obtains r e ob evs s' where "select_identity k (pg_db s) = Some (r, e)"
    "ob = new_row_observation (rng_seq s (rng_pos s)) (EndpointIdentity.truncate r) env ty sv pd (example_time t) d"
    "pg_ingest k env ty sv pd (example_time t) b d s = (Inr ob, s')"
    "s' = s\<lparr>rng_pos := rng_pos s + ingest_draws r,
       pg_db := (ingest_rows k r e ob (pg_db s))\<lparr>db_audit_events := evs\<rparr>\<rparr>" "tidy s'"
proof -
  have inv: "db_inv (pg_db s)"
    by (rule pg_reachable_inv [OF assms(2)])
  have fresh: "fresh_draws 3 s"
    by (rule tidy_fresh [OF assms(1)]) simp
  from pg_ingest_new [OF inv, of "example_time t" ty pd d env k b sv] obtain r e ob evs where
    run: "select_identity k (pg_db s) = Some (r, e)"
    "ob = new_row_observation (rng_seq s (rng_pos s)) (EndpointIdentity.truncate r) env ty sv pd (example_time t) d"
    "pg_ingest k env ty sv pd (example_time t) b d s = (Inr ob, s\<lparr>rng_pos := rng_pos s + ingest_draws r,
       pg_db := (ingest_rows k r e ob (pg_db s))\<lparr>db_audit_events := evs\<rparr>\<rparr>)"
    "au_event_id ` set evs \<subseteq> au_event_id ` set (db_audit_events (pg_db s)) \<union> set (draws (ingest_draws r) s)"
    using assms fresh by (auto simp: example_time_def)
  let ?s = "s\<lparr>rng_pos := rng_pos s + ingest_draws r,
       pg_db := (ingest_rows k r e ob (pg_db s))\<lparr>db_audit_events := evs\<rparr>\<rparr>"
  have 1: "used_ids (ingest_rows k r e ob (pg_db s)) = insert (ob_observation_id ob) (used_ids (pg_db s))"
    using select_identityD [OF run(1)] by (intro used_ids_ingest) simp_all
  have 2: "ob_observation_id ob \<in> set (draws (ingest_draws r) s)"
    by (simp add: run(2) new_row_observation_def ingest_draws_def numeral_eq_Suc draws_Suc)
  have 3: "used_ids (db\<lparr>db_audit_events := evs\<rparr>) \<subseteq> used_ids db \<union> au_event_id ` set evs" for db
    by (auto simp: used_ids_def)
  have 4: "au_event_id ` set (db_audit_events (pg_db s)) \<subseteq> used_ids (pg_db s)"
    by (auto simp: used_ids_def)
  have cover: "A \<subseteq> insert x U \<union> E \<Longrightarrow> E \<subseteq> F \<union> D \<Longrightarrow> x \<in> D \<Longrightarrow> F \<subseteq> U \<Longrightarrow> A \<subseteq> U \<union> D" for A U E F D and x :: uuid
    by blast
  have "used_ids (pg_db ?s) \<subseteq> used_ids (pg_db s) \<union> set (draws (ingest_draws r) s)"
    using cover [OF 3 [of "ingest_rows k r e ob (pg_db s)", unfolded 1] run(4) 2 4] by simp
  moreover have "rng_seq ?s = example_ids" "rng_pos ?s = rng_pos s + ingest_draws r" "rng_pos ?s \<le> 100"
    using assms(1,4) by (simp_all add: tidy_def ingest_draws_def)
  ultimately have "tidy ?s"
    by (rule tidy_step [OF assms(1), rotated 3])
  then show thesis
    by (rule that [OF run(1-3) refl])
qed

abbreviation active_identity :: IdentityRow where
  "active_identity \<equiv> activated_row (example_time 3) issued_identity"

definition pg_ob1 :: Observation where
  "pg_ob1 = new_row_observation 11 (EndpointIdentity.truncate issued_identity) (hm_envelope pg_heartbeat)
     ''heartbeat'' 1 (heartbeat_digest (hm_payload pg_heartbeat)) (example_time 3) (Some example_digest)"

definition pg_ob2 :: Observation where
  "pg_ob2 = new_row_observation 14 (EndpointIdentity.truncate active_identity) (im_envelope pg_inventory)
     ''inventory'' (ip_schema_version (im_payload pg_inventory)) (inventory_digest (im_payload pg_inventory))
     (example_time 4) None"

lemma pg_ob_sel [simp]:
  "ob_message_id pg_ob1 = 100" "ob_boot_id pg_ob1 = 7" "ob_sequence pg_ob1 = 1" "ob_endpoint_id pg_ob1 = 5"
  "ob_observation_type pg_ob1 = ''heartbeat''" "ob_received_at pg_ob1 = example_time 3"
  "ob_encoded_message_digest pg_ob1 = Some example_digest"
  "ob_message_id pg_ob2 = 101" "ob_boot_id pg_ob2 = 7" "ob_sequence pg_ob2 = 2" "ob_endpoint_id pg_ob2 = 5"
  "ob_observation_type pg_ob2 = ''inventory''" "ob_received_at pg_ob2 = example_time 4"
  "ob_encoded_message_digest pg_ob2 = None"
  by (simp_all add: pg_ob1_def pg_ob2_def)

lemma issued_authorized:
  "ingest_authorized 6 issued_identity pg_endpoint (hm_envelope pg_heartbeat) ''heartbeat'' (pg_db example_issued)"
  by (simp add: ingest_authorized_def select_identity_def is_current_def)

lemma issued_admits:
  "ingest_admits 6 (hm_envelope pg_heartbeat) ''heartbeat'' (example_time 3) None d (pg_db example_issued)"
  unfolding ingest_admits_def
  by (rule exI [of _ issued_identity], rule exI [of _ pg_endpoint])
     (use issued_authorized in \<open>simp add: binding_ok_def sequence_new_def, simp add: td_defs limits\<close>)

lemma example_active_run:
  obtains evs where "pg_ingest_heartbeat 6 pg_heartbeat (example_time 3) (Some example_digest) example_issued = (Inr pg_ob1, example_active)"
    "example_active = example_issued\<lparr>rng_pos := 13,
       pg_db := (ingest_rows 6 issued_identity pg_endpoint pg_ob1 (pg_db example_issued))\<lparr>db_audit_events := evs\<rparr>\<rparr>"
    "tidy example_active"
proof -
  have sel: "select_identity 6 (pg_db example_issued) = Some (issued_identity, pg_endpoint)"
    using issued_authorized by (simp add: ingest_authorized_def)
  obtain evs s' where
    run: "pg_ingest_heartbeat 6 pg_heartbeat (example_time 3) (Some example_digest) example_issued = (Inr pg_ob1, s')"
    "s' = example_issued\<lparr>rng_pos := 13,
       pg_db := (ingest_rows 6 issued_identity pg_endpoint pg_ob1 (pg_db example_issued))\<lparr>db_audit_events := evs\<rparr>\<rparr>" "tidy s'"
    unfolding pg_ingest_heartbeat_def pg_ob1_def
    by (rule example_ingested [OF example_issued_facts(2,1), where t = 3 and ty = "''heartbeat''" and
          d = "Some example_digest" and env = "hm_envelope pg_heartbeat" and k = 6 and b = None and sv = 1 and
          pd = "heartbeat_digest (hm_payload pg_heartbeat)"])
       (use sel issued_admits in \<open>auto simp: ingest_draws_def\<close>)
  moreover have "s' = example_active"
    using run(1) by (simp add: example_active_def)
  ultimately show thesis
    using that by metis
qed

lemma example_active_facts: "pg_reachable example_active" "tidy example_active"
proof -
  show "pg_reachable example_active"
    unfolding example_active_def by (intro pg_reachable.step [OF example_issued_facts(1)] pg_step.heartbeat)
  show "tidy example_active"
    by (rule example_active_run)
qed

lemma example_active_sel [simp]:
  "rng_seq example_active = example_ids" "rng_pos example_active = 13" "\<not> pg_shutting_down example_active"
  "db_identities (pg_db example_active) = [(6, active_identity)]"
  "db_endpoints (pg_db example_active) = [(5, touch_row True (example_time 3) pg_endpoint)]"
  "db_observations (pg_db example_active) = [observation_row 6 pg_ob1]"
  "db_sequences (pg_db example_active) = [((6, 7), 1)]"
proof -
  obtain evs where run: "example_active = example_issued\<lparr>rng_pos := 13,
       pg_db := (ingest_rows 6 issued_identity pg_endpoint pg_ob1 (pg_db example_issued))\<lparr>db_audit_events := evs\<rparr>\<rparr>"
    by (rule example_active_run)
  show "rng_seq example_active = example_ids" "rng_pos example_active = 13" "\<not> pg_shutting_down example_active"
    "db_identities (pg_db example_active) = [(6, active_identity)]"
    "db_endpoints (pg_db example_active) = [(5, touch_row True (example_time 3) pg_endpoint)]"
    "db_observations (pg_db example_active) = [observation_row 6 pg_ob1]"
    "db_sequences (pg_db example_active) = [((6, 7), 1)]"
    unfolding run by simp_all
qed

lemma active_identity_sel [simp]:
  "ei_status active_identity = ACTIVE" "ei_endpoint_id active_identity = 5" "ei_identity_id active_identity = 6"
  "ei_public_key_fingerprint active_identity = example_fingerprint" "ei_revoked_at active_identity = None"
  by (simp_all add: activated_row_def)

lemma active_authorized:
  "me_endpoint_id env = 5 \<Longrightarrow>
   ingest_authorized 6 active_identity (touch_row True (example_time 3) pg_endpoint) env ty (pg_db example_active)"
  by (simp add: ingest_authorized_def select_identity_def is_current_def)

lemma active_admits:
  "ingest_admits 6 (im_envelope pg_inventory) ''inventory'' (example_time 4)
     (Some (ip_platform (im_payload pg_inventory), ip_architecture (im_payload pg_inventory))) None (pg_db example_active)"
  unfolding ingest_admits_def
  by (rule exI [of _ active_identity], rule exI [of _ "touch_row True (example_time 3) pg_endpoint"])
     (use active_authorized [of "im_envelope pg_inventory"] in
      \<open>simp add: binding_ok_def sequence_new_def, simp add: td_defs limits\<close>)

lemma example_reported_sel [simp]:
  "fst (pg_ingest_inventory 6 pg_inventory (example_time 4) None example_active) = Inr pg_ob2"
  "\<not> pg_shutting_down example_reported" "db_identities (pg_db example_reported) = [(6, active_identity)]"
  "db_observations (pg_db example_reported) = [observation_row 6 pg_ob1, observation_row 6 pg_ob2]"
  "db_endpoints (pg_db example_reported) = [(5, touch_row False (example_time 4) (touch_row True (example_time 3) pg_endpoint))]"
  and example_reported_facts: "pg_reachable example_reported" "tidy example_reported"
proof -
  have sel: "select_identity 6 (pg_db example_active) = Some (active_identity, touch_row True (example_time 3) pg_endpoint)"
    using active_authorized [of "im_envelope pg_inventory"] by (simp add: ingest_authorized_def)
  obtain evs s' where
    run: "pg_ingest_inventory 6 pg_inventory (example_time 4) None example_active = (Inr pg_ob2, s')"
    "s' = example_active\<lparr>rng_pos := 15, pg_db := (ingest_rows 6 active_identity (touch_row True (example_time 3) pg_endpoint)
        pg_ob2 (pg_db example_active))\<lparr>db_audit_events := evs\<rparr>\<rparr>" and tidy: "tidy s'"
    unfolding pg_ingest_inventory_def pg_ob2_def
    by (rule example_ingested [OF example_active_facts(2,1), where t = 4 and ty = "''inventory''" and
          d = None and env = "im_envelope pg_inventory" and k = 6 and sv = "ip_schema_version (im_payload pg_inventory)" and
          b = "Some (ip_platform (im_payload pg_inventory), ip_architecture (im_payload pg_inventory))" and
          pd = "inventory_digest (im_payload pg_inventory)"])
       (use sel active_admits in \<open>auto simp: ingest_draws_def exact_retry_def\<close>)
  have eq: "example_reported = s'"
    using run(1) by (simp add: example_reported_def)
  show "fst (pg_ingest_inventory 6 pg_inventory (example_time 4) None example_active) = Inr pg_ob2"
    by (simp add: run(1))
  show "\<not> pg_shutting_down example_reported" "db_identities (pg_db example_reported) = [(6, active_identity)]"
    "db_observations (pg_db example_reported) = [observation_row 6 pg_ob1, observation_row 6 pg_ob2]"
    "db_endpoints (pg_db example_reported) = [(5, touch_row False (example_time 4) (touch_row True (example_time 3) pg_endpoint))]"
    unfolding eq run(2) by simp_all
  show "pg_reachable example_reported"
    unfolding example_reported_def by (intro pg_reachable.step [OF example_active_facts(1)] pg_step.inventory)
  show "tidy example_reported"
    unfolding eq by (rule tidy)
qed

lemma example_withdrawn_reachable: "pg_reachable example_withdrawn"
  unfolding example_withdrawn_def by (intro pg_reachable.step [OF example_reported_facts(1)] pg_step.revoke)

lemma example_withdrawn_identity:
  "dict_get (db_identities (pg_db example_withdrawn)) 6 = Some (revoked_row (example_time 5) ''lost'' active_identity)"
proof -
  have "fresh_draws 1 example_reported"
    by (rule tidy_fresh [OF example_reported_facts(2)]) simp
  moreover have "instant (ei_created_at active_identity) \<le> instant (example_time 5)"
    by (simp add: activated_row_def td_defs)
  ultimately obtain ev where eq: "example_withdrawn = example_reported\<lparr>rng_pos := Suc (rng_pos example_reported),
      pg_db := log_row ev ((pg_db example_reported)\<lparr>db_identities := [(6, revoked_row (example_time 5) ''lost'' active_identity)]\<rparr>)\<rparr>"
    using pg_revoke_runs [OF pg_reachable_inv [OF example_reported_facts(1)], of 6 active_identity "example_time 5"
        "''lost''" "''operator''" 9]
    by (auto simp: empty_or_longer_def example_withdrawn_def)
  show ?thesis
    unfolding eq by simp
qed

section \<open>The properties on the run\<close>

theorem pg_never_replayed_witness:
  "pg_reachable example_reported \<and> length (db_observations (pg_db example_reported)) = 2 \<and>
   ob_sequence (db_observations (pg_db example_reported) ! 0) < ob_sequence (db_observations (pg_db example_reported) ! 1)"
  using pg_never_replayed [OF example_reported_facts(1), of 0 1] example_reported_facts(1) by simp

theorem pg_records_advance_witness:
  "pg_reachable example_reported \<and> pg_steps example_reported example_withdrawn \<and>
   prefix (db_audit_events (pg_db example_reported)) (db_audit_events (pg_db example_withdrawn))"
proof -
  have "pg_steps example_reported example_withdrawn"
    unfolding example_withdrawn_def by (intro r_into_rtranclp pg_step.revoke)
  then show ?thesis
    using pg_records_advance [OF example_reported_facts(1)] example_reported_facts(1) by blast
qed

theorem pg_identities_unique_witness:
  "pg_reachable example_active \<and> dict_get (db_identities (pg_db example_active)) 6 = Some active_identity \<and>
   (\<exists>e. dict_get (db_endpoints (pg_db example_active)) 5 = Some e \<and> ep_identity_id e = 6)"
proof -
  have "dict_get (db_identities (pg_db example_active)) 6 = Some active_identity"
    by simp
  then show ?thesis
    using pg_identities_unique [OF example_active_facts(1)] example_active_facts(1) active_identity_sel(2) by metis
qed

theorem pg_rows_read_back_witness:
  "pg_reachable example_active \<and> pg_get_identity 6 example_active =
     (Inr (EndpointIdentity.truncate active_identity), example_active) \<and>
   pg_get_identity 5 example_active = (Inl (NotFoundError ''identity does not exist''), example_active)"
  using pg_rows_read_back [OF example_active_facts(1), where k = 6] pg_rows_read_back [OF example_active_facts(1), where k = 5]
    example_active_facts(1) by (simp add: row_result_def)

theorem pg_operations_atomic_witness:
  "pg_reachable example_granted \<and>
   harmless (begin_endpoint_enrollment ''wrong'' example_fingerprint (example_time 2) ''enrollment'') example_granted"
  using pg_operations_atomic [OF example_granted_facts(1), where token = "''wrong''" and fp = example_fingerprint and
      now = "example_time 2" and actor = "''enrollment''"] example_granted_facts(1) by simp

theorem pg_shutdown_refuses_witness:
  "shut (pg_ingest_heartbeat 6 pg_heartbeat (example_time 3) None) (snd (begin_shutdown example_issued))"
  using pg_shutdown_refuses [OF rtranclp.rtrancl_refl, where ?s0.0 = example_issued and k = 6 and hb = pg_heartbeat and
      now = "example_time 3" and d = None] by simp

theorem pg_ingest_accepted_iff_witness:
  "serving 3 (example_time 3) example_issued \<and>
   is_ok (fst (pg_ingest_heartbeat 6 pg_heartbeat (example_time 3) None example_issued))"
proof -
  have "serving 3 (example_time 3) example_issued"
    by (rule tidy_serving [OF example_issued_facts(2,1)]) simp_all
  then show ?thesis
    using pg_ingest_accepted_iff [of "example_time 3" example_issued None pg_heartbeat pg_inventory 6] issued_admits by simp
qed

theorem pg_heartbeat_retry_witness:
  "fst (pg_ingest_heartbeat 6 pg_heartbeat (example_time 3) (Some example_digest) example_issued) = Inr pg_ob1 \<and>
   fst (pg_ingest_heartbeat 6 pg_heartbeat (example_time 9) (Some example_digest) example_active) =
     Inr (Observation.truncate (observation_row 6 pg_ob1))"
proof -
  have run: "pg_ingest_heartbeat 6 pg_heartbeat (example_time 3) (Some example_digest) example_issued = (Inr pg_ob1, example_active)"
    by (rule example_active_run)
  have "serving 1 (example_time 9) example_active"
    by (rule tidy_serving [OF example_active_facts(2,1)]) simp_all
  then show ?thesis
    using pg_heartbeat_retry [OF example_issued_facts(1) run rtranclp.rtrancl_refl, of "example_time 9"]
      active_authorized [of "hm_envelope pg_heartbeat"] run by auto
qed

theorem pg_revocation_is_final_witness:
  "pg_reachable example_withdrawn \<and>
   \<not> is_ok (fst (pg_ingest_heartbeat 6 pg_heartbeat (example_time 9) None example_withdrawn))"
  using pg_revocation_is_final [OF example_withdrawn_reachable example_withdrawn_identity _ rtranclp.rtrancl_refl,
      of pg_heartbeat "example_time 9" None pg_inventory] example_withdrawn_reachable by (simp add: revoked_row_def)

theorem grant_single_use_witness:
  "pg_reachable example_begun \<and> eg_consumed_identity_id used_grant = Some 6 \<and>
   \<not> is_ok (fst (consume_enrollment_grant example_token example_fingerprint (example_time 2) ''enrollment'' example_begun))"
  using grant_single_use [OF example_begun_facts(1), of 1 used_grant 6 example_token example_begun example_fingerprint
      "example_time 2" "''enrollment''"] example_begun_facts(1)
  by (simp add: consumed_grant_def)

theorem certificate_authentication_witness:
  "serving 1 (example_time 3) example_issued \<and>
   fst (authenticate_endpoint_certificate 5 example_fingerprint (example_time 3) 77 example_issued) =
     Inr (EndpointIdentity.truncate issued_identity)"
proof -
  have "serving 1 (example_time 3) example_issued"
    by (rule tidy_serving [OF example_issued_facts(2,1)]) simp_all
  moreover have "certified 5 example_fingerprint issued_identity (pg_db example_issued)"
    by (simp add: certified_def is_current_def)
  ultimately show ?thesis
    using certificate_authentication [of "example_time 3" example_issued 5 example_fingerprint 77
        "EndpointIdentity.truncate issued_identity"] by blast
qed


theorem pg_endpoint_pages_witness:
  "pg_reachable example_active \<and>
   fst (pg_list_endpoint_page None 10 example_active) = Inr [touch_row True (example_time 3) pg_endpoint]"
proof -
  have "fst (pg_list_endpoints example_active) = Inr [touch_row True (example_time 3) pg_endpoint]"
  proof -
    have "endpoint_from_row (touch_row True (example_time 3) pg_endpoint) = Inr (touch_row True (example_time 3) pg_endpoint)"
      using rows_read(1) [OF pg_reachable_inv [OF example_active_facts(1)], of 5] touch_loads by simp
    then show ?thesis
      by (simp add: pg_list_endpoints_def transaction_query)
  qed
  then show ?thesis
    using pg_endpoint_pages [OF example_active_facts(1), of 10 _ 0] example_active_facts(1) by simp
qed

theorem enrollment_completes_witness:
  "pg_reachable example_pg \<and> valid_plan example_plan \<and> unclaimed example_plan example_pg \<and>
   (\<exists>g token s1. create_enrollment_grant ''desk'' LINUX ''amd64'' (example_time 0) ''operator'' (seconds 60) example_pg =
      (Inr (g, token), s1) \<and>
      is_ok (fst (begin_endpoint_enrollment token example_fingerprint (example_time 2) ''enrollment'' s1)))"
proof -
  have "unclaimed example_plan example_pg"
    by (simp add: unclaimed_def empty_database_def)
  then show ?thesis
    using enrollment_completes [OF example_pg_reachable _ tidy_fresh [OF example_pg_tidy] example_plan_valid]
      example_pg_reachable example_plan_valid by (fastforce simp: is_ok_iff)
qed

section \<open>The same enrollment in both control planes\<close>

definition example_mirror :: PostgresControlPlane where
  "example_mirror = snd (pg_enroll_synthetic_endpoint ''desk'' LINUX ''amd64'' example_fingerprint
     (example_time 0) ''operator'' example_pg)"

lemma example_mirror_facts:
  "pg_reachable example_mirror" "tidy example_mirror" "\<not> pg_shutting_down example_mirror"
  "db_endpoints (pg_db example_mirror) = [(1, stored_endpoint example_endpoint)]"
  "db_identities (pg_db example_mirror) = [(2, identity_row example_identity)]"
  "db_observations (pg_db example_mirror) = []" "db_sequences (pg_db example_mirror) = []"
proof -
  show "pg_reachable example_mirror"
    unfolding example_mirror_def by (intro pg_reachable.step [OF example_pg_reachable] pg_step.enroll)
  have inv: "db_inv (pg_db example_pg)"
    by (rule pg_reachable_inv [OF example_pg_reachable])
  have fresh: "fresh_draws 4 example_pg"
    by (rule tidy_fresh [OF example_pg_tidy]) simp
  have none: "db_identities empty_database = []"
    by (simp add: empty_database_def)
  have ok: "endpoint_ok example_endpoint" "identity_ok example_identity"
    by (simp_all add: new_endpoint_def new_identity_def Endpoint_post_init_Inr EndpointIdentity_post_init_Inr
        empty_or_longer_def limits)
  obtain ev where run: "example_mirror = example_pg\<lparr>rng_pos := 4,
      pg_db := log_row ev (join_rows example_endpoint example_identity empty_database)\<rparr>" "au_event_id ev = 4"
    using pg_enroll_runs [OF inv _ fresh, of example_endpoint "''desk''" LINUX "''amd64''" "example_time 0"
        example_identity example_fingerprint "''operator''"] ok none
    by (auto simp: example_mirror_def new_endpoint_def new_identity_def example_start_def ControlPlane_init_def)
  have "{..<4 :: nat} = {0, 1, 2, 3}"
    by auto
  then show "tidy example_mirror"
    unfolding run(1) by (simp add: tidy_def run(2)) (simp add: used_ids_def empty_database_def)
  show "\<not> pg_shutting_down example_mirror"
    "db_endpoints (pg_db example_mirror) = [(1, stored_endpoint example_endpoint)]"
    "db_identities (pg_db example_mirror) = [(2, identity_row example_identity)]"
    "db_observations (pg_db example_mirror) = []" "db_sequences (pg_db example_mirror) = []"
    unfolding run(1) by (simp_all add: empty_database_def)
qed

lemma example_agree: "agree example_enrolled example_mirror"
  unfolding agree_def
  by (simp add: example_mirror_facts endpoint_view_def identity_view_def stored_endpoint_def new_endpoint_def new_identity_def)
     (simp add: endpoint_times_def identity_times_def)

theorem stores_simulate_witness:
  "agree example_enrolled example_mirror \<and>
   is_ok (fst (pg_ingest_heartbeat 2 example_heartbeat (example_time 2) (Some example_digest) example_mirror))"
proof -
  have "serving 3 (example_time 2) example_mirror"
    by (rule tidy_serving [OF example_mirror_facts(2,1,3)]) simp_all
  moreover have "is_ok (fst (ingest_heartbeat 2 example_heartbeat (example_time 2) example_enrolled))"
    by (rule ingest_heartbeat_accepts [OF cp_reachable_inv [OF example_enrolled_reachable] _ example_heartbeat_authorized])
       (auto simp: is_ok_iff)
  moreover have "in_range (wall (example_time 2) + MAX_CLOCK_SKEW)" "in_range (instant (example_time 2) + MAX_CLOCK_SKEW)"
    "envelope_ok (hm_envelope example_heartbeat)" "envelope_ok (im_envelope example_inventory)"
    "pred_option is_sha256 (Some example_digest)"
    by simp_all
  ultimately show ?thesis
    using stores_simulate [OF example_agree example_enrolled_reachable, of "example_time 2" example_heartbeat example_inventory
        "Some example_digest" 2]
      example_agree by blast
qed

theorem stores_same_status_witness:
  "agree example_enrolled example_mirror \<and>
   (\<exists>a b. endpoint_status 1 (example_time 5) None example_enrolled = Inr a \<and>
      fst (pg_endpoint_status 1 (example_time 5) None example_mirror) = Inr b \<and> es_health a = es_health b)"
proof -
  have "is_ok (endpoint_status 1 (example_time 5) None example_enrolled)"
    by (simp add: endpoint_status_def get_endpoint_def get_identity_def is_ok_iff require_aware_aware)
  then show ?thesis
    using stores_same_status [OF example_agree example_enrolled_reachable example_mirror_facts(1,3), of "example_time 5" 1 None]
      example_agree by (auto simp: is_ok_iff split: sum.splits)
qed

end
