(* ===== verification/Rate_Limits.thy ===== *)
theory Rate_Limits
  imports Prelude "HOL-Library.Sublist"
begin

text \<open>
  The sliding-window rate limiters of the three listeners: \<^verbatim>\<open>_AgentRateLimiter\<close> of \<^verbatim>\<open>listener.py\<close>,
  \<^verbatim>\<open>_SourceRateLimiter\<close> of \<^verbatim>\<open>enrollment_listener.py\<close> and \<^verbatim>\<open>_OperatorSourceRateLimiter\<close> of
  \<^verbatim>\<open>operator_listener.py\<close>.

  A \<^verbatim>\<open>deque\<close> is a list from its left end, an \<^verbatim>\<open>OrderedDict\<close> an association list from its oldest entry.
  Clock readings (\<^verbatim>\<open>loop.time()\<close>) are reals; the rounding of floating-point subtraction is not modelled.
  The locale \<open>rate_limiter\<close> is the contract of the global window, and \<open>keyed_limiter\<close> adds that of the
  window of one source; all three limiters satisfy the first.
\<close>


section \<open>The limiters\<close>

definition RATE_LIMIT_WINDOW_SECONDS :: real where "RATE_LIMIT_WINDOW_SECONDS = 10"
definition MAX_REQUESTS_PER_IDENTITY_WINDOW :: nat where "MAX_REQUESTS_PER_IDENTITY_WINDOW = 32"
definition MAX_GLOBAL_REQUESTS_PER_WINDOW :: nat where "MAX_GLOBAL_REQUESTS_PER_WINDOW = 160"
definition MAX_TRACKED_IDENTITIES :: nat where "MAX_TRACKED_IDENTITIES = 4096"

text \<open>\<open>lim_sources\<close> is \<^verbatim>\<open>_identities\<close> of the agent's limiter and \<^verbatim>\<open>_sources\<close> of the others.\<close>

record 'k limiter =
  lim_global :: "real list"
  lim_sources :: "('k, real list) dict"

definition limiter_init :: "'k limiter" where
  "limiter_init = \<lparr>lim_global = [], lim_sources = []\<rparr>"

fun discard_before :: "real list \<Rightarrow> real \<Rightarrow> real list" where
  "discard_before [] cutoff = []"
| "discard_before (t # ts) cutoff = (if t \<le> cutoff then discard_before ts cutoff else t # ts)"

text \<open>
  The events of a key and the table after the look-up: a new key gets an empty deque, after the oldest
  entry was dropped from a full table, and a known key moves to the end.
\<close>

definition track :: "nat \<Rightarrow> 'k \<Rightarrow> ('k, real list) dict \<Rightarrow> real list \<times> ('k, real list) dict" where
  "track capacity key table =
     (case dict_get table key of
        None \<Rightarrow> ([], (if capacity \<le> length table then tl table else table) @ [(key, [])])
      | Some events \<Rightarrow> (events, dict_del key table @ [(key, events)]))"

definition agent_allow :: "'k \<Rightarrow> real \<Rightarrow> 'k limiter \<Rightarrow> bool \<times> 'k limiter" where
  "agent_allow identity_key now s =
     (let cutoff = now - RATE_LIMIT_WINDOW_SECONDS;
          recent = discard_before (lim_global s) cutoff;
          (identity, table) = track MAX_TRACKED_IDENTITIES identity_key (lim_sources s);
          identity = discard_before identity cutoff
      in if MAX_GLOBAL_REQUESTS_PER_WINDOW \<le> length recent \<or> MAX_REQUESTS_PER_IDENTITY_WINDOW \<le> length identity
         then (False, \<lparr>lim_global = recent, lim_sources = dict_set identity_key identity table\<rparr>)
         else (True, \<lparr>lim_global = recent @ [now],
                      lim_sources = dict_set identity_key (identity @ [now]) table\<rparr>))"

text \<open>
  \<^verbatim>\<open>allow\<close> of the other two limiters, which differ in their constants only: the window, the limit of
  all sources, the limit of one source and the number of sources tracked.
\<close>

definition source_allow :: "real \<Rightarrow> nat \<Rightarrow> nat \<Rightarrow> nat \<Rightarrow> 'k \<Rightarrow> real \<Rightarrow> 'k limiter \<Rightarrow> bool \<times> 'k limiter" where
  "source_allow window global_limit source_limit capacity source now s =
     (let threshold = now - window;
          recent = discard_before (lim_global s) threshold
      in if global_limit \<le> length recent then (False, s\<lparr>lim_global := recent\<rparr>)
         else let (events, table) = track capacity source (lim_sources s);
                  events = discard_before events threshold
              in if source_limit \<le> length events
                 then (False, \<lparr>lim_global = recent, lim_sources = dict_set source events table\<rparr>)
                 else (True, \<lparr>lim_global = recent @ [now],
                              lim_sources = dict_set source (events @ [now]) table\<rparr>))"

definition enrollment_allow :: "string \<Rightarrow> real \<Rightarrow> string limiter \<Rightarrow> bool \<times> string limiter" where
  "enrollment_allow = source_allow 60 64 8 4096"

definition operator_allow :: "string \<Rightarrow> real \<Rightarrow> string limiter \<Rightarrow> bool \<times> string limiter" where
  "operator_allow = source_allow 60 120 30 4096"

text \<open>The requests that a limiter admits of a sequence of requests, each with its source and time.\<close>

fun admissions ::
  "('k \<Rightarrow> real \<Rightarrow> 's \<Rightarrow> bool \<times> 's) \<Rightarrow> ('k \<times> real) list \<Rightarrow> 's \<Rightarrow> ('k \<times> real) list" where
  "admissions allow [] s = []"
| "admissions allow ((k, t) # rs) s =
     (case allow k t s of (yes, s') \<Rightarrow> (if yes then [(k, t)] else []) @ admissions allow rs s')"


section \<open>Windows\<close>

definition in_window :: "real \<Rightarrow> real \<Rightarrow> real list \<Rightarrow> nat" where
  "in_window window u ts = length (filter (\<lambda>t. u - window < t \<and> t \<le> u) ts)"

text \<open>Every time is preceded by fewer than \<open>n\<close> others in the window that ends with it.\<close>

fun spaced :: "real \<Rightarrow> nat \<Rightarrow> real list \<Rightarrow> bool" where
  "spaced window n [] \<longleftrightarrow> True"
| "spaced window n (t # ts) \<longleftrightarrow> length (filter (\<lambda>u. t - window < u) ts) < n \<and> spaced window n ts"

text \<open>\<open>spaced\<close> takes the latest time first.\<close>

lemma discard_before_sorted: "sorted ts \<Longrightarrow> discard_before ts c = filter (\<lambda>t. c < t) ts"
  by (induction ts) (auto simp: not_le intro!: filter_True [symmetric])

lemma spaced_window:
  assumes "sorted_wrt (\<ge>) ts" "spaced window n ts" "0 < window"
  shows "length (filter (\<lambda>t. u - window < t \<and> t \<le> u) ts) \<le> n"
  using assms(1,2)
proof (induction ts)
  case (Cons t ts)
  show ?case
  proof (cases "u - window < t \<and> t \<le> u")
    case True
    have "length (filter (\<lambda>v. u - window < v \<and> v \<le> u) ts) \<le> length (filter (\<lambda>v. t - window < v) ts)"
      using True by (induction ts) auto
    with True Cons.prems show ?thesis
      by simp
  next
    case False
    with Cons show ?thesis
      by auto
  qed
qed simp

section \<open>The contract of a limiter\<close>

text \<open>
  \<open>recent\<close> is the deque of all admissions.  A request is admitted only if fewer than \<open>limit\<close> admissions
  are in its window, and is then recorded; nothing else is.
\<close>

locale rate_limiter =
  fixes allow :: "'k \<Rightarrow> real \<Rightarrow> 's \<Rightarrow> bool \<times> 's" and recent :: "'s \<Rightarrow> real list" and window :: real and limit :: nat
  assumes window: "0 < window"
    and allow_yes: "allow k t s = (True, s') \<Longrightarrow> length (discard_before (recent s) (t - window)) < limit \<and>
      recent s' = discard_before (recent s) (t - window) @ [t]"
    and allow_no: "allow k t s = (False, s') \<Longrightarrow> recent s' = discard_before (recent s) (t - window)"
begin

text \<open>The state \<open>s\<close> after the admissions \<open>ts\<close>, the latest first, of which it keeps those after \<open>c\<close>.\<close>

definition logged :: "real \<Rightarrow> real list \<Rightarrow> 's \<Rightarrow> bool" where
  "logged c ts s \<longleftrightarrow> sorted_wrt (\<ge>) ts \<and> spaced window limit ts \<and> recent s = rev (filter (\<lambda>t. c < t) ts)"

lemma logged_recent:
  assumes "logged c ts s" "c \<le> t - window"
  shows "discard_before (recent s) (t - window) = rev (filter (\<lambda>u. t - window < u) ts)"
proof -
  have "sorted (rev (filter (\<lambda>u. c < u) ts))"
    using assms(1) by (simp add: logged_def sorted_wrt_rev sorted_wrt_filter)
  then show ?thesis
    using assms by (auto simp: logged_def discard_before_sorted rev_filter [symmetric] intro!: filter_cong)
qed

lemma logged_step:
  assumes "logged c ts s" "c \<le> t - window" "\<forall>u\<in>set ts. u \<le> t" "allow k t s = (yes, s')"
  shows "logged (t - window) (if yes then t # ts else ts) s'"
proof -
  show ?thesis
    using logged_recent [OF assms(1,2)] assms(1,3,4) allow_yes [of k t s s'] allow_no [of k t s s'] window by (cases yes) (auto simp: logged_def)
qed

lemma logged_run:
  assumes "logged c ts s" "sorted (map snd rs)" "\<forall>(k, t)\<in>set rs. c \<le> t - window \<and> (\<forall>u\<in>set ts. u \<le> t)"
  shows "\<exists>c' s'. logged c' (rev (map snd (admissions allow rs s)) @ ts) s'"
  using assms
proof (induction rs arbitrary: c ts s)
  case (Cons r rs)
  obtain k t yes s' where r: "r = (k, t)" and step: "allow k t s = (yes, s')"
    by (metis surj_pair)
  have "logged (t - window) (if yes then t # ts else ts) s'"
    using Cons.prems logged_step [OF Cons.prems(1) _ _ step] by (simp add: r)
  from Cons.IH [OF this] show ?case
    using Cons.prems by (force simp: r step)
qed auto

text \<open>No window holds more than \<open>limit\<close> admissions.\<close>

lemma window_bound:
  assumes "recent s = []" "sorted (map snd rs)"
  shows "in_window window u (map snd (admissions allow rs s)) \<le> limit"
proof -
  obtain c where c: "\<forall>(k, t)\<in>set rs. c \<le> t - window"
  proof (cases rs)
    case (Cons r rs')
    then show thesis
      using assms(2) that [of "snd r - window"] by force
  qed (use that in auto)
  have "logged c [] s"
    using assms(1) by (simp add: logged_def)
  from logged_run [OF this assms(2)] c obtain c' s' where "logged c' (rev (map snd (admissions allow rs s))) s'"
    by auto
  then have "length (filter (\<lambda>t. u - window < t \<and> t \<le> u) (rev (map snd (admissions allow rs s)))) \<le> limit"
    using window by (auto simp: logged_def intro: spaced_window)
  then show ?thesis
    by (simp add: in_window_def rev_filter [symmetric])
qed

end

text \<open>
  A limiter that also bounds each of the \<open>known\<close> sources.  \<open>tracks\<close> relates its state at a time to the
  admissions so far, the latest first.
\<close>

definition of_source :: "'k \<Rightarrow> ('k \<times> real) list \<Rightarrow> real list" where
  "of_source k rs = map snd (filter (\<lambda>r. fst r = k) rs)"

lemma of_source_simps [simp]:
  "of_source k [] = []"
  "of_source k (r # rs) = (if fst r = k then snd r # of_source k rs else of_source k rs)"
  "of_source k (rs @ rs') = of_source k rs @ of_source k rs'"
  "of_source k (rev rs) = rev (of_source k rs)"
  by (simp_all add: of_source_def rev_map rev_filter)

lemma set_of_source [simp]: "u \<in> set (of_source k rs) \<longleftrightarrow> (k, u) \<in> set rs"
  by (force simp: of_source_def)

text \<open>The reference: every admission is remembered, and those in the window are counted.\<close>

fun sliding :: "real \<Rightarrow> nat \<Rightarrow> nat \<Rightarrow> ('k \<times> real) list \<Rightarrow> ('k \<times> real) list \<Rightarrow> ('k \<times> real) list" where
  "sliding window limit key_limit hist [] = []"
| "sliding window limit key_limit hist ((k, t) # rs) =
     (if length (filter (\<lambda>u. t - window < u) (map snd hist)) < limit \<and>
         length (filter (\<lambda>u. t - window < u) (of_source k hist)) < key_limit
      then (k, t) # sliding window limit key_limit ((k, t) # hist) rs
      else sliding window limit key_limit hist rs)"

locale keyed_limiter = rate_limiter allow recent window limit
  for allow :: "'k \<Rightarrow> real \<Rightarrow> 's \<Rightarrow> bool \<times> 's" and recent :: "'s \<Rightarrow> real list" and window :: real and limit :: nat +
  fixes tracks :: "real \<Rightarrow> ('k \<times> real) list \<Rightarrow> 's \<Rightarrow> bool" and key_limit :: nat and known :: "'k set"
  assumes tracks_step: "tracks c hist s \<Longrightarrow> c \<le> t \<Longrightarrow> k \<in> known \<Longrightarrow> allow k t s = (yes, s') \<Longrightarrow>
      tracks t (if yes then (k, t) # hist else hist) s'"
    and tracks_exact: "tracks c hist s \<Longrightarrow> c \<le> t \<Longrightarrow> k \<in> known \<Longrightarrow> fst (allow k t s) \<longleftrightarrow>
      length (discard_before (recent s) (t - window)) < limit \<and>
      length (filter (\<lambda>u. t - window < u) (of_source k hist)) < key_limit"
    and tracks_past: "tracks c hist s \<Longrightarrow> (k, u) \<in> set hist \<Longrightarrow> u \<le> c"
begin

lemma tracks_run:
  assumes "tracks c hist s" "sorted (map snd rs)" "\<forall>r\<in>set rs. c \<le> snd r \<and> fst r \<in> known"
    "sorted_wrt (\<ge>) (of_source k hist)" "spaced window key_limit (of_source k hist)"
  shows "sorted_wrt (\<ge>) (of_source k (rev (admissions allow rs s) @ hist)) \<and>
    spaced window key_limit (of_source k (rev (admissions allow rs s) @ hist))"
  using assms
proof (induction rs arbitrary: c hist s)
  case (Cons r rs)
  obtain j t yes s' where r: "r = (j, t)" and step: "allow j t s = (yes, s')"
    by (metis surj_pair)
  have j: "c \<le> t" "j \<in> known"
    using Cons.prems(3) by (auto simp: r)
  define hist' where "hist' = (if yes then (j, t) # hist else hist)"
  have tr: "tracks t hist' s'"
    using tracks_step [OF Cons.prems(1) j step] by (simp add: hist'_def)
  have "sorted_wrt (\<ge>) (of_source k hist')"
    using Cons.prems(4) tracks_past [OF Cons.prems(1)] j(1) by (force simp: hist'_def)
  moreover have "spaced window key_limit (of_source k hist')"
    using Cons.prems(5) tracks_exact [OF Cons.prems(1) j] step by (auto simp: hist'_def)
  moreover have "\<forall>r\<in>set rs. t \<le> snd r \<and> fst r \<in> known" "sorted (map snd rs)"
    using Cons.prems(2,3) by (auto simp: r)
  moreover have "rev (admissions allow (r # rs) s) @ hist = rev (admissions allow rs s') @ hist'"
    by (simp add: r step hist'_def)
  ultimately show ?case
    using Cons.IH [OF tr] by metis
qed simp

lemma admissions_sliding_from:
  assumes "tracks c hist s" "logged (c - window) (map snd hist) s" "sorted (map snd rs)"
    "\<forall>r\<in>set rs. c \<le> snd r \<and> fst r \<in> known"
  shows "admissions allow rs s = sliding window limit key_limit hist rs"
  using assms
proof (induction rs arbitrary: c hist s)
  case (Cons r rs)
  obtain j t yes s' where r: "r = (j, t)" and step: "allow j t s = (yes, s')"
    by (metis surj_pair)
  have j: "c \<le> t" "j \<in> known" "c - window \<le> t - window" "\<forall>u\<in>set (map snd hist). u \<le> t"
    using Cons.prems(4) tracks_past [OF Cons.prems(1)] by (force simp: r)+
  let ?hist = "if yes then (j, t) # hist else hist"
  have "admissions allow rs s' = sliding window limit key_limit ?hist rs"
  proof (rule Cons.IH)
    show "tracks t ?hist s'"
      by (rule tracks_step [OF Cons.prems(1) j(1,2) step])
    show "logged (t - window) (map snd ?hist) s'"
      using logged_step [OF Cons.prems(2) j(3,4) step] by (cases yes) simp_all
  qed (use Cons.prems(3,4) in \<open>auto simp: r\<close>)
  then show ?case
    using tracks_exact [OF Cons.prems(1) j(1,2)] logged_recent [OF Cons.prems(2) j(3)]
    by (cases yes) (auto simp add: r step)
qed simp

text \<open>The limiter admits exactly what a limiter that remembers every admission would.\<close>

lemma admissions_sliding:
  assumes "\<And>c. tracks c [] s" "recent s = []" "sorted (map snd rs)" "fst ` set rs \<subseteq> known"
  shows "admissions allow rs s = sliding window limit key_limit [] rs"
proof -
  have "\<forall>r\<in>set rs. snd (hd rs) \<le> snd r \<and> fst r \<in> known"
    using assms(3,4) by (cases rs) force+
  then show ?thesis
    using admissions_sliding_from [OF assms(1) _ assms(3), of "snd (hd rs)"] by (simp add: logged_def assms(2))
qed

text \<open>No window holds more than \<open>key_limit\<close> admissions of one source.\<close>

lemma key_window_bound:
  assumes "\<And>c. tracks c [] s" "sorted (map snd rs)" "fst ` set rs \<subseteq> known"
  shows "in_window window u (of_source k (admissions allow rs s)) \<le> key_limit"
proof -
  obtain c where c: "\<forall>r\<in>set rs. c \<le> snd r"
  proof (cases rs)
    case (Cons r rs')
    then show thesis
      using assms(2) that [of "snd r"] by force
  qed (use that in auto)
  let ?ts = "rev (of_source k (admissions allow rs s))"
  have "sorted_wrt (\<ge>) ?ts \<and> spaced window key_limit ?ts"
    using tracks_run [OF assms(1) assms(2), of c k] c assms(3) by force
  then have "length (filter (\<lambda>t. u - window < t \<and> t \<le> u) ?ts) \<le> key_limit"
    by (rule conjE) (rule spaced_window [OF _ _ window])
  then show ?thesis
    by (simp add: in_window_def rev_filter [symmetric])
qed

end

section \<open>The table of sources\<close>

text \<open>
  The table after the admissions \<open>hist\<close>, the latest first: \<open>la k\<close> is the time at which the entry of \<open>k\<close> was last
  looked up; the entries are ordered by it, each holds the admissions of its source in the window that ends then,
  and a source without an entry has no admission in the window that ends now.
\<close>

definition keyed :: "real \<Rightarrow> ('k \<times> real) list \<Rightarrow> real \<Rightarrow> ('k \<Rightarrow> real) \<Rightarrow> ('k, real list) dict \<Rightarrow> bool" where
  "keyed W hist c la table \<longleftrightarrow> distinct (map fst table) \<and> sorted (map (la \<circ> fst) table) \<and>
     sorted_wrt (\<ge>) (map snd hist) \<and>
     (\<forall>e\<in>set table. la (fst e) \<le> c \<and> (\<forall>u\<in>set (of_source (fst e) hist). u \<le> la (fst e)) \<and>
        snd e = rev (filter (\<lambda>u. la (fst e) - W < u) (of_source (fst e) hist))) \<and>
     (\<forall>r\<in>set hist. snd r \<le> c \<and> (fst r \<notin> fst ` set table \<longrightarrow> snd r \<le> c - W))"

text \<open>The entries that the look-up of \<open>k\<close> keeps in front of that of \<open>k\<close>.\<close>

definition others :: "nat \<Rightarrow> 'k \<Rightarrow> ('k, 'v) dict \<Rightarrow> ('k, 'v) dict" where
  "others capacity k table = (if k \<in> fst ` set table then dict_del k table
     else if capacity \<le> length table then tl table else table)"

lemma subseq_others: "subseq (others capacity k table) table"
  by (cases table) (auto simp: others_def AList.delete_eq intro: list_emb_Cons)

lemma not_in_others: "k \<notin> fst ` set (others capacity k table)"
  by (cases table) (auto simp: others_def AList.delete_eq)

lemma dict_set_last: "k \<notin> fst ` set d \<Longrightarrow> dict_set k v (d @ [(k, w)]) = d @ [(k, v)]"
  by (induction d) auto

lemma set_tracked: "dict_set k v (snd (track capacity k table)) = others capacity k table @ [(k, v)]"
proof (cases "dict_get table k")
  case None
  then have "k \<notin> fst ` set table"
    by (simp add: map_of_eq_None_iff)
  with None show ?thesis
    using dict_set_last [OF not_in_others [of k capacity table]] by (simp add: track_def others_def)
next
  case (Some es)
  then have "k \<in> fst ` set table"
    by (force dest: map_of_SomeD)
  with Some show ?thesis
    using dict_set_last [OF not_in_others [of k capacity table]] by (simp add: track_def others_def)
qed

lemma keyed_events:
  assumes "keyed W hist c la table" "c \<le> t"
  shows "discard_before (fst (track capacity k table)) (t - W) = rev (filter (\<lambda>u. t - W < u) (of_source k hist))"
proof (cases "dict_get table k")
  case None
  then have "k \<notin> fst ` set table"
    by (simp add: map_of_eq_None_iff)
  then have "\<forall>u\<in>set (of_source k hist). \<not> t - W < u"
    using assms unfolding keyed_def set_of_source by force
  with None show ?thesis
    by (simp add: track_def filter_empty_conv [THEN iffD2])
next
  case (Some es)
  then have e: "(k, es) \<in> set table"
    by (rule map_of_SomeD)
  have "sorted_wrt (\<ge>) (of_source k hist)"
    using assms(1) by (simp add: keyed_def of_source_def sorted_wrt_map sorted_wrt_filter)
  then have "sorted es"
    using assms(1) e by (force simp: keyed_def sorted_wrt_rev sorted_wrt_filter)
  moreover have "es = rev (filter (\<lambda>u. la k - W < u) (of_source k hist))" "la k \<le> t"
    using assms e by (fastforce simp: keyed_def)+
  ultimately show ?thesis
    using Some by (auto simp: track_def discard_before_sorted rev_filter [symmetric] intro!: filter_cong)
qed

lemma sorted_map_subseq: "subseq xs ys \<Longrightarrow> sorted (map f ys) \<Longrightarrow> sorted (map f xs)"
  by (induction rule: list_emb.induct) (auto dest: list_emb_set)

lemma keyed_extend:
  assumes "keyed W hist c la table" "c \<le> t" "0 < W" "hist' = hist \<or> hist' = (k, t) # hist"
    "\<forall>r\<in>set hist. fst r \<in> fst ` set table \<longrightarrow> fst r \<notin> fst ` set (others capacity k table) \<longrightarrow> fst r \<noteq> k \<longrightarrow> snd r \<le> t - W"
  shows "keyed W hist' t (la(k := t))
    (others capacity k table @ [(k, rev (filter (\<lambda>u. t - W < u) (of_source k hist')))])"
proof -
  let ?o = "others capacity k table"
  have tab: "\<forall>e\<in>set table. la (fst e) \<le> c \<and> (\<forall>u\<in>set (of_source (fst e) hist). u \<le> la (fst e)) \<and>
        snd e = rev (filter (\<lambda>u. la (fst e) - W < u) (of_source (fst e) hist))"
    and past: "\<forall>r\<in>set hist. snd r \<le> c \<and> (fst r \<notin> fst ` set table \<longrightarrow> snd r \<le> c - W)"
    and srt: "sorted_wrt (\<ge>) (map snd hist)" "distinct (map fst table)" "sorted (map (la \<circ> fst) table)"
    using assms(1) unfolding keyed_def by blast+
  have sub: "subseq ?o table" and k: "k \<notin> fst ` set ?o"
    by (rule subseq_others, rule not_in_others)
  have mem: "e \<in> set table \<and> fst e \<noteq> k" if "e \<in> set ?o" for e
    using that k list_emb_set [OF sub that] by auto
  have dst: "distinct (map fst ?o)"
    using subseq_map [OF sub, of fst] srt(2) by (metis subseq_conv_nths distinct_nthsI)
  have own: "\<forall>e\<in>set ?o. la (fst e) \<le> t \<and> (\<forall>u\<in>set (of_source (fst e) hist). u \<le> la (fst e)) \<and>
      snd e = rev (filter (\<lambda>u. la (fst e) - W < u) (of_source (fst e) hist))"
    using tab mem assms(2) by (metis order_trans)
  have ord: "map (la(k := t) \<circ> fst) ?o = map (la \<circ> fst) ?o"
    using mem by auto
  have "sorted (map (la \<circ> fst) ?o)"
    using sub srt(3) by (rule sorted_map_subseq)
  then have ord: "sorted (map (la(k := t) \<circ> fst) (?o @ [(k, v)]))" for v
    using own mem unfolding map_append ord by (simp add: sorted_append)
  have hist: "sorted_wrt (\<ge>) (map snd hist')" "\<forall>r\<in>set hist'. snd r \<le> t"
    using assms(2,4) srt(1) past by force+
  have unk: "\<forall>r\<in>set hist'. fst r \<notin> fst ` set ?o \<and> fst r \<noteq> k \<longrightarrow> snd r \<le> t - W"
  proof
    fix r
    assume "r \<in> set hist'"
    then consider "r = (k, t)" | "r \<in> set hist"
      using assms(4) by auto
    then show "fst r \<notin> fst ` set ?o \<and> fst r \<noteq> k \<longrightarrow> snd r \<le> t - W"
    proof cases
      case 2
      with assms(2,5) past show ?thesis
        by (cases "fst r \<in> fst ` set table") force+
    qed simp
  qed
  have same: "of_source (fst e) hist' = of_source (fst e) hist" if "e \<in> set ?o" for e
    using assms(4) mem [OF that] by auto
  have "\<forall>u\<in>set (of_source k hist'). u \<le> t"
    using hist(2) by force
  then have "\<forall>e\<in>set (?o @ [(k, rev (filter (\<lambda>u. t - W < u) (of_source k hist')))]).
      (la(k := t)) (fst e) \<le> t \<and> (\<forall>u\<in>set (of_source (fst e) hist'). u \<le> (la(k := t)) (fst e)) \<and>
      snd e = rev (filter (\<lambda>u. (la(k := t)) (fst e) - W < u) (of_source (fst e) hist'))"
    using own mem same by (auto simp del: set_of_source)
  moreover have "distinct (map fst (?o @ [(k, v)]))" for v
    using dst k by simp
  moreover have "\<forall>r\<in>set hist'. snd r \<le> t \<and> (fst r \<notin> fst ` set (?o @ [(k, v)]) \<longrightarrow> snd r \<le> t - W)" for v
    using hist(2) unk by simp
  ultimately show ?thesis
    unfolding keyed_def using ord hist(1) by blast
qed

section \<open>The limiters keep the contract\<close>

lemma source_rate_limiter: "0 < W \<Longrightarrow> rate_limiter (source_allow W G L C) lim_global W G"
  by unfold_locales (auto simp: source_allow_def Let_def split: if_splits prod.splits)

interpretation agent: rate_limiter agent_allow lim_global RATE_LIMIT_WINDOW_SECONDS MAX_GLOBAL_REQUESTS_PER_WINDOW
  by unfold_locales (auto simp: agent_allow_def RATE_LIMIT_WINDOW_SECONDS_def Let_def split: if_splits prod.splits)

text \<open>The agent's limiter, while no more identities are seen than it tracks: no entry is ever dropped.\<close>

definition agent_tracks :: "'k set \<Rightarrow> real \<Rightarrow> ('k \<times> real) list \<Rightarrow> 'k limiter \<Rightarrow> bool" where
  "agent_tracks K c hist s \<longleftrightarrow> finite K \<and> card K \<le> MAX_TRACKED_IDENTITIES \<and> fst ` set (lim_sources s) \<subseteq> K \<and>
     (\<exists>la. keyed RATE_LIMIT_WINDOW_SECONDS hist c la (lim_sources s))"

lemma agent_allow_eq:
  assumes "keyed RATE_LIMIT_WINDOW_SECONDS hist c la (lim_sources s)" "c \<le> t" "agent_allow k t s = (yes, s')"
  shows "lim_sources s' = others MAX_TRACKED_IDENTITIES k (lim_sources s) @ [(k, rev (filter (\<lambda>u.
      t - RATE_LIMIT_WINDOW_SECONDS < u) (of_source k (if yes then (k, t) # hist else hist))))]"
    and "yes \<longleftrightarrow> length (discard_before (lim_global s) (t - RATE_LIMIT_WINDOW_SECONDS)) < MAX_GLOBAL_REQUESTS_PER_WINDOW \<and>
      length (filter (\<lambda>u. t - RATE_LIMIT_WINDOW_SECONDS < u) (of_source k hist)) < MAX_REQUESTS_PER_IDENTITY_WINDOW"
proof -
  let ?e = "discard_before (fst (track MAX_TRACKED_IDENTITIES k (lim_sources s))) (t - RATE_LIMIT_WINDOW_SECONDS)"
  have e: "?e = rev (filter (\<lambda>u. t - RATE_LIMIT_WINDOW_SECONDS < u) (of_source k hist))"
    by (rule keyed_events [OF assms(1,2)])
  have "lim_sources s' = dict_set k (if yes then ?e @ [t] else ?e) (snd (track MAX_TRACKED_IDENTITIES k (lim_sources s)))"
    and "yes \<longleftrightarrow> length (discard_before (lim_global s) (t - RATE_LIMIT_WINDOW_SECONDS)) < MAX_GLOBAL_REQUESTS_PER_WINDOW \<and>
      length ?e < MAX_REQUESTS_PER_IDENTITY_WINDOW"
    using assms(3) by (auto simp: agent_allow_def Let_def split: if_splits prod.splits)
  then show "lim_sources s' = others MAX_TRACKED_IDENTITIES k (lim_sources s) @ [(k, rev (filter (\<lambda>u.
      t - RATE_LIMIT_WINDOW_SECONDS < u) (of_source k (if yes then (k, t) # hist else hist))))]"
    and "yes \<longleftrightarrow> length (discard_before (lim_global s) (t - RATE_LIMIT_WINDOW_SECONDS)) < MAX_GLOBAL_REQUESTS_PER_WINDOW \<and>
      length (filter (\<lambda>u. t - RATE_LIMIT_WINDOW_SECONDS < u) (of_source k hist)) < MAX_REQUESTS_PER_IDENTITY_WINDOW"
    unfolding set_tracked e by (auto simp: RATE_LIMIT_WINDOW_SECONDS_def)
qed

lemma others_keys: "fst ` set (others C k table) \<subseteq> fst ` set table"
  by (cases table) (auto simp: others_def AList.delete_eq)

lemma agent_tracks_step:
  assumes "agent_tracks K c hist s" "c \<le> t" "k \<in> K" "agent_allow k t s = (yes, s')"
  shows "agent_tracks K t (if yes then (k, t) # hist else hist) s'"
proof -
  from assms(1) obtain la where la: "keyed RATE_LIMIT_WINDOW_SECONDS hist c la (lim_sources s)"
    and K: "finite K" "card K \<le> MAX_TRACKED_IDENTITIES" "fst ` set (lim_sources s) \<subseteq> K"
    by (auto simp: agent_tracks_def)
  have kept: "fst ` set (lim_sources s) - {k} \<subseteq> fst ` set (others MAX_TRACKED_IDENTITIES k (lim_sources s))"
  proof (cases "k \<in> fst ` set (lim_sources s)")
    case False
    then have "card (fst ` set (lim_sources s)) < card K"
      using K(1,3) assms(3) by (metis psubset_card_mono psubsetI)
    then have "length (lim_sources s) < MAX_TRACKED_IDENTITIES"
      using la K(2) distinct_card [of "map fst (lim_sources s)"] by (simp add: keyed_def)
    with False show ?thesis
      by (auto simp: others_def)
  qed (auto simp: others_def AList.delete_eq)
  have "keyed RATE_LIMIT_WINDOW_SECONDS (if yes then (k, t) # hist else hist) t (la(k := t)) (lim_sources s')"
    unfolding agent_allow_eq(1) [OF la assms(2,4)]
    by (rule keyed_extend [OF la assms(2)]) (use kept in \<open>auto simp: RATE_LIMIT_WINDOW_SECONDS_def\<close>)
  moreover have "fst ` set (lim_sources s') \<subseteq> K"
    unfolding agent_allow_eq(1) [OF la assms(2,4)]
    using K(3) others_keys [of MAX_TRACKED_IDENTITIES k "lim_sources s"] assms(3) by auto
  ultimately show ?thesis
    using K by (auto simp: agent_tracks_def)
qed

interpretation agent_key: keyed_limiter agent_allow lim_global RATE_LIMIT_WINDOW_SECONDS
    MAX_GLOBAL_REQUESTS_PER_WINDOW "agent_tracks K" MAX_REQUESTS_PER_IDENTITY_WINDOW K for K
proof unfold_locales
  fix c hist s t k
  assume "agent_tracks K c hist s" "c \<le> t" "k \<in> K"
  then show "fst (agent_allow k t s) \<longleftrightarrow>
      length (discard_before (lim_global s) (t - RATE_LIMIT_WINDOW_SECONDS)) < MAX_GLOBAL_REQUESTS_PER_WINDOW \<and>
      length (filter (\<lambda>u. t - RATE_LIMIT_WINDOW_SECONDS < u) (of_source k hist)) < MAX_REQUESTS_PER_IDENTITY_WINDOW"
    using agent_allow_eq(2) prod.collapse unfolding agent_tracks_def by metis
next
  fix c hist s k u
  assume "agent_tracks K c hist s" "(k, u) \<in> set hist"
  then show "u \<le> c"
    unfolding agent_tracks_def keyed_def by fastforce
qed (rule agent_tracks_step)

text \<open>
  The other two limiters: an entry is only made or kept for a source with an admission in its window, so a table
  with room for more than twice the limit of all sources drops no entry that is still in use.
\<close>

definition source_tracks :: "real \<Rightarrow> nat \<Rightarrow> nat \<Rightarrow> real \<Rightarrow> ('k \<times> real) list \<Rightarrow> 'k limiter \<Rightarrow> bool" where
  "source_tracks W G C c hist s \<longleftrightarrow> 2 * G < C \<and> rate_limiter.logged lim_global W G (c - W) (map snd hist) s \<and>
     (\<forall>e\<in>set (lim_sources s). snd e \<noteq> []) \<and> (\<exists>la. keyed W hist c la (lim_sources s))"

lemma two_windows:
  assumes "sorted_wrt (\<ge>) ts" "spaced W n ts" "0 < W" "\<forall>u\<in>set ts. u \<le> c"
  shows "length (filter (\<lambda>u. c - 2 * W < u) ts) \<le> 2 * n"
proof -
  have "length (filter (\<lambda>u. c - 2 * W < u) ts)
      = length (filter (\<lambda>u. c - W < u \<and> u \<le> c) ts) + length (filter (\<lambda>u. c - W - W < u \<and> u \<le> c - W) ts)"
    using assms(3,4) by (induction ts) auto
  then show ?thesis
    using spaced_window [OF assms(1-3), of c] spaced_window [OF assms(1-3), of "c - W"] by simp
qed

lemma recent_sources:
  assumes "distinct ks" "\<forall>k\<in>set ks. \<exists>u. (k, u) \<in> set hist \<and> c < u"
  shows "length ks \<le> length (filter (\<lambda>u. c < u) (map snd hist))"
proof -
  have "set ks \<subseteq> set (map fst (filter (\<lambda>r. c < snd r) hist))"
    using assms(2) by force
  then have "card (set ks) \<le> length (map fst (filter (\<lambda>r. c < snd r) hist))"
    by (meson List.finite_set card_length card_mono order_trans)
  then show ?thesis
    using distinct_card [OF assms(1)] by (simp add: filter_map o_def)
qed

text \<open>The entry that a full table drops is out of use.\<close>

lemma dropped_unused:
  assumes "keyed W hist c la (e # table)" "c \<le> t" "0 < W" "\<forall>e\<in>set (e # table). snd e \<noteq> []"
    "spaced W G (map snd hist)" "2 * G < length (e # table)" "(fst e, u) \<in> set hist"
  shows "u \<le> t - W"
proof (rule ccontr)
  assume "\<not> u \<le> t - W"
  moreover have "u \<le> la (fst e)"
    using assms(1,7) unfolding keyed_def set_of_source [symmetric] by (meson list.set_intros(1))
  ultimately have u: "t - W < la (fst e)"
    by simp
  have "\<exists>v. (k, v) \<in> set hist \<and> t - 2 * W < v" if k: "k \<in> set (map fst (e # table))" for k
  proof -
    obtain es where es: "(k, es) \<in> set (e # table)" "es \<noteq> []"
      using k assms(4) by force
    then obtain v where "v \<in> set es"
      by (meson list.set_sel(1))
    then have "(k, v) \<in> set hist" "la k - W < v"
      using assms(1) es(1) by (force simp: keyed_def)+
    moreover have "la (fst e) \<le> la k"
      using assms(1) es(1) by (force simp: keyed_def)
    ultimately show ?thesis
      using u by (intro exI [of _ v]) simp
  qed
  then have "length (map fst (e # table)) \<le> length (filter (\<lambda>u. t - 2 * W < u) (map snd hist))"
    using assms(1) by (intro recent_sources) (auto simp: keyed_def)
  moreover have "\<forall>u\<in>set (map snd hist). u \<le> t"
    using assms(1,2) by (force simp: keyed_def)
  ultimately show False
    using two_windows [of "map snd hist" W G t] assms(1,3,5,6) by (simp add: keyed_def)
qed

lemma source_allow_eq:
  assumes "keyed W hist c la (lim_sources s)" "c \<le> t" "0 < W" "source_allow W G L C k t s = (yes, s')"
  shows "yes \<longleftrightarrow> length (discard_before (lim_global s) (t - W)) < G \<and>
      length (filter (\<lambda>u. t - W < u) (of_source k hist)) < L"
    and "lim_sources s' = lim_sources s \<and> \<not> yes \<or>
    lim_sources s' = others C k (lim_sources s) @
      [(k, rev (filter (\<lambda>u. t - W < u) (of_source k (if yes then (k, t) # hist else hist))))] \<and>
    (yes \<or> L \<le> length (filter (\<lambda>u. t - W < u) (of_source k hist)))"
proof -
  let ?e = "discard_before (fst (track C k (lim_sources s))) (t - W)"
  have e: "?e = rev (filter (\<lambda>u. t - W < u) (of_source k hist))"
    by (rule keyed_events [OF assms(1,2)])
  have "yes \<longleftrightarrow> length (discard_before (lim_global s) (t - W)) < G \<and> length ?e < L"
    and "lim_sources s' = lim_sources s \<and> \<not> yes \<or>
    lim_sources s' = dict_set k (if yes then ?e @ [t] else ?e) (snd (track C k (lim_sources s))) \<and> (yes \<or> L \<le> length ?e)"
    using assms(4) by (auto simp: source_allow_def Let_def split: if_splits prod.splits)
  then show "yes \<longleftrightarrow> length (discard_before (lim_global s) (t - W)) < G \<and>
      length (filter (\<lambda>u. t - W < u) (of_source k hist)) < L"
    and "lim_sources s' = lim_sources s \<and> \<not> yes \<or>
    lim_sources s' = others C k (lim_sources s) @
      [(k, rev (filter (\<lambda>u. t - W < u) (of_source k (if yes then (k, t) # hist else hist))))] \<and>
    (yes \<or> L \<le> length (filter (\<lambda>u. t - W < u) (of_source k hist)))"
    unfolding set_tracked e using assms(3) by auto
qed

lemma keyed_later: "keyed W hist c la table \<Longrightarrow> c \<le> t \<Longrightarrow> keyed W hist t la table"
  unfolding keyed_def by force

lemma source_tracks_step:
  assumes "source_tracks W G C c hist s" "c \<le> t" "source_allow W G L C k t s = (yes, s')" "0 < W" "0 < L"
  shows "source_tracks W G C t (if yes then (k, t) # hist else hist) s'"
proof -
  let ?hist = "if yes then (k, t) # hist else hist"
  from assms(1) obtain la where la: "keyed W hist c la (lim_sources s)" and C: "2 * G < C"
    and ne: "\<forall>e\<in>set (lim_sources s). snd e \<noteq> []"
    and lg: "rate_limiter.logged lim_global W G (c - W) (map snd hist) s"
    by (auto simp: source_tracks_def)
  have "\<forall>u\<in>set (map snd hist). u \<le> t"
    using la assms(2) by (force simp: keyed_def)
  from rate_limiter.logged_step [OF source_rate_limiter [OF assms(4)] lg _ this assms(3)]
  have "rate_limiter.logged lim_global W G (t - W) (map snd ?hist) s'"
    using assms(2) by (cases yes) simp_all
  moreover have "(\<forall>e\<in>set (lim_sources s'). snd e \<noteq> []) \<and> (\<exists>la. keyed W ?hist t la (lim_sources s'))"
    using source_allow_eq(2) [OF la assms(2,4,3)]
  proof
    assume "lim_sources s' = lim_sources s \<and> \<not> yes"
    then show ?thesis
      using ne keyed_later [OF la assms(2)] by auto
  next
    assume s': "lim_sources s' = others C k (lim_sources s) @ [(k, rev (filter (\<lambda>u. t - W < u) (of_source k ?hist)))] \<and>
      (yes \<or> L \<le> length (filter (\<lambda>u. t - W < u) (of_source k hist)))"
    have "spaced W G (map snd hist)"
      using lg rate_limiter.logged_def [OF source_rate_limiter [OF assms(4)]] by blast
    then have "snd r \<le> t - W" if "r \<in> set hist" "fst r \<in> fst ` set (lim_sources s)"
        "fst r \<notin> fst ` set (others C k (lim_sources s))" "fst r \<noteq> k" for r
      using that dropped_unused [of W hist c la _ _ t G "snd r"] la assms(2,4) ne C
      by (cases "lim_sources s") (auto simp: others_def AList.delete_eq split: if_splits)
    then have "keyed W ?hist t (la(k := t)) (lim_sources s')"
      using s' keyed_extend [OF la assms(2,4), of ?hist k C] by auto
    moreover have "filter (\<lambda>u. t - W < u) (of_source k ?hist) \<noteq> []"
      using s' assms(4,5) by (cases yes) auto
    moreover have "\<forall>e\<in>set (others C k (lim_sources s)). snd e \<noteq> []"
      using ne list_emb_set [OF subseq_others [of C k "lim_sources s"]] by blast
    ultimately show ?thesis
      using s' by auto
  qed
  ultimately show ?thesis
    using C by (simp add: source_tracks_def)
qed

lemma source_exact:
  assumes "source_tracks W G C c hist s" "c \<le> t" "0 < W"
  shows "fst (source_allow W G L C k t s) \<longleftrightarrow> length (discard_before (lim_global s) (t - W)) < G \<and>
    length (filter (\<lambda>u. t - W < u) (of_source k hist)) < L"
  using assms source_allow_eq(1) prod.collapse unfolding source_tracks_def by metis

lemma source_keyed_limiter:
  assumes "0 < W" "0 < L"
  shows "keyed_limiter (source_allow W G L C) lim_global W G (source_tracks W G C) L UNIV"
proof -
  have "u \<le> c" if "source_tracks W G C c hist s" "(k, u) \<in> set hist" for c hist s k u
    using that by (force simp: source_tracks_def keyed_def)
  then show ?thesis
    by (intro keyed_limiter.intro source_rate_limiter keyed_limiter_axioms.intro source_tracks_step [OF _ _ _ assms]
        source_exact assms)
qed

interpretation enrollment: keyed_limiter enrollment_allow lim_global 60 64 "source_tracks 60 64 4096" 8 UNIV
  unfolding enrollment_allow_def by (rule source_keyed_limiter) simp_all

interpretation operator: keyed_limiter operator_allow lim_global 60 120 "source_tracks 60 120 4096" 30 UNIV
  unfolding operator_allow_def by (rule source_keyed_limiter) simp_all

lemma logged_init: "0 < W \<Longrightarrow> rate_limiter.logged lim_global W G c [] limiter_init"
  by (subst rate_limiter.logged_def [OF source_rate_limiter]) (simp_all add: limiter_init_def)

lemma limiter_init_tracks [simp]:
  "lim_global limiter_init = []" "0 < W \<Longrightarrow> 2 * G < C \<Longrightarrow> source_tracks W G C c [] limiter_init"
  "finite K \<Longrightarrow> card K \<le> MAX_TRACKED_IDENTITIES \<Longrightarrow> agent_tracks K c [] limiter_init"
  using logged_init [of W G "c - W"] by (auto simp: limiter_init_def source_tracks_def agent_tracks_def keyed_def)


section \<open>Bounds on what is admitted\<close>

text \<open>
  C30: Whatever requests arrive, and whenever, each listener admits at most its global limit in any window:
  160 requests in ten seconds on the agent listener, 64 and 120 connections in a minute on the enrollment and the
  operator listener.
\<close>

theorem global_rate_bounded:
  assumes "sorted (map snd rs)" "sorted (map snd qs)"
  shows "in_window RATE_LIMIT_WINDOW_SECONDS u (map snd (admissions agent_allow rs limiter_init))
      \<le> MAX_GLOBAL_REQUESTS_PER_WINDOW \<and>
    in_window 60 u (map snd (admissions enrollment_allow qs limiter_init)) \<le> 64 \<and>
    in_window 60 u (map snd (admissions operator_allow qs limiter_init)) \<le> 120"
  using agent.window_bound [of limiter_init rs u] enrollment.window_bound [of limiter_init qs u]
    operator.window_bound [of limiter_init qs u] assms by simp

text \<open>
  C29: No source address gets more than 8 enrollment connections or 30 operator connections admitted in any minute,
  however many other sources connect in between: the bounded table of sources never forgets one that still has an
  admission in its window.  On the agent listener no identity gets more than 32 requests admitted in ten seconds
  while at most 4096 identities make requests.
\<close>

theorem source_rate_bounded:
  assumes "sorted (map snd qs)" "sorted (map snd rs)" "card (fst ` set rs) \<le> MAX_TRACKED_IDENTITIES"
  shows "in_window 60 u (of_source a (admissions enrollment_allow qs limiter_init)) \<le> 8 \<and>
    in_window 60 u (of_source a (admissions operator_allow qs limiter_init)) \<le> 30 \<and>
    in_window RATE_LIMIT_WINDOW_SECONDS u (of_source k (admissions agent_allow rs limiter_init))
      \<le> MAX_REQUESTS_PER_IDENTITY_WINDOW"
  using enrollment.key_window_bound [of limiter_init qs u a] operator.key_window_bound [of limiter_init qs u a]
    agent_key.key_window_bound [of "fst ` set rs" limiter_init rs u k] assms by simp

text \<open>
  C28: The limiters refuse nothing else: a deque that forgets what left its window and a table that forgets the source
  unused for longest admit exactly the requests that a limiter remembering every admission would.  The limiters of
  the enrollment and the operator listener do so for every sequence of requests with non-decreasing times.  The
  limiter of the agent listener does so for those with at most 4096 distinct identities: it makes room for a new
  identity before it tests the global limit, so that with more identities refused requests can drop the record of
  one that is still within its window.
\<close>

theorem rate_limits_exact:
  assumes "sorted (map snd qs)" "sorted (map snd rs)" "card (fst ` set rs) \<le> MAX_TRACKED_IDENTITIES"
  shows "admissions enrollment_allow qs limiter_init = sliding 60 64 8 [] qs \<and>
    admissions operator_allow qs limiter_init = sliding 60 120 30 [] qs \<and>
    admissions agent_allow rs limiter_init = sliding RATE_LIMIT_WINDOW_SECONDS MAX_GLOBAL_REQUESTS_PER_WINDOW
      MAX_REQUESTS_PER_IDENTITY_WINDOW [] rs"
  using enrollment.admissions_sliding [of limiter_init qs] operator.admissions_sliding [of limiter_init qs]
    agent_key.admissions_sliding [of "fst ` set rs" limiter_init rs] assms by simp

text \<open>A source that connects nine times in nine seconds and once more after a minute.\<close>

definition example_arrivals :: "(string \<times> real) list" where
  "example_arrivals = map (\<lambda>i. (''10.0.0.1'', real i)) [1, 2, 3, 4, 5, 6, 7, 8, 9, 61]"

lemma example_arrivals_sorted: "sorted (map snd example_arrivals)"
  by (simp add: example_arrivals_def)

lemma example_arrivals_few: "card (fst ` set example_arrivals) \<le> MAX_TRACKED_IDENTITIES"
  by (simp add: example_arrivals_def MAX_TRACKED_IDENTITIES_def)

theorem global_rate_bounded_witness:
  "sorted (map snd example_arrivals) \<and>
   in_window 60 9 (map snd (admissions enrollment_allow example_arrivals limiter_init)) \<le> 64"
  using global_rate_bounded [OF example_arrivals_sorted example_arrivals_sorted] example_arrivals_sorted by blast

theorem source_rate_bounded_witness:
  "sorted (map snd example_arrivals) \<and> card (fst ` set example_arrivals) \<le> MAX_TRACKED_IDENTITIES \<and>
   in_window 60 9 (of_source ''10.0.0.1'' (admissions enrollment_allow example_arrivals limiter_init)) \<le> 8"
  using source_rate_bounded [OF example_arrivals_sorted example_arrivals_sorted example_arrivals_few]
    example_arrivals_sorted example_arrivals_few by blast

theorem rate_limits_exact_witness:
  "admissions enrollment_allow example_arrivals limiter_init =
   map (\<lambda>i. (''10.0.0.1'', real i)) [1, 2, 3, 4, 5, 6, 7, 8, 61]"
  using rate_limits_exact [OF example_arrivals_sorted example_arrivals_sorted example_arrivals_few]
  by (simp add: example_arrivals_def)

end
