(* ===== verification/Http.thy ===== *)
theory Http
  imports Json
begin

text \<open>
  The HTTP layer of the enrollment and the operator listener (\<^verbatim>\<open>enrollment_listener.py\<close> and
  \<^verbatim>\<open>operator_listener.py\<close>): \<^verbatim>\<open>_read_request\<close>, which turns the bytes of a connection into a request or
  a \<^verbatim>\<open>_RequestError\<close>, and \<^verbatim>\<open>_write_raw\<close>, which turns a response into bytes.

  A stream is the string of the bytes that arrive up to the end of the connection; a reader that is still
  waiting when its deadline passes is a step of the listener, not of this theory.  The main facts say which
  byte streams are accepted and as what, that a request written by a client is read back, and that a response is
  one well-formed message whatever the application put into it.
\<close>


section \<open>Splitting bytes\<close>

text \<open>\<^verbatim>\<open>s.partition(sep)\<close> for a non-empty separator; \<open>None\<close> if the separator does not occur.\<close>

fun partition_at :: "string \<Rightarrow> string \<Rightarrow> (string \<times> string) option" where
  "partition_at sep [] = None"
| "partition_at sep (c # s) =
     (if startswith (c # s) sep then Some ([], drop (length sep) (c # s))
      else map_option (\<lambda>(a, b). (c # a, b)) (partition_at sep s))"

lemma partition_at_Some: "partition_at sep s = Some (a, b) \<Longrightarrow> s = a @ sep @ b"
  by (induction s arbitrary: a) (auto simp: startswith_iff split: if_splits)

text \<open>\<^verbatim>\<open>s.split(sep)\<close> for a non-empty separator.\<close>

function split_at :: "string \<Rightarrow> string \<Rightarrow> string list" where
  "split_at sep s =
     (if sep = [] then [s] else case partition_at sep s of None \<Rightarrow> [s] | Some (a, b) \<Rightarrow> a # split_at sep b)"
  by auto
termination
  by (relation "measure (length \<circ> snd)") (auto dest!: partition_at_Some)

declare split_at.simps [simp del]

definition CRLF :: string where
  "CRLF = [char_of (13 :: nat), char_of (10 :: nat)]"

text \<open>
  \<^verbatim>\<open>StreamReader.readuntil(sep)\<close>: the bytes up to and with the first separator, and the rest; \<open>None\<close> for
  \<^verbatim>\<open>IncompleteReadError\<close> and for \<^verbatim>\<open>LimitOverrunError\<close>, raised when more than \<open>limit\<close> bytes precede it.
\<close>

definition readuntil :: "nat \<Rightarrow> string \<Rightarrow> string \<Rightarrow> (string \<times> string) option" where
  "readuntil limit sep s = (case partition_at sep s of None \<Rightarrow> None
     | Some (a, b) \<Rightarrow> if limit < length a then None else Some (a @ sep, b))"

text \<open>\<^verbatim>\<open>StreamReader.readexactly(n)\<close>.\<close>

definition readexactly :: "nat \<Rightarrow> string \<Rightarrow> (string \<times> string) option" where
  "readexactly n s = (if length s < n then None else Some (take n s, drop n s))"

text \<open>\<^verbatim>\<open>int(s)\<close> for a text of ASCII digits.\<close>

definition int10 :: "string \<Rightarrow> nat" where
  "int10 s = foldl (\<lambda>n c. 10 * n + (code c - 48)) 0 s"


section \<open>Reading a request\<close>

datatype request_error = RequestError nat string

definition MAX_ENROLLMENT_HEADER_BYTES :: nat where "MAX_ENROLLMENT_HEADER_BYTES = 2048"
definition MAX_ENROLLMENT_HEADERS :: nat where "MAX_ENROLLMENT_HEADERS = 24"
definition MAX_ENROLLMENT_BODY_BYTES :: nat where "MAX_ENROLLMENT_BODY_BYTES = 16384"
definition MAX_OPERATOR_HEADER_BYTES :: nat where "MAX_OPERATOR_HEADER_BYTES = 6144"
definition MAX_OPERATOR_HEADERS :: nat where "MAX_OPERATOR_HEADERS = 24"

record enrollment_request =
  er_method :: string
  er_path :: string
  er_content_type :: "string option"
  er_content_encoding :: "string option"
  er_body :: string

record operator_request =
  or_method :: string
  or_path :: string
  or_authorization :: "string option"
  or_query_string :: string

definition HEADER_NAME :: "string \<Rightarrow> bool" where
  "HEADER_NAME name \<longleftrightarrow> name \<noteq> [] \<and> (\<forall>c\<in>set name. c \<in> set ''!#$%&*+-.^_`|~'' \<or> code c = 39 \<or> is_digit c \<or>
     65 \<le> code c \<and> code c \<le> 90 \<or> 97 \<le> code c \<and> code c \<le> 122)"

definition is_blank :: "char \<Rightarrow> bool" where
  "is_blank c \<longleftrightarrow> code c = 32 \<or> code c = 9"

definition header_value_ok :: "string \<Rightarrow> bool" where
  "header_value_ok value \<longleftrightarrow> value \<noteq> [] \<and> (\<forall>c\<in>set value. 32 \<le> code c \<and> code c \<le> 126)"

text \<open>The loop over the header lines.\<close>

fun read_headers :: "string list \<Rightarrow> (string, string) dict \<Rightarrow> request_error + (string, string) dict" where
  "read_headers [] headers = Inr headers"
| "read_headers (line # lines) headers =
     (case partition_at '':'' line of
        None \<Rightarrow> Inl (RequestError 400 ''invalid_request'')
      | Some (name, raw_value) \<Rightarrow>
          if \<not> HEADER_NAME name then Inl (RequestError 400 ''invalid_request'')
          else if dict_get headers (lower name) \<noteq> None then Inl (RequestError 400 ''invalid_request'')
          else let value = strip is_blank raw_value
               in if \<not> header_value_ok value then Inl (RequestError 400 ''invalid_request'')
                  else read_headers lines (dict_set (lower name) value headers))"

definition expected_host :: "string \<Rightarrow> nat \<Rightarrow> string" where
  "expected_host authority port = (if port \<in> {0, 443} then authority else authority @ '':'' @ dec_nat port)"

text \<open>
  The part both listeners share, with their limits as arguments: the bytes up to the blank line, split into lines,
  the request line split into method and target.  The result has the method, the target, the header lines and the
  bytes that follow.
\<close>

definition read_head :: "nat \<Rightarrow> nat \<Rightarrow> string \<Rightarrow> request_error + string \<times> string \<times> string list \<times> string" where
  "read_head max_bytes max_headers stream =
     (case readuntil (max_bytes + 4) (CRLF @ CRLF) stream of
        None \<Rightarrow> Inl (RequestError 400 ''invalid_request'')
      | Some (encoded_headers, rest) \<Rightarrow>
          if max_bytes < length encoded_headers then Inl (RequestError 431 ''headers_too_large'')
          else let lines = split_at CRLF (take (length encoded_headers - 4) encoded_headers)
          in if lines = [] \<or> max_headers + 1 < length lines then Inl (RequestError 400 ''invalid_request'')
          else let request_parts = split_at '' '' (lines ! 0)
          in if length request_parts \<noteq> 3 \<or> request_parts ! 2 \<noteq> ''HTTP/1.1''
             then Inl (RequestError 400 ''invalid_request'')
             else Inr (request_parts ! 0, request_parts ! 1, tl lines, rest))"

text \<open>The rest of the enrollment listener's function, once the headers are read.\<close>

definition enrollment_read_body ::
    "string \<Rightarrow> nat \<Rightarrow> string \<Rightarrow> string \<Rightarrow> (string, string) dict \<Rightarrow> string \<Rightarrow> request_error + enrollment_request \<times> string" where
  "enrollment_read_body authority port verb path headers rest =
     (if dict_get headers ''host'' \<noteq> Some (expected_host authority port)
      then Inl (RequestError 421 ''misdirected_request'')
      else if dict_get headers ''transfer-encoding'' \<noteq> None \<or> dict_get headers ''expect'' \<noteq> None
      then Inl (RequestError 400 ''invalid_request'')
      else case dict_get headers ''content-length'' of
          None \<Rightarrow> Inl (RequestError 411 ''length_required'')
        | Some content_length \<Rightarrow>
            if \<not> list_all is_ascii content_length \<or> content_length = [] \<or> \<not> list_all is_digit content_length
            then Inl (RequestError 411 ''length_required'')
            else if MAX_ENROLLMENT_BODY_BYTES < int10 content_length
            then Inl (RequestError 413 ''request_too_large'')
            else case readexactly (int10 content_length) rest of
                None \<Rightarrow> Inl (RequestError 400 ''invalid_request'')
              | Some (body, rest) \<Rightarrow>
                  Inr (\<lparr>er_method = verb, er_path = path, er_content_type = dict_get headers ''content-type'',
                        er_content_encoding = dict_get headers ''content-encoding'', er_body = body\<rparr>, rest))"

definition enrollment_read_request ::
    "string \<Rightarrow> nat \<Rightarrow> string \<Rightarrow> request_error + enrollment_request \<times> string" where
  "enrollment_read_request authority port stream =
     (case read_head MAX_ENROLLMENT_HEADER_BYTES MAX_ENROLLMENT_HEADERS stream of
        Inl error \<Rightarrow> Inl error
      | Inr (verb, path, header_lines, rest) \<Rightarrow>
          if \<not> list_all is_ascii verb \<or> \<not> list_all is_ascii path then Inl (RequestError 400 ''invalid_request'')
          else case read_headers header_lines [] of
              Inl error \<Rightarrow> Inl error
            | Inr headers \<Rightarrow> enrollment_read_body authority port verb path headers rest)"

text \<open>The rest of the operator listener's function, once the headers are read: a request has no body.\<close>

definition operator_read_rest ::
    "string \<Rightarrow> nat \<Rightarrow> string \<Rightarrow> string \<Rightarrow> string \<Rightarrow> (string, string) dict \<Rightarrow> request_error + operator_request" where
  "operator_read_rest authority port verb path query_string headers =
     (if dict_get headers ''host'' \<noteq> Some (expected_host authority port)
      then Inl (RequestError 421 ''misdirected_request'')
      else if \<exists>name\<in>{''transfer-encoding'', ''expect'', ''content-encoding''}. dict_get headers name \<noteq> None
      then Inl (RequestError 400 ''invalid_request'')
      else if dict_get headers ''content-length'' \<notin> {None, Some ''0''}
      then Inl (RequestError 413 ''request_body_not_allowed'')
      else Inr \<lparr>or_method = verb, or_path = path, or_authorization = dict_get headers ''authorization'',
                or_query_string = query_string\<rparr>)"

definition operator_read_request :: "string \<Rightarrow> nat \<Rightarrow> string \<Rightarrow> request_error + operator_request" where
  "operator_read_request authority port stream =
     (case read_head MAX_OPERATOR_HEADER_BYTES MAX_OPERATOR_HEADERS stream of
        Inl error \<Rightarrow> Inl error
      | Inr (verb, target, header_lines, rest) \<Rightarrow>
          let (raw_path, raw_query) = (case partition_at ''?'' target of None \<Rightarrow> (target, []) | Some (p, q) \<Rightarrow> (p, q))
          in if \<not> list_all is_ascii verb \<or> \<not> list_all is_ascii raw_path \<or> \<not> list_all is_ascii raw_query
             then Inl (RequestError 400 ''invalid_request'')
             else case read_headers header_lines [] of
                 Inl error \<Rightarrow> Inl error
               | Inr headers \<Rightarrow> operator_read_rest authority port verb raw_path raw_query headers)"


section \<open>Writing a response\<close>

record response =
  rs_status :: nat
  rs_headers :: "(string \<times> string) list"
  rs_body :: string

type_synonym enrollment_response = response
type_synonym operator_response = response

definition MAX_OPERATOR_RESPONSE_BYTES :: nat where "MAX_OPERATOR_RESPONSE_BYTES = 524288"

definition enrollment_reason :: "nat \<Rightarrow> string" where
  "enrollment_reason status = (case map_of
     [(201, ''Created''), (400, ''Bad Request''), (403, ''Forbidden''), (404, ''Not Found''),
      (405, ''Method Not Allowed''), (408, ''Request Timeout''), (411, ''Length Required''),
      (413, ''Content Too Large''), (415, ''Unsupported Media Type''), (421, ''Misdirected Request''),
      (429, ''Too Many Requests''), (431, ''Request Header Fields Too Large''), (503, ''Service Unavailable'')]
     status of None \<Rightarrow> ''Error'' | Some reason \<Rightarrow> reason)"

definition operator_reason :: "nat \<Rightarrow> string" where
  "operator_reason status = (case map_of
     [(200, ''OK''), (400, ''Bad Request''), (401, ''Unauthorized''), (403, ''Forbidden''), (404, ''Not Found''),
      (408, ''Request Timeout''), (413, ''Content Too Large''), (421, ''Misdirected Request''),
      (429, ''Too Many Requests''), (431, ''Request Header Fields Too Large''), (503, ''Service Unavailable'')]
     status of None \<Rightarrow> ''Error'' | Some reason \<Rightarrow> reason)"

definition encode_headers :: "(string, string) dict \<Rightarrow> string" where
  "encode_headers headers = concat (map (\<lambda>(name, value). name @ '': '' @ value @ CRLF) headers)"

text \<open>\<open>None\<close> is the \<^verbatim>\<open>UnicodeEncodeError\<close> of \<^verbatim>\<open>encode("ascii")\<close>.\<close>

definition message :: "nat \<Rightarrow> string \<Rightarrow> (string, string) dict \<Rightarrow> string \<Rightarrow> string option" where
  "message status reason headers body =
     (let encoded_headers = encode_headers headers
      in if list_all is_ascii encoded_headers
         then Some (''HTTP/1.1 '' @ dec_nat status @ '' '' @ reason @ CRLF @ encoded_headers @ CRLF @ body)
         else None)"

definition enrollment_write_raw :: "nat \<Rightarrow> string \<Rightarrow> (string \<times> string) list \<Rightarrow> string option" where
  "enrollment_write_raw status body headers =
     (let output_headers =
        [(''content-type'', ''application/json''), (''cache-control'', ''no-store''),
         (''x-content-type-options'', ''nosniff''), (''connection'', ''close''),
         (''content-length'', dec_nat (length body))];
          output_headers = fold (\<lambda>(name, value). dict_set (lower name) value) headers output_headers
      in message status (enrollment_reason status) output_headers body)"

text \<open>The text of the content security policy.\<close>

definition operator_csp :: string where
  "operator_csp = ''default-src '' @ [char_of (39 :: nat)] @ ''none'' @ [char_of (39 :: nat)] @
     ''; frame-ancestors '' @ [char_of (39 :: nat)] @ ''none'' @ [char_of (39 :: nat)] @
     ''; base-uri '' @ [char_of (39 :: nat)] @ ''none'' @ [char_of (39 :: nat)] @
     ''; form-action '' @ [char_of (39 :: nat)] @ ''none'' @ [char_of (39 :: nat)]"

text \<open>One pass of the loop over the application's headers, which keeps two of them only.\<close>

definition operator_header :: "string \<times> string \<Rightarrow> (string, string) dict \<Rightarrow> (string, string) dict" where
  "operator_header h output =
     (let normalized_name = lower (fst h); value = snd h
      in if normalized_name = ''content-type'' \<and> value \<in> {''application/json'', ''text/html; charset=utf-8''} \<or>
            normalized_name = ''www-authenticate'' \<and> value = ''Bearer''
         then dict_set normalized_name value output else output)"

definition operator_write_raw :: "nat \<Rightarrow> string \<Rightarrow> (string \<times> string) list \<Rightarrow> string option" where
  "operator_write_raw status body headers =
     (let output_headers =
        [(''content-type'', ''application/json''), (''cache-control'', ''no-store''),
         (''content-security-policy'', operator_csp), (''referrer-policy'', ''no-referrer''),
         (''x-content-type-options'', ''nosniff''), (''strict-transport-security'', ''max-age=31536000''),
         (''connection'', ''close''), (''content-length'', dec_nat (length body))];
          output_headers = fold operator_header headers output_headers
      in message status (operator_reason status) output_headers body)"

text \<open>\<^verbatim>\<open>'{"error":"' + code + '"}'\<close>.\<close>

definition error_body :: "string \<Rightarrow> string" where
  "error_body error = ''{'' @ json_string ''error'' @ '':'' @ [quote] @ error @ [quote] @ ''}''"

definition enrollment_write_error :: "nat \<Rightarrow> string \<Rightarrow> string option" where
  "enrollment_write_error status error = enrollment_write_raw status (error_body error) []"

definition operator_write_error :: "nat \<Rightarrow> string \<Rightarrow> string option" where
  "operator_write_error status error = operator_write_raw status (error_body error) []"

definition enrollment_write_response :: "enrollment_response \<Rightarrow> string option" where
  "enrollment_write_response r = enrollment_write_raw (rs_status r) (rs_body r) (rs_headers r)"

definition operator_write_response :: "operator_response \<Rightarrow> string option" where
  "operator_write_response r = operator_write_raw (rs_status r) (rs_body r) (rs_headers r)"


section \<open>Splitting and joining\<close>

lemma startswith_append_iff: "startswith (p @ s) (p @ q) \<longleftrightarrow> startswith s q"
  by (simp add: startswith_iff)

lemma partition_at_first:
  assumes "\<forall>c\<in>set a. c \<noteq> hd sep" "sep \<noteq> []"
  shows "partition_at sep (a @ sep @ b) = Some (a, b)"
  using assms
proof (induction a)
  case Nil
  then show ?case
    by (cases sep) (simp_all add: startswith_def)
next
  case (Cons c a)
  have "\<not> startswith (c # a @ sep @ b) sep"
    using Cons.prems by (cases sep) (auto simp: startswith_def)
  with Cons show ?case
    by simp
qed

lemma partition_at_none: "\<forall>c\<in>set s. c \<noteq> hd sep \<Longrightarrow> sep \<noteq> [] \<Longrightarrow> partition_at sep s = None"
  by (induction s) (auto simp: startswith_def neq_Nil_conv)

lemma partition_at_char: "partition_at [x] s = (if x \<in> set s then Some (takeWhile (\<lambda>c. c \<noteq> x) s, tl (dropWhile (\<lambda>c. c \<noteq> x) s)) else None)"
  by (induction s) (auto simp: startswith_def)

lemma split_at_neq_Nil [simp]: "split_at sep s \<noteq> []"
  by (subst split_at.simps) (auto split: option.splits)

lemma join_Cons: "xs \<noteq> [] \<Longrightarrow> join sep (x # xs) = x @ sep @ join sep xs"
  by (cases xs) auto

lemma join_split_at: "sep \<noteq> [] \<Longrightarrow> join sep (split_at sep s) = s"
proof (induction sep s rule: split_at.induct)
  case (1 sep s)
  show ?case
  proof (cases "partition_at sep s")
    case None
    then show ?thesis
      using 1 by (simp add: split_at.simps)
  next
    case (Some ab)
    then obtain a b where ab: "partition_at sep s = Some (a, b)"
      by (cases ab) auto
    have "split_at sep s = a # split_at sep b"
      using ab 1 by (simp add: split_at.simps [of sep s])
    then show ?thesis
      using 1 ab partition_at_Some [OF ab] by (simp add: join_Cons)
  qed
qed

lemma split_at_join:
  assumes "xs \<noteq> []" "\<forall>x\<in>set xs. \<forall>c\<in>set x. c \<noteq> hd sep" "sep \<noteq> []"
  shows "split_at sep (join sep xs) = xs"
  using assms
proof (induction sep xs rule: join.induct)
  case (2 sep x)
  then show ?case
    by (simp add: split_at.simps partition_at_none)
next
  case (3 sep x y zs)
  then show ?case
    by (simp add: split_at.simps [of sep "x @ _"] partition_at_first)
qed simp

lemma split_at_char: "x \<in> set (split_at [c] s) \<Longrightarrow> c \<notin> set x"
proof (induction "[c]" s rule: split_at.induct)
  case (1 s)
  then show ?case
    by (auto simp: split_at.simps [of "[c]" s] partition_at_char split: if_splits dest: set_takeWhileD)
qed

lemma split_at_char_iff: "split_at [c] s = xs \<longleftrightarrow> xs \<noteq> [] \<and> (\<forall>x\<in>set xs. c \<notin> set x) \<and> s = join [c] xs"
  using split_at_char [of _ c s] join_split_at [of "[c]" s] split_at_join [of xs "[c]"] split_at_neq_Nil
  by auto


section \<open>Which streams are accepted\<close>

text \<open>A header line and the pair of its lower-case name and its value.\<close>

definition header_line :: "string \<Rightarrow> string \<times> string \<Rightarrow> bool" where
  "header_line line h \<longleftrightarrow> (\<exists>name raw. line = name @ '':'' @ raw \<and> HEADER_NAME name \<and> fst h = lower name \<and>
     snd h = strip is_blank raw \<and> header_value_ok (snd h))"

lemma header_line_eq:
  "header_line line h \<longleftrightarrow> (\<exists>name raw. partition_at '':'' line = Some (name, raw) \<and> HEADER_NAME name \<and>
     fst h = lower name \<and> snd h = strip is_blank raw \<and> header_value_ok (snd h))"
proof -
  have "\<not> HEADER_NAME name" if "CHR '':'' \<in> set name" for name
  proof
    assume "HEADER_NAME name"
    with that have "CHR '':'' \<in> set ''!#$%&*+-.^_`|~'' \<or> is_digit (CHR '':'')"
      unfolding HEADER_NAME_def by fastforce
    then show False
      by (simp add: is_digit_def)
  qed
  then have "partition_at '':'' (name @ '':'' @ raw) = Some (name, raw)" if "HEADER_NAME name" for name raw
    using that by (intro partition_at_first) auto
  then show ?thesis
    unfolding header_line_def using partition_at_Some [of "'':''" line] by blast
qed

lemma read_headers_iff:
  "read_headers lines acc = Inr hs \<longleftrightarrow> (\<exists>new. hs = acc @ new \<and> list_all2 header_line lines new \<and>
     distinct (map fst new) \<and> fst ` set new \<inter> fst ` set acc = {})"
proof (induction lines arbitrary: acc)
  case (Cons line lines)
  show ?case
  proof (cases "partition_at '':'' line")
    case None
    then show ?thesis
      by (auto simp: header_line_eq list_all2_Cons1)
  next
    case (Some nr)
    then obtain name raw where nr: "partition_at '':'' line = Some (name, raw)"
      by (cases nr) auto
    then have h: "header_line line h \<longleftrightarrow> HEADER_NAME name \<and> header_value_ok (strip is_blank raw) \<and>
        h = (lower name, strip is_blank raw)" for h
      by (cases h) (auto simp: header_line_eq)
    show ?thesis
    proof (cases "lower name \<in> fst ` set acc")
      case True
      then have "dict_get acc (lower name) \<noteq> None"
        by (simp add: map_of_eq_None_iff)
      with True nr h show ?thesis
        by (auto simp: list_all2_Cons1)
    next
      case False
      then have "dict_get acc (lower name) = None"
        by (simp add: map_of_eq_None_iff)
      with False nr h show ?thesis
        by (simp add: list_all2_Cons1 Cons.IH [of "acc @ _"] Let_def dict_set_new) (auto simp del: read_headers.simps)
    qed
  qed
qed auto

text \<open>
  A stream that starts with a request line, header lines with distinct names and a blank line, the first in it;
  \<open>rest\<close> follows the blank line.
\<close>

definition http_head :: "string \<Rightarrow> string \<Rightarrow> string \<Rightarrow> (string, string) dict \<Rightarrow> string \<Rightarrow> bool" where
  "http_head stream verb target headers rest \<longleftrightarrow> (\<exists>head lines. partition_at (CRLF @ CRLF) stream = Some (head, rest) \<and>
     split_at CRLF head = (verb @ '' '' @ target @ '' HTTP/1.1'') # lines \<and>
     CHR '' '' \<notin> set verb \<and> CHR '' '' \<notin> set target \<and> list_all2 header_line lines headers \<and> distinct (map fst headers))"

lemma request_line_iff:
  "length (split_at '' '' line) = 3 \<and> split_at '' '' line ! 2 = ''HTTP/1.1'' \<and> verb = split_at '' '' line ! 0 \<and>
     target = split_at '' '' line ! 1 \<longleftrightarrow>
   line = verb @ '' '' @ target @ '' HTTP/1.1'' \<and> CHR '' '' \<notin> set verb \<and> CHR '' '' \<notin> set target"
proof -
  have "length xs = 3 \<and> xs ! 2 = z \<and> verb = xs ! 0 \<and> target = xs ! 1 \<longleftrightarrow> xs = [verb, target, z]" for xs z
    by (auto simp: numeral_3_eq_3 length_Suc_conv)
  then show ?thesis
    by (auto simp: split_at_char_iff)
qed

lemma read_head_iff:
  "read_head max_bytes max_headers stream = Inr (verb, target, lines, rest) \<longleftrightarrow>
   (\<exists>head. partition_at (CRLF @ CRLF) stream = Some (head, rest) \<and> length head + 4 \<le> max_bytes \<and>
      split_at CRLF head = (verb @ '' '' @ target @ '' HTTP/1.1'') # lines \<and> length lines \<le> max_headers \<and>
      CHR '' '' \<notin> set verb \<and> CHR '' '' \<notin> set target)" (is "?L \<longleftrightarrow> ?R")
proof (cases "partition_at (CRLF @ CRLF) stream")
  case None
  then show ?thesis
    by (simp add: read_head_def readuntil_def)
next
  case (Some hr)
  obtain head rest0 where p: "partition_at (CRLF @ CRLF) stream = Some (head, rest0)"
    using Some by (cases hr) auto
  obtain line ls where sp: "split_at CRLF head = line # ls"
    by (meson list.exhaust split_at_neq_Nil)
  have len: "length (CRLF @ CRLF) = 4"
    by (simp add: CRLF_def)
  have "?L \<longleftrightarrow> length head + 4 \<le> max_bytes \<and> length ls \<le> max_headers \<and> ls = lines \<and> rest0 = rest \<and>
      (length (split_at '' '' line) = 3 \<and> split_at '' '' line ! 2 = ''HTTP/1.1'' \<and>
        verb = split_at '' '' line ! 0 \<and> target = split_at '' '' line ! 1)"
    using sp len by (auto simp: read_head_def readuntil_def p Let_def split: if_splits)
  then show ?thesis
    unfolding request_line_iff using p sp by auto
qed

text \<open>What the enrollment listener requires of the headers and the body.\<close>

definition enrollment_headers :: "string \<Rightarrow> nat \<Rightarrow> (string, string) dict \<Rightarrow> string \<Rightarrow> bool" where
  "enrollment_headers authority port headers body \<longleftrightarrow>
     dict_get headers ''host'' = Some (expected_host authority port) \<and>
     dict_get headers ''transfer-encoding'' = None \<and> dict_get headers ''expect'' = None \<and>
     (case dict_get headers ''content-length'' of None \<Rightarrow> False
        | Some digits \<Rightarrow> digits \<noteq> [] \<and> list_all is_digit digits \<and> int10 digits = length body) \<and> length body \<le> MAX_ENROLLMENT_BODY_BYTES"

lemma digits_ascii: "list_all is_digit s \<Longrightarrow> list_all is_ascii s"
  by (auto simp: list_all_iff is_digit_def is_ascii_def)

lemma enrollment_read_body_iff:
  "enrollment_read_body authority port verb path headers rest0 = Inr (r, rest) \<longleftrightarrow>
     rest0 = er_body r @ rest \<and> er_method r = verb \<and> er_path r = path \<and>
     enrollment_headers authority port headers (er_body r) \<and>
     er_content_type r = dict_get headers ''content-type'' \<and> er_content_encoding r = dict_get headers ''content-encoding''"
  by (cases r) (auto simp: enrollment_read_body_def enrollment_headers_def readexactly_def digits_ascii split: option.splits)

definition operator_headers :: "string \<Rightarrow> nat \<Rightarrow> (string, string) dict \<Rightarrow> bool" where
  "operator_headers authority port headers \<longleftrightarrow>
     dict_get headers ''host'' = Some (expected_host authority port) \<and>
     dict_get headers ''transfer-encoding'' = None \<and> dict_get headers ''expect'' = None \<and>
     dict_get headers ''content-encoding'' = None \<and> dict_get headers ''content-length'' \<in> {None, Some ''0''}"

lemma operator_read_rest_iff:
  "operator_read_rest authority port verb path query headers = Inr r \<longleftrightarrow>
     or_method r = verb \<and> or_path r = path \<and> or_query_string r = query \<and>
     operator_headers authority port headers \<and> or_authorization r = dict_get headers ''authorization''"
  by (cases r) (auto simp: operator_read_rest_def operator_headers_def)

text \<open>The target of a request as the operator listener splits it at its first question mark.\<close>

definition split_target :: "string \<Rightarrow> string \<times> string" where
  "split_target target = (case partition_at ''?'' target of None \<Rightarrow> (target, []) | Some (p, q) \<Rightarrow> (p, q))"

lemma read_head_http_head:
  "(\<exists>lines. read_head max_bytes max_headers stream = Inr (verb, target, lines, rest) \<and> read_headers lines [] = Inr headers) \<longleftrightarrow>
   http_head stream verb target headers rest \<and> length stream - length rest \<le> max_bytes \<and> length headers \<le> max_headers"
proof -
  have "length stream - length rest = length head + 4" if "partition_at (CRLF @ CRLF) stream = Some (head, rest)" for head
    using partition_at_Some [OF that] by (simp add: CRLF_def)
  moreover have "length lines = length headers" if "list_all2 header_line lines headers" for lines
    using that by (rule list_all2_lengthD)
  ultimately show ?thesis
    unfolding read_head_iff read_headers_iff http_head_def by fastforce
qed

lemma read_head_http_head_conj:
  "(\<exists>lines. read_head max_bytes max_headers stream = Inr (verb, target, lines, rest) \<and>
      read_headers lines [] = Inr headers \<and> P) \<longleftrightarrow>
   http_head stream verb target headers rest \<and> length stream - length rest \<le> max_bytes \<and>
     length headers \<le> max_headers \<and> P"
  using read_head_http_head [of max_bytes max_headers stream verb target rest headers] by blast

lemma operator_read_request_eq:
  "operator_read_request authority port stream = Inr r \<longleftrightarrow>
   (\<exists>target headers rest lines. read_head MAX_OPERATOR_HEADER_BYTES MAX_OPERATOR_HEADERS stream =
        Inr (or_method r, target, lines, rest) \<and> read_headers lines [] = Inr headers \<and>
      split_target target = (or_path r, or_query_string r) \<and>
      list_all is_ascii (or_method r @ or_path r @ or_query_string r) \<and> operator_headers authority port headers \<and>
      or_authorization r = dict_get headers ''authorization'')"
  by (auto simp: operator_read_request_def split_target_def [symmetric] operator_read_rest_iff
      split: sum.splits prod.splits)

text \<open>
  C31: The bytes that the two listeners accept, and as what.  The enrollment listener accepts exactly a head of at most
  2048 bytes and 24 headers, ended by the first blank line, with distinct header names, the configured host, no
  transfer encoding and a decimal content length, and takes exactly that many bytes (at most 16384) as the body; the
  operator listener accepts exactly a head of at most 6144 bytes and 24 headers with the configured host, no transfer or
  content encoding and no body.  So no byte of a message can be read as part of another.
\<close>

theorem requests_accepted_iff:
  "(enrollment_read_request authority port stream = Inr (r, rest) \<longleftrightarrow>
     (\<exists>headers. http_head stream (er_method r) (er_path r) headers (er_body r @ rest) \<and>
        length stream - length (er_body r @ rest) \<le> MAX_ENROLLMENT_HEADER_BYTES \<and>
        length headers \<le> MAX_ENROLLMENT_HEADERS \<and> list_all is_ascii (er_method r @ er_path r) \<and>
        enrollment_headers authority port headers (er_body r) \<and>
        er_content_type r = dict_get headers ''content-type'' \<and>
        er_content_encoding r = dict_get headers ''content-encoding'')) \<and>
   (operator_read_request authority port stream = Inr q \<longleftrightarrow>
     (\<exists>target headers rest. http_head stream (or_method q) target headers rest \<and>
        length stream - length rest \<le> MAX_OPERATOR_HEADER_BYTES \<and> length headers \<le> MAX_OPERATOR_HEADERS \<and>
        split_target target = (or_path q, or_query_string q) \<and>
        list_all is_ascii (or_method q @ or_path q @ or_query_string q) \<and>
        operator_headers authority port headers \<and> or_authorization q = dict_get headers ''authorization''))"
  unfolding read_head_http_head_conj [symmetric] operator_read_request_eq [symmetric]
  by (auto simp: enrollment_read_request_def enrollment_read_body_iff split: sum.splits prod.splits)

section \<open>Messages are read back\<close>

lemma int10_snoc: "int10 (s @ [c]) = 10 * int10 s + (code c - 48)"
  by (simp add: int10_def)

lemma dec_nat_digits: "list_all is_digit (dec_nat n) \<and> dec_nat n \<noteq> [] \<and> int10 (dec_nat n) = n"
proof (induction n rule: dec_nat.induct)
  case (1 n)
  have c: "code (char_of (48 + n mod 10)) = 48 + n mod 10" "n < 10 \<Longrightarrow> code (char_of (48 + n)) = 48 + n"
    by (rule code_char_of, simp)+
  show ?case
  proof (cases "n < 10")
    case True
    then show ?thesis
      using c by (simp add: dec_nat.simps is_digit_def int10_def)
  next
    case False
    then have "list_all is_digit (dec_nat (n div 10))" "int10 (dec_nat (n div 10)) = n div 10"
      using 1 by auto
    then show ?thesis
      using c False by (simp add: dec_nat.simps [of n] int10_snoc is_digit_def [of "char_of _"])
  qed
qed

lemma partition_at_skip:
  assumes "\<forall>c\<in>set a. c \<noteq> hd sep" "sep \<noteq> []"
  shows "partition_at sep (a @ s) = map_option (\<lambda>(p, q). (a @ p, q)) (partition_at sep s)"
  using assms
proof (induction a)
  case Nil
  show ?case
    by (cases "partition_at sep s") auto
next
  case (Cons c a)
  have "\<not> startswith (c # a @ s) sep"
    using Cons.prems by (cases sep) (auto simp: startswith_def)
  with Cons show ?case
    by (simp add: option.map_comp o_def case_prod_beta')
qed

lemma hd_CRLF: "hd (CRLF @ sep) = char_of (13 :: nat)" "hd CRLF = char_of (13 :: nat)" "CRLF @ sep \<noteq> []" "CRLF \<noteq> []"
  by (simp_all add: CRLF_def)

text \<open>A line of a message: not empty and without a carriage return.\<close>

definition message_line :: "string \<Rightarrow> bool" where
  "message_line x \<longleftrightarrow> x \<noteq> [] \<and> char_of (13 :: nat) \<notin> set x"

lemma partition_at_lines:
  assumes "xs \<noteq> []" "\<forall>x\<in>set xs. message_line x"
  shows "partition_at (CRLF @ CRLF) (join CRLF xs @ CRLF @ CRLF @ rest) = Some (join CRLF xs, rest)"
  using assms
proof (induction CRLF xs rule: join.induct)
  case (2 x)
  then have "\<forall>c\<in>set x. c \<noteq> hd (CRLF @ CRLF)"
    by (auto simp: hd_CRLF message_line_def)
  then show ?case
    using partition_at_first [of x "CRLF @ CRLF" rest] by (simp add: CRLF_def)
next
  case (3 x y zs)
  define t where "t = join CRLF (y # zs) @ CRLF @ CRLF @ rest"
  have t: "partition_at (CRLF @ CRLF) t = Some (join CRLF (y # zs), rest)"
    unfolding t_def using 3 by simp
  obtain c u where y: "y = c # u" "c \<noteq> char_of (13 :: nat)"
    using 3 by (cases y) (auto simp: message_line_def)
  have "\<exists>v. t = c # v"
    unfolding t_def by (cases zs) (simp_all add: y)
  then have "\<not> startswith (CRLF @ t) (CRLF @ CRLF)"
    using y(2) by (auto simp: startswith_append_iff) (simp add: startswith_def CRLF_def)
  then have "partition_at (CRLF @ CRLF) (CRLF @ t) = Some (CRLF @ join CRLF (y # zs), rest)"
    using t by (simp add: CRLF_def startswith_def)
  moreover have "\<forall>c\<in>set x. c \<noteq> hd (CRLF @ CRLF)"
    using 3 by (auto simp: hd_CRLF message_line_def)
  ultimately show ?case
    using partition_at_skip [of x "CRLF @ CRLF" "CRLF @ t"] by (simp add: t_def hd_CRLF)
qed simp

definition header_text :: "string \<times> string \<Rightarrow> string" where
  "header_text h = fst h @ '': '' @ snd h"

lemma encode_headers_join:
  "line @ CRLF @ encode_headers headers @ CRLF @ body =
   join CRLF (line # map header_text headers) @ CRLF @ CRLF @ body"
proof (induction headers arbitrary: line)
  case (Cons h headers)
  from Cons [of "header_text h"] show ?case
    by (cases h) (simp add: encode_headers_def header_text_def)
qed (simp add: encode_headers_def)

text \<open>A header that is read back as it was written.\<close>

definition clean_header :: "string \<times> string \<Rightarrow> bool" where
  "clean_header h \<longleftrightarrow> HEADER_NAME (fst h) \<and> lower (fst h) = fst h \<and> header_value_ok (snd h) \<and> strip is_blank (snd h) = snd h"

lemma lstrip_blank: "strip is_blank (CHR '' '' # s) = strip is_blank s"
  by (simp add: strip_def lstrip_def is_blank_def)

lemma HEADER_NAME_code:
  assumes "HEADER_NAME name" "c \<in> set name"
  shows "33 \<le> code c \<and> code c \<le> 126"
proof -
  have "c \<in> set ''!#$%&*+-.^_`|~'' \<Longrightarrow> 33 \<le> code c \<and> code c \<le> 126"
    by auto
  then show ?thesis
    using assms unfolding HEADER_NAME_def is_digit_def by fastforce
qed

lemma clean_header_line:
  assumes "clean_header h"
  shows "header_line (header_text h) h \<and> message_line (header_text h)"
proof
  show "header_line (header_text h) h"
    using assms unfolding header_line_def clean_header_def header_text_def
    by (intro exI [of _ "fst h"] exI [of _ "'' '' @ snd h"]) (simp add: lstrip_blank)
  have "char_of (13 :: nat) \<notin> set (snd h)"
    using assms by (auto simp: clean_header_def header_value_ok_def)
  moreover have "char_of (13 :: nat) \<notin> set (fst h)"
    using assms HEADER_NAME_code [of "fst h" "char_of (13 :: nat)"] by (auto simp: clean_header_def)
  ultimately show "message_line (header_text h)"
    by (auto simp: message_line_def header_text_def dest: arg_cong [where f = code])
qed

lemma message_parts:
  assumes "message_line line" "list_all clean_header headers" "distinct (map fst headers)"
  shows "partition_at (CRLF @ CRLF) (line @ CRLF @ encode_headers headers @ CRLF @ body) =
      Some (join CRLF (line # map header_text headers), body)"
    and "split_at CRLF (join CRLF (line # map header_text headers)) = line # map header_text headers"
    and "read_headers (map header_text headers) [] = Inr headers"
proof -
  have lines: "\<forall>x\<in>set (line # map header_text headers). message_line x"
    using assms(1,2) clean_header_line by (auto simp: list_all_iff)
  then show "partition_at (CRLF @ CRLF) (line @ CRLF @ encode_headers headers @ CRLF @ body) =
      Some (join CRLF (line # map header_text headers), body)"
    unfolding encode_headers_join by (intro partition_at_lines) auto
  show "split_at CRLF (join CRLF (line # map header_text headers)) = line # map header_text headers"
    using lines by (intro split_at_join) (auto simp: hd_CRLF message_line_def CRLF_def)
  show "read_headers (map header_text headers) [] = Inr headers"
    using assms(2,3) clean_header_line
    by (auto simp: read_headers_iff list_all2_map1 list_all_iff intro!: list_all2_refl [THEN list_all2_mono] list.rel_refl_strong)
qed

definition request_line :: "string \<Rightarrow> string \<Rightarrow> string" where
  "request_line verb target = verb @ '' '' @ target @ '' HTTP/1.1''"

definition no_blank :: "string \<Rightarrow> bool" where
  "no_blank s \<longleftrightarrow> list_all is_ascii s \<and> CHR '' '' \<notin> set s \<and> char_of (13 :: nat) \<notin> set s"

lemma request_line_message_line: "no_blank verb \<Longrightarrow> no_blank target \<Longrightarrow> message_line (request_line verb target)"
  by (auto simp: message_line_def request_line_def no_blank_def dest: arg_cong [where f = code])

lemma length_encode_headers:
  "length (encode_headers headers) = sum_list (map (\<lambda>h. length (fst h) + length (snd h) + 4) headers)"
  by (induction headers) (auto simp: encode_headers_def CRLF_def)

text \<open>The bytes of a request as a client writes them.\<close>

definition request_text :: "string \<Rightarrow> string \<Rightarrow> (string, string) dict \<Rightarrow> string" where
  "request_text verb target headers = request_line verb target @ CRLF @ encode_headers headers @ CRLF"

lemma request_text_head:
  assumes "no_blank verb" "no_blank target" "list_all clean_header headers" "distinct (map fst headers)"
    "length (request_text verb target headers) \<le> max_bytes" "length headers \<le> max_headers"
  shows "read_head max_bytes max_headers (request_text verb target headers @ rest) =
    Inr (verb, target, map header_text headers, rest)"
proof -
  note parts = message_parts [OF request_line_message_line [OF assms(1,2)] assms(3,4)]
  have "length (join CRLF (request_line verb target # map header_text headers)) + 4 = length (request_text verb target headers)"
    using encode_headers_join [of "request_line verb target" headers "[]", THEN arg_cong [where f = length]]
    by (simp add: request_text_def CRLF_def)
  then show ?thesis
    unfolding read_head_iff using parts(1) [of rest] parts(2) assms
    by (intro exI [of _ "join CRLF (request_line verb target # map header_text headers)"])
       (simp add: request_text_def request_line_def no_blank_def)
qed


definition example_headers :: "(string, string) dict" where
  "example_headers = [(''host'', ''rmm.example.net''), (''content-length'', ''2'')]"



section \<open>Responses\<close>

text \<open>The bytes \<open>out\<close> are one message with the status line \<open>line\<close>, the headers and exactly the body.\<close>

definition framed :: "string \<Rightarrow> string \<Rightarrow> (string, string) dict \<Rightarrow> string \<Rightarrow> bool" where
  "framed out line headers body \<longleftrightarrow> (\<exists>head lines. partition_at (CRLF @ CRLF) out = Some (head, body) \<and>
     split_at CRLF head = line # lines \<and> read_headers lines [] = Inr headers \<and>
     dict_get headers ''content-length'' = Some (dec_nat (length body)) \<and>
     dict_get headers ''connection'' = Some ''close'')"

lemma clean_header_dec: "name \<in> {''content-length''} \<Longrightarrow> clean_header (name, dec_nat n)"
proof -
  assume "name \<in> {''content-length''}"
  moreover have "HEADER_NAME ''content-length'' \<and> lower ''content-length'' = ''content-length''"
    by code_simp
  moreover have d: "\<forall>c\<in>set (dec_nat n). 48 \<le> code c \<and> code c \<le> 57" "dec_nat n \<noteq> []"
    using dec_nat_digits [of n] by (auto simp: list_all_iff is_digit_def)
  moreover have "strip is_blank (dec_nat n) = dec_nat n"
    using d by (intro strip_id) (auto simp: is_blank_def)
  ultimately show ?thesis
    by (auto simp: clean_header_def header_value_ok_def)
qed

lemma dec_nat_ascii: "list_all is_ascii (dec_nat n)"
  using dec_nat_digits digits_ascii by blast

lemma clean_headers_ascii: "list_all clean_header headers \<Longrightarrow> list_all is_ascii (encode_headers headers)"
proof (induction headers)
  case (Cons h headers)
  then have "\<forall>c\<in>set (fst h). code c < 128" "\<forall>c\<in>set (snd h). code c < 128"
    using HEADER_NAME_code [of "fst h"] by (force simp: clean_header_def header_value_ok_def)+
  with Cons show ?case
    by (cases h) (auto simp: encode_headers_def is_ascii_def CRLF_def list_all_iff)
qed (simp add: encode_headers_def)

lemma message_framed:
  assumes "list_all clean_header headers" "distinct (map fst headers)"
    "dict_get headers ''content-length'' = Some (dec_nat (length body))" "dict_get headers ''connection'' = Some ''close''"
    "char_of (13 :: nat) \<notin> set reason"
  shows "\<exists>out. message status reason headers body = Some out \<and>
    framed out (''HTTP/1.1 '' @ dec_nat status @ '' '' @ reason) headers body"
proof -
  have "\<forall>c\<in>set (dec_nat status). 48 \<le> code c \<and> code c \<le> 57"
    using dec_nat_digits [of status] by (auto simp: list_all_iff is_digit_def)
  then have "char_of (13 :: nat) \<notin> set (dec_nat status)"
    by auto
  then have "message_line (''HTTP/1.1 '' @ dec_nat status @ '' '' @ reason)"
    using assms(5) by (auto simp: message_line_def dest: arg_cong [where f = code])
  from message_parts [OF this assms(1,2)] show ?thesis
    using clean_headers_ascii [OF assms(1)] assms(3,4) by (simp add: message_def framed_def Let_def)
qed

text \<open>What the operator application may change of the headers: the content type and the authentication scheme.\<close>

definition operator_output_headers :: "string \<Rightarrow> bool \<Rightarrow> string \<Rightarrow> (string, string) dict" where
  "operator_output_headers content_type bearer body =
     [(''content-type'', content_type), (''cache-control'', ''no-store''),
      (''content-security-policy'', operator_csp), (''referrer-policy'', ''no-referrer''),
      (''x-content-type-options'', ''nosniff''), (''strict-transport-security'', ''max-age=31536000''),
      (''connection'', ''close''), (''content-length'', dec_nat (length body))] @
     (if bearer then [(''www-authenticate'', ''Bearer'')] else [])"

lemma operator_header_output:
  "operator_header h (operator_output_headers ct bearer body) =
     (if lower (fst h) = ''content-type'' \<and> snd h \<in> {''application/json'', ''text/html; charset=utf-8''}
      then operator_output_headers (snd h) bearer body
      else if lower (fst h) = ''www-authenticate'' \<and> snd h = ''Bearer'' then operator_output_headers ct True body
      else operator_output_headers ct bearer body)"
proof -
  have "dict_set ''content-type'' v (operator_output_headers ct bearer body) = operator_output_headers v bearer body" for v
    by (simp add: operator_output_headers_def)
  moreover have "dict_set ''www-authenticate'' ''Bearer'' (operator_output_headers ct bearer body) = operator_output_headers ct True body"
    by (simp add: operator_output_headers_def)
  ultimately show ?thesis
    unfolding operator_header_def Let_def by presburger
qed

lemma if_merge: "(if P then f a x else if Q then f b True else f b x) = f (if P then a else b) (if P then x else Q \<or> x)"
  by simp

lemma operator_headers_fold:
  assumes "ct \<in> {''application/json'', ''text/html; charset=utf-8''}"
  obtains ct' bearer' where "ct' \<in> {''application/json'', ''text/html; charset=utf-8''}"
    "fold operator_header headers (operator_output_headers ct bearer body) = operator_output_headers ct' bearer' body"
  using assms
proof (induction headers arbitrary: ct bearer thesis)
  case (Cons h headers)
  define P where "P \<longleftrightarrow> lower (fst h) = ''content-type'' \<and> snd h \<in> {''application/json'', ''text/html; charset=utf-8''}"
  have b: "operator_header h (operator_output_headers ct bearer body) =
      operator_output_headers (if P then snd h else ct)
        (if P then bearer else lower (fst h) = ''www-authenticate'' \<and> snd h = ''Bearer'' \<or> bearer) body"
    unfolding operator_header_output P_def [symmetric]
    by (rule if_merge [where f = "\<lambda>ct bearer. operator_output_headers ct bearer body"])
  have ct: "(if P then snd h else ct) \<in> {''application/json'', ''text/html; charset=utf-8''}"
    using Cons.prems(2) unfolding P_def by presburger
  show ?case
    by (rule Cons.IH [OF Cons.prems(1) ct]) (simp_all only: fold_simps b)
qed simp

lemma operator_output_clean:
  assumes "ct \<in> {''application/json'', ''text/html; charset=utf-8''}"
  shows "list_all clean_header (operator_output_headers ct bearer body)"
    "distinct (map fst (operator_output_headers ct bearer body))"
proof -
  have "clean_header (''content-type'', ''application/json'') \<and> clean_header (''content-type'', ''text/html; charset=utf-8'') \<and>
    clean_header (''cache-control'', ''no-store'') \<and> clean_header (''content-security-policy'', operator_csp) \<and>
    clean_header (''referrer-policy'', ''no-referrer'') \<and> clean_header (''x-content-type-options'', ''nosniff'') \<and>
    clean_header (''strict-transport-security'', ''max-age=31536000'') \<and> clean_header (''connection'', ''close'') \<and>
    clean_header (''www-authenticate'', ''Bearer'')"
    by code_simp
  then show "list_all clean_header (operator_output_headers ct bearer body)"
    using assms clean_header_dec [of "''content-length''"] by (auto simp: operator_output_headers_def)
  show "distinct (map fst (operator_output_headers ct bearer body))"
    by (simp add: operator_output_headers_def)
qed

lemma reason_line: "char_of (13 :: nat) \<notin> set (operator_reason status)" "char_of (13 :: nat) \<notin> set (enrollment_reason status)"
proof -
  have c: "char_of (13 :: nat) \<notin> set s" if "list_all (\<lambda>c. 32 \<le> code c) s" for s
    using that by (auto simp: list_all_iff)
  show "char_of (13 :: nat) \<notin> set (operator_reason status)"
    by (rule c) (simp add: operator_reason_def)
  show "char_of (13 :: nat) \<notin> set (enrollment_reason status)"
    by (rule c) (simp add: enrollment_reason_def)
qed

text \<open>
  C33: Whatever status, headers and body the operator application returns, the operator listener writes exactly one
  well-formed message: its header block parses to the fixed security headers (no caching, content security policy, no
  sniffing, connection close) with one of the two content types and at most the Bearer challenge added, the content length
  is the length of the body, and the body follows the first blank line.  No header value can inject another header or
  another response.
\<close>

theorem operator_responses_framed:
  "\<exists>out content_type bearer. operator_write_raw status body headers = Some out \<and>
     content_type \<in> {''application/json'', ''text/html; charset=utf-8''} \<and>
     framed out (''HTTP/1.1 '' @ dec_nat status @ '' '' @ operator_reason status)
       (operator_output_headers content_type bearer body) body"
proof -
  obtain ct bearer where ct: "ct \<in> {''application/json'', ''text/html; charset=utf-8''}"
    and fold: "fold operator_header headers (operator_output_headers ''application/json'' False body) =
      operator_output_headers ct bearer body"
    by (rule operator_headers_fold [of "''application/json''" headers False body]) simp_all
  have "operator_write_raw status body headers = message status (operator_reason status)
      (fold operator_header headers (operator_output_headers ''application/json'' False body)) body"
    by (simp add: operator_write_raw_def operator_output_headers_def)
  then have out: "operator_write_raw status body headers = message status (operator_reason status) (operator_output_headers ct bearer body) body"
    unfolding fold .
  have "dict_get (operator_output_headers ct bearer body) ''content-length'' = Some (dec_nat (length body))"
    "dict_get (operator_output_headers ct bearer body) ''connection'' = Some ''close''"
    by (simp_all add: operator_output_headers_def)
  from message_framed [OF operator_output_clean [OF ct] this reason_line(1)] show ?thesis
    using ct out by metis
qed

end
