(* ===== verification/Admission.thy ===== *)
theory Admission
  imports Prelude "HOL-Library.Multiset"
begin

text \<open>
  The admission counters of the listeners.  A listener bounds how many connections, handshakes or requests it serves
  at once, in all and for one source.  The enrollment and the operator listener and the agent listener's requests keep
  a semaphore and a dictionary of counts (\<open>slots\<close>); the agent listener's connections keep two counts
  (\<^verbatim>\<open>_ConnectionAdmission\<close>, \<open>connection_admission\<close>).

  The locale \<open>admission\<close> is what a listener relies on: abstractly, the counters are the multiset of the sources whose
  slot is held; a slot is granted exactly while both limits leave room, and a slot that is held can be given back.
  Both implementations are shown to satisfy it.
\<close>


section \<open>The contract\<close>

locale admission =
  fixes acquire :: "'k \<Rightarrow> 's \<Rightarrow> 's option" and release :: "'k \<Rightarrow> 's \<Rightarrow> 's result"
    and held :: "'s \<Rightarrow> 'k multiset" and ok :: "'s \<Rightarrow> bool" and capacity :: nat and per_key :: nat
  assumes acquire_None: "ok s \<Longrightarrow> acquire k s = None \<longleftrightarrow> capacity \<le> size (held s) \<or> per_key \<le> count (held s) k"
    and acquire_Some: "ok s \<Longrightarrow> acquire k s = Some s' \<Longrightarrow> ok s' \<and> held s' = add_mset k (held s)"
    and release_held: "ok s \<Longrightarrow> k \<in># held s \<Longrightarrow> \<exists>s'. release k s = Inr s' \<and> ok s' \<and> held s' = held s - {#k#}"
    and release_not_held: "ok s \<Longrightarrow> k \<notin># held s \<Longrightarrow> \<exists>e. release k s = Inl e"
    and within: "ok s \<Longrightarrow> size (held s) \<le> capacity \<and> count (held s) k \<le> per_key"
begin

lemma release_add:
  assumes "ok s" "held s = add_mset k A"
  obtains s' where "release k s = Inr s'" "ok s'" "held s' = A"
  using release_held [OF assms(1), of k] assms(2) by auto

text \<open>A slot that was just granted can be given back, and the counters are as before.\<close>

lemma acquire_release: "ok s \<Longrightarrow> acquire k s = Some s' \<Longrightarrow> \<exists>s''. release k s' = Inr s'' \<and> ok s'' \<and> held s'' = held s"
  using acquire_Some [of s k s'] release_held [of s' k] by auto

end


section \<open>Counts by key\<close>

definition key_count :: "('k, nat) dict \<Rightarrow> 'k \<Rightarrow> nat" where
  "key_count d k = (case dict_get d k of None \<Rightarrow> 0 | Some n \<Rightarrow> n)"

fun held_keys :: "('k, nat) dict \<Rightarrow> 'k multiset" where
  "held_keys [] = {#}"
| "held_keys ((k, n) # d) = replicate_mset n k + held_keys d"

lemma count_held_keys: "dict_ok d \<Longrightarrow> count (held_keys d) k = key_count d k"
proof (induction d rule: held_keys.induct)
  case (2 j n d)
  then have "dict_get d j = None"
    by (simp add: map_of_eq_None_iff)
  with 2 show ?case
    by (cases "k = j") (simp_all add: key_count_def)
qed (simp add: key_count_def)

lemma held_keys_set: "dict_ok d \<Longrightarrow> key_count d k \<le> n \<Longrightarrow> held_keys (dict_set k n d) = held_keys d + replicate_mset (n - key_count d k) k"
  by (rule multiset_eqI) (auto simp: count_held_keys key_count_def split: option.splits)

lemma held_keys_drop: "dict_ok d \<Longrightarrow> n \<le> key_count d k \<Longrightarrow> held_keys (dict_set k n d) = held_keys d - replicate_mset (key_count d k - n) k"
  by (rule multiset_eqI) (auto simp: count_held_keys key_count_def split: option.splits)

lemma held_keys_del: "dict_ok d \<Longrightarrow> held_keys (dict_del k d) = held_keys d - replicate_mset (key_count d k) k"
  by (rule multiset_eqI) (auto simp: count_held_keys key_count_def split: option.splits)

section \<open>A semaphore and a dictionary of counts\<close>

record 'k slots =
  sl_value :: nat
  sl_active :: "('k, nat) dict"

definition slots_init :: "nat \<Rightarrow> 'k slots" where
  "slots_init capacity = \<lparr>sl_value = capacity, sl_active = []\<rparr>"

text \<open>
  The check of both limits and the acquisition.  \<^verbatim>\<open>Semaphore.acquire\<close> of a semaphore that is not \<^verbatim>\<open>locked()\<close> does
  not suspend, so nothing runs in between.
\<close>

definition take_slot :: "nat \<Rightarrow> 'k \<Rightarrow> 'k slots \<Rightarrow> 'k slots option" where
  "take_slot per_key source s =
     (let active = key_count (sl_active s) source
      in if sl_value s = 0 \<or> per_key \<le> active then None
         else Some \<lparr>sl_value = sl_value s - 1, sl_active = dict_set source (active + 1) (sl_active s)\<rparr>)"

definition release_slot :: "'k \<Rightarrow> 'k slots \<Rightarrow> 'k slots result" where
  "release_slot source s =
     (case dict_get (sl_active s) source of
        None \<Rightarrow> Inl (AssertionError ''admission accounting is inconsistent'')
      | Some active \<Rightarrow>
          if active < 1 then Inl (AssertionError ''admission accounting is inconsistent'')
          else Inr \<lparr>sl_value = sl_value s + 1,
                    sl_active = (if active = 1 then dict_del source (sl_active s)
                                 else dict_set source (active - 1) (sl_active s))\<rparr>)"

definition slots_held :: "'k slots \<Rightarrow> 'k multiset" where
  "slots_held s = held_keys (sl_active s)"

definition slots_ok :: "nat \<Rightarrow> nat \<Rightarrow> 'k slots \<Rightarrow> bool" where
  "slots_ok capacity per_key s \<longleftrightarrow> dict_ok (sl_active s) \<and> (\<forall>k. dict_get (sl_active s) k \<noteq> Some 0) \<and>
     sl_value s + size (slots_held s) = capacity \<and> (\<forall>k. key_count (sl_active s) k \<le> per_key)"

lemma slots_init_ok [simp]: "slots_ok capacity per_key (slots_init capacity)" "slots_held (slots_init capacity) = {#}"
  by (simp_all add: slots_ok_def slots_init_def slots_held_def key_count_def)

lemma key_count_Some: "dict_get d k = Some n \<Longrightarrow> key_count d k = n"
  by (simp add: key_count_def)

lemma key_count_set [simp]: "key_count (dict_set j n d) k = (if k = j then n else key_count d k)"
  by (simp add: key_count_def)

lemma key_count_del [simp]: "key_count (dict_del j d) k = (if k = j then 0 else key_count d k)"
  by (simp add: key_count_def)

lemma mem_held: "dict_ok d \<Longrightarrow> k \<in># held_keys d \<longleftrightarrow> 0 < key_count d k"
  by (metis count_held_keys count_greater_zero_iff)

lemma take_slot_Some:
  assumes "slots_ok capacity per_key s" "take_slot per_key k s = Some s'"
  shows "slots_ok capacity per_key s' \<and> slots_held s' = add_mset k (slots_held s)"
proof -
  have d: "dict_ok (sl_active s)" and c: "sl_value s \<noteq> 0" "key_count (sl_active s) k < per_key"
    and s': "s' = \<lparr>sl_value = sl_value s - 1, sl_active = dict_set k (key_count (sl_active s) k + 1) (sl_active s)\<rparr>"
    using assms by (auto simp: slots_ok_def take_slot_def Let_def split: if_splits)
  have "slots_held s' = add_mset k (slots_held s)"
    using held_keys_set [OF d, of k "key_count (sl_active s) k + 1"] by (simp add: s' slots_held_def)
  then show ?thesis
    using assms(1) c d by (auto simp: slots_ok_def s' slots_held_def)
qed

lemma release_slot_held:
  assumes "slots_ok capacity per_key s" "k \<in># slots_held s"
  shows "\<exists>s'. release_slot k s = Inr s' \<and> slots_ok capacity per_key s' \<and> slots_held s' = slots_held s - {#k#}"
proof -
  let ?d = "sl_active s"
  have d: "dict_ok ?d" "0 < key_count ?d k"
    using assms by (auto simp: slots_ok_def slots_held_def mem_held)
  then obtain n where n: "dict_get ?d k = Some n" "0 < n" "key_count ?d k = n"
    by (auto simp: key_count_def split: option.splits)
  define d' where "d' = (if n = 1 then dict_del k ?d else dict_set k (n - 1) ?d)"
  have rel: "release_slot k s = Inr \<lparr>sl_value = sl_value s + 1, sl_active = d'\<rparr>"
    using n by (simp add: release_slot_def d'_def)
  have d': "held_keys d' = held_keys ?d - {#k#}"
    using held_keys_drop [OF d(1), of "n - 1" k] held_keys_del [OF d(1), of k] n by (simp add: d'_def)
  have "size (held_keys ?d) = Suc (size (held_keys d'))"
    using assms(2) unfolding d' slots_held_def by (metis insert_DiffM size_add_mset)
  moreover have "key_count ?d j \<le> per_key" "dict_get ?d j \<noteq> Some 0" for j
    using assms(1) unfolding slots_ok_def by blast+
  then have "dict_ok d'" "\<forall>j. dict_get d' j \<noteq> Some 0" "\<forall>j. key_count d' j \<le> per_key"
    using d(1) n(2,3) le_trans [OF diff_le_self, of n per_key 1] by (auto simp: d'_def simp del: map_of_eq_Some_iff)
  ultimately show ?thesis
    using rel d' assms(1) by (simp add: slots_ok_def slots_held_def)
qed

interpretation slots: admission "take_slot per_key" release_slot slots_held "slots_ok capacity per_key" capacity per_key
  for capacity per_key
proof unfold_locales
  fix s k
  assume ok: "slots_ok capacity per_key s"
  then show "take_slot per_key k s = None \<longleftrightarrow> capacity \<le> size (slots_held s) \<or> per_key \<le> count (slots_held s) k"
    by (auto simp: take_slot_def Let_def slots_ok_def slots_held_def count_held_keys)
  show "size (slots_held s) \<le> capacity \<and> count (slots_held s) k \<le> per_key"
    using ok by (auto simp: slots_ok_def slots_held_def count_held_keys)
  assume "k \<notin># slots_held s"
  then show "\<exists>e. release_slot k s = Inl e"
    using ok by (auto simp: release_slot_def slots_ok_def slots_held_def mem_held key_count_def split: option.splits)
qed (rule take_slot_Some release_slot_held, assumption+)+


section \<open>The connections of the agent listener\<close>

definition MAX_CONCURRENT_REQUESTS :: nat where "MAX_CONCURRENT_REQUESTS = 16"
definition MAX_CONCURRENT_REQUESTS_PER_IDENTITY :: nat where "MAX_CONCURRENT_REQUESTS_PER_IDENTITY = 4"

record 'k connection_admission =
  ca_active :: nat
  ca_active_by_identity :: "('k, nat) dict"

definition connection_admission_init :: "'k connection_admission" where
  "connection_admission_init = \<lparr>ca_active = 0, ca_active_by_identity = []\<rparr>"

definition ca_acquire :: "'k \<Rightarrow> 'k connection_admission \<Rightarrow> 'k connection_admission option" where
  "ca_acquire identity_key s =
     (let active_for_identity = key_count (ca_active_by_identity s) identity_key
      in if MAX_CONCURRENT_REQUESTS \<le> ca_active s \<or> MAX_CONCURRENT_REQUESTS_PER_IDENTITY \<le> active_for_identity then None
         else Some \<lparr>ca_active = ca_active s + 1,
                    ca_active_by_identity = dict_set identity_key (active_for_identity + 1) (ca_active_by_identity s)\<rparr>)"

definition ca_release :: "'k \<Rightarrow> 'k connection_admission \<Rightarrow> 'k connection_admission result" where
  "ca_release identity_key s =
     (case dict_get (ca_active_by_identity s) identity_key of
        None \<Rightarrow> Inl (AssertionError ''connection admission accounting is inconsistent'')
      | Some active_for_identity \<Rightarrow>
          if ca_active s < 1 then Inl (AssertionError ''connection admission accounting is inconsistent'')
          else Inr \<lparr>ca_active = ca_active s - 1,
                    ca_active_by_identity =
                      (if active_for_identity = 1 then dict_del identity_key (ca_active_by_identity s)
                       else dict_set identity_key (active_for_identity - 1) (ca_active_by_identity s))\<rparr>)"

text \<open>The same counters as slots, which counts the free ones instead.\<close>

definition ca_slots :: "'k connection_admission \<Rightarrow> 'k slots" where
  "ca_slots s = \<lparr>sl_value = MAX_CONCURRENT_REQUESTS - ca_active s, sl_active = ca_active_by_identity s\<rparr>"

definition ca_ok :: "'k connection_admission \<Rightarrow> bool" where
  "ca_ok s \<longleftrightarrow> ca_active s \<le> MAX_CONCURRENT_REQUESTS \<and>
     slots_ok MAX_CONCURRENT_REQUESTS MAX_CONCURRENT_REQUESTS_PER_IDENTITY (ca_slots s)"

lemma ca_acquire_slots:
  assumes "ca_ok s"
  shows "map_option ca_slots (ca_acquire k s) = take_slot MAX_CONCURRENT_REQUESTS_PER_IDENTITY k (ca_slots s)"
  using assms by (auto simp: ca_acquire_def take_slot_def ca_slots_def ca_ok_def Let_def)

lemma ca_release_slots:
  assumes "ca_ok s"
  shows "case ca_release k s of Inl _ \<Rightarrow> \<exists>e. release_slot k (ca_slots s) = Inl e
    | Inr s' \<Rightarrow> release_slot k (ca_slots s) = Inr (ca_slots s') \<and> ca_active s' \<le> MAX_CONCURRENT_REQUESTS"
proof (cases "dict_get (ca_active_by_identity s) k")
  case None
  then show ?thesis
    by (simp add: ca_release_def release_slot_def ca_slots_def)
next
  case (Some n)
  let ?d = "ca_active_by_identity s"
  have d: "dict_ok ?d" "n \<noteq> 0" "MAX_CONCURRENT_REQUESTS - ca_active s + size (held_keys ?d) = MAX_CONCURRENT_REQUESTS"
    using assms Some by (auto simp: ca_ok_def slots_ok_def ca_slots_def slots_held_def simp del: map_of_eq_Some_iff)
      (metis gr0I)
  have "k \<in># held_keys ?d"
    using d Some by (simp add: mem_held key_count_def)
  then have "0 < size (held_keys ?d)"
    by (auto simp: nonempty_has_size [symmetric])
  with d have "0 < ca_active s"
    by simp
  moreover have "ca_active s \<le> MAX_CONCURRENT_REQUESTS"
    using assms by (simp add: ca_ok_def)
  ultimately show ?thesis
    using d(2) Some by (auto simp: ca_release_def release_slot_def ca_slots_def Suc_diff_le simp del: map_of_eq_Some_iff)
qed

interpretation connections: admission ca_acquire ca_release "\<lambda>s. slots_held (ca_slots s)" ca_ok
    MAX_CONCURRENT_REQUESTS MAX_CONCURRENT_REQUESTS_PER_IDENTITY
proof unfold_locales
  fix s :: "'a connection_admission" and k
  assume ok: "ca_ok s"
  then have sl: "slots_ok MAX_CONCURRENT_REQUESTS MAX_CONCURRENT_REQUESTS_PER_IDENTITY (ca_slots s)"
    by (simp add: ca_ok_def)
  show "ca_acquire k s = None \<longleftrightarrow> MAX_CONCURRENT_REQUESTS \<le> size (slots_held (ca_slots s)) \<or>
      MAX_CONCURRENT_REQUESTS_PER_IDENTITY \<le> count (slots_held (ca_slots s)) k"
    using ca_acquire_slots [OF ok, of k] slots.acquire_None [OF sl, of k] by (metis map_option_is_None)
  show "size (slots_held (ca_slots s)) \<le> MAX_CONCURRENT_REQUESTS \<and>
      count (slots_held (ca_slots s)) k \<le> MAX_CONCURRENT_REQUESTS_PER_IDENTITY"
    by (rule slots.within [OF sl])
  show "ca_ok s' \<and> slots_held (ca_slots s') = add_mset k (slots_held (ca_slots s))" if "ca_acquire k s = Some s'" for s'
  proof -
    have "ca_active s' \<le> MAX_CONCURRENT_REQUESTS"
      using that by (auto simp: ca_acquire_def Let_def split: if_splits)
    then show ?thesis
      using ca_acquire_slots [OF ok, of k] slots.acquire_Some [OF sl, of k "ca_slots s'"] that by (simp add: ca_ok_def)
  qed
  show "\<exists>s'. ca_release k s = Inr s' \<and> ca_ok s' \<and> slots_held (ca_slots s') = slots_held (ca_slots s) - {#k#}"
    if "k \<in># slots_held (ca_slots s)"
    using ca_release_slots [OF ok, of k] slots.release_held [OF sl that] by (auto simp: ca_ok_def split: sum.splits)
  show "\<exists>e. ca_release k s = Inl e" if "k \<notin># slots_held (ca_slots s)"
    using ca_release_slots [OF ok, of k] slots.release_not_held [OF sl that] by (auto split: sum.splits)
qed

lemma connection_admission_init_ok [simp]:
  "ca_ok connection_admission_init" "slots_held (ca_slots connection_admission_init) = {#}"
  by (simp_all add: ca_ok_def ca_slots_def connection_admission_init_def slots_ok_def slots_held_def key_count_def)

end
