(* ===== verification/Tls_Listeners.thy ===== *)
theory Tls_Listeners
  imports Rate_Limits Http Admission
begin

text \<open>
  The connection handlers of the enrollment and the operator listener (\<^verbatim>\<open>_handle_transport\<close> and
  \<^verbatim>\<open>_handle_connection\<close> of \<^verbatim>\<open>enrollment_listener.py\<close> and \<^verbatim>\<open>operator_listener.py\<close>) as a state machine.

  The handlers of many connections run interleaved; each runs without interruption from one \<^verbatim>\<open>await\<close> that suspends to
  the next.  A \<open>phase\<close> is the \<^verbatim>\<open>await\<close> at which the handler of a connection waits and the slots it holds there;
  an \<open>event\<close> is what ends the wait.  The two listeners differ in their limits, their reading and writing of
  messages and what they answer to a failed operation, which a record \<open>flavour\<close> holds.  Every operation runs in a thread of
  its own and keeps its slot until it ends, even when its connection is gone (\<open>sv_detached\<close>).
\<close>


section \<open>States and events\<close>

text \<open>
  \<open>Handshaking\<close>: in \<^verbatim>\<open>start_tls\<close>.  \<open>Refusing\<close>: writing an error without holding a request slot.  \<open>Reading\<close>: in
  \<^verbatim>\<open>_read_request\<close>.  \<open>Operating\<close>: waiting for the operation.  \<open>Responding\<close>: writing its response, under the
  deadline.  \<open>Answering\<close>: writing an error, after it.  \<open>Closing\<close>: in \<^verbatim>\<open>_close_writer\<close>.
\<close>

datatype phase =
    Handshaking string
  | Refusing string
  | Reading string
  | Operating string
  | Responding string
  | Answering string
  | Closing string

fun source_of :: "phase \<Rightarrow> string" where
  "source_of (Handshaking s) = s"
| "source_of (Refusing s) = s"
| "source_of (Reading s) = s"
| "source_of (Operating s) = s"
| "source_of (Responding s) = s"
| "source_of (Answering s) = s"
| "source_of (Closing s) = s"

fun holds_request :: "phase \<Rightarrow> bool" where
  "holds_request (Reading s) = True"
| "holds_request (Operating s) = True"
| "holds_request (Responding s) = True"
| "holds_request (Answering s) = True"
| "holds_request _ = False"

text \<open>
  \<open>sv_sent\<close> is what was written to the connections, \<open>sv_lost\<close> the sources of handshake slots that were never given
  back; both only record.
\<close>

record server =
  sv_open :: bool
  sv_handshakes :: "string slots"
  sv_requests :: "string slots"
  sv_limiter :: "string limiter"
  sv_tasks :: "(nat, phase) dict"
  sv_detached :: "(nat, string) dict"
  sv_sent :: "(nat \<times> string) list"
  sv_lost :: "string list"

record 'q flavour =
  fl_handshakes :: nat
  fl_handshakes_per_source :: nat
  fl_requests :: nat
  fl_requests_per_source :: nat
  fl_allow :: "string \<Rightarrow> real \<Rightarrow> string limiter \<Rightarrow> bool \<times> string limiter"
  fl_busy :: string
  fl_read :: "string \<Rightarrow> request_error + 'q"
  fl_error :: "nat \<Rightarrow> string \<Rightarrow> string option"
  fl_respond :: "response \<Rightarrow> string option"
  fl_failed :: "string option"

text \<open>
  \<open>Accept i p\<close>: connection \<open>i\<close> from the peer address \<open>p\<close>, \<open>None\<close> if it has none.  \<open>Connected\<close>: the handshake
  succeeded, at the given time.  \<open>Received\<close>: the stream of the connection is read.  \<open>Done\<close>, \<open>Raised\<close>: the operation
  returned a response, or raised an exception (a \<^verbatim>\<open>TimeoutError\<close> or another).  \<open>Deadline\<close>: the timeout of the request.  \<open>Written\<close>: the bytes are
  written.  \<open>Broken\<close>: a connection error.  \<open>Cancelled\<close>: \<^verbatim>\<open>close()\<close> cancels the handler.  \<open>Closed\<close>: the writer is closed.
  \<open>Outlived\<close>: an operation ended after its connection.  \<open>Start\<close>, \<open>Stop\<close>: \<^verbatim>\<open>start()\<close> and \<^verbatim>\<open>close()\<close> of the listener.
\<close>

datatype event =
    Accept nat "string option"
  | Connected nat real
  | Received nat string
  | Done nat response
  | Raised nat bool
  | Deadline nat
  | Written nat
  | Broken nat
  | Cancelled nat
  | Closed nat
  | Outlived nat
  | Start
  | Stop


section \<open>The handlers\<close>

definition goto :: "nat \<Rightarrow> phase \<Rightarrow> server \<Rightarrow> server" where
  "goto i p s = s\<lparr>sv_tasks := dict_set i p (sv_tasks s)\<rparr>"

text \<open>\<^verbatim>\<open>_release\<close> of the request slot in the \<^verbatim>\<open>finally\<close> clause, then \<^verbatim>\<open>_close_writer\<close>.\<close>

definition finish_request :: "nat \<Rightarrow> string \<Rightarrow> server \<Rightarrow> server result" where
  "finish_request i source s = rbind (release_slot source (sv_requests s)) (\<lambda>r.
     Inr (goto i (Closing source) (s\<lparr>sv_requests := r\<rparr>)))"

text \<open>Write and wait in a phase; a message that cannot be encoded ends the request.\<close>

definition write_and :: "(server \<Rightarrow> server result) \<Rightarrow> nat \<Rightarrow> phase \<Rightarrow> string option \<Rightarrow> server \<Rightarrow> server result" where
  "write_and otherwise i p out s = (case out of
       None \<Rightarrow> otherwise s
     | Some bytes \<Rightarrow> Inr (goto i p (s\<lparr>sv_sent := sv_sent s @ [(i, bytes)]\<rparr>)))"

text \<open>The start of \<^verbatim>\<open>_handle_transport\<close>.\<close>

definition accept :: "'q flavour \<Rightarrow> nat \<Rightarrow> string option \<Rightarrow> server \<Rightarrow> server" where
  "accept f i peer s = (case peer of None \<Rightarrow> s | Some source \<Rightarrow>
     (case take_slot (fl_handshakes_per_source f) source (sv_handshakes s) of
        None \<Rightarrow> s
      | Some h \<Rightarrow> goto i (if sv_open s then Handshaking source else Closing source) (s\<lparr>sv_handshakes := h\<rparr>)))"

text \<open>The start of \<^verbatim>\<open>_handle_connection\<close>: the rate limit, then the request slot.\<close>

definition connected :: "'q flavour \<Rightarrow> nat \<Rightarrow> string \<Rightarrow> real \<Rightarrow> server \<Rightarrow> server result" where
  "connected f i source now s =
     (let (allowed, l) = fl_allow f source now (sv_limiter s); s = s\<lparr>sv_limiter := l\<rparr>
      in if \<not> allowed
         then write_and (\<lambda>s. Inr (goto i (Closing source) s)) i (Refusing source) (fl_error f 429 ''rate_limited'') s
         else case take_slot (fl_requests_per_source f) source (sv_requests s) of
             None \<Rightarrow> write_and (\<lambda>s. Inr (goto i (Closing source) s)) i (Refusing source) (fl_error f 503 (fl_busy f)) s
           | Some r \<Rightarrow> Inr (goto i (Reading source) (s\<lparr>sv_requests := r\<rparr>)))"

text \<open>An operation that is still running keeps the slot of its request.\<close>

definition detach :: "nat \<Rightarrow> string \<Rightarrow> server \<Rightarrow> server" where
  "detach i source s = s\<lparr>sv_detached := dict_set i source (sv_detached s)\<rparr>"

text \<open>The exception handlers of \<^verbatim>\<open>_handle_connection\<close> for an exception of the operation or of the connection.\<close>

definition raised :: "'q flavour \<Rightarrow> nat \<Rightarrow> string \<Rightarrow> server \<Rightarrow> server result" where
  "raised f i source s = (case fl_failed f of
       None \<Rightarrow> finish_request i source s
     | Some failed \<Rightarrow> write_and (finish_request i source) i (Answering source) (fl_error f 503 failed) s)"

definition deadline :: "'q flavour \<Rightarrow> nat \<Rightarrow> phase \<Rightarrow> server \<Rightarrow> server result option" where
  "deadline f i p s =
     (let timeout = fl_error f 408 ''request_timeout''
      in case p of
           Reading source \<Rightarrow> Some (write_and (finish_request i source) i (Answering source) timeout s)
         | Responding source \<Rightarrow> Some (write_and (finish_request i source) i (Answering source) timeout s)
         | Operating source \<Rightarrow>
             Some (write_and (\<lambda>s. Inr (goto i (Closing source) s)) i (Refusing source) timeout (detach i source s))
         | _ \<Rightarrow> None)"

text \<open>An exception of the connection, or the end of writing.\<close>

definition leave :: "nat \<Rightarrow> phase \<Rightarrow> server \<Rightarrow> server result" where
  "leave i p s =
     (if holds_request p then finish_request i (source_of p) s else Inr (goto i (Closing (source_of p)) s))"

text \<open>The cancellation of a handler; one that waits in \<^verbatim>\<open>_close_writer\<close> ends without \<^verbatim>\<open>_release_handshake\<close>.\<close>

definition cancelled :: "nat \<Rightarrow> phase \<Rightarrow> server \<Rightarrow> server result" where
  "cancelled i p s = (case p of
       Operating source \<Rightarrow> Inr (goto i (Closing source) (detach i source s))
     | Closing source \<Rightarrow> Inr (s\<lparr>sv_tasks := dict_del i (sv_tasks s), sv_lost := source # sv_lost s\<rparr>)
     | _ \<Rightarrow> leave i p s)"

text \<open>The end of \<^verbatim>\<open>_handle_transport\<close>.\<close>

definition closed :: "nat \<Rightarrow> string \<Rightarrow> server \<Rightarrow> server result" where
  "closed i source s = rbind (release_slot source (sv_handshakes s)) (\<lambda>h.
     Inr (s\<lparr>sv_handshakes := h, sv_tasks := dict_del i (sv_tasks s)\<rparr>))"

text \<open>\<^verbatim>\<open>_release_after_task\<close>.\<close>

definition outlived :: "nat \<Rightarrow> string \<Rightarrow> server \<Rightarrow> server result" where
  "outlived i source s = rbind (release_slot source (sv_requests s)) (\<lambda>r.
     Inr (s\<lparr>sv_requests := r, sv_detached := dict_del i (sv_detached s)\<rparr>))"

text \<open>
  One event; \<open>None\<close> if it cannot happen in the state.  A connection number is not used again while a handler or an
  operation of it runs.
\<close>

fun server_step :: "'q flavour \<Rightarrow> event \<Rightarrow> server \<Rightarrow> server result option" where
  "server_step f (Accept i peer) s =
     (if dict_get (sv_tasks s) i = None \<and> dict_get (sv_detached s) i = None then Some (Inr (accept f i peer s)) else None)"
| "server_step f (Connected i now) s = (case dict_get (sv_tasks s) i of
     Some (Handshaking source) \<Rightarrow> Some (connected f i source now s) | _ \<Rightarrow> None)"
| "server_step f (Received i stream) s = (case dict_get (sv_tasks s) i of
     Some (Reading source) \<Rightarrow> (case fl_read f stream of
         Inl (RequestError status reason) \<Rightarrow>
           Some (write_and (finish_request i source) i (Answering source) (fl_error f status reason) s)
       | Inr request \<Rightarrow> Some (Inr (goto i (Operating source) s)))
   | _ \<Rightarrow> None)"
| "server_step f (Done i r) s = (case dict_get (sv_tasks s) i of
     Some (Operating source) \<Rightarrow> Some (write_and (raised f i source) i (Responding source) (fl_respond f r) s) | _ \<Rightarrow> None)"
| "server_step f (Raised i timeout) s = (case dict_get (sv_tasks s) i of
     Some (Operating source) \<Rightarrow> Some (if timeout
       then write_and (finish_request i source) i (Answering source) (fl_error f 408 ''request_timeout'') s
       else raised f i source s)
   | _ \<Rightarrow> None)"
| "server_step f (Deadline i) s = (case dict_get (sv_tasks s) i of Some p \<Rightarrow> deadline f i p s | None \<Rightarrow> None)"
| "server_step f (Written i) s = (case dict_get (sv_tasks s) i of
     Some (Refusing source) \<Rightarrow> Some (leave i (Refusing source) s)
   | Some (Responding source) \<Rightarrow> Some (leave i (Responding source) s)
   | Some (Answering source) \<Rightarrow> Some (leave i (Answering source) s)
   | _ \<Rightarrow> None)"
| "server_step f (Broken i) s = (case dict_get (sv_tasks s) i of
     Some (Handshaking source) \<Rightarrow> Some (leave i (Handshaking source) s)
   | Some (Refusing source) \<Rightarrow> Some (leave i (Refusing source) s)
   | Some (Reading source) \<Rightarrow> Some (raised f i source s)
   | Some (Responding source) \<Rightarrow> Some (raised f i source s)
   | Some (Answering source) \<Rightarrow> Some (leave i (Answering source) s)
   | _ \<Rightarrow> None)"
| "server_step f (Cancelled i) s = (case dict_get (sv_tasks s) i of Some p \<Rightarrow> Some (cancelled i p s) | None \<Rightarrow> None)"
| "server_step f (Closed i) s = (case dict_get (sv_tasks s) i of Some (Closing source) \<Rightarrow> Some (closed i source s) | _ \<Rightarrow> None)"
| "server_step f (Outlived i) s = (case dict_get (sv_detached s) i of
     Some source \<Rightarrow> Some (outlived i source s) | None \<Rightarrow> None)"
| "server_step f Start s = (if sv_open s then None else Some (Inr (s\<lparr>sv_open := True\<rparr>)))"
| "server_step f Stop s = Some (Inr (s\<lparr>sv_open := False\<rparr>))"


section \<open>The two listeners\<close>

definition enrollment_flavour :: "string \<Rightarrow> nat \<Rightarrow> enrollment_request flavour" where
  "enrollment_flavour authority port =
     \<lparr>fl_handshakes = 16, fl_handshakes_per_source = 2, fl_requests = 4, fl_requests_per_source = 1,
      fl_allow = enrollment_allow, fl_busy = ''enrollment_busy'',
      fl_read = (\<lambda>stream. map_sum id fst (enrollment_read_request authority port stream)),
      fl_error = enrollment_write_error, fl_respond = enrollment_write_response, fl_failed = None\<rparr>"

definition operator_flavour :: "string \<Rightarrow> nat \<Rightarrow> operator_request flavour" where
  "operator_flavour authority port =
     \<lparr>fl_handshakes = 16, fl_handshakes_per_source = 2, fl_requests = 8, fl_requests_per_source = 2,
      fl_allow = operator_allow, fl_busy = ''operator_busy'', fl_read = operator_read_request authority port,
      fl_error = operator_write_error,
      fl_respond = (\<lambda>r. if MAX_OPERATOR_RESPONSE_BYTES < length (rs_body r)
        then operator_write_error 503 ''operator_unavailable'' else operator_write_response r),
      fl_failed = Some ''operator_unavailable''\<rparr>"

definition server_init :: "'q flavour \<Rightarrow> server" where
  "server_init f = \<lparr>sv_open = False, sv_handshakes = slots_init (fl_handshakes f), sv_requests = slots_init (fl_requests f),
     sv_limiter = limiter_init, sv_tasks = [], sv_detached = [], sv_sent = [], sv_lost = []\<rparr>"

definition enrollment_step :: "string \<Rightarrow> nat \<Rightarrow> event \<Rightarrow> server \<Rightarrow> server result option" where
  "enrollment_step authority port = server_step (enrollment_flavour authority port)"

definition operator_step :: "string \<Rightarrow> nat \<Rightarrow> event \<Rightarrow> server \<Rightarrow> server result option" where
  "operator_step authority port = server_step (operator_flavour authority port)"

text \<open>The states that a listener reaches, whatever happens in whatever order.\<close>

inductive reaches :: "'q flavour \<Rightarrow> server \<Rightarrow> bool" for f where
  initial: "reaches f (server_init f)"
| step: "reaches f s \<Longrightarrow> server_step f e s = Some (Inr s') \<Longrightarrow> reaches f s'"

section \<open>The counters agree with what is held\<close>

definition task_sources :: "(nat, phase) dict \<Rightarrow> string multiset" where
  "task_sources d = image_mset (source_of \<circ> snd) (mset d)"

definition request_sources :: "(nat, phase) dict \<Rightarrow> string multiset" where
  "request_sources d = image_mset (source_of \<circ> snd) (filter_mset (holds_request \<circ> snd) (mset d))"

lemma mset_dict_set: "dict_ok d \<Longrightarrow> mset (dict_set k v d) = add_mset (k, v) (mset (dict_del k d))"
proof (induction d)
  case (Cons e d)
  show ?case
  proof (cases "fst e = k")
    case True
    with Cons.prems have "dict_del k d = d"
      by (intro delete_id) auto
    with True show ?thesis
      by (cases e) (simp add: AList.delete_eq)
  qed (use Cons in \<open>cases e; simp add: AList.delete_eq\<close>)
qed (simp add: AList.delete_eq)

lemma mset_dict_get: "dict_ok d \<Longrightarrow> dict_get d k = Some v \<Longrightarrow> mset d = add_mset (k, v) (mset (dict_del k d))"
  using mset_dict_set [of d k v] by (metis map_upd_triv update_triv)

lemma sources_set [simp]:
  "dict_ok d \<Longrightarrow> task_sources (dict_set i p d) = add_mset (source_of p) (task_sources (dict_del i d))"
  "dict_ok d \<Longrightarrow> request_sources (dict_set i p d) =
     (if holds_request p then add_mset (source_of p) (request_sources (dict_del i d)) else request_sources (dict_del i d))"
  by (simp_all add: task_sources_def request_sources_def mset_dict_set)

lemma sources_get:
  "dict_ok d \<Longrightarrow> dict_get d i = Some p \<Longrightarrow> task_sources d = add_mset (source_of p) (task_sources (dict_del i d))"
  "dict_ok d \<Longrightarrow> dict_get d i = Some p \<Longrightarrow> request_sources d =
     (if holds_request p then add_mset (source_of p) (request_sources (dict_del i d)) else request_sources (dict_del i d))"
  by (simp_all add: task_sources_def request_sources_def mset_dict_get)

lemma dict_del_none [simp]: "dict_get d i = None \<Longrightarrow> dict_del i d = d"
  by (simp add: map_of_eq_None_iff delete_id)

definition server_ok :: "'q flavour \<Rightarrow> server \<Rightarrow> bool" where
  "server_ok f s \<longleftrightarrow> slots_ok (fl_handshakes f) (fl_handshakes_per_source f) (sv_handshakes s) \<and>
     slots_ok (fl_requests f) (fl_requests_per_source f) (sv_requests s) \<and>
     dict_ok (sv_tasks s) \<and> dict_ok (sv_detached s) \<and>
     slots_held (sv_handshakes s) = task_sources (sv_tasks s) + mset (sv_lost s) \<and>
     slots_held (sv_requests s) = request_sources (sv_tasks s) + mset (map snd (sv_detached s)) \<and>
     (\<forall>i p. dict_get (sv_tasks s) i = Some p \<longrightarrow> holds_request p \<or> p = Handshaking (source_of p) \<longrightarrow> dict_get (sv_detached s) i = None)"

lemma finish_request_ok:
  assumes "server_ok f s" "dict_get (sv_tasks s) i = Some p" "holds_request p"
  shows "\<exists>s'. finish_request i (source_of p) s = Inr s' \<and> server_ok f s'"
proof -
  have d: "dict_ok (sv_tasks s)"
    using assms(1) by (simp add: server_ok_def)
  note get = sources_get [OF d assms(2)]
  have "slots_held (sv_requests s) =
      add_mset (source_of p) (request_sources (dict_del i (sv_tasks s)) + mset (map snd (sv_detached s)))"
    using assms(1,3) get(2) by (simp add: server_ok_def)
  then obtain r where r: "release_slot (source_of p) (sv_requests s) = Inr r"
    "slots_ok (fl_requests f) (fl_requests_per_source f) r"
    "slots_held r = request_sources (dict_del i (sv_tasks s)) + mset (map snd (sv_detached s))"
    using slots.release_add [of "fl_requests f" "fl_requests_per_source f" "sv_requests s"] assms(1)
    unfolding server_ok_def by metis
  show ?thesis
    using assms(1) d r get(1) by (auto simp: finish_request_def goto_def server_ok_def)
qed

lemma sent_ok [simp]: "server_ok f (s\<lparr>sv_sent := x\<rparr>) = server_ok f s" "server_ok f (s\<lparr>sv_limiter := l\<rparr>) = server_ok f s"
    "server_ok f (s\<lparr>sv_open := b\<rparr>) = server_ok f s"
  by (simp_all add: server_ok_def)

lemma goto_ok:
  assumes "server_ok f s" "dict_get (sv_tasks s) i = Some p" "source_of q = source_of p"
    "holds_request q = holds_request p" "q \<noteq> Handshaking (source_of p)"
  shows "server_ok f (goto i q s)"
proof -
  have d: "dict_ok (sv_tasks s)"
    using assms(1) by (simp add: server_ok_def)
  have "dict_get (sv_detached s) i = None" if "holds_request p"
    using assms(1,2) that by (auto simp: server_ok_def)
  then show ?thesis
    using assms d sources_get [OF d assms(2)] by (auto simp: goto_def server_ok_def)
qed

lemma write_and_ok:
  assumes "server_ok f s" "dict_get (sv_tasks s) i = Some p" "source_of q = source_of p"
    "holds_request q = holds_request p" "q \<noteq> Handshaking (source_of p)"
    "\<exists>s'. otherwise s = Inr s' \<and> server_ok f s'"
  shows "\<exists>s'. write_and otherwise i q out s = Inr s' \<and> server_ok f s'"
  using assms(6) goto_ok [of f "s\<lparr>sv_sent := sv_sent s @ [(i, x)]\<rparr>" i p q for x] assms(1-5)
  by (auto simp: write_and_def split: option.splits)

lemma leave_ok:
  assumes "server_ok f s" "dict_get (sv_tasks s) i = Some p"
  shows "\<exists>s'. leave i p s = Inr s' \<and> server_ok f s'"
  using finish_request_ok [OF assms] goto_ok [OF assms, of "Closing (source_of p)"] by (auto simp: leave_def)

lemma detach_ok:
  assumes "server_ok f s" "dict_get (sv_tasks s) i = Some (Operating source)" "q = Closing source \<or> q = Refusing source"
  shows "server_ok f (goto i q (detach i source s))"
proof -
  have d: "dict_ok (sv_tasks s)" "dict_ok (sv_detached s)" "dict_get (sv_detached s) i = None"
    using assms(1,2) by (auto simp: server_ok_def)
  have "mset (map snd (dict_set i source (sv_detached s))) = add_mset source (mset (map snd (sv_detached s)))"
    using d by (simp add: dict_set_new)
  then show ?thesis
    using assms d(1) d(2) sources_get [OF d(1) assms(2)] by (auto simp: goto_def detach_def server_ok_def)
qed

lemma raised_ok:
  assumes "server_ok f s" "dict_get (sv_tasks s) i = Some p" "holds_request p"
  shows "\<exists>s'. raised f i (source_of p) s = Inr s' \<and> server_ok f s'"
  using finish_request_ok [OF assms] write_and_ok [OF assms(1,2), of "Answering (source_of p)"] assms(3)
  by (auto simp: raised_def split: option.splits)

lemma accept_ok:
  assumes "server_ok f s" "dict_get (sv_tasks s) i = None" "dict_get (sv_detached s) i = None"
  shows "server_ok f (accept f i peer s)"
proof -
  have d: "dict_ok (sv_tasks s)"
    using assms(1) by (simp add: server_ok_def)
  show ?thesis
    using assms d slots.acquire_Some [of "fl_handshakes f" "fl_handshakes_per_source f" "sv_handshakes s"]
    by (auto simp: accept_def goto_def server_ok_def simp del: map_of_eq_Some_iff split: option.splits if_splits)
qed

lemma connected_ok:
  assumes "server_ok f s" "dict_get (sv_tasks s) i = Some (Handshaking source)"
  shows "\<exists>s'. connected f i source now s = Inr s' \<and> server_ok f s'"
proof -
  obtain yes l where l: "fl_allow f source now (sv_limiter s) = (yes, l)"
    by fastforce
  let ?s = "s\<lparr>sv_limiter := l\<rparr>"
  have ok: "server_ok f ?s" "dict_get (sv_tasks ?s) i = Some (Handshaking source)"
    using assms by simp_all
  have refuse: "\<exists>s'. write_and (\<lambda>s. Inr (goto i (Closing source) s)) i (Refusing source) out ?s = Inr s' \<and> server_ok f s'" for out
    using goto_ok [OF ok, of "Closing source"] by (intro write_and_ok [OF ok]) auto
  have d: "dict_ok (sv_tasks s)" "dict_get (sv_detached s) i = None"
    using assms by (auto simp: server_ok_def)
  have "server_ok f (goto i (Reading source) (?s\<lparr>sv_requests := r\<rparr>))"
    if "take_slot (fl_requests_per_source f) source (sv_requests s) = Some r" for r
    using assms that d sources_get [OF d(1) assms(2)]
      slots.acquire_Some [of "fl_requests f" "fl_requests_per_source f" "sv_requests s" source r]
    by (auto simp: goto_def server_ok_def)
  then show ?thesis
    using refuse by (auto simp: connected_def l Let_def split: option.splits)
qed

lemma closed_ok:
  assumes "server_ok f s" "dict_get (sv_tasks s) i = Some (Closing source)"
  shows "\<exists>s'. closed i source s = Inr s' \<and> server_ok f s'"
proof -
  have d: "dict_ok (sv_tasks s)"
    using assms(1) by (simp add: server_ok_def)
  note get = sources_get [OF d assms(2)]
  have "slots_held (sv_handshakes s) = add_mset source (task_sources (dict_del i (sv_tasks s)) + mset (sv_lost s))"
    using assms(1) get(1) by (simp add: server_ok_def)
  then obtain h where h: "release_slot source (sv_handshakes s) = Inr h"
    "slots_ok (fl_handshakes f) (fl_handshakes_per_source f) h"
    "slots_held h = task_sources (dict_del i (sv_tasks s)) + mset (sv_lost s)"
    using slots.release_add [of "fl_handshakes f" "fl_handshakes_per_source f" "sv_handshakes s"] assms(1)
    unfolding server_ok_def by metis
  show ?thesis
    using assms(1) d h get(2) by (auto simp: closed_def server_ok_def)
qed

lemma cancelled_ok:
  assumes "server_ok f s" "dict_get (sv_tasks s) i = Some p"
  shows "\<exists>s'. cancelled i p s = Inr s' \<and> server_ok f s'"
proof (cases p)
  case (Operating source)
  then show ?thesis
    using detach_ok [OF assms(1)] assms(2) by (simp add: cancelled_def)
next
  case (Closing source)
  have d: "dict_ok (sv_tasks s)"
    using assms(1) by (simp add: server_ok_def)
  show ?thesis
    using assms d Closing sources_get [OF d assms(2)] by (auto simp: cancelled_def server_ok_def)
qed (use leave_ok [OF assms] in \<open>simp_all add: cancelled_def\<close>)

lemma outlived_ok:
  assumes "server_ok f s" "dict_get (sv_detached s) i = Some source"
  shows "\<exists>s'. outlived i source s = Inr s' \<and> server_ok f s'"
proof -
  have d: "dict_ok (sv_detached s)"
    using assms(1) by (simp add: server_ok_def)
  have m: "mset (map snd (sv_detached s)) = add_mset source (mset (map snd (dict_del i (sv_detached s))))"
    using mset_dict_get [OF d assms(2)] by (simp add: mset_map)
  then have "slots_held (sv_requests s) = add_mset source (request_sources (sv_tasks s) + mset (map snd (dict_del i (sv_detached s))))"
    using assms(1) by (simp add: server_ok_def)
  then obtain r where r: "release_slot source (sv_requests s) = Inr r"
    "slots_ok (fl_requests f) (fl_requests_per_source f) r"
    "slots_held r = request_sources (sv_tasks s) + mset (map snd (dict_del i (sv_detached s)))"
    using slots.release_add [of "fl_requests f" "fl_requests_per_source f" "sv_requests s"] assms(1)
    unfolding server_ok_def by metis
  show ?thesis
    using assms(1) d r by (auto simp: outlived_def server_ok_def)
qed

lemma deadline_ok:
  assumes "server_ok f s" "dict_get (sv_tasks s) i = Some p" "deadline f i p s = Some r"
  shows "\<exists>s'. r = Inr s' \<and> server_ok f s'"
proof -
  have w: "\<exists>s'. write_and (finish_request i (source_of p)) i (Answering (source_of p)) out s = Inr s' \<and> server_ok f s'"
    if "holds_request p" for out
    using that finish_request_ok [OF assms(1,2)] by (intro write_and_ok [OF assms(1,2)]) auto
  show ?thesis
  proof (cases p)
    case (Operating source)
    have "goto i q (t\<lparr>sv_sent := x\<rparr>) = goto i q t\<lparr>sv_sent := x\<rparr>" for q t x
      by (simp add: goto_def)
    then show ?thesis
      using assms Operating detach_ok [of f s i source]
      by (auto simp: deadline_def write_and_def Let_def split: option.splits)
  qed (use assms(3) w in \<open>auto simp: deadline_def Let_def\<close>)
qed

text \<open>No event fails, and every event keeps the accounts.\<close>

lemma server_step_ok:
  assumes "server_ok f s" "server_step f e s = Some r"
  shows "\<exists>s'. r = Inr s' \<and> server_ok f s'"
proof -
  have fin: "\<exists>s'. write_and (finish_request i source) i q out s = Inr s' \<and> server_ok f s'"
    if "dict_get (sv_tasks s) i = Some p" "holds_request p" "source_of p = source" "q = Answering source" for i p source q out
    using that finish_request_ok [OF assms(1) that(1,2)] by (intro write_and_ok [OF assms(1) that(1)]) auto
  show ?thesis
  proof (cases e)
    case (Done i resp)
    then show ?thesis
      using assms raised_ok [OF assms(1), of i] write_and_ok [OF assms(1), of i]
      by (auto split: option.splits phase.splits)
  next
    case (Received i stream)
    then show ?thesis
      using assms fin goto_ok [OF assms(1), of i]
      by (auto split: option.splits phase.splits sum.splits request_error.splits)
  next
    case (Raised i timeout)
    then show ?thesis
      using assms fin raised_ok [OF assms(1), of i] by (auto split: option.splits phase.splits)
  next
    case (Broken i)
    then show ?thesis
      using assms raised_ok [OF assms(1), of i]
      by (auto split: option.splits phase.splits intro!: leave_ok)
  next
    case (Written i)
    then show ?thesis
      using assms by (auto split: option.splits phase.splits intro!: leave_ok)
  qed (use assms accept_ok connected_ok deadline_ok cancelled_ok closed_ok outlived_ok in
      \<open>auto split: option.splits phase.splits if_splits\<close>)
qed

lemma server_init_ok: "server_ok f (server_init f)"
  by (simp add: server_ok_def server_init_def task_sources_def request_sources_def)

lemma reaches_ok: "reaches f s \<Longrightarrow> server_ok f s"
  by (induction rule: reaches.induct) (auto intro: server_init_ok dest: server_step_ok)

text \<open>The connections served, and the requests with the operations that outlived theirs, of one source or of any.\<close>

definition connections_of :: "string option \<Rightarrow> server \<Rightarrow> nat" where
  "connections_of source s = length (filter (\<lambda>(i, p). source = None \<or> source = Some (source_of p)) (sv_tasks s))"

definition requests_of :: "string option \<Rightarrow> server \<Rightarrow> nat" where
  "requests_of source s = length (filter (\<lambda>(i, p). holds_request p \<and> (source = None \<or> source = Some (source_of p))) (sv_tasks s)) +
     length (filter (\<lambda>(i, j). source = None \<or> source = Some j) (sv_detached s))"

lemma count_image: "count (image_mset f (mset xs)) k = length (filter (\<lambda>x. f x = k) xs)"
  by (induction xs) auto

lemma requests_of_held:
  assumes "server_ok f s"
  shows "requests_of None s = size (slots_held (sv_requests s))"
    "requests_of (Some k) s = count (slots_held (sv_requests s)) k"
    "connections_of None s + length (sv_lost s) = size (slots_held (sv_handshakes s))"
    "connections_of (Some k) s \<le> count (slots_held (sv_handshakes s)) k"
proof -
  have h: "slots_held (sv_requests s) = request_sources (sv_tasks s) + mset (map snd (sv_detached s))"
      "slots_held (sv_handshakes s) = task_sources (sv_tasks s) + mset (sv_lost s)"
    using assms by (simp_all add: server_ok_def)
  have m: "request_sources (sv_tasks s) = mset (map (source_of \<circ> snd) (filter (\<lambda>e. holds_request (snd e)) (sv_tasks s)))"
    by (simp add: request_sources_def o_def)
  have c: "count (mset (map g xs)) k = length (filter (\<lambda>x. g x = k) xs)" for g :: "'b \<Rightarrow> string" and xs
    by (induction xs) auto
  show "requests_of None s = size (slots_held (sv_requests s))"
    unfolding h m by (simp add: requests_of_def case_prod_beta' del: mset_map)
  show "requests_of (Some k) s = count (slots_held (sv_requests s)) k"
    unfolding h m count_union c
    by (simp add: requests_of_def case_prod_beta' conj_commute eq_commute [of k])
  show "connections_of None s + length (sv_lost s) = size (slots_held (sv_handshakes s))"
    unfolding h by (simp add: connections_of_def task_sources_def case_prod_beta')
  show "connections_of (Some k) s \<le> count (slots_held (sv_handshakes s)) k"
    unfolding h by (simp add: connections_of_def task_sources_def case_prod_beta' count_image o_def eq_commute [of k])
qed

lemma reaches_bounded:
  assumes "reaches f s"
  shows "requests_of None s \<le> fl_requests f \<and> requests_of (Some k) s \<le> fl_requests_per_source f \<and>
    connections_of None s \<le> fl_handshakes f \<and> connections_of (Some k) s \<le> fl_handshakes_per_source f"
proof -
  note ok = reaches_ok [OF assms]
  have r: "slots_ok (fl_requests f) (fl_requests_per_source f) (sv_requests s)"
    "slots_ok (fl_handshakes f) (fl_handshakes_per_source f) (sv_handshakes s)"
    using ok by (simp_all add: server_ok_def)
  show ?thesis
    using slots.within [OF r(1), of k] slots.within [OF r(2), of k] requests_of_held [OF ok] by (metis add_leD1 order_trans)
qed


lemma reaches_accounts:
  assumes "reaches f s"
  shows "sl_value (sv_requests s) + requests_of None s = fl_requests f \<and>
    sl_value (sv_handshakes s) + connections_of None s + length (sv_lost s) = fl_handshakes f"
proof -
  note ok = reaches_ok [OF assms]
  have "sl_value (sv_requests s) + size (slots_held (sv_requests s)) = fl_requests f"
    "sl_value (sv_handshakes s) + size (slots_held (sv_handshakes s)) = fl_handshakes f"
    using ok unfolding server_ok_def slots_ok_def by blast+
  then show ?thesis
    using requests_of_held [OF ok] by simp
qed

text \<open>
  C34: However connections, handshakes, requests, deadlines, failures and cancellations interleave, the enrollment listener
  never serves more than 16 connections (2 of one source) and never runs more than 4 requests (1 of one source) at once,
  the operator listener never more than 8 requests (2 of one source), operations that outlive their connection included;
  the semaphores count exactly the requests that are running; and no release of a slot ever fails its consistency check.
\<close>

theorem listeners_within_limits:
  assumes "reaches (enrollment_flavour authority port) s" "reaches (operator_flavour authority port) t"
  shows "connections_of None s \<le> 16 \<and> connections_of (Some k) s \<le> 2 \<and> requests_of None s \<le> 4 \<and> requests_of (Some k) s \<le> 1 \<and>
    sl_value (sv_requests s) = 4 - requests_of None s \<and> (\<nexists>error. enrollment_step authority port e s = Some (Inl error)) \<and>
    connections_of None t \<le> 16 \<and> connections_of (Some k) t \<le> 2 \<and> requests_of None t \<le> 8 \<and> requests_of (Some k) t \<le> 2 \<and>
    sl_value (sv_requests t) = 8 - requests_of None t \<and> (\<nexists>error. operator_step authority port e t = Some (Inl error))"
  using reaches_bounded [OF assms(1), of k] reaches_accounts [OF assms(1)] server_step_ok [OF reaches_ok [OF assms(1)], of e]
    reaches_bounded [OF assms(2), of k] reaches_accounts [OF assms(2)] server_step_ok [OF reaches_ok [OF assms(2)], of e]
  by (auto simp: enrollment_flavour_def operator_flavour_def enrollment_step_def operator_step_def)

text \<open>A run of events; \<open>None\<close> if one cannot happen or fails.\<close>

fun server_run :: "'q flavour \<Rightarrow> event list \<Rightarrow> server \<Rightarrow> server option" where
  "server_run f [] s = Some s"
| "server_run f (e # es) s = (case server_step f e s of Some (Inr s') \<Rightarrow> server_run f es s' | _ \<Rightarrow> None)"

lemma server_run_reaches: "server_run f es s = Some s' \<Longrightarrow> reaches f s \<Longrightarrow> reaches f s'"
  by (induction es arbitrary: s) (auto split: option.splits sum.splits intro: reaches.step)

lemma server_runI:
  assumes "server_run f es (server_init f) = Some s"
  shows "reaches f s"
  using assms reaches.initial by (rule server_run_reaches)

text \<open>Two connections of one source, the second of which finds the request slot taken.\<close>

definition example_events :: "event list" where
  "example_events = [Start, Accept 1 (Some ''10.0.0.1''), Accept 2 (Some ''10.0.0.1''), Connected 1 1, Connected 2 2]"

lemma example_serving:
  "map_option (\<lambda>s. (requests_of (Some ''10.0.0.1'') s, connections_of None s))
     (server_run (enrollment_flavour ''rmm'' 443) example_events (server_init (enrollment_flavour ''rmm'' 443))) = Some (1, 2)"
  by code_simp

lemma example_serving_operator:
  "map_option (\<lambda>s. (requests_of (Some ''10.0.0.1'') s, connections_of None s))
     (server_run (operator_flavour ''rmm'' 443) example_events (server_init (operator_flavour ''rmm'' 443))) = Some (2, 2)"
  by (simp add: example_events_def server_init_def operator_flavour_def accept_def connected_def goto_def take_slot_def
      slots_init_def limiter_init_def operator_allow_def source_allow_def track_def key_count_def Let_def
      requests_of_def connections_of_def)

theorem listeners_within_limits_witness:
  "\<exists>s t. reaches (enrollment_flavour ''rmm'' 443) s \<and> reaches (operator_flavour ''rmm'' 443) t \<and>
     requests_of (Some ''10.0.0.1'') s = 1 \<and> connections_of None s = 2 \<and> sl_value (sv_requests s) = 4 - requests_of None s \<and>
     requests_of (Some ''10.0.0.1'') t = 2 \<and> sl_value (sv_requests t) = 8 - requests_of None t"
proof -
  obtain s where s: "server_run (enrollment_flavour ''rmm'' 443) example_events (server_init (enrollment_flavour ''rmm'' 443)) = Some s"
    "requests_of (Some ''10.0.0.1'') s = 1" "connections_of None s = 2"
    using example_serving by (auto simp: map_option_eq_Some)
  obtain t where t: "server_run (operator_flavour ''rmm'' 443) example_events (server_init (operator_flavour ''rmm'' 443)) = Some t"
    "requests_of (Some ''10.0.0.1'') t = 2"
    using example_serving_operator by (auto simp: map_option_eq_Some)
  note reach = server_runI [OF s(1)] server_runI [OF t(1)]
  show ?thesis
    using listeners_within_limits [OF reach, of "''10.0.0.1''" Stop] reach s t
    by (intro exI [of _ s] exI [of _ t]) simp
qed

text \<open>
  A response that is not written out before the deadline is followed by a second one, the timeout error, on the same
  connection.
\<close>

lemma late_response_doubled:
  "map_option (\<lambda>s. map fst (sv_sent s)) (server_run (enrollment_flavour ''rmm'' 443)
     [Start, Accept 1 (Some ''10.0.0.1''), Connected 1 1,
      Received 1 (request_text ''POST'' ''/v1/enrollment'' [(''host'', ''rmm''), (''content-length'', ''0'')]),
      Done 1 \<lparr>rs_status = 403, rs_headers = [], rs_body = []\<rparr>, Deadline 1]
     (server_init (enrollment_flavour ''rmm'' 443))) = Some [1, 1]"
  by code_simp

text \<open>A handler that is cancelled while it closes its connection never gives its handshake slot back.\<close>

lemma cancelled_close_keeps_slot:
  "map_option (\<lambda>s. (sv_tasks s, sl_value (sv_handshakes s))) (server_run (enrollment_flavour ''rmm'' 443)
     [Start, Accept 1 (Some ''10.0.0.1''), Broken 1, Stop, Cancelled 1] (server_init (enrollment_flavour ''rmm'' 443))) =
   Some ([], 15)"
  by code_simp

end
