(* ===== verification/Agent_Listener.thy ===== *)
theory Agent_Listener
  imports Tls_Listeners
begin

text \<open>
  The agent listener's adapter (\<^verbatim>\<open>_AgentTLSAdapter\<close> and the connection hooks of \<^verbatim>\<open>_HardenedRequestHandler\<close> in
  \<^verbatim>\<open>listener.py\<close>) as a state machine, in the style of the other two listeners.  aiohttp parses the requests, so
  a request arrives as a value; what is modelled is the order of the checks, the rate limit, the two admission
  counters and the slots of operations that outlive their request.  A connection is known by the identity of its
  client certificate, an endpoint and a key fingerprint.
\<close>

type_synonym identity_key = "uuid \<times> string"

text \<open>The request as aiohttp hands it over, with the identity of the certificate of its connection, if it is valid.\<close>

record web_request =
  wq_http11 :: bool
  wq_headers :: "(string \<times> string) list"
  wq_method :: string
  wq_raw_path :: string
  wq_peer :: "identity_key option"

record agent_message_request =
  am_method :: string
  am_path :: string
  am_content_type :: "string option"
  am_content_encoding :: "string option"
  am_body :: string

definition header_values :: "web_request \<Rightarrow> string \<Rightarrow> string list" where
  "header_values request name = map snd (filter (\<lambda>h. lower (fst h) = lower name) (wq_headers request))"

definition single_header :: "web_request \<Rightarrow> string \<Rightarrow> string option" where
  "single_header request name = (case header_values request name of [value] \<Rightarrow> Some value | _ \<Rightarrow> None)"

text \<open>\<open>Inl ()\<close> is the marker \<^verbatim>\<open>_DUPLICATE_HEADER\<close>.\<close>

definition single_optional_header :: "web_request \<Rightarrow> string \<Rightarrow> unit + string option" where
  "single_optional_header request name = (case header_values request name of
     [] \<Rightarrow> Inr None | [value] \<Rightarrow> Inr (Some value) | _ \<Rightarrow> Inl ())"

definition setdefault :: "string \<Rightarrow> string \<Rightarrow> (string \<times> string) list \<Rightarrow> (string \<times> string) list" where
  "setdefault name value headers =
     (if \<exists>h\<in>set headers. lower (fst h) = lower name then headers else headers @ [(name, value)])"

text \<open>\<^verbatim>\<open>headers[name] = value\<close> replaces what the name had.\<close>

definition set_header :: "string \<Rightarrow> string \<Rightarrow> (string \<times> string) list \<Rightarrow> (string \<times> string) list" where
  "set_header name value headers = filter (\<lambda>h. lower (fst h) \<noteq> lower name) headers @ [(name, value)]"

definition agent_response :: "nat \<Rightarrow> string \<Rightarrow> (string \<times> string) list \<Rightarrow> response" where
  "agent_response status body headers =
     \<lparr>rs_status = status,
      rs_headers = set_header ''X-Content-Type-Options'' ''nosniff''
        (setdefault ''Cache-Control'' ''no-store'' (setdefault ''Content-Type'' ''application/json'' headers)),
      rs_body = body\<rparr>"

definition agent_error :: "nat \<Rightarrow> string \<Rightarrow> response" where
  "agent_error status error = agent_response status (error_body error) []"


section \<open>States and events\<close>

text \<open>
  The handler of a request waits for its body, or for its operation.  Either way it holds the slot of its identity.
\<close>

datatype handling =
    Awaiting_body identity_key web_request string "string option"
  | Running identity_key

fun key_of :: "handling \<Rightarrow> identity_key" where
  "key_of (Awaiting_body k _ _ _) = k"
| "key_of (Running k) = k"

record agent_server =
  as_connections :: "identity_key connection_admission"
  as_admitted :: "(nat, identity_key) dict"
  as_requests :: "identity_key slots"
  as_limiter :: "identity_key limiter"
  as_tasks :: "(nat, handling) dict"
  as_detached :: "(nat, identity_key) dict"
  as_operations :: "(nat \<times> identity_key \<times> agent_message_request) list"
  as_sent :: "(nat \<times> response) list"

text \<open>
  \<open>Made\<close>, \<open>Lost\<close>: a connection with the identity of its certificate, if it is valid.  \<open>Request\<close>: a request at a time.
  \<open>Body\<close>: its body, or that it is too large.  \<open>Completed\<close>, \<open>Failed\<close>: the operation returned a response, or raised.
  \<open>Timeout\<close>: the deadline of the request.  \<open>Dropped\<close>: the connection broke or the handler was cancelled.
  \<open>Ended\<close>: an operation ended after its request.
\<close>

datatype agent_event =
    Made nat "identity_key option"
  | Lost nat
  | Request nat real web_request
  | Body nat "string option"
  | Completed nat response
  | Failed nat bool
  | Timeout nat
  | Dropped nat
  | Ended nat

definition agent_init :: agent_server where
  "agent_init = \<lparr>as_connections = connection_admission_init, as_admitted = [], as_requests = slots_init MAX_CONCURRENT_REQUESTS,
     as_limiter = limiter_init, as_tasks = [], as_detached = [], as_operations = [], as_sent = []\<rparr>"


section \<open>The handlers\<close>

text \<open>\<^verbatim>\<open>connection_made\<close>: a connection that is not admitted is closed before the parser sees a byte.\<close>

definition connection_made :: "nat \<Rightarrow> identity_key option \<Rightarrow> agent_server \<Rightarrow> agent_server" where
  "connection_made c peer s = (case peer of None \<Rightarrow> s | Some identity_key \<Rightarrow>
     (case ca_acquire identity_key (as_connections s) of None \<Rightarrow> s
      | Some ca \<Rightarrow> s\<lparr>as_connections := ca, as_admitted := dict_set c identity_key (as_admitted s)\<rparr>))"

definition connection_lost :: "nat \<Rightarrow> agent_server \<Rightarrow> agent_server result" where
  "connection_lost c s = (case dict_get (as_admitted s) c of None \<Rightarrow> Inr s
     | Some identity_key \<Rightarrow> rbind (ca_release identity_key (as_connections s)) (\<lambda>ca.
         Inr (s\<lparr>as_connections := ca, as_admitted := dict_del c (as_admitted s)\<rparr>)))"

definition respond :: "nat \<Rightarrow> response \<Rightarrow> agent_server \<Rightarrow> agent_server" where
  "respond i r s = s\<lparr>as_sent := as_sent s @ [(i, r)]\<rparr>"

text \<open>\<^verbatim>\<open>handle\<close> up to the first \<^verbatim>\<open>await\<close> that suspends.\<close>

definition handle_request :: "string \<Rightarrow> nat \<Rightarrow> real \<Rightarrow> web_request \<Rightarrow> agent_server \<Rightarrow> agent_server" where
  "handle_request authority i now request s =
     (if \<not> wq_http11 request then respond i (agent_error 505 ''http_version_not_supported'') s
      else if single_header request ''Host'' \<noteq> Some authority then respond i (agent_error 421 ''misdirected_request'') s
      else case wq_peer request of
          None \<Rightarrow> respond i (agent_error 403 ''unauthorized'') s
        | Some identity_key \<Rightarrow>
            let (allowed, l) = agent_allow identity_key now (as_limiter s); s = s\<lparr>as_limiter := l\<rparr>
            in if \<not> allowed then respond i (agent_error 429 ''rate_limited'') s
               else case (single_header request ''Content-Type'', single_optional_header request ''Content-Encoding'') of
                   (Some content_type, Inr content_encoding) \<Rightarrow>
                     (case take_slot MAX_CONCURRENT_REQUESTS_PER_IDENTITY identity_key (as_requests s) of
                        None \<Rightarrow> respond i (agent_error 503 ''listener_busy'') s
                      | Some r \<Rightarrow> s\<lparr>as_requests := r, as_tasks := dict_set i
                          (Awaiting_body identity_key request content_type content_encoding) (as_tasks s)\<rparr>)
                 | _ \<Rightarrow> respond i (agent_error 400 ''invalid_headers'') s)"

text \<open>The \<^verbatim>\<open>finally\<close> clause, with \<^verbatim>\<open>_release_request_slot\<close>.\<close>

definition release_request :: "nat \<Rightarrow> identity_key \<Rightarrow> agent_server \<Rightarrow> agent_server result" where
  "release_request i identity_key s = rbind (release_slot identity_key (as_requests s)) (\<lambda>r.
     Inr (s\<lparr>as_requests := r, as_tasks := dict_del i (as_tasks s)\<rparr>))"

definition receive_body :: "nat \<Rightarrow> identity_key \<Rightarrow> web_request \<Rightarrow> string \<Rightarrow> string option \<Rightarrow> string option \<Rightarrow> agent_server \<Rightarrow> agent_server result" where
  "receive_body i identity_key request content_type content_encoding body s = (case body of
       None \<Rightarrow> release_request i identity_key (respond i (agent_error 413 ''request_too_large'') s)
     | Some body \<Rightarrow> Inr (s\<lparr>as_tasks := dict_set i (Running identity_key) (as_tasks s),
         as_operations := as_operations s @ [(i, identity_key,
           \<lparr>am_method = wq_method request, am_path = wq_raw_path request, am_content_type = Some content_type,
            am_content_encoding = content_encoding, am_body = body\<rparr>)]\<rparr>))"

text \<open>The slot of an operation that still runs is given back when it ends.\<close>

definition detach_operation :: "nat \<Rightarrow> identity_key \<Rightarrow> agent_server \<Rightarrow> agent_server" where
  "detach_operation i identity_key s =
     s\<lparr>as_tasks := dict_del i (as_tasks s), as_detached := dict_set i identity_key (as_detached s)\<rparr>"

text \<open>The handlers of \<^verbatim>\<open>TimeoutError\<close> (with a response) and of a broken connection or a cancellation (without).\<close>

definition interrupt :: "nat \<Rightarrow> handling \<Rightarrow> response option \<Rightarrow> agent_server \<Rightarrow> agent_server result" where
  "interrupt i h r s =
     (let s = (case r of None \<Rightarrow> s | Some r \<Rightarrow> respond i r s)
      in case h of Running identity_key \<Rightarrow> Inr (detach_operation i identity_key s)
         | Awaiting_body identity_key _ _ _ \<Rightarrow> release_request i identity_key s)"

definition operation_ended :: "nat \<Rightarrow> identity_key \<Rightarrow> agent_server \<Rightarrow> agent_server result" where
  "operation_ended i identity_key s = rbind (release_slot identity_key (as_requests s)) (\<lambda>r.
     Inr (s\<lparr>as_requests := r, as_detached := dict_del i (as_detached s)\<rparr>))"

fun agent_step :: "string \<Rightarrow> agent_event \<Rightarrow> agent_server \<Rightarrow> agent_server result option" where
  "agent_step authority (Made c peer) s =
     (if dict_get (as_admitted s) c = None then Some (Inr (connection_made c peer s)) else None)"
| "agent_step authority (Lost c) s = Some (connection_lost c s)"
| "agent_step authority (Request i now request) s =
     (if dict_get (as_tasks s) i = None \<and> dict_get (as_detached s) i = None
      then Some (Inr (handle_request authority i now request s)) else None)"
| "agent_step authority (Body i body) s = (case dict_get (as_tasks s) i of
     Some (Awaiting_body k request content_type content_encoding) \<Rightarrow>
       Some (receive_body i k request content_type content_encoding body s)
   | _ \<Rightarrow> None)"
| "agent_step authority (Completed i r) s = (case dict_get (as_tasks s) i of
     Some (Running k) \<Rightarrow> Some (release_request i k (respond i (agent_response (rs_status r) (rs_body r) (rs_headers r)) s))
   | _ \<Rightarrow> None)"
| "agent_step authority (Failed i timeout) s = (case dict_get (as_tasks s) i of
     Some (Running k) \<Rightarrow> Some (release_request i k (if timeout then respond i (agent_error 408 ''request_timeout'') s else s))
   | _ \<Rightarrow> None)"
| "agent_step authority (Timeout i) s = (case dict_get (as_tasks s) i of
     Some h \<Rightarrow> Some (interrupt i h (Some (agent_error 408 ''request_timeout'')) s) | None \<Rightarrow> None)"
| "agent_step authority (Dropped i) s = (case dict_get (as_tasks s) i of
     Some h \<Rightarrow> Some (interrupt i h None s) | None \<Rightarrow> None)"
| "agent_step authority (Ended i) s = (case dict_get (as_detached s) i of
     Some k \<Rightarrow> Some (operation_ended i k s) | None \<Rightarrow> None)"

inductive agent_reaches :: "string \<Rightarrow> agent_server \<Rightarrow> bool" for authority where
  initial: "agent_reaches authority agent_init"
| step: "agent_reaches authority s \<Longrightarrow> agent_step authority e s = Some (Inr s') \<Longrightarrow> agent_reaches authority s'"

section \<open>The counters agree with what is held\<close>

definition agent_ok :: "agent_server \<Rightarrow> bool" where
  "agent_ok s \<longleftrightarrow> ca_ok (as_connections s) \<and>
     slots_ok MAX_CONCURRENT_REQUESTS MAX_CONCURRENT_REQUESTS_PER_IDENTITY (as_requests s) \<and>
     dict_ok (as_admitted s) \<and> dict_ok (as_tasks s) \<and> dict_ok (as_detached s) \<and>
     slots_held (ca_slots (as_connections s)) = image_mset snd (mset (as_admitted s)) \<and>
     slots_held (as_requests s) = image_mset (key_of \<circ> snd) (mset (as_tasks s)) + image_mset snd (mset (as_detached s)) \<and>
     (\<forall>i h. dict_get (as_tasks s) i = Some h \<longrightarrow> dict_get (as_detached s) i = None)"

lemma respond_ok [simp]: "agent_ok (respond i r s) = agent_ok s" "agent_ok (s\<lparr>as_limiter := l\<rparr>) = agent_ok s"
  "as_tasks (respond i r s) = as_tasks s" "as_requests (respond i r s) = as_requests s" "as_detached (respond i r s) = as_detached s"
  by (simp_all add: agent_ok_def respond_def)

lemma connection_made_ok:
  assumes "agent_ok s" "dict_get (as_admitted s) c = None"
  shows "agent_ok (connection_made c peer s)"
  using assms connections.acquire_Some [of "as_connections s"]
  by (auto simp: connection_made_def agent_ok_def mset_dict_set split: option.splits)

lemma connection_lost_ok:
  assumes "agent_ok s"
  shows "\<exists>s'. connection_lost c s = Inr s' \<and> agent_ok s'"
proof (cases "dict_get (as_admitted s) c")
  case (Some k)
  have d: "dict_ok (as_admitted s)" "ca_ok (as_connections s)"
    using assms by (simp_all add: agent_ok_def)
  have "slots_held (ca_slots (as_connections s)) = add_mset k (image_mset snd (mset (dict_del c (as_admitted s))))"
    using assms mset_dict_get [OF d(1) Some] by (simp add: agent_ok_def)
  then obtain ca where "ca_release k (as_connections s) = Inr ca" "ca_ok ca"
    "slots_held (ca_slots ca) = image_mset snd (mset (dict_del c (as_admitted s)))"
    using connections.release_add [OF d(2)] by metis
  then show ?thesis
    using assms Some by (auto simp: connection_lost_def agent_ok_def)
qed (use assms in \<open>simp add: connection_lost_def\<close>)

lemma handle_request_ok:
  assumes "agent_ok s" "dict_get (as_tasks s) i = None" "dict_get (as_detached s) i = None"
  shows "agent_ok (handle_request authority i now request s)"
proof -
  have "agent_ok (s\<lparr>as_limiter := l, as_requests := r, as_tasks := dict_set i (Awaiting_body k q t c) (as_tasks s)\<rparr>)"
    if "take_slot MAX_CONCURRENT_REQUESTS_PER_IDENTITY k (as_requests s) = Some r" for l r k q t c
    using assms slots.acquire_Some [of MAX_CONCURRENT_REQUESTS MAX_CONCURRENT_REQUESTS_PER_IDENTITY "as_requests s" k r] that
    by (auto simp: agent_ok_def mset_dict_set simp del: map_of_eq_Some_iff)
  then show ?thesis
    using assms(1) by (auto simp: handle_request_def Let_def split: option.splits prod.splits sum.splits)
qed

lemma release_request_ok:
  assumes "agent_ok s" "dict_get (as_tasks s) i = Some h" "key_of h = k"
  shows "\<exists>s'. release_request i k s = Inr s' \<and> agent_ok s'"
proof -
  have d: "dict_ok (as_tasks s)" "slots_ok MAX_CONCURRENT_REQUESTS MAX_CONCURRENT_REQUESTS_PER_IDENTITY (as_requests s)"
    using assms(1) by (simp_all add: agent_ok_def)
  have "slots_held (as_requests s) = add_mset k (image_mset (key_of \<circ> snd) (mset (dict_del i (as_tasks s))) +
      image_mset snd (mset (as_detached s)))"
    using assms mset_dict_get [OF d(1) assms(2)] by (simp add: agent_ok_def)
  then obtain r where "release_slot k (as_requests s) = Inr r"
    "slots_ok MAX_CONCURRENT_REQUESTS MAX_CONCURRENT_REQUESTS_PER_IDENTITY r"
    "slots_held r = image_mset (key_of \<circ> snd) (mset (dict_del i (as_tasks s))) + image_mset snd (mset (as_detached s))"
    using slots.release_add [OF d(2)] by metis
  then show ?thesis
    using assms(1) d(1) by (auto simp: release_request_def agent_ok_def)
qed

lemma receive_body_ok:
  assumes "agent_ok s" "dict_get (as_tasks s) i = Some (Awaiting_body k q t c)"
  shows "\<exists>s'. receive_body i k q t c body s = Inr s' \<and> agent_ok s'"
proof (cases body)
  case None
  then show ?thesis
    using release_request_ok [of "respond i (agent_error 413 ''request_too_large'') s" i] assms by (simp add: receive_body_def)
next
  case (Some b)
  have d: "dict_ok (as_tasks s)"
    using assms(1) by (simp add: agent_ok_def)
  show ?thesis
    using assms Some d mset_dict_get [OF d assms(2)]
    by (auto simp: receive_body_def agent_ok_def mset_dict_set simp del: map_of_eq_Some_iff)
qed

lemma interrupt_ok:
  assumes "agent_ok s" "dict_get (as_tasks s) i = Some h"
  shows "\<exists>s'. interrupt i h r s = Inr s' \<and> agent_ok s'"
proof -
  define t where "t = (case r of None \<Rightarrow> s | Some r \<Rightarrow> respond i r s)"
  have t: "agent_ok t" "dict_get (as_tasks t) i = Some h"
    using assms by (simp_all add: t_def split: option.splits)
  show ?thesis
  proof (cases h)
    case (Running k)
    have d: "dict_ok (as_tasks t)" "dict_ok (as_detached t)" "dict_get (as_detached t) i = None"
      using t by (auto simp: agent_ok_def)
    have "agent_ok (detach_operation i k t)"
      using t d mset_dict_get [OF d(1) t(2)] Running
      by (auto simp: detach_operation_def agent_ok_def mset_dict_set simp del: map_of_eq_Some_iff)
    then show ?thesis
      by (simp add: interrupt_def Running t_def [symmetric])
  next
    case (Awaiting_body k q c e)
    then show ?thesis
      using release_request_ok [OF t] by (simp add: interrupt_def t_def [symmetric])
  qed
qed

lemma operation_ended_ok:
  assumes "agent_ok s" "dict_get (as_detached s) i = Some k"
  shows "\<exists>s'. operation_ended i k s = Inr s' \<and> agent_ok s'"
proof -
  have d: "dict_ok (as_detached s)" "slots_ok MAX_CONCURRENT_REQUESTS MAX_CONCURRENT_REQUESTS_PER_IDENTITY (as_requests s)"
    using assms(1) by (simp_all add: agent_ok_def)
  have "slots_held (as_requests s) = add_mset k (image_mset (key_of \<circ> snd) (mset (as_tasks s)) +
      image_mset snd (mset (dict_del i (as_detached s))))"
    using assms mset_dict_get [OF d(1) assms(2)] by (simp add: agent_ok_def)
  then obtain r where "release_slot k (as_requests s) = Inr r"
    "slots_ok MAX_CONCURRENT_REQUESTS MAX_CONCURRENT_REQUESTS_PER_IDENTITY r"
    "slots_held r = image_mset (key_of \<circ> snd) (mset (as_tasks s)) + image_mset snd (mset (dict_del i (as_detached s)))"
    using slots.release_add [OF d(2)] by metis
  then show ?thesis
    using assms(1) d(1) by (auto simp: operation_ended_def agent_ok_def)
qed

lemma agent_step_ok:
  assumes "agent_ok s" "agent_step authority e s = Some r"
  shows "\<exists>s'. r = Inr s' \<and> agent_ok s'"
proof (cases e)
  case (Completed i resp)
  then show ?thesis
    using assms release_request_ok [of "respond i x s" i for x] by (auto split: option.splits handling.splits)
next
  case (Failed i timeout)
  then show ?thesis
    using assms release_request_ok [of "respond i x s" i for x] release_request_ok [of s i]
    by (auto split: option.splits handling.splits)
qed (use assms connection_made_ok connection_lost_ok handle_request_ok receive_body_ok interrupt_ok operation_ended_ok in
    \<open>auto split: option.splits handling.splits if_splits\<close>)

lemma agent_init_ok: "agent_ok agent_init"
  by (simp add: agent_ok_def agent_init_def)

lemma agent_reaches_ok: "agent_reaches authority s \<Longrightarrow> agent_ok s"
  by (induction rule: agent_reaches.induct) (auto dest: agent_step_ok intro: agent_init_ok)

text \<open>The connections admitted, and the requests with the operations that outlived theirs, by identity.\<close>

definition admitted_identities :: "agent_server \<Rightarrow> identity_key list" where
  "admitted_identities s = map snd (as_admitted s)"

definition running_identities :: "agent_server \<Rightarrow> identity_key list" where
  "running_identities s = map (key_of \<circ> snd) (as_tasks s) @ map snd (as_detached s)"

text \<open>
  C35: However connections, requests, deadlines, failures and disconnections interleave, the agent listener never admits more
  than 16 connections or runs more than 16 requests at once, and never more than 4 of either for one certificate identity,
  operations that outlive their request included; both counters are exact; and no release ever fails its consistency
  check.
\<close>

theorem agent_listener_within_limits:
  assumes "agent_reaches authority s"
  shows "length (admitted_identities s) \<le> MAX_CONCURRENT_REQUESTS \<and>
    count_list (admitted_identities s) k \<le> MAX_CONCURRENT_REQUESTS_PER_IDENTITY \<and>
    ca_active (as_connections s) = length (admitted_identities s) \<and>
    length (running_identities s) \<le> MAX_CONCURRENT_REQUESTS \<and>
    count_list (running_identities s) k \<le> MAX_CONCURRENT_REQUESTS_PER_IDENTITY \<and>
    sl_value (as_requests s) = MAX_CONCURRENT_REQUESTS - length (running_identities s) \<and>
    (\<nexists>error. agent_step authority e s = Some (Inl error))"
proof -
  note ok = agent_reaches_ok [OF assms]
  have a: "slots_held (ca_slots (as_connections s)) = mset (admitted_identities s)"
    "slots_held (as_requests s) = mset (running_identities s)"
    "ca_ok (as_connections s)" "slots_ok MAX_CONCURRENT_REQUESTS MAX_CONCURRENT_REQUESTS_PER_IDENTITY (as_requests s)"
    using ok by (simp_all add: agent_ok_def admitted_identities_def running_identities_def)
  have "ca_active (as_connections s) = length (admitted_identities s)"
    using a(3) a(1) [THEN arg_cong [where f = size]] by (auto simp: ca_ok_def slots_ok_def ca_slots_def slots_held_def)
  moreover have "sl_value (as_requests s) = MAX_CONCURRENT_REQUESTS - length (running_identities s)"
    using a(4) a(2) [THEN arg_cong [where f = size]] by (auto simp: slots_ok_def)
  ultimately show ?thesis
    using connections.within [OF a(3), of k] slots.within [OF a(4), of k] agent_step_ok [OF ok, of authority e]
    by (auto simp: a(1,2) count_mset)
qed

definition example_request :: web_request where
  "example_request = \<lparr>wq_http11 = True, wq_headers = [(''host'', ''rmm''), (''content-type'', ''application/json'')],
     wq_method = ''POST'', wq_raw_path = ''/v1/agent/messages'', wq_peer = Some (7, ''sha256:0'')\<rparr>"

definition example_busy :: agent_server where
  "example_busy = handle_request ''rmm'' 1 5 example_request (connection_made 1 (Some (7, ''sha256:0'')) agent_init)"

lemma example_busy_reached: "agent_reaches ''rmm'' example_busy"
proof -
  have "agent_reaches ''rmm'' (connection_made 1 (Some (7, ''sha256:0'')) agent_init)"
    by (rule agent_reaches.step [OF agent_reaches.initial, of _ "Made 1 (Some (7, ''sha256:0''))"]) (simp add: agent_init_def)
  then show ?thesis
    unfolding example_busy_def
    by (rule agent_reaches.step [of _ _ "Request 1 5 example_request"])
       (simp add: connection_made_def ca_acquire_def agent_init_def connection_admission_init_def key_count_def
        MAX_CONCURRENT_REQUESTS_def MAX_CONCURRENT_REQUESTS_PER_IDENTITY_def)
qed

theorem agent_listener_within_limits_witness:
  "agent_reaches ''rmm'' example_busy \<and> running_identities example_busy = [(7, ''sha256:0'')] \<and>
   sl_value (as_requests example_busy) = MAX_CONCURRENT_REQUESTS - 1"
proof -
  have l: "lower ''Host'' = ''host''" "lower ''host'' = ''host''" "lower ''content-type'' = ''content-type''"
    "lower ''Content-Type'' = ''content-type''" "lower ''Content-Encoding'' = ''content-encoding''"
    by code_simp+
  have "running_identities example_busy = [(7, ''sha256:0'')]"
    by (simp add: l example_busy_def running_identities_def handle_request_def example_request_def single_header_def
        header_values_def single_optional_header_def connection_made_def ca_acquire_def agent_init_def connection_admission_init_def
        key_count_def MAX_CONCURRENT_REQUESTS_def MAX_CONCURRENT_REQUESTS_PER_IDENTITY_def agent_allow_def limiter_init_def
        track_def MAX_TRACKED_IDENTITIES_def MAX_GLOBAL_REQUESTS_PER_WINDOW_def MAX_REQUESTS_PER_IDENTITY_WINDOW_def
        take_slot_def slots_init_def)
  then show ?thesis
    using agent_listener_within_limits [OF example_busy_reached, of "(7, ''sha256:0'')" "Lost 1"] example_busy_reached by simp
qed

end
