(* ===== verification/Views.thy ===== *)
theory Views
  imports Domain Py_Time Http
begin

text \<open>
  The HTML views of endpoints (\<^verbatim>\<open>views.py\<close>).  The functions return text that the operator application encodes
  as UTF-8 at once; since the detail page has a character outside the first 256 code points, the model returns the
  encoded bytes.

  The page is shown to be safe against injection: whatever names, fingerprints and reasons the store holds, the tags of
  the page are those of the template, and its texts, unescaped, are the values of the store.
\<close>


section \<open>Encoding and escaping\<close>

text \<open>\<^verbatim>\<open>s.encode("utf-8")\<close> for code points below 256.\<close>

definition utf8_char :: "char \<Rightarrow> string" where
  "utf8_char c = (if code c < 128 then [c] else [char_of (192 + code c div 64), char_of (128 + code c mod 64)])"

definition utf8 :: "string \<Rightarrow> string" where
  "utf8 s = concat (map utf8_char s)"

text \<open>\<^verbatim>\<open>html.escape(s)\<close>.\<close>

definition escape_char :: "char \<Rightarrow> string" where
  "escape_char c =
     (if code c = 38 then ''&amp;'' else if code c = 60 then ''&lt;'' else if code c = 62 then ''&gt;''
      else if code c = 34 then ''&quot;'' else if code c = 39 then ''&#x27;'' else [c])"

definition escape :: "string \<Rightarrow> string" where
  "escape s = concat (map escape_char s)"

text \<open>Quotation mark, and the em dash of the title.\<close>

definition dq :: string where
  "dq = [char_of (34 :: nat)]"

definition em_dash :: string where
  "em_dash = [char_of (226 :: nat), char_of (128 :: nat), char_of (148 :: nat)]"


section \<open>The views\<close>

text \<open>What a view reads of the store.\<close>

record 's endpoint_reader =
  rd_list_endpoints :: "('s, Endpoint list) op"
  rd_get_endpoint :: "uuid \<Rightarrow> ('s, Endpoint) op"
  rd_get_identity :: "uuid \<Rightarrow> ('s, EndpointIdentity) op"
  rd_endpoint_status :: "uuid \<Rightarrow> datetime \<Rightarrow> ('s, EndpointStatus) op"

fun smap :: "('a \<Rightarrow> ('s, 'b) op) \<Rightarrow> 'a list \<Rightarrow> ('s, 'b list) op" where
  "smap f [] = sreturn []"
| "smap f (x # xs) = sbind (f x) (\<lambda>y. sbind (smap f xs) (\<lambda>ys. sreturn (y # ys)))"

definition time_text :: "datetime option \<Rightarrow> string" where
  "time_text value = (case value of None \<Rightarrow> ''Never'' | Some t \<Rightarrow> isoformat t)"

definition endpoint_row :: "Endpoint \<Rightarrow> EndpointStatus \<Rightarrow> string" where
  "endpoint_row endpoint status =
     ''<tr>'' @
     ''<td><a href='' @ dq @ ''/endpoints/'' @ str_uuid (ep_endpoint_id endpoint) @ dq @ ''>'' @
     utf8 (escape (ep_display_name endpoint)) @ ''</a></td>'' @
     ''<td>'' @ escape (platform_value (ep_platform endpoint)) @ ''</td>'' @
     ''<td>'' @ utf8 (escape (ep_architecture endpoint)) @ ''</td>'' @
     ''<td>'' @ escape (lifecycle_value (es_lifecycle status)) @ ''</td>'' @
     ''<td>'' @ escape (health_value (es_health status)) @ ''</td>'' @
     ''<td>'' @ time_text (es_last_heartbeat_at status) @ ''</td>'' @
     ''</tr>''"

definition page_text :: "string list \<Rightarrow> uuid option \<Rightarrow> string" where
  "page_text rows next_after =
     (let body = (if concat rows = [] then ''<tr><td colspan='' @ dq @ ''6'' @ dq @ ''>No endpoints</td></tr>'' else concat rows);
          next_link = (case next_after of None \<Rightarrow> '''' | Some after \<Rightarrow>
            ''<nav><a href='' @ dq @ ''/endpoints?after='' @ str_uuid after @ dq @ ''>Next page</a></nav>'')
      in ''<!doctype html><html lang='' @ dq @ ''en'' @ dq @ ''><head><meta charset='' @ dq @ ''utf-8'' @ dq @ ''>'' @
         ''<title>NorthGate RMM endpoints</title></head><body>'' @
         ''<main><h1>Endpoints</h1><table><thead><tr>'' @
         ''<th>Name</th><th>Platform</th><th>Architecture</th>'' @
         ''<th>Lifecycle</th><th>Health</th><th>Last heartbeat</th>'' @
         ''</tr></thead><tbody>'' @ body @ ''</tbody></table>'' @ next_link @ ''</main></body></html>'')"

definition render_endpoint_page ::
    "('s, 'm) endpoint_reader_scheme \<Rightarrow> Endpoint list \<Rightarrow> uuid option \<Rightarrow> datetime \<Rightarrow> ('s, string) op" where
  "render_endpoint_page reader endpoints next_after now =
     sbind (smap (\<lambda>endpoint. sbind (rd_endpoint_status reader (ep_endpoint_id endpoint) now) (\<lambda>status.
       sreturn (endpoint_row endpoint status))) endpoints) (\<lambda>rows.
     sreturn (page_text rows next_after))"

definition render_endpoint_list :: "('s, 'm) endpoint_reader_scheme \<Rightarrow> datetime \<Rightarrow> ('s, string) op" where
  "render_endpoint_list reader now =
     sbind (rd_list_endpoints reader) (\<lambda>endpoints. render_endpoint_page reader endpoints None now)"

definition detail_values :: "Endpoint \<Rightarrow> EndpointIdentity \<Rightarrow> EndpointStatus \<Rightarrow> (string \<times> string) list" where
  "detail_values endpoint identity status =
     [(''Endpoint ID'', str_uuid (ep_endpoint_id endpoint)),
      (''Display name'', ep_display_name endpoint),
      (''Platform'', platform_value (ep_platform endpoint)),
      (''Architecture'', ep_architecture endpoint),
      (''Identity ID'', str_uuid (ei_identity_id identity)),
      (''Fingerprint'', ei_public_key_fingerprint identity),
      (''Lifecycle'', lifecycle_value (es_lifecycle status)),
      (''Health'', health_value (es_health status)),
      (''Enrolled'', time_text (Some (ep_enrolled_at endpoint))),
      (''Last receipt'', time_text (ep_last_receipt_at endpoint)),
      (''Last heartbeat'', time_text (ep_last_heartbeat_at endpoint)),
      (''Revoked'', time_text (ei_revoked_at identity)),
      (''Revocation reason'', case ei_revocation_reason identity of None \<Rightarrow> '''' | Some reason \<Rightarrow> reason)]"

definition detail_text :: "Endpoint \<Rightarrow> (string \<times> string) list \<Rightarrow> string" where
  "detail_text endpoint vals =
     (let items = concat (map (\<lambda>(label, value).
            ''<dt>'' @ utf8 (escape label) @ ''</dt><dd>'' @ utf8 (escape value) @ ''</dd>'') vals)
      in ''<!doctype html><html lang='' @ dq @ ''en'' @ dq @ ''><head><meta charset='' @ dq @ ''utf-8'' @ dq @ ''>'' @
         ''<title>'' @ utf8 (escape (ep_display_name endpoint)) @ '' '' @ em_dash @ '' NorthGate RMM</title>'' @
         ''</head><body><main><a href='' @ dq @ ''/endpoints'' @ dq @ ''>Endpoints</a>'' @
         ''<h1>'' @ utf8 (escape (ep_display_name endpoint)) @ ''</h1><dl>'' @ items @ ''</dl>'' @
         ''</main></body></html>'')"

definition render_endpoint_detail :: "('s, 'm) endpoint_reader_scheme \<Rightarrow> uuid \<Rightarrow> datetime \<Rightarrow> ('s, string) op" where
  "render_endpoint_detail reader endpoint_id now =
     sbind (rd_get_endpoint reader endpoint_id) (\<lambda>endpoint.
     sbind (rd_get_identity reader (ep_identity_id endpoint)) (\<lambda>identity.
     sbind (rd_endpoint_status reader endpoint_id now) (\<lambda>status.
     sreturn (detail_text endpoint (detail_values endpoint identity status)))))"


section \<open>Tags and texts of a page\<close>

text \<open>
  A page as a browser splits it: the tags, from each \<^verbatim>\<open><\<close> to the next \<^verbatim>\<open>>\<close>, and the texts between them, empty ones left
  out.
\<close>

datatype piece = Tag string | Text string

definition add_text :: "string \<Rightarrow> piece list \<Rightarrow> piece list" where
  "add_text t ps = (if t = [] then ps else Text t # ps)"

fun pieces :: "bool \<Rightarrow> string \<Rightarrow> string \<Rightarrow> piece list" where
  "pieces inside acc [] = (if inside then [Tag acc] else add_text acc [])"
| "pieces False acc (c # s) = (if c = CHR ''<'' then add_text acc (pieces True [] s) else pieces False (acc @ [c]) s)"
| "pieces True acc (c # s) = (if c = CHR ''>'' then Tag acc # pieces False [] s else pieces True (acc @ [c]) s)"

definition page_pieces :: "string \<Rightarrow> piece list" where
  "page_pieces page = pieces False [] page"

lemma pieces_text: "CHR ''<'' \<notin> set t \<Longrightarrow> pieces False acc (t @ s) = pieces False (acc @ t) s"
  by (induction t arbitrary: acc) auto

lemma pieces_tag: "CHR ''>'' \<notin> set t \<Longrightarrow> pieces True acc (t @ s) = pieces True (acc @ t) s"
  by (induction t arbitrary: acc) auto

text \<open>Text that cannot end or open a tag.\<close>

definition inert :: "string \<Rightarrow> bool" where
  "inert s \<longleftrightarrow> CHR ''<'' \<notin> set s \<and> CHR ''>'' \<notin> set s"

lemma inert_append [simp]: "inert (s @ t) \<longleftrightarrow> inert s \<and> inert t"
  by (auto simp: inert_def)

lemma inert_Cons [simp]: "inert (c # s) \<longleftrightarrow> c \<noteq> CHR ''<'' \<and> c \<noteq> CHR ''>'' \<and> inert s" "inert []"
  by (auto simp: inert_def)

lemma pieces_inert: "inert t \<Longrightarrow> pieces b acc (t @ s) = pieces b (acc @ t) s"
  by (cases b) (auto simp: inert_def pieces_text pieces_tag)

lemma escape_inert [simp]: "inert (escape s)"
  by (induction s) (auto simp: escape_def escape_char_def inert_def)

lemma utf8_inert [simp]: "inert s \<Longrightarrow> inert (utf8 s)"
proof (induction s)
  case (Cons c s)
  have "code c div 64 < 4" "code c mod 64 < 64"
    using nat_of_char_less_256 [of c] by (auto simp: less_mult_imp_div_less)
  then have "code (char_of (192 + code c div 64) :: char) = 192 + code c div 64"
      "code (char_of (128 + code c mod 64) :: char) = 128 + code c mod 64"
    by (simp_all add: code_char_of)
  then have "inert (utf8_char c)"
    using Cons.prems by (auto simp: inert_def utf8_char_def dest: arg_cong [where f = code])
  with Cons show ?case
    by (simp add: utf8_def inert_def)
qed (simp add: utf8_def)

lemma inert_code: "(\<And>c. c \<in> set s \<Longrightarrow> code c \<noteq> 60 \<and> code c \<noteq> 62) \<Longrightarrow> inert s"
  by (force simp: inert_def)

lemma str_uuid_inert [simp]: "inert (str_uuid u)"
  by (rule inert_code) (auto dest!: str_uuid_chars simp: is_lower_hex_def is_digit_def)

lemma dec_nat_inert: "inert (dec_nat n)"
  using dec_nat_digits [of n] by (intro inert_code) (auto simp: list_all_iff is_digit_def)

lemma pad_inert [simp]: "inert (pad w n)"
  using dec_nat_inert [of n] by (auto simp: pad_def inert_def)

lemma isoformat_inert [simp]: "inert (isoformat t)"
  by (simp add: isoformat_def Let_def split_def iso_fraction_def iso_offset_def split: tzinfo.split)

lemma time_text_inert [simp]: "inert (time_text t)"
  by (simp add: time_text_def split: option.split)

lemma markup_inert [simp]: "inert dq" "inert em_dash"
  by (simp_all add: dq_def em_dash_def inert_def) (auto dest: arg_cong [where f = code])

text \<open>A value as it is written into a page, and how a browser reads it back.\<close>

definition shown :: "string \<Rightarrow> string" where
  "shown s = utf8 (escape s)"

lemma shown_inert [simp]: "inert (shown s)"
  by (simp add: shown_def)

fun decode_utf8 :: "string \<Rightarrow> string" where
  "decode_utf8 [] = []"
| "decode_utf8 [c] = [c]"
| "decode_utf8 (c # d # s) =
     (if code c < 128 then c # decode_utf8 (d # s)
      else char_of ((code c - 192) * 64 + (code d - 128)) # decode_utf8 s)"

function unescape :: "string \<Rightarrow> string" where
  "unescape [] = []"
| "unescape (c # s) =
     (if startswith (c # s) ''&amp;'' then char_of (38 :: nat) # unescape (drop 5 (c # s))
      else if startswith (c # s) ''&lt;'' then char_of (60 :: nat) # unescape (drop 4 (c # s))
      else if startswith (c # s) ''&gt;'' then char_of (62 :: nat) # unescape (drop 4 (c # s))
      else if startswith (c # s) ''&quot;'' then char_of (34 :: nat) # unescape (drop 6 (c # s))
      else if startswith (c # s) ''&#x27;'' then char_of (39 :: nat) # unescape (drop 6 (c # s))
      else c # unescape s)"
  by pat_completeness auto
termination
  by (relation "measure length") auto

lemma decode_utf8_low: "code c < 128 \<Longrightarrow> decode_utf8 (c # s) = c # decode_utf8 s"
  by (cases s) auto

lemma decode_utf8_char: "decode_utf8 (utf8_char c @ s) = c # decode_utf8 s"
proof (cases "code c < 128")
  case True
  then show ?thesis
    by (simp add: utf8_char_def decode_utf8_low)
next
  case False
  have "code c div 64 < 4" "code c mod 64 < 64"
    using nat_of_char_less_256 [of c] by (auto simp: less_mult_imp_div_less)
  then have "code (char_of (192 + code c div 64) :: char) = 192 + code c div 64"
      "code (char_of (128 + code c mod 64) :: char) = 128 + code c mod 64"
    by (simp_all add: code_char_of)
  then show ?thesis
    using False by (simp add: utf8_char_def)
qed

lemma decode_utf8_utf8: "decode_utf8 (utf8 s) = s"
  by (induction s) (simp_all add: utf8_def decode_utf8_char)

declare unescape.simps(2) [simp del]

lemma unescape_entity:
  "unescape (''&amp;'' @ s) = char_of (38 :: nat) # unescape s" "unescape (''&lt;'' @ s) = char_of (60 :: nat) # unescape s"
  "unescape (''&gt;'' @ s) = char_of (62 :: nat) # unescape s" "unescape (''&quot;'' @ s) = char_of (34 :: nat) # unescape s"
  "unescape (''&#x27;'' @ s) = char_of (39 :: nat) # unescape s"
  by (simp_all add: unescape.simps(2) startswith_def)

lemma unescape_other: "c \<noteq> CHR ''&'' \<Longrightarrow> unescape (c # s) = c # unescape s"
  by (simp add: unescape.simps(2) startswith_def)

lemma escape_char_entity:
  "code c = 38 \<Longrightarrow> escape_char c = ''&amp;''" "code c = 60 \<Longrightarrow> escape_char c = ''&lt;''"
  "code c = 62 \<Longrightarrow> escape_char c = ''&gt;''" "code c = 34 \<Longrightarrow> escape_char c = ''&quot;''"
  "code c = 39 \<Longrightarrow> escape_char c = ''&#x27;''"
  by (simp_all add: escape_char_def)

lemma unescape_char: "unescape (escape_char c @ s) = c # unescape s"
proof -
  have c: "char_of n = c" if "code c = n" for n
    using that by (metis char_of_char)
  consider "code c = 38" | "code c = 60" | "code c = 62" | "code c = 34" | "code c = 39"
    | "code c \<notin> {38, 60, 62, 34, 39}"
    by blast
  then show ?thesis
  proof cases
    case 6
    then have "c \<noteq> CHR ''&''"
      by auto
    with 6 show ?thesis
      by (simp add: escape_char_def unescape_other)
  qed (simp_all only: escape_char_entity unescape_entity c)
qed

lemma unescape_escape: "unescape (escape s) = s"
  by (induction s) (simp_all add: escape_def unescape_char)

lemma shown_read_back: "unescape (decode_utf8 (shown s)) = s"
  by (simp add: shown_def decode_utf8_utf8 unescape_escape)

lemma piece_simps [simp]:
  "pieces b acc (dq @ s) = pieces b (acc @ dq) s" "pieces b acc (em_dash @ s) = pieces b (acc @ em_dash) s"
  "pieces b acc (shown x @ s) = pieces b (acc @ shown x) s" "pieces b acc (str_uuid u @ s) = pieces b (acc @ str_uuid u) s"
  "pieces b acc (time_text t @ s) = pieces b (acc @ time_text t) s"
  by (simp_all add: pieces_inert)

lemma add_text_append [simp]: "add_text t ps @ qs = add_text t (ps @ qs)"
  by (simp add: add_text_def)

lemma add_text_Cons [simp]: "add_text (c # t) ps = Text (c # t) # ps" "add_text [] ps = ps"
  by (simp_all add: add_text_def)

text \<open>The template of the detail page.\<close>

definition item_pieces :: "string \<times> string \<Rightarrow> piece list" where
  "item_pieces lv = Tag ''dt'' # add_text (shown (fst lv)) [Tag ''/dt'', Tag ''dd''] @ add_text (shown (snd lv)) [Tag ''/dd'']"

definition detail_pieces :: "string \<Rightarrow> (string \<times> string) list \<Rightarrow> piece list" where
  "detail_pieces name vals =
     [Tag ''!doctype html'', Tag (''html lang='' @ dq @ ''en'' @ dq), Tag ''head'', Tag (''meta charset='' @ dq @ ''utf-8'' @ dq),
      Tag ''title'', Text (shown name @ '' '' @ em_dash @ '' NorthGate RMM''), Tag ''/title'', Tag ''/head'', Tag ''body'',
      Tag ''main'', Tag (''a href='' @ dq @ ''/endpoints'' @ dq), Text ''Endpoints'', Tag ''/a'', Tag ''h1''] @
     add_text (shown name) [Tag ''/h1'', Tag ''dl''] @ concat (map item_pieces vals) @
     [Tag ''/dl'', Tag ''/main'', Tag ''/body'', Tag ''/html'']"

lemma pieces_items:
  "pieces False [] (concat (map (\<lambda>(label, value). ''<dt>'' @ shown label @ ''</dt><dd>'' @ shown value @ ''</dd>'') vals) @ s) =
   concat (map item_pieces vals) @ pieces False [] s"
  by (induction vals) (auto simp: item_pieces_def)

lemma detail_text_pieces: "page_pieces (detail_text endpoint vals) = detail_pieces (ep_display_name endpoint) vals"
proof -
  define items where "items = concat (map (\<lambda>(label, value). ''<dt>'' @ shown label @ ''</dt><dd>'' @ shown value @ ''</dd>'') vals)"
  have i: "pieces False [] (items @ s) = concat (map item_pieces vals) @ pieces False [] s" for s
    unfolding items_def by (rule pieces_items)
  show ?thesis
    unfolding page_pieces_def detail_text_def Let_def shown_def [symmetric] items_def [symmetric] detail_pieces_def
    by (simp add: i) (simp add: add_text_def)
qed

text \<open>The template of the listing.\<close>

definition row_pieces :: "Endpoint \<times> EndpointStatus \<Rightarrow> piece list" where
  "row_pieces es =
     [Tag ''tr'', Tag ''td'', Tag (''a href='' @ dq @ ''/endpoints/'' @ str_uuid (ep_endpoint_id (fst es)) @ dq)] @
     add_text (shown (ep_display_name (fst es))) [Tag ''/a'', Tag ''/td'', Tag ''td''] @
     add_text (escape (platform_value (ep_platform (fst es)))) [Tag ''/td'', Tag ''td''] @
     add_text (shown (ep_architecture (fst es))) [Tag ''/td'', Tag ''td''] @
     add_text (escape (lifecycle_value (es_lifecycle (snd es)))) [Tag ''/td'', Tag ''td''] @
     add_text (escape (health_value (es_health (snd es)))) [Tag ''/td'', Tag ''td''] @
     add_text (time_text (es_last_heartbeat_at (snd es))) [Tag ''/td'', Tag ''/tr'']"

definition heading_pieces :: "string \<Rightarrow> piece list" where
  "heading_pieces name = [Tag ''th'', Text name, Tag ''/th'']"

definition list_pieces :: "(Endpoint \<times> EndpointStatus) list \<Rightarrow> uuid option \<Rightarrow> piece list" where
  "list_pieces rows next_after =
     [Tag ''!doctype html'', Tag (''html lang='' @ dq @ ''en'' @ dq), Tag ''head'', Tag (''meta charset='' @ dq @ ''utf-8'' @ dq),
      Tag ''title'', Text ''NorthGate RMM endpoints'', Tag ''/title'', Tag ''/head'', Tag ''body'', Tag ''main'',
      Tag ''h1'', Text ''Endpoints'', Tag ''/h1'', Tag ''table'', Tag ''thead'', Tag ''tr''] @
     concat (map heading_pieces [''Name'', ''Platform'', ''Architecture'', ''Lifecycle'', ''Health'', ''Last heartbeat'']) @
     [Tag ''/tr'', Tag ''/thead'', Tag ''tbody''] @
     (if rows = [] then [Tag ''tr'', Tag (''td colspan='' @ dq @ ''6'' @ dq), Text ''No endpoints'', Tag ''/td'', Tag ''/tr'']
      else concat (map row_pieces rows)) @
     [Tag ''/tbody'', Tag ''/table''] @
     (case next_after of None \<Rightarrow> [] | Some after \<Rightarrow>
        [Tag ''nav'', Tag (''a href='' @ dq @ ''/endpoints?after='' @ str_uuid after @ dq), Text ''Next page'', Tag ''/a'', Tag ''/nav'']) @
     [Tag ''/main'', Tag ''/body'', Tag ''/html'']"

lemma pieces_escape [simp]: "pieces b acc (escape x @ s) = pieces b (acc @ escape x) s"
  by (simp add: pieces_inert)

lemma pieces_row: "pieces False [] (endpoint_row e st @ s) = row_pieces (e, st) @ pieces False [] s"
  unfolding endpoint_row_def row_pieces_def shown_def [symmetric] by simp

lemma pieces_rows:
  "pieces False [] (concat (map (\<lambda>(e, st). endpoint_row e st) rows) @ s) = concat (map row_pieces rows) @ pieces False [] s"
  by (induction rows) (auto simp: pieces_row)

lemma page_text_pieces: "page_pieces (page_text (map (\<lambda>(e, st). endpoint_row e st) rows) next_after) = list_pieces rows next_after"
proof -
  define body where "body = concat (map (\<lambda>(e, st). endpoint_row e st) rows)"
  have b: "pieces False [] (body @ s) = concat (map row_pieces rows) @ pieces False [] s" for s
    unfolding body_def by (rule pieces_rows)
  have e: "body = [] \<longleftrightarrow> rows = []"
    unfolding body_def by (cases rows) (auto simp: endpoint_row_def)
  show ?thesis
    unfolding page_pieces_def page_text_def Let_def body_def [symmetric] list_pieces_def e
    by (cases "rows = []"; cases next_after) (simp_all add: b heading_pieces_def)
qed

lemma sreturn_Inr: "sreturn x s = (Inr y, s') \<longleftrightarrow> y = x \<and> s' = s"
  by (auto simp: sreturn_def)

lemma smap_rows:
  assumes "smap (\<lambda>e. sbind (f e) (\<lambda>st. sreturn (g e st))) es s = (Inr rows, s')"
  shows "\<exists>sts. length sts = length es \<and> rows = map (\<lambda>(e, st). g e st) (zip es sts)"
  using assms
proof (induction es arbitrary: s rows)
  case (Cons e es)
  then obtain st t rows' where "f e s = (Inr st, t)" "smap (\<lambda>e. sbind (f e) (\<lambda>st. sreturn (g e st))) es t = (Inr rows', s')"
    "rows = g e st # rows'"
    by (auto simp: sbind_Inr sreturn_Inr)
  with Cons.IH obtain sts where "length sts = length es" "rows' = map (\<lambda>(e, st). g e st) (zip es sts)"
    by blast
  then show ?case
    using \<open>rows = g e st # rows'\<close> by (intro exI [of _ "st # sts"]) simp
qed (simp add: sreturn_def)

text \<open>
  C36: No value of the store can change the markup of a page.  Whatever names, architectures, fingerprints and revocation
  reasons endpoints have, a detail page and a listing consist of exactly the tags of their templates, with the values as
  texts between them, and unescaping such a text gives the value back.
\<close>

theorem views_no_injection:
  assumes "render_endpoint_detail reader endpoint_id now s = (Inr page, s')"
    "render_endpoint_page reader endpoints next_after now t = (Inr listing, t')"
  shows "(\<exists>endpoint identity status s1 s2. rd_get_endpoint reader endpoint_id s = (Inr endpoint, s1) \<and>
      rd_get_identity reader (ep_identity_id endpoint) s1 = (Inr identity, s2) \<and>
      rd_endpoint_status reader endpoint_id now s2 = (Inr status, s') \<and>
      page_pieces page = detail_pieces (ep_display_name endpoint) (detail_values endpoint identity status)) \<and>
    (\<exists>statuses. length statuses = length endpoints \<and> page_pieces listing = list_pieces (zip endpoints statuses) next_after) \<and>
    unescape (decode_utf8 (shown value)) = value"
proof (intro conjI)
  show "\<exists>endpoint identity status s1 s2. rd_get_endpoint reader endpoint_id s = (Inr endpoint, s1) \<and>
      rd_get_identity reader (ep_identity_id endpoint) s1 = (Inr identity, s2) \<and>
      rd_endpoint_status reader endpoint_id now s2 = (Inr status, s') \<and>
      page_pieces page = detail_pieces (ep_display_name endpoint) (detail_values endpoint identity status)"
    using assms(1) by (fastforce simp: render_endpoint_detail_def sbind_Inr sreturn_Inr detail_text_pieces)
  obtain rows where r: "smap (\<lambda>endpoint. sbind (rd_endpoint_status reader (ep_endpoint_id endpoint) now) (\<lambda>status.
       sreturn (endpoint_row endpoint status))) endpoints t = (Inr rows, t')" "listing = page_text rows next_after"
    using assms(2) by (auto simp: render_endpoint_page_def sbind_Inr sreturn_Inr)
  from smap_rows [OF r(1)] show "\<exists>statuses. length statuses = length endpoints \<and>
      page_pieces listing = list_pieces (zip endpoints statuses) next_after"
    using r(2) page_text_pieces by metis
qed (rule shown_read_back)

text \<open>A reader with one endpoint, whose name tries to open a script.\<close>

definition example_endpoint :: Endpoint where
  "example_endpoint = \<lparr>ep_endpoint_id = 1, ep_display_name = ''<script>'', ep_platform = LINUX, ep_architecture = ''amd64'',
     ep_identity_id = 2, ep_enrolled_at = utc 0, ep_last_receipt_at = None, ep_last_heartbeat_at = None\<rparr>"

definition example_identity :: EndpointIdentity where
  "example_identity = \<lparr>ei_identity_id = 2, ei_endpoint_id = 1, ei_public_key_fingerprint = ''sha256:0'', ei_created_at = utc 0,
     ei_status = ACTIVE, ei_revoked_at = None, ei_revocation_reason = None\<rparr>"

definition example_status :: EndpointStatus where
  "example_status = \<lparr>es_endpoint_id = 1, es_lifecycle = ACTIVE, es_health = OFFLINE, es_last_heartbeat_at = None\<rparr>"

definition example_reader :: "unit endpoint_reader" where
  "example_reader = \<lparr>rd_list_endpoints = sreturn [example_endpoint], rd_get_endpoint = (\<lambda>_. sreturn example_endpoint),
     rd_get_identity = (\<lambda>_. sreturn example_identity), rd_endpoint_status = (\<lambda>_ _. sreturn example_status)\<rparr>"

theorem views_no_injection_witness:
  "\<exists>page. render_endpoint_detail example_reader 1 (utc 0) () = (Inr page, ()) \<and>
     page_pieces page = detail_pieces ''<script>'' (detail_values example_endpoint example_identity example_status)"
proof -
  have d: "render_endpoint_detail example_reader 1 (utc 0) () =
      (Inr (detail_text example_endpoint (detail_values example_endpoint example_identity example_status)), ())"
    by (simp add: render_endpoint_detail_def example_reader_def sbind_def sreturn_def)
  have l: "render_endpoint_page example_reader [example_endpoint] None (utc 0) () =
      (Inr (page_text [endpoint_row example_endpoint example_status] None), ())"
    by (simp add: render_endpoint_page_def example_reader_def sbind_def sreturn_def)
  have n: "ep_display_name example_endpoint = ''<script>''"
    by (simp add: example_endpoint_def)
  show ?thesis
    using views_no_injection [OF d l, of "''<''"] d n
    by (intro exI [of _ "detail_text example_endpoint (detail_values example_endpoint example_identity example_status)"])
       (auto simp: example_reader_def sreturn_def)
qed

end
