(* ===== verification/Operator.thy ===== *)
theory Operator
  imports Views Persistence
begin

text \<open>
  The operator application (\<^verbatim>\<open>operator_api.py\<close>): authentication by an external verifier, authorization against the
  pinned policy, an audit event for every decision, and the two read routes.

  The verifier is an argument.  The store is a record of operations, which the in-memory and the PostgreSQL control plane
  both provide; what the application relies on and guarantees is in \<^verbatim>\<open>Operator_Audit\<close>.
\<close>


section \<open>Principals and policies\<close>

definition MAX_AUTHORIZATION_HEADER_BYTES :: nat where "MAX_AUTHORIZATION_HEADER_BYTES = 4096"
definition MAX_OPERATOR_VALUE_LENGTH :: nat where "MAX_OPERATOR_VALUE_LENGTH = 512"
definition MAX_OPERATOR_AUDIT_IDENTIFIER_LENGTH :: nat where "MAX_OPERATOR_AUDIT_IDENTIFIER_LENGTH = 256"
definition MAX_OPERATOR_ROLE_LENGTH :: nat where "MAX_OPERATOR_ROLE_LENGTH = 64"
definition MAX_OPERATOR_PATH_LENGTH :: nat where "MAX_OPERATOR_PATH_LENGTH = 256"
definition MAX_OPERATOR_SESSION_AGE :: timedelta where "MAX_OPERATOR_SESSION_AGE = hours 12"
definition OPERATOR_ENDPOINT_PAGE_SIZE :: nat where "OPERATOR_ENDPOINT_PAGE_SIZE = 100"

record OperatorPrincipal =
  op_issuer :: string
  op_tenant :: string
  op_subject :: string
  op_session_id :: string
  op_client_id :: string
  op_roles :: "string list"
  op_authenticated_at :: datetime
  op_expires_at :: datetime
  op_mfa :: bool

definition operator_text_ok :: "nat \<Rightarrow> string \<Rightarrow> bool" where
  "operator_text_ok maximum_length value \<longleftrightarrow> value \<noteq> [] \<and> length value \<le> maximum_length \<and> isprintable value"

text \<open>\<^verbatim>\<open>astimezone(UTC)\<close> with its exceptions turned into a \<^const>\<open>ValidationError\<close>.\<close>

definition session_time :: "datetime \<Rightarrow> datetime result" where
  "session_time t = (case astimezone_utc t of Inr u \<Rightarrow> Inr u
     | Inl _ \<Rightarrow> Inl (ValidationError ''operator session times cannot be normalized to UTC''))"

definition OperatorPrincipal_post_init :: "OperatorPrincipal \<Rightarrow> OperatorPrincipal result" where
  "OperatorPrincipal_post_init p =
     (if \<not> operator_text_ok MAX_OPERATOR_VALUE_LENGTH (op_issuer p) then Inl (ValidationError ''operator issuer is invalid'')
      else if \<not> operator_text_ok MAX_OPERATOR_VALUE_LENGTH (op_tenant p) then Inl (ValidationError ''operator tenant is invalid'')
      else if \<not> operator_text_ok MAX_OPERATOR_AUDIT_IDENTIFIER_LENGTH (op_subject p)
        then Inl (ValidationError ''operator subject is invalid'')
      else if \<not> operator_text_ok MAX_OPERATOR_VALUE_LENGTH (op_session_id p)
        then Inl (ValidationError ''operator session_id is invalid'')
      else if \<not> operator_text_ok MAX_OPERATOR_VALUE_LENGTH (op_client_id p)
        then Inl (ValidationError ''operator client_id is invalid'')
      else if op_roles p = [] \<or> length (op_roles p) > 8 then Inl (ValidationError ''operator roles are invalid'')
      else if \<not> list_all (operator_text_ok MAX_OPERATOR_ROLE_LENGTH) (op_roles p)
        then Inl (ValidationError ''operator role is invalid'')
      else if \<not> distinct (op_roles p) then Inl (ValidationError ''operator roles contain a duplicate'')
      else rbind (require_aware (op_authenticated_at p) ''operator authenticated_at'') (\<lambda>_.
           rbind (require_aware (op_expires_at p) ''operator expires_at'') (\<lambda>_.
           rbind (session_time (op_authenticated_at p)) (\<lambda>authenticated_at.
           rbind (session_time (op_expires_at p)) (\<lambda>expires_at.
           if instant expires_at \<le> instant authenticated_at
           then Inl (ValidationError ''operator session lifetime is invalid'')
           else Inr (p\<lparr>op_authenticated_at := authenticated_at, op_expires_at := expires_at\<rparr>))))))"

record OperatorAuthorizationPolicy =
  pol_issuer :: string
  pol_tenant :: string
  pol_subject :: string
  pol_client_id :: string
  pol_required_role :: string
  pol_maximum_session_age :: timedelta

definition OperatorAuthorizationPolicy_post_init :: "OperatorAuthorizationPolicy \<Rightarrow> OperatorAuthorizationPolicy result" where
  "OperatorAuthorizationPolicy_post_init p =
     (if \<not> operator_text_ok MAX_OPERATOR_VALUE_LENGTH (pol_issuer p)
        then Inl (ValidationError ''operator policy issuer is invalid'')
      else if \<not> operator_text_ok MAX_OPERATOR_VALUE_LENGTH (pol_tenant p)
        then Inl (ValidationError ''operator policy tenant is invalid'')
      else if \<not> operator_text_ok MAX_OPERATOR_AUDIT_IDENTIFIER_LENGTH (pol_subject p)
        then Inl (ValidationError ''operator policy subject is invalid'')
      else if \<not> operator_text_ok MAX_OPERATOR_VALUE_LENGTH (pol_client_id p)
        then Inl (ValidationError ''operator policy client_id is invalid'')
      else if \<not> operator_text_ok MAX_OPERATOR_ROLE_LENGTH (pol_required_role p)
        then Inl (ValidationError ''operator policy required_role is invalid'')
      else if \<not> (minutes 5 \<le> pol_maximum_session_age p \<and> pol_maximum_session_age p \<le> hours 24)
        then Inl (ValidationError ''operator maximum session age is invalid'')
      else Inr p)"


section \<open>The application\<close>

record 's operator_store = "'s endpoint_reader" +
  os_list_endpoint_page :: "uuid option \<Rightarrow> int \<Rightarrow> ('s, Endpoint list) op"
  os_record_operator_access :: "string \<Rightarrow> string \<Rightarrow> string \<Rightarrow> string \<Rightarrow> string \<Rightarrow> uuid \<Rightarrow> datetime \<Rightarrow>
     (string \<times> string) list \<Rightarrow> ('s, unit) op"
  os_uuid4 :: "('s, uuid) op"

text \<open>The response headers, which the listener filters again.\<close>

definition operator_api_headers :: "string \<Rightarrow> (string \<times> string) list" where
  "operator_api_headers content_type =
     [(''content-type'', content_type), (''cache-control'', ''no-store''), (''content-security-policy'', operator_csp),
      (''referrer-policy'', ''no-referrer''), (''x-content-type-options'', ''nosniff'')]"

definition operator_html :: "string \<Rightarrow> operator_response" where
  "operator_html body = \<lparr>rs_status = 200, rs_headers = operator_api_headers ''text/html; charset=utf-8'', rs_body = body\<rparr>"

definition operator_error :: "nat \<Rightarrow> string \<Rightarrow> operator_response" where
  "operator_error status error =
     \<lparr>rs_status = status,
      rs_headers = operator_api_headers ''application/json'' @ (if status = 401 then [(''www-authenticate'', ''Bearer'')] else []),
      rs_body = error_body error\<rparr>"

definition endpoint_id_from_path :: "string \<Rightarrow> uuid option" where
  "endpoint_id_from_path path =
     (if \<not> startswith path ''/endpoints/'' then None
      else let value = removeprefix path ''/endpoints/''
           in case parse_uuid value of None \<Rightarrow> None
              | Some endpoint_id \<Rightarrow> if str_uuid endpoint_id \<noteq> value then None else Some endpoint_id)"

definition endpoint_page_after :: "string \<Rightarrow> uuid option result" where
  "endpoint_page_after query_string =
     (if query_string = [] then Inr None
      else if \<not> startswith query_string ''after='' then Inl (ValidationError ''operator page cursor is invalid'')
      else let value = removeprefix query_string ''after=''
           in case parse_uuid value of None \<Rightarrow> Inl (ValidationError ''operator page cursor is invalid'')
              | Some after \<Rightarrow> if str_uuid after \<noteq> value then Inl (ValidationError ''operator page cursor is invalid'')
                  else Inr (Some after))"

text \<open>\<^verbatim>\<open>_authorization_denial\<close>; the times of a principal are in UTC already.\<close>

definition authorization_denial :: "OperatorAuthorizationPolicy \<Rightarrow> OperatorPrincipal \<Rightarrow> datetime \<Rightarrow> string option" where
  "authorization_denial policy who now =
     (if op_issuer who \<noteq> pol_issuer policy \<or> op_tenant who \<noteq> pol_tenant policy \<or>
         op_subject who \<noteq> pol_subject policy \<or> op_client_id who \<noteq> pol_client_id policy
      then Some ''operator identity scope did not match policy''
      else if pol_required_role policy \<notin> set (op_roles who) \<or> \<not> op_mfa who
      then Some ''operator assurance or role was insufficient''
      else if instant (op_authenticated_at who) > instant now \<or> \<not> instant now < instant (op_expires_at who)
      then Some ''operator session was not current''
      else if instant now - instant (op_authenticated_at who) > pol_maximum_session_age policy
      then Some ''operator session exceeded maximum age''
      else None)"

definition operator_audit :: "'s operator_store \<Rightarrow> OperatorPrincipal \<Rightarrow> string \<Rightarrow> string \<Rightarrow> string \<Rightarrow> string \<Rightarrow> uuid \<Rightarrow> datetime \<Rightarrow> ('s, unit) op" where
  "operator_audit store who subject action decision reason correlation_id now =
     os_record_operator_access store (op_subject who) subject action decision reason correlation_id now
       [(''client_id'', op_client_id who), (''issuer'', op_issuer who),
        (''session_id'', op_session_id who), (''tenant'', op_tenant who)]"

definition authenticate :: "'s operator_store \<Rightarrow> (string \<Rightarrow> datetime \<Rightarrow> OperatorPrincipal result) \<Rightarrow> string option \<Rightarrow> datetime \<Rightarrow>
    uuid \<Rightarrow> ('s, OperatorPrincipal) op" where
  "authenticate store verify authorization now correlation_id =
     (let refuse = (\<lambda>reason. sbind (os_record_operator_access store ''unauthenticated'' ''operator:endpoint-views''
            ''operator.authenticate'' ''rejected'' reason correlation_id now [])
            (\<lambda>_. sraise (AuthorizationError ''operator authentication failed'')));
          value = (case authorization of None \<Rightarrow> [] | Some a \<Rightarrow> if length a \<le> MAX_AUTHORIZATION_HEADER_BYTES then a else [])
      in if \<not> (1 \<le> length (utf8 value) \<and> length (utf8 value) \<le> MAX_AUTHORIZATION_HEADER_BYTES)
         then refuse ''operator credential missing or oversized''
         else case verify value now of Inr who \<Rightarrow> sreturn who
              | Inl _ \<Rightarrow> refuse ''external session verification failed'')"

text \<open>\<^verbatim>\<open>try: \<dots> except\<close> for one class of exceptions.\<close>

definition on_error :: "(error \<Rightarrow> bool) \<Rightarrow> ('s, 'a) op \<Rightarrow> ('s, 'a) op \<Rightarrow> ('s, 'a) op" where
  "on_error p handler m s = (case m s of (Inl e, s') \<Rightarrow> if p e then handler s' else (Inl e, s') | r \<Rightarrow> r)"

fun is_AuthorizationError :: "error \<Rightarrow> bool" where
  "is_AuthorizationError (AuthorizationError _) = True" | "is_AuthorizationError _ = False"

fun is_NotFoundError :: "error \<Rightarrow> bool" where
  "is_NotFoundError (NotFoundError _) = True" | "is_NotFoundError _ = False"

text \<open>The two routes, once the request is authorized.\<close>

definition endpoint_listing :: "'s operator_store \<Rightarrow> OperatorPrincipal \<Rightarrow> string \<Rightarrow> uuid \<Rightarrow> datetime \<Rightarrow> ('s, operator_response) op" where
  "endpoint_listing store who query_string correlation_id now =
     (case endpoint_page_after query_string of
        Inl _ \<Rightarrow> sbind (operator_audit store who ''operator:endpoint-views'' ''operator.request'' ''rejected''
          ''operator route contract rejected'' correlation_id now) (\<lambda>_. sreturn (operator_error 404 ''not_found''))
      | Inr after \<Rightarrow>
          sbind (os_list_endpoint_page store after (int OPERATOR_ENDPOINT_PAGE_SIZE + 1)) (\<lambda>page.
          let has_more = length page > OPERATOR_ENDPOINT_PAGE_SIZE;
              endpoints = take OPERATOR_ENDPOINT_PAGE_SIZE page;
              next_after = (if has_more then Some (ep_endpoint_id (last endpoints)) else None)
          in sbind (render_endpoint_page store endpoints next_after now) (\<lambda>body.
             sbind (operator_audit store who ''endpoint:collection'' ''endpoint.list.read'' ''accepted''
               ''authenticated viewer read'' correlation_id now) (\<lambda>_. sreturn (operator_html body)))))"

definition endpoint_detail :: "'s operator_store \<Rightarrow> OperatorPrincipal \<Rightarrow> operator_request \<Rightarrow> uuid \<Rightarrow> datetime \<Rightarrow> ('s, operator_response) op" where
  "endpoint_detail store who request correlation_id now =
     (case (if or_query_string request \<noteq> [] then None else endpoint_id_from_path (or_path request)) of
        None \<Rightarrow> sbind (operator_audit store who ''operator:endpoint-views'' ''operator.request'' ''rejected''
          ''operator route not found'' correlation_id now) (\<lambda>_. sreturn (operator_error 404 ''not_found''))
      | Some endpoint_id \<Rightarrow>
          let subject = ''endpoint:'' @ str_uuid endpoint_id
          in sbind (on_error is_NotFoundError (sreturn None)
               (sbind (render_endpoint_detail store endpoint_id now) (\<lambda>body. sreturn (Some body)))) (\<lambda>rendered.
             case rendered of
               None \<Rightarrow> sbind (operator_audit store who subject ''endpoint.detail.read'' ''rejected''
                 ''endpoint was not found'' correlation_id now) (\<lambda>_. sreturn (operator_error 404 ''not_found''))
             | Some body \<Rightarrow> sbind (operator_audit store who subject ''endpoint.detail.read'' ''accepted''
                 ''authenticated viewer read'' correlation_id now) (\<lambda>_. sreturn (operator_html body))))"

text \<open>An authorized request.\<close>

definition operator_route :: "'s operator_store \<Rightarrow> OperatorPrincipal \<Rightarrow> operator_request \<Rightarrow> uuid \<Rightarrow> datetime \<Rightarrow> ('s, operator_response) op" where
  "operator_route store who request correlation_id now =
     (if or_method request \<noteq> ''GET'' \<or>
         \<not> (1 \<le> length (or_path request) \<and> length (or_path request) \<le> MAX_OPERATOR_PATH_LENGTH) \<or>
         \<not> isprintable (or_path request)
      then sbind (operator_audit store who ''operator:endpoint-views'' ''operator.request'' ''rejected''
        ''operator route contract rejected'' correlation_id now) (\<lambda>_. sreturn (operator_error 404 ''not_found''))
      else if or_path request = ''/endpoints''
      then endpoint_listing store who (or_query_string request) correlation_id now
      else endpoint_detail store who request correlation_id now)"

text \<open>An authenticated request.\<close>

definition operator_authorize ::
    "'s operator_store \<Rightarrow> OperatorAuthorizationPolicy \<Rightarrow> OperatorPrincipal \<Rightarrow> operator_request \<Rightarrow> uuid \<Rightarrow> datetime \<Rightarrow>
     ('s, operator_response) op" where
  "operator_authorize store policy who request correlation_id now =
     sbind (operator_audit store who ''operator:endpoint-views'' ''operator.authenticate'' ''accepted''
       ''external session verified'' correlation_id now) (\<lambda>_.
     case authorization_denial policy who now of
       Some denial \<Rightarrow> sbind (operator_audit store who ''operator:endpoint-views'' ''operator.authorize'' ''rejected''
         denial correlation_id now) (\<lambda>_. sreturn (operator_error 403 ''forbidden''))
     | None \<Rightarrow> operator_route store who request correlation_id now)"

definition operator_handle ::
    "'s operator_store \<Rightarrow> (string \<Rightarrow> datetime \<Rightarrow> OperatorPrincipal result) \<Rightarrow> OperatorAuthorizationPolicy \<Rightarrow>
     operator_request \<Rightarrow> datetime \<Rightarrow> ('s, operator_response) op" where
  "operator_handle store verify policy request received_at =
     sbind (lift (require_aware received_at ''received_at'')) (\<lambda>_.
     sbind (lift (astimezone_utc received_at)) (\<lambda>now.
     sbind (os_uuid4 store) (\<lambda>correlation_id.
     sbind (on_error is_AuthorizationError (sreturn None)
       (sbind (authenticate store verify (or_authorization request) now correlation_id) (\<lambda>p. sreturn (Some p)))) (\<lambda>authenticated.
     case authenticated of
       None \<Rightarrow> sreturn (operator_error 401 ''unauthorized'')
     | Some who \<Rightarrow> operator_authorize store policy who request correlation_id now))))"

end
