(* ===== verification/Operator_Audit.thy ===== *)
theory Operator_Audit
  imports Operator Persistence_Outcomes
begin

text \<open>
  What the operator application relies on, as the locale \<open>operator_store_laws\<close>, and what it guarantees: no request goes
  unaudited and no data leaves without authentication and authorization.  Both control planes provide the store.
\<close>



section \<open>What the application relies on, and what it guarantees\<close>

text \<open>The part of an audit event that says who was allowed to do what.\<close>

definition access_of :: "AuditEvent \<Rightarrow> string \<times> string \<times> string \<times> string \<times> string \<times> uuid" where
  "access_of e = (au_actor_id e, au_subject e, au_action e, au_decision e, au_reason e, au_correlation_id e)"

text \<open>The policy, stated positively.\<close>

definition permitted :: "OperatorAuthorizationPolicy \<Rightarrow> OperatorPrincipal \<Rightarrow> datetime \<Rightarrow> bool" where
  "permitted policy who now \<longleftrightarrow>
     (op_issuer who, op_tenant who, op_subject who, op_client_id who) =
       (pol_issuer policy, pol_tenant policy, pol_subject policy, pol_client_id policy) \<and>
     pol_required_role policy \<in> set (op_roles who) \<and> op_mfa who \<and>
     instant (op_authenticated_at who) \<le> instant now \<and> instant now < instant (op_expires_at who) \<and>
     instant now \<le> instant (op_authenticated_at who) + pol_maximum_session_age policy"

lemma authorization_denial_None: "authorization_denial policy who now = None \<longleftrightarrow> permitted policy who now"
  by (auto simp: authorization_denial_def permitted_def)

text \<open>The credential a request carries is accepted by the verifier.\<close>

definition verified ::
    "(string \<Rightarrow> datetime \<Rightarrow> OperatorPrincipal result) \<Rightarrow> operator_request \<Rightarrow> datetime \<Rightarrow> OperatorPrincipal \<Rightarrow> bool" where
  "verified verify request now who \<longleftrightarrow> (\<exists>a. or_authorization request = Some a \<and> a \<noteq> [] \<and>
     length (utf8 a) \<le> MAX_AUTHORIZATION_HEADER_BYTES \<and> verify a now = Inr who)"

text \<open>What an audit event of a read names.\<close>

definition reads :: "operator_request \<Rightarrow> string \<Rightarrow> string \<Rightarrow> bool" where
  "reads request subject action \<longleftrightarrow>
     or_path request = ''/endpoints'' \<and> subject = ''endpoint:collection'' \<and> action = ''endpoint.list.read'' \<or>
     (\<exists>i. or_path request = ''/endpoints/'' @ str_uuid i \<and> subject = ''endpoint:'' @ str_uuid i \<and> action = ''endpoint.detail.read'')"

text \<open>The audit events a request leaves and the status of its response.\<close>

definition accounted ::
    "(string \<Rightarrow> datetime \<Rightarrow> OperatorPrincipal result) \<Rightarrow> OperatorAuthorizationPolicy \<Rightarrow> operator_request \<Rightarrow> datetime \<Rightarrow>
     operator_response \<Rightarrow> (string \<times> string \<times> string \<times> string \<times> string \<times> uuid) list \<Rightarrow> bool" where
  "accounted verify policy request now r trail \<longleftrightarrow>
     (\<exists>reason c. rs_status r = 401 \<and> (\<forall>who. \<not> verified verify request now who) \<and>
        trail = [(''unauthenticated'', ''operator:endpoint-views'', ''operator.authenticate'', ''rejected'', reason, c)]) \<or>
     (\<exists>who subject action decision reason c. verified verify request now who \<and>
        trail = [(op_subject who, ''operator:endpoint-views'', ''operator.authenticate'', ''accepted'', ''external session verified'', c),
                 (op_subject who, subject, action, decision, reason, c)] \<and>
        rs_status r \<in> {200, 403, 404} \<and> (decision = ''accepted'' \<longleftrightarrow> rs_status r = 200) \<and>
        (rs_status r = 403 \<longleftrightarrow> \<not> permitted policy who now) \<and>
        (rs_status r = 200 \<longrightarrow> or_method request = ''GET'' \<and> reads request subject action))"

lemma endpoint_id_from_pathD: "endpoint_id_from_path path = Some i \<Longrightarrow> path = ''/endpoints/'' @ str_uuid i"
  using removeprefix_eq [of path "''/endpoints/''"]
  by (simp only: endpoint_id_from_path_def Let_def split: if_splits option.splits) auto

lemma length_utf8: "length a \<le> length (utf8 a)" "utf8 a = [] \<longleftrightarrow> a = []"
  by (induction a) (auto simp: utf8_def utf8_char_def)

text \<open>The credential that \<^const>\<open>authenticate\<close> passes to the verifier.\<close>

definition credential :: "operator_request \<Rightarrow> string" where
  "credential request = (case or_authorization request of None \<Rightarrow> []
     | Some a \<Rightarrow> if length a \<le> MAX_AUTHORIZATION_HEADER_BYTES then a else [])"

lemma verified_credential:
  "verified verify request now who \<longleftrightarrow> 1 \<le> length (utf8 (credential request)) \<and>
     length (utf8 (credential request)) \<le> MAX_AUTHORIZATION_HEADER_BYTES \<and> verify (credential request) now = Inr who"
proof (cases "or_authorization request")
  case (Some a)
  have "length (utf8 a) \<le> MAX_AUTHORIZATION_HEADER_BYTES \<Longrightarrow> length a \<le> MAX_AUTHORIZATION_HEADER_BYTES"
    using length_utf8(1) [of a] by simp
  with Some show ?thesis
    by (auto simp: verified_def credential_def Suc_le_eq length_utf8(2))
qed (simp add: verified_def credential_def length_utf8(2) Suc_le_eq)

lemma authenticate_verified:
  "verified verify request now who \<Longrightarrow> authenticate store verify (or_authorization request) now c = sreturn who"
  by (simp add: verified_credential authenticate_def credential_def [symmetric] Let_def)

lemma authenticate_refused:
  "\<nexists>who. verified verify request now who \<Longrightarrow>
   \<exists>reason\<in>{''operator credential missing or oversized'', ''external session verification failed''}.
     authenticate store verify (or_authorization request) now c =
     sbind (os_record_operator_access store ''unauthenticated'' ''operator:endpoint-views'' ''operator.authenticate''
       ''rejected'' reason c now []) (\<lambda>_. sraise (AuthorizationError ''operator authentication failed''))"
  unfolding verified_credential authenticate_def credential_def [symmetric] Let_def
  by (cases "verify (credential request) now") simp_all

locale operator_store_laws =
  fixes store :: "'s operator_store" and events :: "'s \<Rightarrow> AuditEvent list"
  assumes get_endpoint_events: "events (snd (rd_get_endpoint store i s)) = events s"
    and get_identity_events: "events (snd (rd_get_identity store i s)) = events s"
    and endpoint_status_events: "events (snd (rd_endpoint_status store i t s)) = events s"
    and list_page_events: "events (snd (os_list_endpoint_page store after limit s)) = events s"
    and uuid4_events: "events (snd (os_uuid4 store s)) = events s"
    and access_recorded: "os_record_operator_access store actor subject action decision reason c now metadata s = (Inr u, s') \<Longrightarrow>
      map access_of (events s') = map access_of (events s) @ [(actor, subject, action, decision, reason, c)]"
    and access_refused: "os_record_operator_access store actor subject action decision reason c now metadata s = (Inl e, s') \<Longrightarrow>
      events s' = events s \<and> \<not> is_AuthorizationError e"
begin

abbreviation trail :: "'s \<Rightarrow> (string \<times> string \<times> string \<times> string \<times> string \<times> uuid) list" where
  "trail s \<equiv> map access_of (events s)"

lemma reads_keep:
  "preserves (\<lambda>s. trail s = T) (rd_get_endpoint store i)" "preserves (\<lambda>s. trail s = T) (rd_get_identity store i)"
  "preserves (\<lambda>s. trail s = T) (rd_endpoint_status store i t)" "preserves (\<lambda>s. trail s = T) (os_list_endpoint_page store after limit)"
  "preserves (\<lambda>s. trail s = T) (os_uuid4 store)"
  using get_endpoint_events get_identity_events endpoint_status_events list_page_events uuid4_events
  by (simp_all add: preserves_def)

lemma smap_keep: "(\<And>x. preserves P (f x)) \<Longrightarrow> preserves P (smap f xs)"
  by (induction xs) (auto intro!: preserves_sbind preserves_prims)

lemma render_keep:
  "preserves (\<lambda>s. trail s = T) (render_endpoint_page store endpoints next_after now)"
  "preserves (\<lambda>s. trail s = T) (render_endpoint_detail store endpoint_id now)"
  unfolding render_endpoint_page_def render_endpoint_detail_def
  by (intro preserves_sbind preserves_prims smap_keep reads_keep)+

lemma kept: "preserves (\<lambda>s. trail s = T) m \<Longrightarrow> m s = (x, s') \<Longrightarrow> trail s = T \<Longrightarrow> trail s' = T"
  by (force simp: preserves_def)

lemma audit_recorded:
  "operator_audit store who subject action decision reason c now s = (Inr u, s') \<Longrightarrow>
   trail s' = trail s @ [(op_subject who, subject, action, decision, reason, c)]"
  unfolding operator_audit_def by (rule access_recorded)

text \<open>One audit event, accepted exactly if the response carries data.\<close>

definition one_event :: "operator_request \<Rightarrow> OperatorPrincipal \<Rightarrow> uuid \<Rightarrow> 's \<Rightarrow> operator_response \<Rightarrow> 's \<Rightarrow> bool" where
  "one_event request who c s r s' \<longleftrightarrow> (\<exists>subject action decision reason.
     trail s' = trail s @ [(op_subject who, subject, action, decision, reason, c)] \<and>
     (decision = ''accepted'' \<longleftrightarrow> rs_status r = 200) \<and> rs_status r \<in> {200, 404} \<and>
     (rs_status r = 200 \<longrightarrow> reads request subject action))"

lemma audited_answer:
  assumes "sbind (operator_audit store who subject action decision reason c now) (\<lambda>_. sreturn r') s = (Inr r, s')"
    "decision = ''accepted'' \<longleftrightarrow> rs_status r' = 200" "rs_status r' \<in> {200, 404}"
    "rs_status r' = 200 \<Longrightarrow> reads request subject action"
  shows "one_event request who c s r s'"
  using assms audit_recorded by (fastforce simp: sbind_Inr sreturn_Inr one_event_def)

lemma one_event_after: "trail t = trail s \<Longrightarrow> one_event request who c t r s' \<Longrightarrow> one_event request who c s r s'"
  by (simp add: one_event_def)

lemma endpoint_listing_audited:
  assumes "endpoint_listing store who query c now s = (Inr r, s')" "or_path request = ''/endpoints''"
  shows "one_event request who c s r s'"
proof (cases "endpoint_page_after query")
  case (Inl e)
  then show ?thesis
    using assms by (intro audited_answer) (auto simp: endpoint_listing_def operator_error_def)
next
  case (Inr after)
  let ?endpoints = "\<lambda>page. take OPERATOR_ENDPOINT_PAGE_SIZE page"
  obtain page t body u where t: "os_list_endpoint_page store after (int OPERATOR_ENDPOINT_PAGE_SIZE + 1) s = (Inr page, t)"
    and u: "render_endpoint_page store (?endpoints page) (if length page > OPERATOR_ENDPOINT_PAGE_SIZE
        then Some (ep_endpoint_id (last (?endpoints page))) else None) now t = (Inr body, u)"
    and r: "sbind (operator_audit store who ''endpoint:collection'' ''endpoint.list.read'' ''accepted''
        ''authenticated viewer read'' c now) (\<lambda>_. sreturn (operator_html body)) u = (Inr r, s')"
    using assms Inr unfolding endpoint_listing_def by (auto simp: sbind_Inr Let_def)
  have "trail u = trail s"
    using kept [OF reads_keep(4) t] kept [OF render_keep(1) u] by simp
  moreover have "one_event request who c u r s'"
    by (rule audited_answer [OF r]) (simp_all add: operator_html_def reads_def assms(2))
  ultimately show ?thesis
    by (rule one_event_after)
qed

lemma on_error_keep: "preserves P m \<Longrightarrow> preserves P h \<Longrightarrow> preserves P (on_error p h m)"
  by (force simp: preserves_def on_error_def split: prod.splits sum.splits)

lemma endpoint_detail_audited:
  assumes "endpoint_detail store who request c now s = (Inr r, s')"
  shows "one_event request who c s r s'"
proof (cases "if or_query_string request \<noteq> [] then None else endpoint_id_from_path (or_path request)")
  case None
  show ?thesis
    using assms [unfolded endpoint_detail_def None option.case] by (rule audited_answer) (simp_all add: operator_error_def)
next
  case (Some endpoint_id)
  then have "endpoint_id_from_path (or_path request) = Some endpoint_id"
    by (simp split: if_splits)
  then have path: "reads request (''endpoint:'' @ str_uuid endpoint_id) ''endpoint.detail.read''"
    unfolding reads_def by (blast dest: endpoint_id_from_pathD)
  let ?m = "on_error is_NotFoundError (sreturn None)
    (sbind (render_endpoint_detail store endpoint_id now) (\<lambda>body. sreturn (Some body)))"
  obtain rendered t where t: "?m s = (Inr rendered, t)"
    and r: "(case rendered of
        None \<Rightarrow> sbind (operator_audit store who (''endpoint:'' @ str_uuid endpoint_id) ''endpoint.detail.read'' ''rejected''
          ''endpoint was not found'' c now) (\<lambda>_. sreturn (operator_error 404 ''not_found''))
      | Some body \<Rightarrow> sbind (operator_audit store who (''endpoint:'' @ str_uuid endpoint_id) ''endpoint.detail.read'' ''accepted''
          ''authenticated viewer read'' c now) (\<lambda>_. sreturn (operator_html body))) t = (Inr r, s')"
    using assms [unfolded endpoint_detail_def Some option.case Let_def sbind_Inr] by blast
  have "preserves (\<lambda>s. trail s = T) ?m" for T
    by (intro on_error_keep preserves_sbind preserves_prims render_keep)
  from kept [OF this [of "trail s"] t] have "trail t = trail s"
    by simp
  moreover have "one_event request who c t r s'"
  proof (cases rendered)
    case None
    show ?thesis
      by (rule audited_answer [OF r [unfolded None option.case]]) (simp_all add: operator_error_def)
  next
    case (Some body)
    show ?thesis
      by (rule audited_answer [OF r [unfolded Some option.case]]) (simp_all add: operator_html_def path [simplified])
  qed
  ultimately show ?thesis
    by (rule one_event_after)
qed

text \<open>What the authentication leaves: no event yet, or its rejection.\<close>

lemma refused_recorded:
  assumes "on_error is_AuthorizationError (sreturn None) (sbind (sbind (os_record_operator_access store actor subject action
      decision reason c now []) (\<lambda>_. sraise (AuthorizationError text))) f) s = (Inr p, s')"
  shows "p = None \<and> trail s' = trail s @ [(actor, subject, action, decision, reason, c)]"
  using assms access_recorded access_refused
  by (fastforce simp: on_error_def sbind_def sraise_def sreturn_def split: prod.splits sum.splits if_splits)

lemma authentication_outcome:
  assumes "on_error is_AuthorizationError (sreturn None)
      (sbind (authenticate store verify (or_authorization request) now c) (\<lambda>p. sreturn (Some p))) s = (Inr p, s')"
  shows "case p of Some who \<Rightarrow> verified verify request now who \<and> s' = s
    | None \<Rightarrow> (\<forall>who. \<not> verified verify request now who) \<and> (\<exists>reason. trail s' = trail s @
        [(''unauthenticated'', ''operator:endpoint-views'', ''operator.authenticate'', ''rejected'', reason, c)])"
proof (cases "\<exists>who. verified verify request now who")
  case True
  then obtain who where who: "verified verify request now who"
    by blast
  then have "p = Some who \<and> s' = s"
    using assms by (simp add: authenticate_verified [OF who] on_error_def sbind_def sreturn_def)
  with who show ?thesis
    by simp
next
  case False
  then obtain reason where "authenticate store verify (or_authorization request) now c = sbind (os_record_operator_access store
      ''unauthenticated'' ''operator:endpoint-views'' ''operator.authenticate'' ''rejected'' reason c now [])
      (\<lambda>_. sraise (AuthorizationError ''operator authentication failed''))"
    using authenticate_refused by blast
  from refused_recorded [OF assms [unfolded this]] False show ?thesis
    by auto
qed

lemma operator_route_audited:
  assumes "operator_route store who request c now s = (Inr r, s')"
  shows "one_event request who c s r s' \<and> (rs_status r = 200 \<longrightarrow> or_method request = ''GET'')"
proof (cases "or_method request \<noteq> ''GET'' \<or>
    \<not> (1 \<le> length (or_path request) \<and> length (or_path request) \<le> MAX_OPERATOR_PATH_LENGTH) \<or> \<not> isprintable (or_path request)")
  case True
  note a = assms [unfolded operator_route_def if_P [OF True]]
  have "r = operator_error 404 ''not_found''"
    using a by (auto simp: sbind_Inr sreturn_Inr)
  moreover have "one_event request who c s r s'"
    by (rule audited_answer [OF a]) (simp_all add: operator_error_def)
  ultimately show ?thesis
    by (simp add: operator_error_def)
next
  case False
  note a = assms [unfolded operator_route_def if_not_P [OF False]]
  have "one_event request who c s r s'"
  proof (cases "or_path request = ''/endpoints''")
    case True
    show ?thesis
      by (rule endpoint_listing_audited [OF a [unfolded if_P [OF True]] True])
  next
    case False
    show ?thesis
      by (rule endpoint_detail_audited [OF a [unfolded if_not_P [OF False]]])
  qed
  then show ?thesis
    using False by simp
qed

lemma operator_authorize_accounted:
  assumes a: "operator_authorize store policy who request c now s = (Inr r, s')" and v: "verified verify request now who"
  shows "\<exists>T. trail s' = trail s @ T \<and> accounted verify policy request now r T"
proof -
  obtain x t where t: "operator_audit store who ''operator:endpoint-views'' ''operator.authenticate'' ''accepted''
      ''external session verified'' c now s = (Inr x, t)"
    and r: "(case authorization_denial policy who now of
        Some denial \<Rightarrow> sbind (operator_audit store who ''operator:endpoint-views'' ''operator.authorize'' ''rejected''
          denial c now) (\<lambda>_. sreturn (operator_error 403 ''forbidden''))
      | None \<Rightarrow> operator_route store who request c now) t = (Inr r, s')"
    using a [unfolded operator_authorize_def sbind_Inr] by blast
  note first = audit_recorded [OF t]
  show ?thesis
  proof (cases "authorization_denial policy who now")
    case None
    from operator_route_audited [OF r [unfolded None option.case]] obtain subject action decision reason where
      "trail s' = trail t @ [(op_subject who, subject, action, decision, reason, c)]"
      "decision = ''accepted'' \<longleftrightarrow> rs_status r = 200" "rs_status r \<in> {200, 404}"
      "rs_status r = 200 \<longrightarrow> or_method request = ''GET'' \<and> reads request subject action"
      unfolding one_event_def by blast
    with first v None show ?thesis
      unfolding authorization_denial_None by (intro exI conjI, simp) (auto simp: accounted_def)
  next
    case (Some denial)
    from r [unfolded Some option.case sbind_Inr] have
      "trail s' = trail t @ [(op_subject who, ''operator:endpoint-views'', ''operator.authorize'', ''rejected'', denial, c)]"
      "r = operator_error 403 ''forbidden''"
      by (auto simp: sreturn_Inr dest: audit_recorded)
    moreover have "\<not> permitted policy who now"
      using Some authorization_denial_None [of policy who now] by simp
    ultimately show ?thesis
      using first v by (intro exI conjI, simp) (auto simp: accounted_def operator_error_def)
  qed
qed

lemma handle_accounted:
  assumes "operator_handle store verify policy request received_at s = (Inr r, s')"
  shows "\<exists>now T. astimezone_utc received_at = Inr now \<and> trail s' = trail s @ T \<and> accounted verify policy request now r T"
proof -
  obtain now c t p u where now: "astimezone_utc received_at = Inr now" and t: "os_uuid4 store s = (Inr c, t)"
    and p: "on_error is_AuthorizationError (sreturn None)
      (sbind (authenticate store verify (or_authorization request) now c) (\<lambda>p. sreturn (Some p))) t = (Inr p, u)"
    and r: "(case p of None \<Rightarrow> sreturn (operator_error 401 ''unauthorized'')
      | Some who \<Rightarrow> operator_authorize store policy who request c now) u = (Inr r, s')"
    using assms [unfolded operator_handle_def sbind_Inr lift_def prod.inject] by blast
  have s: "trail t = trail s"
    using uuid4_events [of s] t by simp
  show ?thesis
  proof (cases p)
    case None
    with authentication_outcome [OF p] r s show ?thesis
      by (auto simp: now accounted_def operator_error_def sreturn_Inr)
  next
    case (Some who)
    with authentication_outcome [OF p] have "verified verify request now who" "u = t"
      by simp_all
    with operator_authorize_accounted r Some s now show ?thesis
      by fastforce
  qed
qed

end


section \<open>The two stores\<close>

definition cp_operator_store :: "ControlPlane operator_store" where
  "cp_operator_store =
     \<lparr>rd_list_endpoints = sread list_endpoints, rd_get_endpoint = sget_endpoint, rd_get_identity = sget_identity,
      rd_endpoint_status = (\<lambda>i now s. (endpoint_status i now None s, s)),
      os_list_endpoint_page = (\<lambda>after limit s. (list_endpoint_page after limit s, s)),
      os_record_operator_access = record_operator_access, os_uuid4 = uuid4\<rparr>"

definition pg_operator_store :: "PostgresControlPlane operator_store" where
  "pg_operator_store =
     \<lparr>rd_list_endpoints = pg_list_endpoints, rd_get_endpoint = pg_get_endpoint, rd_get_identity = pg_get_identity,
      rd_endpoint_status = (\<lambda>i now. pg_endpoint_status i now None),
      os_list_endpoint_page = pg_list_endpoint_page,
      os_record_operator_access = pg_record_operator_access, os_uuid4 = uuid4\<rparr>"

text \<open>An operation that raises no \<^const>\<open>AuthorizationError\<close>.\<close>

definition authorized_only :: "('s, 'a) op \<Rightarrow> bool" where
  "authorized_only m \<longleftrightarrow> (\<forall>s e s'. m s = (Inl e, s') \<longrightarrow> \<not> is_AuthorizationError e)"

lemma authorized_only_sbind:
  "authorized_only m \<Longrightarrow> (\<And>x. authorized_only (f x)) \<Longrightarrow> authorized_only (sbind m f)"
  unfolding authorized_only_def sbind_Inl by blast

lemma authorized_only_transaction: "authorized_only m \<Longrightarrow> authorized_only (transaction m)"
  by (auto simp: authorized_only_def transaction_def split: prod.splits sum.splits)

lemma authorized_only_prims:
  "authorized_only uuid4" "authorized_only (db_read f')" "authorized_only (db_modify g)"
  "authorized_only (lift (require_aware t text))" "authorized_only (lift (astimezone_utc t))"
  "\<not> is_AuthorizationError e \<Longrightarrow> authorized_only (lift (raise_if b e))"
  "authorized_only (lift (pg_varchar n string))" "authorized_only (lift (pg_metadata metadata))"
  by (auto simp: authorized_only_def uuid4_def db_read_def db_modify_def sread_def smodify_def lift_def
      require_aware_def astimezone_utc_def raise_if_def pg_varchar_def pg_metadata_def split: tzinfo.splits if_splits)

lemma lift_rbind: "lift (rbind r f) = sbind (lift r) (\<lambda>x. lift (f x))"
  by (auto simp: fun_eq_iff lift_def sbind_def split: sum.splits)

lemma authorized_only_checks:
  "authorized_only (lift (check_operator_access actor subject action decision reason now metadata))"
  "authorized_only (lift (pg_check_operator_access actor subject action decision reason now metadata))"
  unfolding check_operator_access_def pg_check_operator_access_def lift_rbind
  by (intro authorized_only_sbind authorized_only_prims; simp)+

lemma pg_record_operator_access_refused:
  assumes "pg_record_operator_access actor subject action decision reason c now metadata s = (Inl e, s')"
  shows "pg_db s' = pg_db s \<and> \<not> is_AuthorizationError e"
proof -
  have "authorized_only (pg_record_operator_access actor subject action decision reason c now metadata)"
    unfolding pg_record_operator_access_def record_audit_def insert_audit_def insert_audit_row_def
    by (intro authorized_only_sbind authorized_only_transaction authorized_only_prims authorized_only_checks) simp_all
  then show ?thesis
    using assms by (auto simp: authorized_only_def pg_record_operator_access_def record_audit_def sbind_Inl lift_def
        dest: transaction_Inl)
qed

lemma pg_check_operator_access_lengths:
  "pg_check_operator_access actor subject action decision reason now metadata = Inr u \<Longrightarrow>
   length actor \<le> 256 \<and> length subject \<le> 256 \<and> length action \<le> 128 \<and> length reason \<le> 512"
  by (auto simp: pg_check_operator_access_def rbind_Inr_iff raise_if_Inr_iff not_longer)

lemma pg_record_operator_access_recorded:
  assumes "pg_record_operator_access actor subject action decision reason c now metadata s = (Inr u, s')"
  shows "map access_of (db_audit_events (pg_db s')) =
    map access_of (db_audit_events (pg_db s)) @ [(actor, subject, action, decision, reason, c)]"
proof -
  have "pg_check_operator_access actor subject action decision reason now metadata = Inr ()"
    using assms by (auto simp: pg_record_operator_access_def sbind_Inr lift_def)
  note len = pg_check_operator_access_lengths [OF this]
  from assms obtain t where "insert_audit t ''human_operator'' actor subject action decision reason c metadata s = (Inr u, s')"
    by (auto simp: pg_record_operator_access_def record_audit_def sbind_Inr lift_def transaction_Inr)
  then show ?thesis
    using len by (auto simp: insert_audit_def insert_audit_row_def uuid4_def sbind_Inr lift_def db_read_def db_modify_def
        sread_def smodify_def access_of_def dest!: pg_varchar_Inr)
qed

lemma quiet_sbind: "quiet m \<Longrightarrow> (\<And>x. quiet (f x)) \<Longrightarrow> quiet (sbind m f)"
  by (auto simp: quiet_def sbind_def split: prod.splits sum.splits) (metis snd_conv)+

lemma quiet_transaction: "quiet m \<Longrightarrow> quiet (transaction m)"
  by (simp add: quiet_def transaction_read_same)

lemma quiet_reads:
  "quiet (pg_get_endpoint i)" "quiet (pg_get_identity i)" "quiet (pg_endpoint_status i now policy)"
  "quiet (pg_list_endpoint_page after limit)"
  unfolding pg_endpoint_status_def pg_get_endpoint_def pg_get_identity_def pg_list_endpoint_page_def Let_def
  by (intro quiet_sbind quiet_transaction quiet_prims)+

interpretation memory: operator_store_laws cp_operator_store cp_audit_events
proof unfold_locales
  fix actor subject action decision reason c now metadata s u s' e
  show "os_record_operator_access cp_operator_store actor subject action decision reason c now metadata s = (Inr u, s') \<Longrightarrow>
      map access_of (cp_audit_events s') = map access_of (cp_audit_events s) @ [(actor, subject, action, decision, reason, c)]"
    by (auto simp: cp_operator_store_def record_operator_access_eq with_event_def operator_event_def access_of_def
        split: sum.splits)
  show "os_record_operator_access cp_operator_store actor subject action decision reason c now metadata s = (Inl e, s') \<Longrightarrow>
      cp_audit_events s' = cp_audit_events s \<and> \<not> is_AuthorizationError e"
    using authorized_only_checks(1) [of actor subject action decision reason now metadata]
    by (auto simp: cp_operator_store_def record_operator_access_eq authorized_only_def lift_def split: sum.splits)
qed (simp_all add: cp_operator_store_def sget_endpoint_def sget_identity_def uuid4_def)

interpretation stored: operator_store_laws pg_operator_store "\<lambda>s. db_audit_events (pg_db s)"
proof unfold_locales
  fix actor subject action decision reason c now metadata s u s' e
  show "os_record_operator_access pg_operator_store actor subject action decision reason c now metadata s = (Inr u, s') \<Longrightarrow>
      map access_of (db_audit_events (pg_db s')) =
      map access_of (db_audit_events (pg_db s)) @ [(actor, subject, action, decision, reason, c)]"
    by (simp add: pg_operator_store_def pg_record_operator_access_recorded)
  show "os_record_operator_access pg_operator_store actor subject action decision reason c now metadata s = (Inl e, s') \<Longrightarrow>
      db_audit_events (pg_db s') = db_audit_events (pg_db s) \<and> \<not> is_AuthorizationError e"
    by (auto simp: pg_operator_store_def dest: pg_record_operator_access_refused)
qed (use quiet_reads quiet_prims(5) in \<open>simp_all add: pg_operator_store_def quiet_def\<close>)


section \<open>No unaudited request\<close>

text \<open>
  C37: Every request that the operator application answers, over either control plane, is accounted for in the audit trail.
  A request whose credential the external verifier does not accept leaves exactly one event, the rejected authentication, and
  gets 401.  Any other leaves exactly two events of the verified subject: the authentication, and the decision.  The answer is
  403 exactly if the pinned policy does not permit the principal; data (200) is returned only for a permitted \<^verbatim>\<open>GET\<close>, exactly
  with an accepted decision, whose event names what was read.
\<close>

theorem operator_requests_accounted:
  "(operator_handle cp_operator_store verify policy request t s = (Inr r, s') \<longrightarrow>
      (\<exists>now T. astimezone_utc t = Inr now \<and>
        map access_of (cp_audit_events s') = map access_of (cp_audit_events s) @ T \<and> accounted verify policy request now r T)) \<and>
   (operator_handle pg_operator_store verify policy request t d = (Inr q, d') \<longrightarrow>
      (\<exists>now T. astimezone_utc t = Inr now \<and>
        map access_of (db_audit_events (pg_db d')) = map access_of (db_audit_events (pg_db d)) @ T \<and>
        accounted verify policy request now q T))"
  by (intro conjI impI memory.handle_accounted stored.handle_accounted)

definition viewer :: OperatorPrincipal where
  "viewer = \<lparr>op_issuer = ''idp'', op_tenant = ''t'', op_subject = ''alice'', op_session_id = ''1'', op_client_id = ''rmm'',
     op_roles = [''viewer''], op_authenticated_at = utc 0, op_expires_at = utc (hours 1), op_mfa = True\<rparr>"

definition viewer_policy :: OperatorAuthorizationPolicy where
  "viewer_policy = \<lparr>pol_issuer = ''idp'', pol_tenant = ''t'', pol_subject = ''alice'', pol_client_id = ''rmm'',
     pol_required_role = ''viewer'', pol_maximum_session_age = MAX_OPERATOR_SESSION_AGE\<rparr>"

definition viewer_verify :: "string \<Rightarrow> datetime \<Rightarrow> OperatorPrincipal result" where
  "viewer_verify a now = (if a = ''Bearer x'' then Inr viewer else Inl (AuthorizationError ''unknown session''))"

definition viewer_request :: operator_request where
  "viewer_request = \<lparr>or_method = ''GET'', or_path = ''/endpoints'', or_authorization = Some ''Bearer x'', or_query_string = []\<rparr>"

definition viewer_pg :: PostgresControlPlane where
  "viewer_pg = \<lparr>rng_seq = of_nat, rng_pos = 0, pg_db = empty_database, pg_shutting_down = False,
     pg_token_seq = (\<lambda>_. []), pg_token_pos = 0\<rparr>"

lemma viewer_sel [simp]:
  "or_method viewer_request = ''GET''" "or_path viewer_request = ''/endpoints''" "or_query_string viewer_request = []"
  "op_subject viewer = ''alice''" "op_issuer viewer = ''idp''" "op_tenant viewer = ''t''" "op_session_id viewer = ''1''"
  "op_client_id viewer = ''rmm''" "authorization_denial viewer_policy viewer (utc 0) = None"
  by (simp_all add: viewer_request_def viewer_def viewer_policy_def authorization_denial_def MAX_OPERATOR_SESSION_AGE_def
      hours_def)

lemma viewer_verified: "verified viewer_verify viewer_request now viewer"
  by (simp add: verified_def viewer_request_def viewer_verify_def MAX_AUTHORIZATION_HEADER_BYTES_def utf8_def utf8_char_def)

lemma utc_0: "astimezone_utc (utc 0) = Inr (utc 0)" "require_aware (utc 0) text = Inr ()"
  by (simp_all add: astimezone_utc_def in_range_def max_wall_def td_defs require_aware_aware)

lemmas viewer_run = operator_handle_def operator_authorize_def operator_route_def endpoint_listing_def endpoint_page_after_def
  authenticate_verified [OF viewer_verified] on_error_def op_simps operator_audit_def render_endpoint_page_def
  operator_html_def Let_def MAX_OPERATOR_PATH_LENGTH_def OPERATOR_ENDPOINT_PAGE_SIZE_def empty_or_longer_def rbind_def
  raise_if_def isprintable_def is_printable_def sbind_def utc_0 pg_varchar_def
  insert_audit_row_def insert_audit_def record_audit_def transaction_def db_read_def db_modify_def uuid4_def empty_database_def
  pg_metadata_def

lemma viewer_served:
  "\<exists>r s. operator_handle cp_operator_store viewer_verify viewer_policy viewer_request (utc 0) (ControlPlane_init of_nat) =
     (Inr r, s) \<and> rs_status r = 200"
  by (simp add: viewer_run cp_operator_store_def record_operator_access_eq check_operator_access_def ControlPlane_init_def
      list_endpoint_page_def nsmallest_def)

lemma viewer_served_pg:
  "\<exists>r s. operator_handle pg_operator_store viewer_verify viewer_policy viewer_request (utc 0) viewer_pg = (Inr r, s) \<and>
     rs_status r = 200"
  by (simp add: viewer_run pg_operator_store_def pg_record_operator_access_def pg_check_operator_access_def viewer_pg_def
      pg_list_endpoint_page_def)

theorem operator_requests_accounted_witness:
  "\<exists>r s' q d'. operator_handle cp_operator_store viewer_verify viewer_policy viewer_request (utc 0) (ControlPlane_init of_nat) =
       (Inr r, s') \<and> rs_status r = 200 \<and>
     operator_handle pg_operator_store viewer_verify viewer_policy viewer_request (utc 0) viewer_pg = (Inr q, d') \<and> rs_status q = 200 \<and>
     (\<exists>now T. astimezone_utc (utc 0) = Inr now \<and> map access_of (cp_audit_events s') = [] @ T \<and>
        accounted viewer_verify viewer_policy viewer_request now r T) \<and>
     (\<exists>now T. astimezone_utc (utc 0) = Inr now \<and> map access_of (db_audit_events (pg_db d')) = [] @ T \<and>
        accounted viewer_verify viewer_policy viewer_request now q T)"
proof -
  obtain r s' where r: "operator_handle cp_operator_store viewer_verify viewer_policy viewer_request (utc 0)
      (ControlPlane_init of_nat) = (Inr r, s')" "rs_status r = 200"
    using viewer_served by blast
  obtain q d' where q: "operator_handle pg_operator_store viewer_verify viewer_policy viewer_request (utc 0) viewer_pg =
      (Inr q, d')" "rs_status q = 200"
    using viewer_served_pg by blast
  have "cp_audit_events (ControlPlane_init of_nat) = []" "db_audit_events (pg_db viewer_pg) = []"
    by (simp_all add: ControlPlane_init_def viewer_pg_def empty_database_def)
  then show ?thesis
    using operator_requests_accounted [of viewer_verify viewer_policy viewer_request "utc 0" "ControlPlane_init of_nat" r s'
        viewer_pg q d'] r q by (intro exI [of _ r] exI [of _ s'] exI [of _ q] exI [of _ d']) simp
qed

end
