(* ===== verification/Operator_Answers.thy ===== *)
theory Operator_Answers
  imports Persistence_Properties Operator_Audit
begin

text \<open>
  The operator application answers every request: over a store that serves its reads and records what it is given, no
  request ends in an exception.  The locale \<open>serving_store\<close> is that contract, and both control planes meet it, the
  PostgreSQL one as long as it is not shutting down, draws unused identifiers and can read its rows.
\<close>


section \<open>The contract\<close>

text \<open>What a store records: bounded texts without NUL.\<close>

definition loggable :: "string \<Rightarrow> string \<Rightarrow> string \<Rightarrow> string \<Rightarrow> string \<Rightarrow> (string \<times> string) list \<Rightarrow> bool" where
  "loggable actor subject action decision reason metadata \<longleftrightarrow>
     list_all (\<lambda>(text, n). text \<noteq> [] \<and> length text \<le> n \<and> clean text)
       [(actor, 256), (subject, 256), (action, 128), (reason, 512)] \<and>
     decision \<in> {''accepted'', ''rejected''} \<and> length metadata \<le> 8 \<and>
     list_all (\<lambda>(key, value). key \<noteq> [] \<and> length key \<le> 64 \<and> clean key \<and> length value \<le> 512 \<and> clean value) metadata"

text \<open>A principal that passed the checks of its constructor.\<close>

definition constructed :: "OperatorPrincipal \<Rightarrow> bool" where
  "constructed who \<longleftrightarrow> (\<exists>p. OperatorPrincipal_post_init p = Inr who)"

lemma clean_printable: "isprintable text \<Longrightarrow> clean text"
  by (auto simp: isprintable_def is_printable_def clean_def list_all_iff)

lemma constructed_texts:
  assumes "constructed who"
  shows "op_subject who \<noteq> [] \<and> length (op_subject who) \<le> 256 \<and> clean (op_subject who)"
    "length (op_client_id who) \<le> 512 \<and> clean (op_client_id who)" "length (op_issuer who) \<le> 512 \<and> clean (op_issuer who)"
    "length (op_session_id who) \<le> 512 \<and> clean (op_session_id who)" "length (op_tenant who) \<le> 512 \<and> clean (op_tenant who)"
proof -
  obtain p where p: "OperatorPrincipal_post_init p = Inr who"
    using assms by (auto simp: constructed_def)
  then have "operator_text_ok 256 (op_subject p)" "operator_text_ok 512 (op_client_id p)" "operator_text_ok 512 (op_issuer p)"
    "operator_text_ok 512 (op_session_id p)" "operator_text_ok 512 (op_tenant p)"
    by (auto simp: OperatorPrincipal_post_init_def MAX_OPERATOR_VALUE_LENGTH_def MAX_OPERATOR_AUDIT_IDENTIFIER_LENGTH_def
        split: if_splits)
  moreover have "op_subject who = op_subject p" "op_client_id who = op_client_id p" "op_issuer who = op_issuer p"
    "op_session_id who = op_session_id p" "op_tenant who = op_tenant p"
    using p by (auto simp: OperatorPrincipal_post_init_def rbind_Inr_iff split: if_splits)
  ultimately show "op_subject who \<noteq> [] \<and> length (op_subject who) \<le> 256 \<and> clean (op_subject who)"
    "length (op_client_id who) \<le> 512 \<and> clean (op_client_id who)" "length (op_issuer who) \<le> 512 \<and> clean (op_issuer who)"
    "length (op_session_id who) \<le> 512 \<and> clean (op_session_id who)" "length (op_tenant who) \<le> 512 \<and> clean (op_tenant who)"
    by (simp_all add: operator_text_ok_def clean_printable)
qed

lemma smap_runs: "\<forall>x\<in>set xs. \<exists>y. f x s = (Inr y, s) \<Longrightarrow> \<exists>ys. smap f xs s = (Inr ys, s)"
  by (induction xs) (auto simp: sbind_def sreturn_def)

lemma loggable_texts:
  assumes "constructed who"
  shows "decision \<in> {''accepted'', ''rejected''} \<Longrightarrow> reason \<noteq> [] \<and> length reason \<le> 512 \<and> clean reason \<Longrightarrow>
     list_all (\<lambda>(text, n). text \<noteq> [] \<and> length text \<le> n \<and> clean text) [(subject, 256), (action, 128)] \<Longrightarrow>
     loggable (op_subject who) subject action decision reason []"
    and "loggable (op_subject who) ''operator:endpoint-views'' ''operator.request'' ''rejected''
       ''operator route contract rejected'' []"
    and "loggable (op_subject who) ''operator:endpoint-views'' ''operator.request'' ''rejected'' ''operator route not found'' []"
    and "loggable (op_subject who) ''operator:endpoint-views'' ''operator.authenticate'' ''accepted''
       ''external session verified'' []"
    and "loggable (op_subject who) ''endpoint:collection'' ''endpoint.list.read'' ''accepted'' ''authenticated viewer read'' []"
    and "loggable (op_subject who) (''endpoint:'' @ str_uuid i) ''endpoint.detail.read'' ''accepted''
       ''authenticated viewer read'' []"
    and "loggable (op_subject who) (''endpoint:'' @ str_uuid i) ''endpoint.detail.read'' ''rejected'' ''endpoint was not found'' []"
    and "authorization_denial policy who now = Some denial \<Longrightarrow>
       loggable (op_subject who) ''operator:endpoint-views'' ''operator.authorize'' ''rejected'' denial []"
  using constructed_texts(1) [OF assms]
  by (auto simp: loggable_def authorization_denial_def length_str_uuid split: if_splits)

text \<open>An operation that returns, in a state with a given property.\<close>

definition answers :: "('s \<Rightarrow> bool) \<Rightarrow> ('s, 'a) op \<Rightarrow> 's \<Rightarrow> bool" where
  "answers after m s \<longleftrightarrow> (\<exists>x s'. m s = (Inr x, s') \<and> after s')"

text \<open>\<open>ready n\<close>: the store serves reads and \<open>n\<close> further draws or audit events.\<close>

locale serving_store =
  fixes store :: "'s operator_store" and ready :: "nat \<Rightarrow> 's \<Rightarrow> bool"
  assumes draw: "ready (Suc n) s \<Longrightarrow> \<exists>c s'. os_uuid4 store s = (Inr c, s') \<and> ready n s'"
    and record_access: "ready (Suc n) s \<Longrightarrow> loggable actor subject action decision reason metadata \<Longrightarrow> is_aware now \<Longrightarrow>
      in_range (instant now) \<Longrightarrow>
      \<exists>s'. os_record_operator_access store actor subject action decision reason c now metadata s = (Inr (), s') \<and> ready n s'"
    and list_page: "ready n s \<Longrightarrow> 1 \<le> limit \<Longrightarrow> limit \<le> 1000 \<Longrightarrow> is_aware now \<Longrightarrow>
      \<exists>page. os_list_endpoint_page store after limit s = (Inr page, s) \<and>
        (\<forall>e\<in>set page. \<exists>st. rd_endpoint_status store (ep_endpoint_id e) now s = (Inr st, s))"
    and read_endpoint: "ready n s \<Longrightarrow> is_aware now \<Longrightarrow>
      (\<exists>text. rd_get_endpoint store i s = (Inl (NotFoundError text), s)) \<or>
      (\<exists>e j st. rd_get_endpoint store i s = (Inr e, s) \<and> rd_get_identity store (ep_identity_id e) s = (Inr j, s) \<and>
        rd_endpoint_status store i now s = (Inr st, s))"
begin

lemma answers_bind: "m s = (Inr x, t) \<Longrightarrow> answers (ready n) (f x) t \<Longrightarrow> answers (ready n) (sbind m f) s"
  by (simp add: answers_def sbind_def)

lemma answers_return: "ready n s \<Longrightarrow> answers (ready n) (sreturn x) s"
  by (simp add: answers_def sreturn_def)

lemma answers_if: "(b \<Longrightarrow> answers (ready n) x s) \<Longrightarrow> (\<not> b \<Longrightarrow> answers (ready n) y s) \<Longrightarrow> answers (ready n) (if b then x else y) s"
  by simp

lemma audit_runs:
  assumes "ready (Suc n) s" "constructed who" "is_aware now" "in_range (instant now)"
    "loggable (op_subject who) subject action decision reason []"
  shows "\<exists>t. operator_audit store who subject action decision reason c now s = (Inr (), t) \<and> ready n t"
  unfolding operator_audit_def
  by (rule record_access) (use assms constructed_texts [OF assms(2)] in \<open>simp_all add: loggable_def\<close>)

lemma audited_answers:
  assumes "ready (Suc n) s" "constructed who" "is_aware now" "in_range (instant now)"
    "loggable (op_subject who) subject action decision reason []"
  shows "answers (ready n) (sbind (operator_audit store who subject action decision reason c now) (\<lambda>_. sreturn r)) s"
  using audit_runs [OF assms, of c] by (auto simp: answers_def sbind_def sreturn_def)

lemma endpoint_listing_answers:
  assumes "ready (Suc n) s" "constructed who" "is_aware now" "in_range (instant now)"
  shows "answers (ready n) (endpoint_listing store who query c now) s"
proof (cases "endpoint_page_after query")
  case (Inl e)
  show ?thesis
    unfolding endpoint_listing_def Inl sum.case
    by (rule audited_answers [OF assms loggable_texts(2) [OF assms(2)]])
next
  case (Inr after)
  obtain page where page: "os_list_endpoint_page store after (int OPERATOR_ENDPOINT_PAGE_SIZE + 1) s = (Inr page, s)"
    and status: "\<forall>e\<in>set page. \<exists>st. rd_endpoint_status store (ep_endpoint_id e) now s = (Inr st, s)"
    using list_page [OF assms(1) _ _ assms(3), of "int OPERATOR_ENDPOINT_PAGE_SIZE + 1" after]
    by (auto simp: OPERATOR_ENDPOINT_PAGE_SIZE_def)
  have "\<exists>rows. smap (\<lambda>e. sbind (rd_endpoint_status store (ep_endpoint_id e) now) (\<lambda>st. sreturn (endpoint_row e st)))
      (take OPERATOR_ENDPOINT_PAGE_SIZE page) s = (Inr rows, s)"
    by (rule smap_runs) (use status in \<open>fastforce simp: sbind_def sreturn_def dest: in_set_takeD\<close>)
  then obtain rows where rows: "smap (\<lambda>e. sbind (rd_endpoint_status store (ep_endpoint_id e) now)
      (\<lambda>st. sreturn (endpoint_row e st))) (take OPERATOR_ENDPOINT_PAGE_SIZE page) s = (Inr rows, s)"
    by blast
  have body: "render_endpoint_page store (take OPERATOR_ENDPOINT_PAGE_SIZE page) next_after now s =
      (Inr (page_text rows next_after), s)" for next_after
    by (simp add: render_endpoint_page_def sbind_def [of "smap f xs" for f xs] rows sreturn_def)
  show ?thesis
    unfolding endpoint_listing_def Inr sum.case Let_def
    by (rule answers_bind [where m = "os_list_endpoint_page store after (int OPERATOR_ENDPOINT_PAGE_SIZE + 1)", OF page],
        rule answers_bind [where m = "render_endpoint_page store (take OPERATOR_ENDPOINT_PAGE_SIZE page) x now" for x, OF body],
        rule audited_answers [OF assms loggable_texts(5) [OF assms(2)]])
qed

lemma endpoint_detail_answers:
  assumes "ready (Suc n) s" "constructed who" "is_aware now" "in_range (instant now)"
  shows "answers (ready n) (endpoint_detail store who request c now) s"
proof (cases "if or_query_string request \<noteq> [] then None else endpoint_id_from_path (or_path request)")
  case None
  show ?thesis
    unfolding endpoint_detail_def None option.case
    by (rule audited_answers [OF assms loggable_texts(3) [OF assms(2)]])
next
  case (Some i)
  let ?m = "on_error is_NotFoundError (sreturn None)
    (sbind (render_endpoint_detail store i now) (\<lambda>body. sreturn (Some body)))"
  obtain rendered where m: "?m s = (Inr rendered, s)"
    using read_endpoint [OF assms(1,3), of i] by (auto simp: on_error_def render_endpoint_detail_def sbind_def sreturn_def)
  show ?thesis
    unfolding endpoint_detail_def Some option.case Let_def
  proof (rule answers_bind [where m = ?m, OF m])
    show "answers (ready n) (case rendered of
        None \<Rightarrow> sbind (operator_audit store who (''endpoint:'' @ str_uuid i) ''endpoint.detail.read'' ''rejected''
          ''endpoint was not found'' c now) (\<lambda>_. sreturn (operator_error 404 ''not_found''))
      | Some body \<Rightarrow> sbind (operator_audit store who (''endpoint:'' @ str_uuid i) ''endpoint.detail.read'' ''accepted''
          ''authenticated viewer read'' c now) (\<lambda>_. sreturn (operator_html body))) s"
      using audited_answers [OF assms loggable_texts(6) [OF assms(2)]] audited_answers [OF assms loggable_texts(7) [OF assms(2)]]
      by (cases rendered) (simp_all only: option.case)
  qed
qed

lemma operator_route_answers:
  assumes "ready (Suc n) s" "constructed who" "is_aware now" "in_range (instant now)"
  shows "answers (ready n) (operator_route store who request c now) s"
  unfolding operator_route_def
  by (intro answers_if audited_answers [OF assms loggable_texts(2) [OF assms(2)]] endpoint_listing_answers [OF assms]
      endpoint_detail_answers [OF assms])

lemma operator_authorize_answers:
  assumes "ready (Suc (Suc n)) s" "constructed who" "is_aware now" "in_range (instant now)"
  shows "answers (ready n) (operator_authorize store policy who request c now) s"
proof -
  obtain t where t: "operator_audit store who ''operator:endpoint-views'' ''operator.authenticate'' ''accepted''
      ''external session verified'' c now s = (Inr (), t)" "ready (Suc n) t"
    using audit_runs [OF assms loggable_texts(4) [OF assms(2)]] by blast
  note rest = t(2) assms(2-4)
  show ?thesis
    unfolding operator_authorize_def
  proof (rule answers_bind [where m = "operator_audit store who ''operator:endpoint-views'' ''operator.authenticate''
      ''accepted'' ''external session verified'' c now", OF t(1)])
    show "answers (ready n) (case authorization_denial policy who now of
        Some denial \<Rightarrow> sbind (operator_audit store who ''operator:endpoint-views'' ''operator.authorize'' ''rejected''
          denial c now) (\<lambda>_. sreturn (operator_error 403 ''forbidden''))
      | None \<Rightarrow> operator_route store who request c now) t"
      using operator_route_answers [OF rest] audited_answers [OF rest loggable_texts(8) [OF assms(2)]]
      by (cases "authorization_denial policy who now") (simp_all only: option.case)
  qed
qed

text \<open>A rejected authentication leaves the store serving, too.\<close>

lemma authentication_answers:
  assumes "ready (Suc n) s" "is_aware now" "in_range (instant now)"
  shows "\<exists>p t. on_error is_AuthorizationError (sreturn None)
      (sbind (authenticate store verify (or_authorization request) now c) (\<lambda>p. sreturn (Some p))) s = (Inr p, t) \<and>
    (case p of None \<Rightarrow> ready n t | Some who \<Rightarrow> t = s \<and> verified verify request now who)"
proof (cases "\<exists>who. verified verify request now who")
  case True
  then obtain who where who: "verified verify request now who"
    by blast
  then show ?thesis
    by (simp add: authenticate_verified [OF who] on_error_def sbind_def sreturn_def)
next
  case False
  have log: "loggable ''unauthenticated'' ''operator:endpoint-views'' ''operator.authenticate'' ''rejected'' reason []"
    if "reason \<in> {''operator credential missing or oversized'', ''external session verification failed''}" for reason
    using that by (auto simp: loggable_def)
  obtain reason where a: "authenticate store verify (or_authorization request) now c = sbind (os_record_operator_access store
      ''unauthenticated'' ''operator:endpoint-views'' ''operator.authenticate'' ''rejected'' reason c now [])
      (\<lambda>_. sraise (AuthorizationError ''operator authentication failed''))"
    and reason: "reason \<in> {''operator credential missing or oversized'', ''external session verification failed''}"
    using authenticate_refused [OF False] by blast
  obtain t where "os_record_operator_access store ''unauthenticated'' ''operator:endpoint-views'' ''operator.authenticate''
      ''rejected'' reason c now [] s = (Inr (), t)" "ready n t"
    using record_access [OF assms(1) log [OF reason] assms(2,3)] by blast
  then show ?thesis
    by (simp add: a on_error_def sbind_def sraise_def sreturn_def)
qed

lemma handle_answers:
  assumes "ready 3 s" "is_aware t" "in_range (instant t)" "\<And>a now who. verify a now = Inr who \<Longrightarrow> constructed who"
  shows "\<exists>r s'. operator_handle store verify policy request t s = (Inr r, s')"
proof -
  let ?now = "utc (instant t)"
  have now: "is_aware ?now" "in_range (instant ?now)"
    using assms(3) by simp_all
  obtain c u where u: "os_uuid4 store s = (Inr c, u)" "ready (Suc (Suc 0)) u"
    using draw [of 2 s] assms(1) by (auto simp: eval_nat_numeral)
  obtain p v where p: "on_error is_AuthorizationError (sreturn None)
      (sbind (authenticate store verify (or_authorization request) ?now c) (\<lambda>p. sreturn (Some p))) u = (Inr p, v)"
    "case p of None \<Rightarrow> ready (Suc 0) v | Some who \<Rightarrow> v = u \<and> verified verify request ?now who"
    using authentication_answers [OF u(2) now] by blast
  have "\<exists>r s'. (case p of None \<Rightarrow> sreturn (operator_error 401 ''unauthorized'')
      | Some who \<Rightarrow> operator_authorize store policy who request c ?now) v = (Inr r, s')"
  proof (cases p)
    case (Some who)
    then have "constructed who" "v = u"
      using p(2) assms(4) by (auto simp: verified_def)
    then have "answers (ready 0) (operator_authorize store policy who request c ?now) v"
      using operator_authorize_answers [OF u(2) _ now] by blast
    with Some show ?thesis
      by (auto simp: answers_def)
  qed (simp add: sreturn_def)
  then show ?thesis
    using assms(2,3) u(1) p(1)
    by (simp add: operator_handle_def sbind_def lift_def require_aware_aware astimezone_utc_def)
qed

end



section \<open>Both control planes serve\<close>

lemma loggable_checked:
  assumes "loggable actor subject action decision reason metadata" "is_aware now"
  shows "check_operator_access actor subject action decision reason now metadata = Inr ()"
    "pg_check_operator_access actor subject action decision reason now metadata = Inr ()"
    "auditable ''human_operator'' actor subject action decision reason metadata"
  using assms
  by (auto simp: loggable_def check_operator_access_def pg_check_operator_access_def require_aware_aware empty_or_longer_def
      auditable_def clean_pairs_def list_all_iff list_ex_iff raise_if_def)

lemma cp_record_access_runs:
  assumes "cp_inv s" "loggable actor subject action decision reason metadata" "is_aware now"
  shows "\<exists>s'. record_operator_access actor subject action decision reason c now metadata s = (Inr (), s') \<and> cp_inv s'"
  using assms(1) loggable_checked(1) [OF assms(2,3)]
  by (simp add: record_operator_access_eq cp_inv_with_event is_acceptance_def operator_event_def)

lemma cp_endpoint_status_runs:
  assumes "cp_inv s" "is_aware now" "dict_get (cp_endpoints s) i = Some e"
  shows "\<exists>j st. get_identity (ep_identity_id e) s = Inr j \<and> endpoint_status i now None s = Inr st"
proof -
  obtain j where "dict_get (cp_identities s) (ep_identity_id e) = Some j"
    using links_okD(1) [OF cp_invD(2) [OF assms(1)] assms(3)] by blast
  then show ?thesis
    using assms(2,3) by (simp add: get_identity_def get_endpoint_def endpoint_status_def require_aware_aware Let_def
        del: map_of_eq_Some_iff)
qed

lemma cp_list_page_runs:
  assumes "cp_inv s" "1 \<le> limit" "limit \<le> 1000" "is_aware now"
  shows "\<exists>page. list_endpoint_page after limit s = Inr page \<and>
    (\<forall>e\<in>set page. \<exists>st. endpoint_status (ep_endpoint_id e) now None s = Inr st)"
proof -
  have "\<exists>st. endpoint_status (ep_endpoint_id e) now None s = Inr st" if row: "e \<in> set (dict_values (cp_endpoints s))" for e
  proof -
    obtain k where k: "dict_get (cp_endpoints s) k = Some e"
      using row dict_get_values [of "cp_endpoints s" e] cp_invD(1) [OF assms(1)] unfolding dicts_ok_def by blast
    moreover have "ep_endpoint_id e = k"
      using links_okD(1) [OF cp_invD(2) [OF assms(1)] k] by simp
    ultimately show ?thesis
      using cp_endpoint_status_runs [OF assms(1,4)] by blast
  qed
  then show ?thesis
    using assms(2,3) by (auto simp: list_endpoint_page_def nsmallest_def Let_def dest!: in_set_takeD)
qed

interpretation memory_serves: serving_store cp_operator_store "\<lambda>_. cp_inv"
proof unfold_locales
  fix n s i now
  assume "cp_inv s" "is_aware now"
  then show "(\<exists>text. rd_get_endpoint cp_operator_store i s = (Inl (NotFoundError text), s)) \<or>
      (\<exists>e j st. rd_get_endpoint cp_operator_store i s = (Inr e, s) \<and>
        rd_get_identity cp_operator_store (ep_identity_id e) s = (Inr j, s) \<and>
        rd_endpoint_status cp_operator_store i now s = (Inr st, s))"
    using cp_endpoint_status_runs [of s now i]
    by (cases "dict_get (cp_endpoints s) i") (simp_all add: cp_operator_store_def sget_endpoint_def sget_identity_def
        get_endpoint_def del: map_of_eq_Some_iff map_of_eq_None_iff)
qed (simp_all add: cp_operator_store_def uuid4_def cp_inv_rng_pos cp_record_access_runs cp_list_page_runs)

text \<open>Rows of endpoints and identities whose times can be loaded.\<close>

definition readable :: "Database \<Rightarrow> bool" where
  "readable db \<longleftrightarrow>
     (\<forall>k e. dict_get (db_endpoints db) k = Some e \<longrightarrow> times_load (endpoint_times e)) \<and>
     (\<forall>k r. dict_get (db_identities db) k = Some r \<longrightarrow> times_load (identity_times r))"

definition pg_ready :: "nat \<Rightarrow> PostgresControlPlane \<Rightarrow> bool" where
  "pg_ready n s \<longleftrightarrow> db_inv (pg_db s) \<and> readable (pg_db s) \<and> \<not> pg_shutting_down s \<and> fresh_draws n s"

lemma pg_record_access_runs:
  assumes "pg_ready (Suc n) s" "loggable actor subject action decision reason metadata" "is_aware now" "in_range (instant now)"
  shows "\<exists>s'. pg_record_operator_access actor subject action decision reason c now metadata s = (Inr (), s') \<and> pg_ready n s'"
proof -
  have fresh: "fresh_draws (Suc n) s"
    using assms(1) by (simp add: pg_ready_def)
  let ?ev = "audit_row (rng_seq s (rng_pos s)) (utc (instant now)) ''human_operator'' actor subject action decision reason c metadata"
  let ?s = "s\<lparr>rng_pos := Suc (rng_pos s), pg_db := log_row ?ev (pg_db s)\<rparr>"
  have "pg_record_operator_access actor subject action decision reason c now metadata s = (Inr (), ?s)"
    using insert_audit_runs [OF loggable_checked(3) [OF assms(2,3)] fresh_draws_Suc(1) [OF fresh]] assms(1,4)
      loggable_checked(2) [OF assms(2,3)]
    by (simp add: pg_record_operator_access_def record_audit_def op_simps transaction_def pg_ready_def astimezone_utc_def)
  moreover have "db_changes (pg_db s) (pg_db ?s)"
    using changes_logged [of "pg_db s" "pg_db s" ?ev] by simp
  then have "db_inv (pg_db ?s)"
    using assms(1) db_inv_changes by (auto simp: pg_ready_def)
  moreover have "fresh_draws n ?s"
    by (rule fresh_draws_Suc(2) [OF fresh]) simp
  moreover have "readable (pg_db ?s)"
    using assms(1) by (simp add: pg_ready_def readable_def)
  ultimately show ?thesis
    using assms(1) by (auto simp: pg_ready_def)
qed

lemma pg_rows_load:
  assumes "pg_ready n s"
  shows "dict_get (db_endpoints (pg_db s)) k = Some e \<Longrightarrow> endpoint_from_row e = Inr e"
    and "dict_get (db_identities (pg_db s)) k = Some r \<Longrightarrow> identity_from_row r = Inr (EndpointIdentity.truncate r)"
  using assms rows_read(1,2) [of "pg_db s" k] unfolding pg_ready_def readable_def row_result_def by metis+

lemma pg_reads:
  assumes "pg_ready n s"
  shows "pg_get_endpoint k s = (case dict_get (db_endpoints (pg_db s)) k of
      None \<Rightarrow> Inl (NotFoundError ''endpoint does not exist'') | Some e \<Rightarrow> Inr e, s)"
    "pg_get_identity k s = (case dict_get (db_identities (pg_db s)) k of
      None \<Rightarrow> Inl (NotFoundError ''identity does not exist'') | Some r \<Rightarrow> Inr (EndpointIdentity.truncate r), s)"
  using assms pg_rows_load [OF assms, of k]
  by (simp_all add: pg_ready_def pg_get_endpoint_def pg_get_identity_def transaction_read op_simps
      split: option.split del: map_of_eq_Some_iff)

lemma pg_endpoint_status_runs:
  assumes "pg_ready n s" "is_aware now" "dict_get (db_endpoints (pg_db s)) i = Some e"
  shows "\<exists>j st. pg_get_identity (ep_identity_id e) s = (Inr j, s) \<and> pg_endpoint_status i now None s = (Inr st, s)"
proof -
  obtain r where "dict_get (db_identities (pg_db s)) (ep_identity_id e) = Some r"
    using assms(1,3) db_linkedD(2) by (fastforce simp: pg_ready_def db_inv_def)
  then show ?thesis
    using assms(2,3) by (simp add: pg_reads [OF assms(1)] pg_endpoint_status_def sbind_def lift_def sreturn_def
        require_aware_aware Let_def del: map_of_eq_Some_iff)
qed

lemma pg_list_page_runs:
  assumes "pg_ready n s" "1 \<le> limit" "limit \<le> 1000" "is_aware now"
  shows "\<exists>page. pg_list_endpoint_page after limit s = (Inr page, s) \<and>
    (\<forall>e\<in>set page. \<exists>st. pg_endpoint_status (ep_endpoint_id e) now None s = (Inr st, s))"
proof -
  let ?rows = "dict_values (db_endpoints (pg_db s))"
  have inv: "db_inv (pg_db s)"
    using assms(1) by (simp add: pg_ready_def)
  have row: "endpoint_from_row e = Inr e \<and> dict_get (db_endpoints (pg_db s)) (ep_endpoint_id e) = Some e" if mem: "e \<in> set ?rows" for e
  proof -
    obtain k where k: "dict_get (db_endpoints (pg_db s)) k = Some e"
      using mem inv dict_get_values [of "db_endpoints (pg_db s)" e] unfolding db_inv_def db_dicts_def by blast
    moreover have "ep_endpoint_id e = k"
      using inv k by (auto simp: db_inv_def db_dicts_def keyed_def simp del: map_of_eq_Some_iff)
    ultimately show ?thesis
      using pg_rows_load(1) [OF assms(1)] by simp
  qed
  define page where "page = take (nat limit) (sort_key ep_endpoint_id (case after of
      None \<Rightarrow> ?rows | Some cursor \<Rightarrow> filter (\<lambda>e. ep_endpoint_id e > cursor) ?rows))"
  have sub: "set page \<subseteq> set ?rows"
    unfolding page_def by (auto split: option.splits dest!: in_set_takeD)
  have "rmap endpoint_from_row page = Inr page"
    using sub row by (subst rmap_Inr [where g = "\<lambda>e. e"]) auto
  then have "pg_list_endpoint_page after limit s = (Inr page, s)"
    using assms(1-3) by (simp add: pg_list_endpoint_page_def page_def pg_ready_def transaction_query op_simps)
  moreover have "\<exists>st. pg_endpoint_status (ep_endpoint_id e) now None s = (Inr st, s)" if "e \<in> set page" for e
    using pg_endpoint_status_runs [OF assms(1,4)] row sub that by blast
  ultimately show ?thesis
    by blast
qed

interpretation stored_serves: serving_store pg_operator_store pg_ready
proof unfold_locales
  fix n s i now
  assume r: "pg_ready n s" "is_aware now"
  then show "(\<exists>text. rd_get_endpoint pg_operator_store i s = (Inl (NotFoundError text), s)) \<or>
      (\<exists>e j st. rd_get_endpoint pg_operator_store i s = (Inr e, s) \<and>
        rd_get_identity pg_operator_store (ep_identity_id e) s = (Inr j, s) \<and>
        rd_endpoint_status pg_operator_store i now s = (Inr st, s))"
    using pg_endpoint_status_runs [OF r, of i]
    by (cases "dict_get (db_endpoints (pg_db s)) i") (simp_all add: pg_operator_store_def pg_reads(1) [OF r(1)]
        del: map_of_eq_Some_iff map_of_eq_None_iff)
next
  fix n s
  assume "pg_ready (Suc n) s"
  then show "\<exists>c s'. os_uuid4 pg_operator_store s = (Inr c, s') \<and> pg_ready n s'"
    using fresh_draws_Suc(3) [of n s] by (simp add: pg_operator_store_def uuid4_def pg_ready_def)
qed (simp_all add: pg_operator_store_def pg_record_access_runs pg_list_page_runs)



end
