(* ===== verification/Spec2Isabelle.thy ===== *)
theory Spec2Isabelle
  imports Persistence_Example Agent_Listener Operator_Answers
begin

text \<open>
  A verification development of NorthGate RMM.

  \<^bold>\<open>The program.\<close>  The Python package \<^verbatim>\<open>northgate_rmm\<close> (under \<^verbatim>\<open>src/src\<close>) is the server of a remote-monitoring system.
  Endpoints enroll with a single-use grant and get a certificate; with it they send heartbeats and inventories to the agent
  listener.  The control plane authorises each message, stores an observation and an audit event, and derives the health
  of endpoints.  An operator reads endpoints as HTML through the operator listener.  There are two control planes with one
  contract, one in memory and one over PostgreSQL.

  \<^bold>\<open>Values.\<close>  \<^verbatim>\<open>Prelude\<close> has the exceptions as a datatype, \<open>result\<close> and the state-passing operations \<open>op\<close> (a raise keeps
  the state it leaves behind), dictionaries as association lists in insertion order, the draws of \<^verbatim>\<open>uuid4\<close> as a sequence in
  the state, and \<^verbatim>\<open>datetime\<close> as a wall clock in microseconds with its time zone.  \<^verbatim>\<open>Py_Text\<close>, \<^verbatim>\<open>Py_Time\<close>, \<^verbatim>\<open>Json\<close> and
  \<^verbatim>\<open>Sha256\<close> are what the program uses of the standard library.  \<^verbatim>\<open>str\<close> and \<^verbatim>\<open>bytes\<close> are both \<open>string\<close>: code points are
  those below 256.  Checks of the type of an argument (\<^verbatim>\<open>isinstance\<close>, \<^verbatim>\<open>type(x) is\<close>) are HOL's typing.

  \<^bold>\<open>Domain and in-memory control plane.\<close>  \<^verbatim>\<open>Domain\<close> is \<^verbatim>\<open>domain.py\<close>: a record per dataclass and a \<^verbatim>\<open>_post_init\<close> function for
  its checks.  \<^verbatim>\<open>Control_Plane\<close> is \<^verbatim>\<open>control_plane.py\<close>, one operation per method; its step relation \<open>cp_step\<close> interleaves
  them, and every reachable state satisfies \<open>cp_inv\<close>.  \<^verbatim>\<open>Control_Plane_Properties\<close> shows what follows: messages are
  accepted exactly under the stated condition and never twice, a revocation is final, histories only grow, and the audit
  trail states the history.

  \<^bold>\<open>PostgreSQL control plane.\<close>  \<^verbatim>\<open>Database\<close> has the tables of \<^verbatim>\<open>migrations/*.sql\<close>, each statement with its constraints,
  and transactions that roll back.  \<^verbatim>\<open>Persistence\<close> is \<^verbatim>\<open>persistence.py\<close>, an operation per method.  A connection's block
  is one atomic step: the program locks the rows it reads.  \<^verbatim>\<open>Persistence_Steps\<close> reduces every operation to a few kinds of
  change of the tables, \<^verbatim>\<open>Persistence_Invariant\<close> proves the invariant of the tables for each, \<^verbatim>\<open>Persistence_Outcomes\<close>
  shows when operations succeed and that failures leave at most an audit event, and \<^verbatim>\<open>Persistence_Properties\<close> states the
  guarantees, with a concrete run in \<^verbatim>\<open>Persistence_Example\<close>.  An operation can also fail because a drawn identifier is in
  use; where a theorem says that it succeeds, it assumes fresh draws.  A \<^verbatim>\<open>timestamptz\<close> column holds any instant, and
  fetching a row with one outside the years 1 to 9999 raises a database error: enrolling a synthetic endpoint and
  revoking an identity store the time they are given unconverted, so such rows can exist, and the theorems say
  where rows have to be readable.  \<^verbatim>\<open>Persistence_Properties\<close> also shows that the operations keep endpoints and identities
  in one-to-one correspondence, which the schema by itself does not force.  \<^verbatim>\<open>Store_Agreement\<close> relates the two
  control planes: in related states, whose rows are readable, the database accepts a message if and only if the in-memory
  control plane does or the message is an exact retry, which the database acknowledges and the other refuses; either
  way the states stay related and show the same status.

  \<^bold>\<open>Listeners.\<close>  \<^verbatim>\<open>Rate_Limits\<close> has the three sliding-window limiters, with time as a real number.  \<^verbatim>\<open>Http\<close> has the reading of
  requests and the writing of responses of \<^verbatim>\<open>enrollment_listener.py\<close> and \<^verbatim>\<open>operator_listener.py\<close>, as functions of the bytes
  on the connection.  \<^verbatim>\<open>Admission\<close> has the counters of connections and requests, as one contract with two
  implementations.  \<^verbatim>\<open>Tls_Listeners\<close> has the connection handlers of the two listeners and \<^verbatim>\<open>Agent_Listener\<close> those of
  \<^verbatim>\<open>listener.py\<close>: a step function whose events are where the handlers can be suspended, so that its runs are the
  interleavings of \<^verbatim>\<open>asyncio\<close>.  The theorems say that the limiters of the enrollment and the operator listener admit exactly
  what an unbounded memory would, and that of the agent listener does so while at most 4096 identities make requests (it
  evicts an identity before its global test); that requests
  are accepted exactly if well-formed and are read back as written, that responses are framed, and that no interleaving
  exceeds a limit or breaks a counter.

  \<^bold>\<open>Operator.\<close>  \<^verbatim>\<open>Views\<close> is \<^verbatim>\<open>views.py\<close>, with the theorem that no stored value changes the markup of a page.  \<^verbatim>\<open>Operator\<close>
  is \<^verbatim>\<open>operator_api.py\<close>, over a record of the store's operations and an arbitrary external verifier.  \<^verbatim>\<open>Operator_Audit\<close>
  states what it relies on as a locale, interpreted on both control planes, and shows that every answer is authenticated,
  authorised and audited.  \<^verbatim>\<open>Operator_Answers\<close> shows that there is an answer: with a second contract, that the store serves
  its reads and records what it is given, no request ends in an exception.

  \<^bold>\<open>Bounds.\<close>  All functions are total; there is no fuel.  Unbounded integers are \<open>int\<close> or \<open>nat\<close>, UUIDs are 128-bit words,
  and the words of SHA-256 have 32 bits.

  \<^bold>\<open>Not modelled.\<close>  Sockets, TLS, \<^verbatim>\<open>asyncio\<close>'s and \<^verbatim>\<open>aiohttp\<close>'s servers and certificates are the environment of the
  listeners' events.  The enrollment application, the certificate issuer's client and the external verifier exchange
  messages over HTTPS and parse certificates with third-party code; the applications are arguments of the listeners.
  The codec of agent messages, the service entry points, configuration and credential files, the migration runner, the
  simulator, the packaging scripts and the agent (written in Go, under \<^verbatim>\<open>src/agent\<close>) are outside this development.
\<close>

end
